(* ===== verification/Prelude.thy ===== *)
theory Prelude
  imports Main "HOL-Library.Signed_Division" "HOL-Library.Sublist"
begin

text \<open>
  What the components share: the machine integers of Go (64-bit two's complement, as
  unbounded integers with the wrap-around written out), fallible results, and the generic
  lemmas on lists and maps that several components use. The collections \<open>go_arith\<close> and
  \<open>inv_intros\<close> are filled by the components and used by their proofs.
\<close>

named_theorems go_arith \<open>facts about wrapped 64-bit arithmetic\<close>
named_theorems inv_intros \<open>preservation of the components' invariants\<close>

subsection \<open>Go values\<close>

text \<open>A Go \<open>string\<close> and a \<open>[]byte\<close> are both sequences of bytes.\<close>

type_synonym bytes = string
type_synonym topic = string

text \<open>A Go \<open>error\<close> of the agent side is only ever read through \<open>Error()\<close>: its text.\<close>

type_synonym 'a fallible = "string + 'a"

subsection \<open>64-bit integers\<close>

definition wrap64 :: "int \<Rightarrow> int" where
  "wrap64 x = (x + 2 ^ 63) mod 2 ^ 64 - 2 ^ 63"

definition in_int64 :: "int \<Rightarrow> bool" where
  "in_int64 x \<longleftrightarrow> - (2 ^ 63) \<le> x \<and> x < 2 ^ 63"

lemma wrap64_id [go_arith]: "in_int64 x \<Longrightarrow> wrap64 x = x"
  by (simp add: wrap64_def in_int64_def)

lemma wrap64_range [go_arith, simp]: "in_int64 (wrap64 x)"
proof -
  have "0 \<le> (x + 2 ^ 63) mod 2 ^ 64" "(x + 2 ^ 63) mod 2 ^ 64 < (2 ^ 64 :: int)"
    by (rule pos_mod_sign, simp, rule pos_mod_bound, simp)
  then show ?thesis
    by (simp add: wrap64_def in_int64_def)
qed

lemma wrap64_idem [simp]: "wrap64 (wrap64 x) = wrap64 x"
  by (rule wrap64_id) simp

text \<open>Go's \<open>/\<close> on integers truncates towards zero, which is \<open>sdiv\<close> of the library.\<close>

lemma sdiv_nonneg: "0 \<le> a \<Longrightarrow> 0 < b \<Longrightarrow> a sdiv b = a div (b :: int)"
  by (auto simp: signed_divide_int_def sgn_if)

text \<open>\<open>Time.Sub\<close> saturates at the bounds of \<open>Duration\<close>.\<close>

definition time_sub :: "int \<Rightarrow> int \<Rightarrow> int" where
  "time_sub t u = max (- (2 ^ 63)) (min (2 ^ 63 - 1) (t - u))"

subsection \<open>Lists\<close>

text \<open>The number of adjacent positions of a list that differ.\<close>

fun changes :: "'a list \<Rightarrow> nat" where
  "changes [] = 0"
| "changes [x] = 0"
| "changes (x # y # zs) = (if x \<noteq> y then 1 else 0) + changes (y # zs)"

lemma changes_snoc:
  "changes (xs @ [y]) = changes xs + (if xs \<noteq> [] \<and> last xs \<noteq> y then 1 else 0)"
  by (induction xs rule: changes.induct) auto

lemma changes_le: "changes xs \<le> length xs - 1"
  by (induction xs rule: changes.induct) auto

text \<open>
  Go iterates over a map in an unspecified order. A model that iterates takes the order as
  an argument: any list of the map's keys without repetition.
\<close>

definition iteration_order :: "'k list \<Rightarrow> ('k \<rightharpoonup> 'v) \<Rightarrow> bool" where
  "iteration_order ks m \<longleftrightarrow> distinct ks \<and> set ks = dom m"

lemma iteration_orderD:
  assumes "iteration_order ks m"
  shows "distinct ks" "set ks = dom m" "k \<in> set ks \<longleftrightarrow> m k \<noteq> None"
  using assms by (auto simp: iteration_order_def)

lemma iteration_order_empty [simp]: "iteration_order ks Map.empty \<longleftrightarrow> ks = []"
  by (auto simp: iteration_order_def)

end
