(* ===== verification/GoStrings.thy ===== *)
theory GoStrings
  imports Prelude
begin

text \<open>
  The parts of Go's \<open>strings\<close> and \<open>strconv\<close> packages that the source calls: \<open>Itoa\<close> and
  \<open>Atoi\<close>, \<open>Join\<close>, \<open>Split\<close>, \<open>HasPrefix\<close>, \<open>TrimPrefix\<close>, \<open>Contains\<close>, \<open>LastIndex\<close>,
  \<open>TrimSpace\<close>, \<open>ToLower\<close> and \<open>ToUpper\<close>, on byte strings.
\<close>

subsection \<open>Decimal numbers: Itoa and Atoi\<close>

definition digit_char :: "nat \<Rightarrow> char" where
  "digit_char n = ''0123456789'' ! n"

definition digit_val :: "char \<Rightarrow> nat option" where
  "digit_val c = (let n = of_char c in if 48 \<le> n \<and> n \<le> 57 then Some (n - 48) else None)"

lemma digit_val_char: "n < 10 \<Longrightarrow> digit_val (digit_char n) = Some n"
proof -
  assume "n < 10"
  then have "n \<in> {0, 1, 2, 3, 4, 5, 6, 7, 8, 9}"
    by auto
  then show ?thesis
    by (auto simp: digit_val_def digit_char_def numeral_eq_Suc)
qed

fun nat_digits :: "nat \<Rightarrow> string" where
  "nat_digits n = (if n < 10 then [digit_char n]
     else nat_digits (n div 10) @ [digit_char (n mod 10)])"

declare nat_digits.simps [simp del]

lemma nat_digits_small: "n < 10 \<Longrightarrow> nat_digits n = [digit_char n]"
  by (subst nat_digits.simps) simp

lemma nat_digits_big:
  "10 \<le> n \<Longrightarrow> nat_digits n = nat_digits (n div 10) @ [digit_char (n mod 10)]"
  by (subst nat_digits.simps) simp

text \<open>Reading digits from the left, as \<open>strconv\<close> does; \<open>None\<close> at a byte that is no digit.\<close>

fun read_digits :: "nat \<Rightarrow> string \<Rightarrow> nat option" where
  "read_digits acc [] = Some acc"
| "read_digits acc (c # cs) =
     (case digit_val c of None \<Rightarrow> None | Some d \<Rightarrow> read_digits (10 * acc + d) cs)"

lemma read_digits_append:
  "read_digits acc (xs @ ys) =
     (case read_digits acc xs of None \<Rightarrow> None | Some a \<Rightarrow> read_digits a ys)"
  by (induction xs arbitrary: acc) (auto split: option.splits)

lemma read_nat_digits: "read_digits 0 (nat_digits n) = Some n"
proof (induction n rule: nat_digits.induct)
  case (1 n)
  show ?case
  proof (cases "n < 10")
    case True
    then show ?thesis
      by (simp add: nat_digits_small digit_val_char)
  next
    case False
    with 1 have "read_digits 0 (nat_digits (n div 10)) = Some (n div 10)"
      by simp
    with False show ?thesis
      by (simp add: nat_digits_big read_digits_append digit_val_char)
  qed
qed

lemma nat_digits_nonempty [simp]: "nat_digits n \<noteq> []"
  by (subst nat_digits.simps) simp

lemma digit_val_nat_digits: "c \<in> set (nat_digits n) \<Longrightarrow> digit_val c \<noteq> None"
proof (induction n rule: nat_digits.induct)
  case (1 n)
  show ?case
  proof (cases "n < 10")
    case True
    with 1 show ?thesis
      by (simp add: nat_digits_small digit_val_char)
  next
    case False
    with 1 show ?thesis
      by (auto simp: nat_digits_big digit_val_char)
  qed
qed

definition itoa :: "int \<Rightarrow> string" where
  "itoa i = (if i < 0 then CHR ''-'' # nat_digits (nat (- i)) else nat_digits (nat i))"

text \<open>
  \<open>Atoi\<close>: an optional sign, at least one digit, nothing else, and the value in the range
  of a 64-bit \<open>int\<close>; anything else is an error.
\<close>

definition atoi :: "string \<Rightarrow> int option" where
  "atoi s =
     (let (neg, ds) =
        (case s of
           [] \<Rightarrow> (False, [])
         | c # cs \<Rightarrow> if c = CHR ''-'' then (True, cs) else if c = CHR ''+'' then (False, cs)
                    else (False, s))
      in if ds = [] then None
         else case read_digits 0 ds of
                None \<Rightarrow> None
              | Some n \<Rightarrow> let i = (if neg then - int n else int n)
                          in if in_int64 i then Some i else None)"

lemma nat_digits_hd: "nat_digits n = c # cs \<Longrightarrow> c \<noteq> CHR ''-'' \<and> c \<noteq> CHR ''+'' \<and> c \<noteq> CHR '' ''"
  using digit_val_nat_digits [of c n] by (auto simp: digit_val_def)

lemma atoi_itoa: "in_int64 i \<Longrightarrow> atoi (itoa i) = Some i"
proof (cases "i < 0")
  case True
  assume "in_int64 i"
  with True show ?thesis
    by (simp add: atoi_def itoa_def read_nat_digits)
next
  case False
  assume i: "in_int64 i"
  obtain c cs where c: "nat_digits (nat i) = c # cs"
    by (cases "nat_digits (nat i)") auto
  from read_nat_digits [of "nat i"] have "read_digits 0 (c # cs) = Some (nat i)"
    by (simp only: c)
  with False i c nat_digits_hd [OF c] show ?thesis
    by (simp add: atoi_def itoa_def)
qed

lemma nat_digits_inject: "nat_digits m = nat_digits n \<Longrightarrow> m = n"
  by (metis option.inject read_nat_digits)

lemma nat_digits_no_sign: "nat_digits m \<noteq> CHR ''-'' # cs"
  using nat_digits_hd by blast

lemma itoa_neg: "i < 0 \<Longrightarrow> itoa i = CHR ''-'' # nat_digits (nat (- i))"
  by (simp add: itoa_def)

lemma itoa_nonneg: "\<not> i < 0 \<Longrightarrow> itoa i = nat_digits (nat i)"
  by (simp add: itoa_def)

lemma itoa_inject [simp]: "itoa i = itoa j \<longleftrightarrow> i = j"
proof
  assume eq: "itoa i = itoa j"
  show "i = j"
  proof (cases "i < 0")
    case i: True
    with eq have "\<not> \<not> j < 0"
      by (metis itoa_neg itoa_nonneg nat_digits_no_sign)
    with i eq have "nat_digits (nat (- i)) = nat_digits (nat (- j))"
      by (metis itoa_neg list.inject)
    then have "nat (- i) = nat (- j)" by (rule nat_digits_inject)
    with i \<open>\<not> \<not> j < 0\<close> show ?thesis by arith
  next
    case i: False
    with eq have j: "\<not> j < 0"
      by (metis itoa_neg itoa_nonneg nat_digits_no_sign)
    with i eq have "nat_digits (nat i) = nat_digits (nat j)"
      by (metis itoa_nonneg)
    then have "nat i = nat j" by (rule nat_digits_inject)
    with i j show ?thesis by arith
  qed
qed simp

lemma itoa_nonempty [simp]: "itoa i \<noteq> []"
  by (simp add: itoa_def)

lemma itoa_no_space: "CHR '' '' \<notin> set (itoa i)"
  using digit_val_nat_digits [of "CHR '' ''"] by (auto simp: itoa_def digit_val_def)

subsection \<open>Join and Split\<close>

fun str_join :: "string \<Rightarrow> string list \<Rightarrow> string" where
  "str_join sep [] = []"
| "str_join sep [s] = s"
| "str_join sep (s # t # ss) = s @ sep @ str_join sep (t # ss)"

text \<open>\<open>strings.Split\<close> with a one-byte separator; never empty.\<close>

fun str_split :: "char \<Rightarrow> string \<Rightarrow> string list" where
  "str_split c [] = [[]]"
| "str_split c (x # xs) =
     (if x = c then [] # str_split c xs
      else case str_split c xs of [] \<Rightarrow> [[x]] | p # ps \<Rightarrow> (x # p) # ps)"

lemma str_split_nonempty [simp]: "str_split c s \<noteq> []"
  by (induction s) (auto split: list.splits)

lemma str_split_prefix:
  "c \<notin> set s \<Longrightarrow> str_split c (s @ t) = (s @ hd (str_split c t)) # tl (str_split c t)"
  by (induction s) auto

lemma str_split_join:
  assumes "ss \<noteq> []" "\<forall>s \<in> set ss. c \<notin> set s"
  shows "str_split c (str_join [c] ss) = ss"
  using assms
proof (induction "[c]" ss rule: str_join.induct)
  case 1
  then show ?case by simp
next
  case (2 s)
  then show ?case using str_split_prefix [of c s "[]"] by simp
next
  case (3 s t ss)
  then show ?case by (simp add: str_split_prefix)
qed

lemma str_join_eq_Nil: "\<forall>s \<in> set ss. s \<noteq> [] \<Longrightarrow> str_join sep ss = [] \<longleftrightarrow> ss = []"
  by (cases "(sep, ss)" rule: str_join.cases) auto

lemma str_join_inject:
  assumes "\<forall>s \<in> set ss. c \<notin> set s \<and> s \<noteq> []" "\<forall>s \<in> set ts. c \<notin> set s \<and> s \<noteq> []"
  shows "str_join [c] ss = str_join [c] ts \<longleftrightarrow> ss = ts"
proof (cases "ss = [] \<or> ts = []")
  case True
  with assms show ?thesis
    using str_join_eq_Nil [of ss "[c]"] str_join_eq_Nil [of ts "[c]"] by auto
next
  case False
  with assms have "str_split c (str_join [c] ss) = ss" "str_split c (str_join [c] ts) = ts"
    by (auto intro!: str_split_join)
  then show ?thesis by metis
qed

subsection \<open>Prefixes and substrings\<close>

definition has_prefix :: "string \<Rightarrow> string \<Rightarrow> bool" where
  "has_prefix s p \<longleftrightarrow> take (length p) s = p"

definition trim_prefix :: "string \<Rightarrow> string \<Rightarrow> string" where
  "trim_prefix s p = (if has_prefix s p then drop (length p) s else s)"

lemma has_prefix_append [simp]: "has_prefix (p @ s) p"
  by (simp add: has_prefix_def)

lemma trim_prefix_append [simp]: "trim_prefix (p @ s) p = s"
  by (simp add: trim_prefix_def)

lemma has_prefix_iff: "has_prefix s p \<longleftrightarrow> (\<exists>t. s = p @ t)"
  by (auto simp: has_prefix_def) (metis append_take_drop_id)

fun str_contains :: "string \<Rightarrow> string \<Rightarrow> bool" where
  "str_contains [] p = (p = [])"
| "str_contains (x # xs) p = (has_prefix (x # xs) p \<or> str_contains xs p)"

lemma str_contains_self: "str_contains (p @ b) p"
proof (cases "p @ b")
  case (Cons x xs)
  have "has_prefix (x # xs) p"
    by (simp add: Cons [symmetric])
  with Cons show ?thesis by simp
qed simp

lemma str_contains_iff: "str_contains s p \<longleftrightarrow> (\<exists>a b. s = a @ p @ b)"
proof
  assume "str_contains s p"
  then show "\<exists>a b. s = a @ p @ b"
  proof (induction s)
    case Nil
    then show ?case by simp
  next
    case (Cons x xs)
    then consider "has_prefix (x # xs) p" | "str_contains xs p" by auto
    then show ?case
    proof cases
      case 1
      then show ?thesis by (metis append_Nil has_prefix_iff)
    next
      case 2
      with Cons.IH show ?thesis by (metis append_Cons)
    qed
  qed
next
  assume "\<exists>a b. s = a @ p @ b"
  then obtain a b where "s = a @ p @ b" by blast
  then show "str_contains s p"
    by (induction a arbitrary: s) (auto simp: str_contains_self)
qed

text \<open>\<open>strings.LastIndex\<close> of a one-byte string; \<open>None\<close> for Go's \<open>-1\<close>.\<close>

fun last_index :: "char \<Rightarrow> string \<Rightarrow> nat option" where
  "last_index c [] = None"
| "last_index c (x # xs) =
     (case last_index c xs of Some i \<Rightarrow> Some (Suc i) | None \<Rightarrow> if x = c then Some 0 else None)"

lemma last_index_None: "last_index c s = None \<longleftrightarrow> c \<notin> set s"
  by (induction s) (auto split: option.splits)

lemma last_index_append:
  "c \<notin> set t \<Longrightarrow> last_index c (s @ c # t) = Some (length s)"
proof (induction s)
  case Nil
  then have "last_index c t = None" by (simp add: last_index_None)
  then show ?case by simp
qed simp


subsection \<open>Case and white space\<close>

text \<open>
  \<open>ToLower\<close> and \<open>ToUpper\<close> on strings of ASCII bytes. For other strings the Unicode tables decide,
  which the definitions take as the argument \<open>u\<close>.
\<close>

definition is_ascii :: "string \<Rightarrow> bool" where
  "is_ascii s = list_all (\<lambda>c. (of_char c :: nat) < 128) s"

definition lower_char :: "char \<Rightarrow> char" where
  "lower_char c =
     (let n = of_char c :: nat in if 65 \<le> n \<and> n \<le> 90 then char_of (n + 32) else c)"

definition upper_char :: "char \<Rightarrow> char" where
  "upper_char c =
     (let n = of_char c :: nat in if 97 \<le> n \<and> n \<le> 122 then char_of (n - 32) else c)"

definition to_lower :: "(string \<Rightarrow> string) \<Rightarrow> string \<Rightarrow> string" where
  "to_lower u s = (if is_ascii s then map lower_char s else u s)"

definition to_upper :: "(string \<Rightarrow> string) \<Rightarrow> string \<Rightarrow> string" where
  "to_upper u s = (if is_ascii s then map upper_char s else u s)"

text \<open>The UTF-8 forms of the characters \<open>unicode.IsSpace\<close> accepts.\<close>

definition spaces :: "string list" where
  "spaces = [[CHR 0x09], [CHR 0x0A], [CHR 0x0B], [CHR 0x0C], [CHR 0x0D], [CHR 0x20],
     [CHR 0xC2, CHR 0x85], [CHR 0xC2, CHR 0xA0], [CHR 0xE1, CHR 0x9A, CHR 0x80],
     [CHR 0xE2, CHR 0x80, CHR 0x80], [CHR 0xE2, CHR 0x80, CHR 0x81],
     [CHR 0xE2, CHR 0x80, CHR 0x82], [CHR 0xE2, CHR 0x80, CHR 0x83],
     [CHR 0xE2, CHR 0x80, CHR 0x84], [CHR 0xE2, CHR 0x80, CHR 0x85],
     [CHR 0xE2, CHR 0x80, CHR 0x86], [CHR 0xE2, CHR 0x80, CHR 0x87],
     [CHR 0xE2, CHR 0x80, CHR 0x88], [CHR 0xE2, CHR 0x80, CHR 0x89],
     [CHR 0xE2, CHR 0x80, CHR 0x8A], [CHR 0xE2, CHR 0x80, CHR 0xA8],
     [CHR 0xE2, CHR 0x80, CHR 0xA9], [CHR 0xE2, CHR 0x80, CHR 0xAF],
     [CHR 0xE2, CHR 0x81, CHR 0x9F], [CHR 0xE3, CHR 0x80, CHR 0x80]]"

function trim_with :: "string list \<Rightarrow> string \<Rightarrow> string" where
  "trim_with ps s =
     (case find (\<lambda>p. p \<noteq> [] \<and> has_prefix s p) ps of
        None \<Rightarrow> s
      | Some p \<Rightarrow> trim_with ps (drop (length p) s))"
  by pat_completeness auto
termination
proof (relation "measure (\<lambda>(ps, s). length s)")
  fix ps s p
  assume "find (\<lambda>p. p \<noteq> [] \<and> has_prefix s p) ps = Some p"
  then have "p \<noteq> []" "take (length p) s = p"
    by (auto simp: find_Some_iff has_prefix_def)
  then have "length p > 0" "length s > 0" by (auto simp: take_eq_Nil)
  then show "((ps, drop (length p) s), ps, s) \<in> measure (\<lambda>(ps, s). length s)" by simp
qed simp

declare trim_with.simps [simp del]

definition trim_space :: "string \<Rightarrow> string" where
  "trim_space s = rev (trim_with (map rev spaces) (rev (trim_with spaces s)))"

end
