(* ===== verification/AgentConfig.thy ===== *)
theory AgentConfig
  imports GoStrings
begin

text \<open>
  The agent's configuration (internal/agent/config/config.go): the structs, \<open>DefaultConfig\<close>
  and \<open>Validate\<close>. The home directory is an argument. The errors of \<open>Validate\<close> are
  constructors that carry what their text quotes.
\<close>

record NATSConfig =
  nc_URL :: string
  nc_TLSCert :: string
  nc_TLSKey :: string
  nc_TLSCACert :: string

record KafkaConfig =
  kc_Brokers :: "string list"
  kc_TLSCert :: string
  kc_TLSKey :: string
  kc_TLSCACert :: string
  kc_SASLUser :: string
  kc_SASLPass :: string

record TransportConfig =
  tc_Backend :: string
  tc_NATS :: NATSConfig
  tc_Kafka :: KafkaConfig

record BufferConfig =
  bc_Enabled :: bool
  bc_MaxSizeBytes :: int
  bc_Path :: string

text \<open>Durations are in nanoseconds. \<open>Config\<close> holds the bytes of a JSON document, or none.\<close>

record StaticTest =
  st_ID :: string
  st_Type :: string
  st_Target :: string
  st_Interval :: int
  st_Timeout :: int
  st_Config :: bytes

record Config =
  ControlPlaneURL :: string
  AgentID :: string
  POPName :: string
  POPProvider :: string
  Transport :: TransportConfig
  HeartbeatInterval :: int
  ConfigSyncInterval :: int
  Buffer_config :: BufferConfig
  LogLevel :: string
  CacheDir :: string
  StaticTests :: "StaticTest list"

definition seconds :: "int \<Rightarrow> int" where
  "seconds n = n * 1000000000"

text \<open>\<open>filepath.Join(a, b)\<close> drops empty elements and cleans the path lexically.\<close>

fun clean_step :: "bool \<Rightarrow> string \<Rightarrow> string list \<Rightarrow> string list" where
  "clean_step rooted c stack =
     (if c = [] \<or> c = ''.'' then stack
      else if c = ''..'' then
        (case stack of
           [] \<Rightarrow> if rooted then [] else [c]
         | x # rest \<Rightarrow> if x = ''..'' then c # stack else rest)
      else c # stack)"

definition path_clean :: "string \<Rightarrow> string" where
  "path_clean p =
     (let rooted = has_prefix p ''/'';
          s = str_join ''/'' (rev (fold (clean_step rooted) (str_split CHR ''/'' p) []))
      in if rooted then ''/'' @ s else if s = [] then ''.'' else s)"

definition path_join :: "string \<Rightarrow> string \<Rightarrow> string" where
  "path_join a b =
     (if a = [] \<and> b = [] then [] else if a = [] then path_clean b
      else if b = [] then path_clean a else path_clean (a @ ''/'' @ b))"

definition DefaultConfig :: "string \<Rightarrow> Config" where
  "DefaultConfig homeDir = \<lparr>ControlPlaneURL = [], AgentID = [], POPName = ''default'',
     POPProvider = [],
     Transport = \<lparr>tc_Backend = ''nats'',
       tc_NATS = \<lparr>nc_URL = ''nats://localhost:4222'', nc_TLSCert = [], nc_TLSKey = [],
         nc_TLSCACert = []\<rparr>,
       tc_Kafka = \<lparr>kc_Brokers = [], kc_TLSCert = [], kc_TLSKey = [], kc_TLSCACert = [],
         kc_SASLUser = [], kc_SASLPass = []\<rparr>\<rparr>,
     HeartbeatInterval = seconds 30, ConfigSyncInterval = seconds 60,
     Buffer_config = \<lparr>bc_Enabled = True, bc_MaxSizeBytes = 100 * 1024 * 1024, bc_Path = []\<rparr>,
     LogLevel = ''info'', CacheDir = path_join homeDir ''.netvantage'', StaticTests = []\<rparr>"

definition CachePath :: "Config \<Rightarrow> string" where
  "CachePath c = path_join (CacheDir c) ''config-cache.yaml''"

datatype config_error =
    PopNameRequired
  | BadBackend string
  | NatsURLRequired
  | KafkaBrokersRequired

definition Validate :: "Config \<Rightarrow> config_error option" where
  "Validate c =
     (if POPName c = [] then Some PopNameRequired
      else if tc_Backend (Transport c) \<noteq> ''nats'' \<and> tc_Backend (Transport c) \<noteq> ''kafka''
      then Some (BadBackend (tc_Backend (Transport c)))
      else if tc_Backend (Transport c) = ''nats'' \<and> nc_URL (tc_NATS (Transport c)) = []
      then Some NatsURLRequired
      else if tc_Backend (Transport c) = ''kafka'' \<and> length (kc_Brokers (tc_Kafka (Transport c))) = 0
      then Some KafkaBrokersRequired
      else None)"

text \<open>A valid configuration names a transport the agent can reach.\<close>

definition config_ok :: "Config \<Rightarrow> bool" where
  "config_ok c \<longleftrightarrow> POPName c \<noteq> []
     \<and> (tc_Backend (Transport c) = ''nats'' \<and> nc_URL (tc_NATS (Transport c)) \<noteq> []
        \<or> tc_Backend (Transport c) = ''kafka'' \<and> kc_Brokers (tc_Kafka (Transport c)) \<noteq> [])"

lemma Validate_ok: "Validate c = None \<longleftrightarrow> config_ok c"
  by (auto simp: Validate_def config_ok_def)

end
