(* ===== verification/Buffer.thy ===== *)
theory Buffer
  imports Prelude "HOL-Library.Multiset"
begin

text \<open>
  The agent's local buffer (internal/agent/buffer/buffer.go): the interface \<open>Buffer\<close> as the
  locale \<open>result_buffer\<close> and \<open>MemoryBuffer\<close>, the implementation of it in the source. A message
  handler has a state of its own (the transport behind it), which it returns with its error.
  The methods run under the buffer's mutex, so each is one step.
\<close>

type_synonym message = "topic \<times> bytes"
type_synonym 's handler = "topic \<Rightarrow> bytes \<Rightarrow> 's \<Rightarrow> 's \<times> string option"

definition ErrBufferFull :: string where
  "ErrBufferFull = ''buffer: maximum size reached''"

subsection \<open>MemoryBuffer\<close>

record MemoryBuffer =
  messages :: "message list"
  maxSize :: int
  curSize :: int

definition NewMemoryBuffer :: "int \<Rightarrow> MemoryBuffer" where
  "NewMemoryBuffer maxSizeBytes = \<lparr>messages = [], maxSize = maxSizeBytes, curSize = 0\<rparr>"

text \<open>\<open>int64\<close> additions wrap around.\<close>

definition Push :: "topic \<Rightarrow> bytes \<Rightarrow> MemoryBuffer \<Rightarrow> MemoryBuffer \<times> string option" where
  "Push topic msg b =
     (let msgSize = int (length msg)
      in if wrap64 (curSize b + msgSize) > maxSize b then (b, Some ErrBufferFull)
         else (b\<lparr>messages := messages b @ [(topic, msg)], curSize := wrap64 (curSize b + msgSize)\<rparr>,
               None))"

fun drain_loop ::
  "'s handler \<Rightarrow> message list \<Rightarrow> message list \<Rightarrow> int \<Rightarrow> 's \<Rightarrow> message list \<times> int \<times> 's" where
  "drain_loop h [] remaining remainingSize s = (remaining, remainingSize, s)"
| "drain_loop h ((topic, data) # ms) remaining remainingSize s =
     (case h topic data s of
        (s', Some err) \<Rightarrow>
          drain_loop h ms (remaining @ [(topic, data)])
            (wrap64 (remainingSize + int (length data))) s'
      | (s', None) \<Rightarrow> drain_loop h ms remaining remainingSize s')"

definition Drain :: "'s handler \<Rightarrow> MemoryBuffer \<Rightarrow> 's \<Rightarrow> MemoryBuffer \<times> 's" where
  "Drain h b s =
     (case drain_loop h (messages b) [] 0 s of
        (remaining, remainingSize, s') \<Rightarrow>
          (b\<lparr>messages := remaining, curSize := remainingSize\<rparr>, s'))"

definition Len :: "MemoryBuffer \<Rightarrow> nat" where
  "Len b = length (messages b)"

subsection \<open>What a drain is meant to do\<close>

text \<open>The handler's state after each message, and the messages it returned an error for.\<close>

fun handle_msgs :: "'s handler \<Rightarrow> message list \<Rightarrow> 's \<Rightarrow> 's" where
  "handle_msgs h [] s = s"
| "handle_msgs h ((t, d) # ms) s = handle_msgs h ms (fst (h t d s))"

fun failed_msgs :: "'s handler \<Rightarrow> message list \<Rightarrow> 's \<Rightarrow> message list" where
  "failed_msgs h [] s = []"
| "failed_msgs h ((t, d) # ms) s =
     (if snd (h t d s) = None then [] else [(t, d)]) @ failed_msgs h ms (fst (h t d s))"

fun handled_msgs :: "'s handler \<Rightarrow> message list \<Rightarrow> 's \<Rightarrow> message list" where
  "handled_msgs h [] s = []"
| "handled_msgs h ((t, d) # ms) s =
     (if snd (h t d s) = None then [(t, d)] else []) @ handled_msgs h ms (fst (h t d s))"

definition total_size :: "message list \<Rightarrow> int" where
  "total_size ms = (\<Sum>m \<leftarrow> ms. int (length (snd m)))"

lemma total_size_simps [simp]:
  "total_size [] = 0"
  "total_size (m # ms) = int (length (snd m)) + total_size ms"
  "total_size (ms @ ns) = total_size ms + total_size ns"
  by (simp_all add: total_size_def)

lemma total_size_nonneg: "0 \<le> total_size ms"
  by (induction ms) auto

lemma mset_failed_handled: "mset (failed_msgs h ms s) + mset (handled_msgs h ms s) = mset ms"
  by (induction h ms s rule: failed_msgs.induct) auto

lemma failed_msgs_size: "total_size (failed_msgs h ms s) \<le> total_size ms"
  by (induction h ms s rule: failed_msgs.induct) (auto intro: order_trans)

lemma failed_msgs_subseq: "subseq (failed_msgs h ms s) ms"
  by (induction h ms s rule: failed_msgs.induct) auto

lemma failed_msgs_all_ok:
  "(\<And>t d s. snd (h t d s) = None) \<Longrightarrow> failed_msgs h ms s = []"
  by (induction h ms s rule: failed_msgs.induct) auto

lemma drain_loop_eq:
  assumes "in_int64 (n + total_size ms)" "0 \<le> n"
  shows "drain_loop h ms rs n s =
    (rs @ failed_msgs h ms s, n + total_size (failed_msgs h ms s), handle_msgs h ms s)"
  using assms
proof (induction h ms rs n s rule: drain_loop.induct)
  case (2 h t d ms rs n s)
  have sz: "0 \<le> total_size ms" by (rule total_size_nonneg)
  have fit: "in_int64 (n + int (length d))" and step: "in_int64 (n + int (length d) + total_size ms)"
    and skip: "in_int64 (n + total_size ms)"
    using "2.prems" sz by (simp_all add: in_int64_def)
  obtain s' r where h: "h t d s = (s', r)" by (cases "h t d s")
  show ?case
  proof (cases r)
    case None
    with 2 h skip show ?thesis by simp
  next
    case (Some err)
    with 2 h fit step show ?thesis by (simp add: wrap64_id)
  qed
qed simp

subsection \<open>The invariant\<close>

text \<open>
  \<open>curSize\<close> is the number of buffered bytes and at most \<open>maxSize\<close>. It holds as long as one
  message and a full buffer together stay below \<open>2\<^sup>6\<^sup>3\<close> bytes.
\<close>

definition buffer_inv :: "MemoryBuffer \<Rightarrow> bool" where
  "buffer_inv b \<longleftrightarrow> curSize b = total_size (messages b) \<and> curSize b \<le> maxSize b
     \<and> in_int64 (maxSize b)"

definition msg_fits :: "MemoryBuffer \<Rightarrow> bytes \<Rightarrow> bool" where
  "msg_fits b msg \<longleftrightarrow> maxSize b + int (length msg) < 2 ^ 63"

definition has_room :: "MemoryBuffer \<Rightarrow> bytes \<Rightarrow> bool" where
  "has_room b msg \<longleftrightarrow> total_size (messages b) + int (length msg) \<le> maxSize b"

lemma buffer_inv_new [inv_intros]:
  "0 \<le> n \<Longrightarrow> in_int64 n \<Longrightarrow> buffer_inv (NewMemoryBuffer n)"
  by (simp add: buffer_inv_def NewMemoryBuffer_def)

lemma Push_eq:
  assumes "buffer_inv b" "msg_fits b msg"
  shows "Push topic msg b =
    (if total_size (messages b) + int (length msg) > maxSize b then (b, Some ErrBufferFull)
     else (b\<lparr>messages := messages b @ [(topic, msg)],
             curSize := total_size (messages b) + int (length msg)\<rparr>, None))"
proof -
  have "in_int64 (curSize b + int (length msg))"
    using assms total_size_nonneg [of "messages b"]
    by (auto simp: in_int64_def buffer_inv_def msg_fits_def)
  with assms(1) show ?thesis by (simp add: Push_def Let_def wrap64_id buffer_inv_def)
qed

lemma buffer_inv_Push [inv_intros]:
  "buffer_inv b \<Longrightarrow> msg_fits b msg \<Longrightarrow> buffer_inv (fst (Push topic msg b))"
  by (auto simp: Push_eq) (auto simp: buffer_inv_def)

lemma Drain_eq:
  assumes "buffer_inv b"
  shows "Drain h b s =
    (b\<lparr>messages := failed_msgs h (messages b) s,
       curSize := total_size (failed_msgs h (messages b) s)\<rparr>, handle_msgs h (messages b) s)"
proof -
  have "in_int64 (0 + total_size (messages b))"
    using assms total_size_nonneg [of "messages b"] by (auto simp: buffer_inv_def in_int64_def)
  from drain_loop_eq [OF this, of h "[]" s] show ?thesis by (simp add: Drain_def)
qed

lemma buffer_inv_Drain [inv_intros]: "buffer_inv b \<Longrightarrow> buffer_inv (fst (Drain h b s))"
  using failed_msgs_size [of h "messages b" s] by (auto simp: Drain_eq) (auto simp: buffer_inv_def)

lemma maxSize_Push [simp]: "maxSize (fst (Push t m b)) = maxSize b"
  by (simp add: Push_def Let_def)

lemma maxSize_Drain [simp]: "maxSize (fst (Drain h b s)) = maxSize b"
  by (simp add: Drain_def split: prod.split)


subsection \<open>The interface\<close>

text \<open>
  What the agent relies on: an accepted message is appended, a refused one leaves the buffer
  alone, and a drain offers every message to the handler in order and keeps exactly those for
  which it returned an error. \<open>fits\<close> says that a message is small enough for the arithmetic of
  the buffer not to overflow, \<open>room\<close> that it takes the message.
\<close>

locale result_buffer =
  fixes push :: "topic \<Rightarrow> bytes \<Rightarrow> 'b \<Rightarrow> 'b \<times> string option"
    and drain :: "'s handler \<Rightarrow> 'b \<Rightarrow> 's \<Rightarrow> 'b \<times> 's"
    and contents :: "'b \<Rightarrow> message list"
    and ok :: "'b \<Rightarrow> bool"
    and fits :: "'b \<Rightarrow> bytes \<Rightarrow> bool"
    and room :: "'b \<Rightarrow> bytes \<Rightarrow> bool"
  assumes push_accepted: "ok b \<Longrightarrow> fits b m \<Longrightarrow> push t m b = (b', None) \<Longrightarrow>
      contents b' = contents b @ [(t, m)]"
    and push_refused: "push t m b = (b', Some err) \<Longrightarrow> b' = b"
    and push_room: "ok b \<Longrightarrow> fits b m \<Longrightarrow> snd (push t m b) = None \<longleftrightarrow> room b m"
    and push_ok: "ok b \<Longrightarrow> fits b m \<Longrightarrow> ok (fst (push t m b))"
    and push_fits: "fits (fst (push t m b)) m' = fits b m'"
    and drain_keeps: "ok b \<Longrightarrow> contents (fst (drain h b s)) = failed_msgs h (contents b) s"
    and drain_handles: "ok b \<Longrightarrow> snd (drain h b s) = handle_msgs h (contents b) s"
    and drain_ok: "ok b \<Longrightarrow> ok (fst (drain h b s))"
    and drain_fits: "fits (fst (drain h b s)) m' = fits b m'"

text \<open>The lemmas of a client: what one push and one drain do to the multiset of messages.\<close>

context result_buffer
begin

lemma push_cases:
  assumes "ok b" "fits b m"
  obtains (accepted) b' where "push t m b = (b', None)" "contents b' = contents b @ [(t, m)]" "ok b'"
      "room b m"
  | (refused) err where "push t m b = (b, Some err)" "\<not> room b m"
proof (cases "push t m b")
  case (Pair b' r)
  show thesis
  proof (cases r)
    case None
    with Pair assms accepted show thesis
      using push_accepted push_ok [of b m t] push_room [of b m t] by auto
  next
    case (Some err)
    with Pair refused assms show thesis using push_refused push_room [of b m t] by auto
  qed
qed

lemma drain_conserves:
  "ok b \<Longrightarrow> mset (contents (fst (drain h b s))) + mset (handled_msgs h (contents b) s) =
     mset (contents b)"
  by (simp add: drain_keeps mset_failed_handled)

lemma drain_order: "ok b \<Longrightarrow> subseq (contents (fst (drain h b s))) (contents b)"
  by (simp add: drain_keeps failed_msgs_subseq)

lemma drain_empties:
  "ok b \<Longrightarrow> (\<And>t d s. snd (h t d s) = None) \<Longrightarrow> contents (fst (drain h b s)) = []"
  by (simp add: drain_keeps failed_msgs_all_ok)

end

lemma Drain_messages: "buffer_inv b \<Longrightarrow> messages (fst (Drain h b s)) = failed_msgs h (messages b) s"
  by (simp add: Drain_eq)

lemma Drain_state: "buffer_inv b \<Longrightarrow> snd (Drain h b s) = handle_msgs h (messages b) s"
  by (simp add: Drain_eq)

lemma Push_refused: "Push t m b = (b', Some err) \<Longrightarrow> b' = b"
  by (simp add: Push_def Let_def split: if_splits)

lemma Push_accepted: "Push t m b = (b', None) \<Longrightarrow> messages b' = messages b @ [(t, m)]"
  by (auto simp: Push_def Let_def split: if_splits)

lemma Push_room: "buffer_inv b \<Longrightarrow> msg_fits b m \<Longrightarrow> snd (Push t m b) = None \<longleftrightarrow> has_room b m"
  by (simp add: Push_eq has_room_def)

interpretation mem_buffer: result_buffer Push Drain messages buffer_inv msg_fits has_room
  by unfold_locales
    (auto simp: Push_accepted Push_refused Push_room Drain_messages Drain_state msg_fits_def
      intro: buffer_inv_Push buffer_inv_Drain)

subsection \<open>Properties\<close>

text \<open>
  A push is accepted exactly when the buffered bytes and the message together do not
  exceed the maximum; it then appends the message, and otherwise it returns the error
  \<open>ErrBufferFull\<close> and leaves the buffer as it was. The size account stays exact and within the maximum.
\<close>

theorem push_respects_limit:
  assumes "buffer_inv b" "msg_fits b msg"
  shows "Push topic msg b =
      (if total_size (messages b) + int (length msg) \<le> maxSize b
       then (b\<lparr>messages := messages b @ [(topic, msg)],
               curSize := total_size (messages b @ [(topic, msg)])\<rparr>, None)
       else (b, Some ErrBufferFull)) \<and>
    buffer_inv (fst (Push topic msg b))"
  using buffer_inv_Push [OF assms] assms by (simp add: Push_eq)

lemma push_respects_limit_witness:
  "Push ''t'' ''abc'' (NewMemoryBuffer 2) = (NewMemoryBuffer 2, Some ErrBufferFull)"
  using push_respects_limit [THEN conjunct1, of "NewMemoryBuffer 2" "''abc''" "''t''"] buffer_inv_new [of 2]
  by (simp add: in_int64_def msg_fits_def NewMemoryBuffer_def)

text \<open>
  C18: a drain offers every buffered message to the handler once, in order, whatever the
  handler returned before, and keeps exactly the messages with an error, in their order.
\<close>

theorem drain_keeps_failed:
  assumes "buffer_inv b"
  shows "messages (fst (Drain h b s)) = failed_msgs h (messages b) s \<and>
    snd (Drain h b s) = handle_msgs h (messages b) s \<and>
    mset (messages (fst (Drain h b s))) + mset (handled_msgs h (messages b) s) = mset (messages b) \<and>
    buffer_inv (fst (Drain h b s))"
  by (intro conjI mem_buffer.drain_keeps [OF assms] mem_buffer.drain_handles [OF assms]
      mem_buffer.drain_conserves [OF assms] mem_buffer.drain_ok [OF assms])

text \<open>A handler that fails once and then works, recording what it was given.\<close>

definition flaky :: "message list handler" where
  "flaky t d s = (s @ [(t, d)], if s = [] then Some ''unavailable'' else None)"

definition demo_buffer :: MemoryBuffer where
  "demo_buffer = fst (Push ''t'' ''2'' (fst (Push ''t'' ''1'' (NewMemoryBuffer 10))))"

lemma demo_buffer_inv: "buffer_inv demo_buffer"
  unfolding demo_buffer_def
  by (intro buffer_inv_Push buffer_inv_new) (simp_all add: msg_fits_def NewMemoryBuffer_def in_int64_def)

lemma demo_buffer_messages: "messages demo_buffer = [(''t'', ''1''), (''t'', ''2'')]"
  by (simp add: demo_buffer_def Push_def NewMemoryBuffer_def Let_def wrap64_def)

lemma drain_keeps_failed_witness:
  "messages (fst (Drain flaky demo_buffer [])) = [(''t'', ''1'')]
   \<and> snd (Drain flaky demo_buffer []) = [(''t'', ''1''), (''t'', ''2'')]"
  using drain_keeps_failed [OF demo_buffer_inv, of flaky "[]"]
  by (simp add: demo_buffer_messages flaky_def)

text \<open>
  A drain does not stop at the first error: with two messages buffered and a transport
  that refuses only the first one, the second is delivered and leaves the buffer before the
  first, which contradicts the documented order of replay.
\<close>

theorem drain_reorders:
  "\<exists>(h :: message list handler) b. messages b = [(''t'', ''1''), (''t'', ''2'')]
     \<and> handled_msgs h (messages b) [] = [(''t'', ''2'')]
     \<and> messages (fst (Drain h b [])) = [(''t'', ''1'')]"
  by (rule exI [of _ flaky], rule exI [of _ demo_buffer])
    (simp add: Drain_messages demo_buffer_inv demo_buffer_messages flaky_def)

end
