(* ===== verification/GoFloat.thy ===== *)
theory GoFloat
  imports Complex_Main Prelude
begin

text \<open>
  Go's \<open>float64\<close>: a finite IEEE-754 binary64 value is a rational number, and every
  arithmetic operation rounds its exact result to the nearest representable number, ties to
  the even significand (53 bits, least exponent \<open>-1074\<close>, so gradual underflow is included).
  Infinities and NaN are not represented: JSON carries finite numbers only, and the source
  divides by non-zero constants or by counts it has tested.
\<close>

type_synonym float64 = rat

subsection \<open>The binary exponent of a positive rational\<close>

fun bits :: "nat \<Rightarrow> nat" where
  "bits n = (if n = 0 then 0 else Suc (bits (n div 2)))"

declare bits.simps [simp del]

lemma bits_0 [simp]: "bits 0 = 0"
  by (subst bits.simps) simp

lemma bits_pos: "0 < n \<Longrightarrow> bits n = Suc (bits (n div 2))"
  by (subst bits.simps) simp

lemma bits_upper: "n < 2 ^ bits n"
proof (induction n rule: bits.induct)
  case (1 n)
  then show ?case
    by (cases "n = 0") (auto simp: bits_pos)
qed

lemma bits_lower: "0 < n \<Longrightarrow> 2 ^ bits n \<le> 2 * n"
proof (induction n rule: bits.induct)
  case (1 n)
  show ?case
  proof (cases "n div 2 = 0")
    case True
    with 1 have "n = 1" by simp
    then show ?thesis by (simp add: bits_pos)
  next
    case False
    with 1 have "2 ^ bits (n div 2) \<le> 2 * (n div 2)" by simp
    with 1 show ?thesis by (simp add: bits_pos)
  qed
qed

definition ilog2 :: "rat \<Rightarrow> int" where
  "ilog2 x =
     (let (a, b) = quotient_of x; k = int (bits (nat a)) - int (bits (nat b))
      in if 2 powi k \<le> x then k else k - 1)"

lemma powi_2_mono: "i \<le> j \<Longrightarrow> (2 :: rat) powi i \<le> 2 powi j"
  by (rule power_int_increasing) auto

lemma powi_2_less: "(2 :: rat) powi i < 2 powi j \<longleftrightarrow> i < j"
proof
  assume "(2 :: rat) powi i < 2 powi j"
  then show "i < j" using powi_2_mono [of j i] by (meson leD leI)
next
  assume "i < j"
  then show "(2 :: rat) powi i < 2 powi j"
    by (intro power_int_strict_increasing) auto
qed

lemma powi_2_add: "(2 :: rat) powi (i + j) = 2 powi i * 2 powi j"
  by (rule power_int_add) simp

lemma powi_2_diff: "(2 :: rat) powi (i - j) = 2 powi i / 2 powi j"
  by (rule power_int_diff) simp

lemma ilog2_bounds:
  assumes "0 < x"
  shows "2 powi ilog2 x \<le> x \<and> x < 2 powi (ilog2 x + 1)"
proof -
  obtain a b where ab: "quotient_of x = (a, b)" by (cases "quotient_of x")
  have b: "0 < b" by (rule quotient_of_denom_pos [OF ab])
  have x: "x = of_int a / of_int b" by (rule quotient_of_div [OF ab])
  with assms b have a: "0 < a" by (simp add: zero_less_divide_iff)
  define A where "A = (2 :: rat) ^ bits (nat a)"
  define B where "B = (2 :: rat) ^ bits (nat b)"
  define k where "k = int (bits (nat a)) - int (bits (nat b))"
  have kAB: "2 powi k = A / B"
    by (simp add: k_def powi_2_diff A_def B_def)
  have bnd: "(of_int i :: rat) < 2 ^ bits (nat i) \<and> 2 ^ bits (nat i) \<le> 2 * (of_int i :: rat)"
    if "0 < i" for i
  proof -
    have "nat i < 2 ^ bits (nat i)" by (rule bits_upper)
    then have "rat_of_nat (nat i) < rat_of_nat (2 ^ bits (nat i))" by (simp only: of_nat_less_iff)
    moreover have "2 ^ bits (nat i) \<le> 2 * nat i" using that by (intro bits_lower) simp
    then have "rat_of_nat (2 ^ bits (nat i)) \<le> rat_of_nat (2 * nat i)" by (simp only: of_nat_le_iff)
    ultimately show ?thesis using that by (simp add: of_nat_nat)
  qed
  have A: "of_int a < A" "A \<le> 2 * of_int a" and B: "of_int b < B" "B \<le> 2 * of_int b"
    using bnd [OF a] bnd [OF b] by (auto simp: A_def B_def)
  have pos: "0 < A" "0 < B" "0 < (of_int b :: rat)" "0 < (of_int a :: rat)"
    using a b by (auto simp: A_def B_def)
  have up: "x < 2 powi (k + 1)"
  proof -
    have "of_int a * B < A * (2 * of_int b)"
      using A B pos by (intro mult_less_le_imp_less) auto
    with pos show ?thesis by (simp add: x powi_2_add kAB field_simps)
  qed
  have lo: "2 powi (k - 1) \<le> x"
  proof -
    have "A * of_int b \<le> (2 * of_int a) * B"
      using A B pos by (intro mult_mono) auto
    with pos show ?thesis by (simp add: x powi_2_diff kAB field_simps)
  qed
  show ?thesis
    using up lo by (simp add: ilog2_def ab Let_def k_def [symmetric])
qed

lemma ilog2_unique:
  assumes "2 powi e \<le> x" "x < 2 powi (e + 1)"
  shows "ilog2 x = e"
proof -
  have "0 < (2 :: rat) powi e" by simp
  with assms have "0 < x" by linarith
  from ilog2_bounds [OF this] assms
  have "(2 :: rat) powi e < 2 powi (ilog2 x + 1)" "(2 :: rat) powi ilog2 x < 2 powi (e + 1)"
    by linarith+
  then show ?thesis by (simp only: powi_2_less)
qed

lemma ilog2_mono:
  assumes "0 < x" "x \<le> y"
  shows "ilog2 x \<le> ilog2 y"
proof -
  from assms ilog2_bounds [of x] ilog2_bounds [of y]
  have "(2 :: rat) powi ilog2 x < 2 powi (ilog2 y + 1)" by linarith
  then show ?thesis by (simp only: powi_2_less)
qed

subsection \<open>Rounding to the nearest integer, ties to even\<close>

definition round_even :: "rat \<Rightarrow> int" where
  "round_even q =
     (let f = \<lfloor>q\<rfloor>; d = q - of_int f
      in if d < 1 / 2 then f else if d > 1 / 2 then f + 1 else if even f then f else f + 1)"

lemma round_even_of_int [simp]: "round_even (of_int i) = i"
  by (simp add: round_even_def)

lemma round_even_floor: "\<lfloor>q\<rfloor> \<le> round_even q \<and> round_even q \<le> \<lfloor>q\<rfloor> + 1"
  by (simp add: round_even_def Let_def)

lemma round_even_mono:
  assumes "p \<le> q"
  shows "round_even p \<le> round_even q"
proof (cases "\<lfloor>p\<rfloor> = \<lfloor>q\<rfloor>")
  case True
  with assms show ?thesis by (auto simp: round_even_def Let_def)
next
  case False
  with floor_mono [OF assms] have "\<lfloor>p\<rfloor> + 1 \<le> \<lfloor>q\<rfloor>" by simp
  with round_even_floor [of p] round_even_floor [of q] show ?thesis by linarith
qed

lemma round_even_le: "q \<le> of_int i \<Longrightarrow> round_even q \<le> i"
  using round_even_mono [of q "of_int i"] by simp

lemma round_even_ge: "of_int i \<le> q \<Longrightarrow> i \<le> round_even q"
  using round_even_mono [of "of_int i" q] by simp

subsection \<open>Rounding to binary64\<close>

text \<open>\<open>f64_exp x\<close> is the exponent of the last place of \<open>x\<close>.\<close>

definition f64_exp :: "rat \<Rightarrow> int" where
  "f64_exp x = max (- 1074) (ilog2 \<bar>x\<bar> - 52)"

definition f64_round :: "rat \<Rightarrow> float64" where
  "f64_round x =
     (if x = 0 then 0
      else of_int (round_even (x / 2 powi f64_exp x)) * 2 powi f64_exp x)"

definition is_f64 :: "rat \<Rightarrow> bool" where
  "is_f64 x \<longleftrightarrow> (\<exists>m e. x = of_int m * 2 powi e \<and> \<bar>m\<bar> \<le> 2 ^ 53 \<and> - 1074 \<le> e)"

lemma f64_round_0 [simp]: "f64_round 0 = 0"
  by (simp add: f64_round_def)

lemma f64_exp_neg [simp]: "f64_exp (- x) = f64_exp x"
  by (simp add: f64_exp_def)

lemma round_even_minus: "round_even (- q) = - round_even q"
proof (cases "q = of_int \<lfloor>q\<rfloor>")
  case True
  then show ?thesis by (metis of_int_minus round_even_of_int)
next
  case False
  define f where "f = \<lfloor>q\<rfloor>"
  have f: "of_int f < q" "q < of_int f + 1"
    using False of_int_floor_le [of q] floor_correct [of q] by (auto simp: f_def less_le)
  have g: "\<lfloor>- q\<rfloor> = - f - 1"
    using f by (intro floor_unique) auto
  show ?thesis
    unfolding round_even_def Let_def g f_def [symmetric] by auto
qed

lemma f64_round_minus [simp]: "f64_round (- x) = - f64_round x"
  by (simp add: f64_round_def round_even_minus)

lemma f64_round_nonneg: "0 \<le> x \<Longrightarrow> 0 \<le> f64_round x"
proof -
  assume "0 \<le> x"
  then have "0 \<le> round_even (x / 2 powi f64_exp x)"
    by (intro round_even_ge) simp
  then show ?thesis by (simp add: f64_round_def)
qed

lemma scaled_power:
  assumes "e \<le> i"
  shows "(2 :: rat) powi i / 2 powi e = of_int (2 ^ nat (i - e))"
proof -
  have "(2 :: rat) powi i / 2 powi e = 2 powi (i - e)" by (simp only: powi_2_diff)
  also have "\<dots> = 2 ^ nat (i - e)" using assms by (simp add: power_int_def)
  finally show ?thesis by simp
qed

lemma f64_round_le_power:
  assumes "0 < x" "x \<le> 2 powi i" "f64_exp x \<le> i"
  shows "f64_round x \<le> 2 powi i"
proof -
  have "x / 2 powi f64_exp x \<le> 2 powi i / 2 powi f64_exp x"
    using assms by (intro divide_right_mono) auto
  then have "x / 2 powi f64_exp x \<le> of_int (2 ^ nat (i - f64_exp x))"
    by (simp only: scaled_power [OF assms(3)])
  then have "of_int (round_even (x / 2 powi f64_exp x)) \<le> (of_int (2 ^ nat (i - f64_exp x)) :: rat)"
    by (simp only: of_int_le_iff round_even_le)
  also have "\<dots> = 2 powi i / 2 powi f64_exp x"
    by (simp only: scaled_power [OF assms(3)])
  finally show ?thesis
    using assms(1) by (simp add: f64_round_def pos_le_divide_eq)
qed

lemma f64_round_ge_power:
  assumes "2 powi i \<le> x" "f64_exp x \<le> i"
  shows "2 powi i \<le> f64_round x"
proof -
  have "0 < (2 :: rat) powi i" by simp
  with assms have x: "0 < x" by linarith
  have "2 powi i / 2 powi f64_exp x \<le> x / 2 powi f64_exp x"
    using assms by (intro divide_right_mono) auto
  then have "of_int (2 ^ nat (i - f64_exp x)) \<le> x / 2 powi f64_exp x"
    by (simp only: scaled_power [OF assms(2)])
  then have "(of_int (2 ^ nat (i - f64_exp x)) :: rat) \<le> of_int (round_even (x / 2 powi f64_exp x))"
    by (simp only: of_int_le_iff round_even_ge)
  then have "(2 :: rat) powi i / 2 powi f64_exp x \<le> of_int (round_even (x / 2 powi f64_exp x))"
    by (simp only: scaled_power [OF assms(2)])
  then show ?thesis
    using x by (simp add: f64_round_def pos_divide_le_eq)
qed

lemma f64_round_mono_pos:
  assumes "0 < x" "x \<le> y"
  shows "f64_round x \<le> f64_round y"
proof (cases "f64_exp x = f64_exp y")
  case True
  have "x / 2 powi f64_exp y \<le> y / 2 powi f64_exp y"
    using assms by (intro divide_right_mono) auto
  then have "round_even (x / 2 powi f64_exp y) \<le> round_even (y / 2 powi f64_exp y)"
    by (rule round_even_mono)
  with True assms show ?thesis by (auto simp: f64_round_def)
next
  case False
  have le: "ilog2 x \<le> ilog2 y" by (rule ilog2_mono [OF assms])
  from False le assms have lt: "ilog2 x < ilog2 y" and ey: "f64_exp y = ilog2 y - 52"
    and exy: "f64_exp x \<le> ilog2 y"
    by (auto simp: f64_exp_def max_def split: if_splits)
  have "x < 2 powi (ilog2 x + 1)" using ilog2_bounds [OF assms(1)] by simp
  also have "\<dots> \<le> 2 powi ilog2 y" using lt by (intro powi_2_mono) simp
  finally have "f64_round x \<le> 2 powi ilog2 y"
    using assms(1) exy by (intro f64_round_le_power) auto
  also have "\<dots> \<le> f64_round y"
    using assms ilog2_bounds [of y] ey by (intro f64_round_ge_power) auto
  finally show ?thesis .
qed

theorem f64_round_mono: "x \<le> y \<Longrightarrow> f64_round x \<le> f64_round y"
proof -
  assume xy: "x \<le> y"
  consider "0 < x" | "x \<le> 0" "0 \<le> y" | "y < 0" using xy by linarith
  then show ?thesis
  proof cases
    case 1
    with xy show ?thesis by (intro f64_round_mono_pos)
  next
    case 2
    then have "0 \<le> f64_round (- x)" "0 \<le> f64_round y" by (intro f64_round_nonneg; simp)+
    then show ?thesis by simp
  next
    case 3
    with xy have "f64_round (- y) \<le> f64_round (- x)" by (intro f64_round_mono_pos) auto
    then show ?thesis by simp
  qed
qed

subsection \<open>Representable numbers\<close>

lemma f64_roundI_int:
  assumes "x \<noteq> 0" "x / 2 powi f64_exp x = of_int k"
  shows "f64_round x = x"
proof -
  have "f64_round x = x / 2 powi f64_exp x * 2 powi f64_exp x"
    by (simp only: f64_round_def assms round_even_of_int if_False)
  also have "\<dots> = x" by simp
  finally show ?thesis .
qed

lemma f64_round_exact_pos:
  assumes x: "x = of_int m * 2 powi e" and m: "0 < m" "m \<le> 2 ^ 53" and e: "- 1074 \<le> e"
  shows "f64_round x = x"
proof (cases "f64_exp x \<le> e")
  case True
  have "x / 2 powi f64_exp x = of_int m * (2 powi e / 2 powi f64_exp x)"
    by (simp add: x)
  also have "\<dots> = of_int (m * 2 ^ nat (e - f64_exp x))"
    by (simp only: scaled_power [OF True] of_int_mult)
  finally show ?thesis
    using m by (intro f64_roundI_int [where k = "m * 2 ^ nat (e - f64_exp x)"]) (simp_all add: x)
next
  case False
  have pos: "0 < x" using m by (simp add: x)
  from False e have big: "e + 53 \<le> ilog2 x"
    using pos by (auto simp: f64_exp_def)
  have "(2 :: rat) powi (e + 53) \<le> x"
    using powi_2_mono [OF big] ilog2_bounds [OF pos] by linarith
  then have "2 ^ 53 * 2 powi e \<le> of_int m * (2 :: rat) powi e"
    by (simp add: x powi_2_add)
  then have "(2 ^ 53 :: rat) \<le> of_int m" by (simp add: mult_le_cancel_right)
  then have "(2 ^ 53 :: int) \<le> m" by (simp add: numeral_power_le_of_int_cancel_iff)
  with m have m53: "m = 2 ^ 53" by simp
  have xe: "x = 2 powi (e + 53)" by (simp add: x m53 powi_2_add)
  have "ilog2 x = e + 53"
    by (rule ilog2_unique) (auto simp: xe intro: powi_2_less [THEN iffD2])
  with e have E: "f64_exp x = e + 1" using pos by (simp add: f64_exp_def)
  then have "x / 2 powi f64_exp x = of_int (2 ^ nat (e + 53 - f64_exp x))"
    by (simp only: xe scaled_power)
  with pos show ?thesis by (intro f64_roundI_int) auto
qed

lemma f64_round_exact: "is_f64 x \<Longrightarrow> f64_round x = x"
proof -
  assume "is_f64 x"
  then obtain m e where x: "x = of_int m * 2 powi e" and m: "\<bar>m\<bar> \<le> 2 ^ 53" and e: "- 1074 \<le> e"
    by (auto simp: is_f64_def)
  consider "m = 0" | "0 < m" | "m < 0" by linarith
  then show ?thesis
  proof cases
    case 1
    then show ?thesis by (simp add: x)
  next
    case 2
    with x m e show ?thesis by (intro f64_round_exact_pos [of x m e]) auto
  next
    case 3
    with x m e have "f64_round (- x) = - x" by (intro f64_round_exact_pos [of "- x" "- m" e]) auto
    then show ?thesis by simp
  qed
qed

lemma is_f64_of_int: "\<bar>i\<bar> \<le> 2 ^ 53 \<Longrightarrow> is_f64 (of_int i)"
  unfolding is_f64_def by (rule exI [of _ i], rule exI [of _ 0]) auto

lemma f64_round_of_int: "\<bar>i\<bar> \<le> 2 ^ 53 \<Longrightarrow> f64_round (of_int i) = of_int i"
  by (intro f64_round_exact is_f64_of_int)

lemma f64_round_1 [simp]: "f64_round 1 = 1"
  using f64_round_of_int [of 1] by simp

lemma round_even_f64_bound:
  assumes "x \<noteq> 0"
  shows "\<bar>round_even (x / 2 powi f64_exp x)\<bar> \<le> 2 ^ 53"
proof -
  define q where "q = x / 2 powi f64_exp x"
  have "\<bar>x\<bar> < 2 powi (ilog2 \<bar>x\<bar> + 1)" using assms ilog2_bounds [of "\<bar>x\<bar>"] by simp
  also have "\<dots> \<le> 2 powi (f64_exp x + 53)"
    by (intro powi_2_mono) (simp add: f64_exp_def)
  also have "\<dots> = 2 ^ 53 * 2 powi f64_exp x"
    by (simp add: powi_2_add)
  finally have "\<bar>q\<bar> \<le> 2 ^ 53"
    by (simp add: q_def abs_divide pos_divide_le_eq)
  then have "q \<le> of_int (2 ^ 53)" "of_int (- (2 ^ 53)) \<le> q" by simp_all
  then show ?thesis
    unfolding q_def [symmetric] abs_le_iff
    by (metis minus_le_iff round_even_ge round_even_le)
qed

lemma f64_round_is_f64 [simp]: "is_f64 (f64_round x)"
proof (cases "x = 0")
  case True
  then show ?thesis using is_f64_of_int [of 0] by simp
next
  case False
  then have "f64_round x = of_int (round_even (x / 2 powi f64_exp x)) * 2 powi f64_exp x"
    by (simp add: f64_round_def)
  moreover have "- 1074 \<le> f64_exp x" by (simp add: f64_exp_def)
  ultimately show ?thesis
    using round_even_f64_bound [OF False] unfolding is_f64_def by blast
qed

lemma f64_round_idem [simp]: "f64_round (f64_round x) = f64_round x"
  by (intro f64_round_exact) simp

lemma f64_round_le_int: "x \<le> of_int i \<Longrightarrow> \<bar>i\<bar> \<le> 2 ^ 53 \<Longrightarrow> f64_round x \<le> of_int i"
  using f64_round_mono [of x "of_int i"] by (simp add: f64_round_of_int)

lemma f64_round_ge_int: "of_int i \<le> x \<Longrightarrow> \<bar>i\<bar> \<le> 2 ^ 53 \<Longrightarrow> of_int i \<le> f64_round x"
  using f64_round_mono [of "of_int i" x] by (simp add: f64_round_of_int)

lemma f64_round_le_1: "x \<le> 1 \<Longrightarrow> f64_round x \<le> 1"
  using f64_round_le_int [of x 1] by simp

subsection \<open>Arithmetic\<close>

text \<open>The exact result, rounded. \<open>int_of_f64\<close> is the conversion \<open>int(x)\<close>, towards zero.\<close>

definition f64_of_int :: "int \<Rightarrow> float64" where
  "f64_of_int i = f64_round (of_int i)"

definition f64_add :: "float64 \<Rightarrow> float64 \<Rightarrow> float64" where
  "f64_add x y = f64_round (x + y)"

definition f64_sub :: "float64 \<Rightarrow> float64 \<Rightarrow> float64" where
  "f64_sub x y = f64_round (x - y)"

definition f64_mul :: "float64 \<Rightarrow> float64 \<Rightarrow> float64" where
  "f64_mul x y = f64_round (x * y)"

definition f64_div :: "float64 \<Rightarrow> float64 \<Rightarrow> float64" where
  "f64_div x y = f64_round (x / y)"

definition int_of_f64 :: "float64 \<Rightarrow> int" where
  "int_of_f64 x = (if 0 \<le> x then \<lfloor>x\<rfloor> else \<lceil>x\<rceil>)"

lemma f64_of_int_exact: "\<bar>i\<bar> \<le> 2 ^ 53 \<Longrightarrow> f64_of_int i = of_int i"
  by (simp add: f64_of_int_def f64_round_of_int)

lemma f64_div_mono: "x \<le> y \<Longrightarrow> 0 < c \<Longrightarrow> f64_div x c \<le> f64_div y c"
  unfolding f64_div_def by (intro f64_round_mono divide_right_mono) auto

lemma f64_div_nonneg: "0 \<le> x \<Longrightarrow> 0 < c \<Longrightarrow> 0 \<le> f64_div x c"
  unfolding f64_div_def by (intro f64_round_nonneg) simp

lemma f64_div_le_1: "x \<le> c \<Longrightarrow> 0 < c \<Longrightarrow> f64_div x c \<le> 1"
  unfolding f64_div_def by (intro f64_round_le_1) simp

end
