(* ===== verification/GoJson.thy ===== *)
theory GoJson
  imports GoFloat GoStrings "HOL-Library.AList" "HOL-Library.List_Lexorder" "HOL-Library.Char_ord"
begin

text \<open>
  Go's \<open>encoding/json\<close> above its scanner: documents as trees, and the decoding of a tree
  into a struct by field tags. The scanner and printer of the text form are arguments of the
  definitions that use them (the record \<open>codec\<close>), as is the RFC 3339 text form of a
  \<open>time.Time\<close>, which only exists for the years 0 to 9999.
\<close>

subsection \<open>Documents\<close>

text \<open>
  \<open>JInt\<close> is a number literal without fraction or exponent. \<open>JFrac q\<close> is any other number
  literal, by the \<open>float64\<close> it is read as (only \<open>float64\<close> fields accept one). An object is
  the list of its members in document order, duplicates included.
\<close>

datatype json =
    JNull
  | JBool bool
  | JInt int
  | JFrac rat
  | JStr string
  | JArr "json list"
  | JObj "(string \<times> json) list"

record codec =
  parse_json :: "bytes \<Rightarrow> json option"
  print_json :: "json \<Rightarrow> bytes"
  parse_time :: "string \<Rightarrow> int option"
  print_time :: "int \<Rightarrow> string option"

subsection \<open>Scalars\<close>

text \<open>
  Each decoder takes the value already in the field, which \<open>null\<close> leaves in place, and
  returns \<open>None\<close> where \<open>Unmarshal\<close> returns an error.
\<close>

fun dec_string :: "string \<Rightarrow> json \<Rightarrow> string option" where
  "dec_string old JNull = Some old"
| "dec_string old (JStr s) = Some s"
| "dec_string old _ = None"

fun dec_bool :: "bool \<Rightarrow> json \<Rightarrow> bool option" where
  "dec_bool old JNull = Some old"
| "dec_bool old (JBool b) = Some b"
| "dec_bool old _ = None"

fun dec_int :: "int \<Rightarrow> json \<Rightarrow> int option" where
  "dec_int old JNull = Some old"
| "dec_int old (JInt i) = (if in_int64 i then Some i else None)"
| "dec_int old _ = None"

definition f64_parse :: "rat \<Rightarrow> float64 option" where
  "f64_parse q = (let x = f64_round q in if \<bar>x\<bar> < 2 ^ 1024 then Some x else None)"

fun dec_float :: "float64 \<Rightarrow> json \<Rightarrow> float64 option" where
  "dec_float old JNull = Some old"
| "dec_float old (JInt i) = f64_parse (of_int i)"
| "dec_float old (JFrac q) = f64_parse q"
| "dec_float old _ = None"

text \<open>A pointer field: \<open>null\<close> makes it nil, any other value is decoded into a fresh target.\<close>

fun dec_ptr :: "('a \<Rightarrow> json \<Rightarrow> 'a option) \<Rightarrow> 'a \<Rightarrow> json \<Rightarrow> 'a option option" where
  "dec_ptr d z JNull = Some None"
| "dec_ptr d z j = map_option Some (d z j)"

text \<open>A slice: \<open>null\<close> makes it nil; the elements are decoded into zero values.\<close>

fun dec_list :: "(json \<Rightarrow> 'a option) \<Rightarrow> json \<Rightarrow> 'a list option" where
  "dec_list d JNull = Some []"
| "dec_list d (JArr js) = those (map d js)"
| "dec_list d _ = None"

text \<open>A \<open>json.RawMessage\<close>: any value, kept as it is; \<open>None\<close> is the nil slice.\<close>

definition dec_raw :: "json option \<Rightarrow> json \<Rightarrow> json option option" where
  "dec_raw old j = Some (Some j)"

fun dec_time :: "codec \<Rightarrow> int \<Rightarrow> json \<Rightarrow> int option" where
  "dec_time C old JNull = Some old"
| "dec_time C old (JStr s) = parse_time C s"
| "dec_time C old _ = None"

fun dec_str_members :: "(string \<times> json) list \<Rightarrow> (string \<times> string) list option" where
  "dec_str_members [] = Some []"
| "dec_str_members ((k, v) # kvs) =
     (case dec_string [] v of
        None \<Rightarrow> None
      | Some s \<Rightarrow> map_option (\<lambda>m. (k, s) # m) (dec_str_members kvs))"

text \<open>
  A \<open>map[string]string\<close>, kept as the association list of its members: a member of the
  document updates its key, \<open>null\<close> makes the map nil.
\<close>

fun dec_str_map :: "(string \<times> string) list \<Rightarrow> json \<Rightarrow> (string \<times> string) list option" where
  "dec_str_map old JNull = Some []"
| "dec_str_map old (JObj kvs) =
     map_option (\<lambda>m. fold (\<lambda>(k, v). AList.update k v) m old) (dec_str_members kvs)"
| "dec_str_map old _ = None"

subsection \<open>Structs\<close>

text \<open>
  A key names the field whose tag it equals, else the field whose tag it equals under case
  folding: ASCII letters, and the two characters outside ASCII that fold to ASCII letters
  (U+212A to \<open>K\<close>, U+017F to \<open>S\<close>). Unknown keys are ignored.
\<close>

definition ascii_upper :: "char \<Rightarrow> char" where
  "ascii_upper c =
     (let n = of_char c :: nat in if 97 \<le> n \<and> n \<le> 122 then char_of (n - 32) else c)"

fun fold_name :: "string \<Rightarrow> string" where
  "fold_name [] = []"
| "fold_name [a] = [ascii_upper a]"
| "fold_name [a, b] =
     (if [a, b] = [CHR 0xC5, CHR 0xBF] then ''S'' else [ascii_upper a, ascii_upper b])"
| "fold_name (a # b # c # s) =
     (if [a, b, c] = [CHR 0xE2, CHR 0x84, CHR 0xAA] then CHR ''K'' # fold_name s
      else if [a, b] = [CHR 0xC5, CHR 0xBF] then CHR ''S'' # fold_name (c # s)
      else ascii_upper a # fold_name (b # c # s))"

type_synonym 'r fields = "(string \<times> ('r \<Rightarrow> json \<Rightarrow> 'r option)) list"

definition find_field :: "'r fields \<Rightarrow> string \<Rightarrow> ('r \<Rightarrow> json \<Rightarrow> 'r option) option" where
  "find_field fs k =
     (case map_of fs k of
        Some d \<Rightarrow> Some d
      | None \<Rightarrow> map_option snd (find (\<lambda>(n, _). fold_name n = fold_name k) fs))"

lemma find_field_exact: "map_of fs k = Some d \<Longrightarrow> find_field fs k = Some d"
  by (simp add: find_field_def)

fun dec_fields :: "'r fields \<Rightarrow> (string \<times> json) list \<Rightarrow> 'r \<Rightarrow> 'r option" where
  "dec_fields fs [] r = Some r"
| "dec_fields fs ((k, v) # kvs) r =
     (case find_field fs k of
        None \<Rightarrow> dec_fields fs kvs r
      | Some d \<Rightarrow> (case d r v of None \<Rightarrow> None | Some r' \<Rightarrow> dec_fields fs kvs r'))"

fun dec_struct :: "'r fields \<Rightarrow> 'r \<Rightarrow> json \<Rightarrow> 'r option" where
  "dec_struct fs r JNull = Some r"
| "dec_struct fs r (JObj kvs) = dec_fields fs kvs r"
| "dec_struct fs r _ = None"

text \<open>A setter for a tag, from a decoder of the field's type, its selector and its update.\<close>

definition field :: "('r \<Rightarrow> 'a) \<Rightarrow> (('a \<Rightarrow> 'a) \<Rightarrow> 'r \<Rightarrow> 'r) \<Rightarrow> ('a \<Rightarrow> json \<Rightarrow> 'a option)
    \<Rightarrow> 'r \<Rightarrow> json \<Rightarrow> 'r option" where
  "field get upd d r j = map_option (\<lambda>x. upd (\<lambda>_. x) r) (d (get r) j)"

definition unmarshal :: "codec \<Rightarrow> (json \<Rightarrow> 'r option) \<Rightarrow> bytes \<Rightarrow> 'r option" where
  "unmarshal C d b = (case parse_json C b of None \<Rightarrow> None | Some j \<Rightarrow> d j)"

text \<open>\<open>Unmarshal\<close> of a \<open>RawMessage\<close>: the nil slice is an error (unexpected end of input).\<close>

definition unmarshal_raw :: "(json \<Rightarrow> 'r option) \<Rightarrow> json option \<Rightarrow> 'r option" where
  "unmarshal_raw d raw = (case raw of None \<Rightarrow> None | Some j \<Rightarrow> d j)"

subsection \<open>Encoding\<close>

text \<open>Go prints a \<open>float64\<close> with an integral value without a fraction.\<close>

definition enc_float :: "float64 \<Rightarrow> json" where
  "enc_float x = (if x = of_int \<lfloor>x\<rfloor> then JInt \<lfloor>x\<rfloor> else JFrac x)"

definition enc_raw :: "json option \<Rightarrow> json" where
  "enc_raw raw = (case raw of None \<Rightarrow> JNull | Some j \<Rightarrow> j)"

text \<open>
  A slice. The nil slice is printed as \<open>null\<close> and an empty slice that is not nil as \<open>[]\<close>;
  the model does not tell the two apart (every decoder of the source reads both as a slice of
  length 0) and prints \<open>null\<close>.
\<close>

definition enc_list :: "('a \<Rightarrow> json) \<Rightarrow> 'a list \<Rightarrow> json" where
  "enc_list e xs = (if xs = [] then JNull else JArr (map e xs))"

text \<open>The printer sorts the keys of a map.\<close>

definition enc_str_map :: "(string \<times> string) list \<Rightarrow> json" where
  "enc_str_map m = JObj (map (\<lambda>(k, v). (k, JStr v)) (sort_key fst (AList.clearjunk m)))"

definition omitempty :: "bool \<Rightarrow> string \<Rightarrow> json \<Rightarrow> (string \<times> json) list" where
  "omitempty is_zero k j = (if is_zero then [] else [(k, j)])"

definition f64_finite :: "float64 \<Rightarrow> bool" where
  "f64_finite x \<longleftrightarrow> is_f64 x \<and> \<bar>x\<bar> < 2 ^ 1024"

lemma f64_parse_finite: "f64_finite x \<Longrightarrow> f64_parse x = Some x"
  by (simp add: f64_parse_def f64_finite_def f64_round_exact)

lemma f64_finite_0 [simp]: "f64_finite 0"
  using is_f64_of_int [of 0] by (simp add: f64_finite_def)

lemma dec_float_enc [simp]: "f64_finite x \<Longrightarrow> dec_float old (enc_float x) = Some x"
  by (auto simp: enc_float_def f64_parse_finite)

lemma dec_list_enc:
  "(\<And>x. x \<in> set xs \<Longrightarrow> d (e x) = Some x) \<Longrightarrow> dec_list d (enc_list e xs) = Some xs"
proof (cases "xs = []")
  case False
  assume d: "\<And>x. x \<in> set xs \<Longrightarrow> d (e x) = Some x"
  then have "those (map (d \<circ> e) xs) = Some xs"
    by (induction xs) auto
  with False show ?thesis by (simp add: enc_list_def)
qed (simp add: enc_list_def)


text \<open>A map kept in the order of its keys is read back as it is.\<close>

lemma dec_str_members_enc: "dec_str_members (map (\<lambda>(k, v). (k, JStr v)) m) = Some m"
  by (induction m) auto

lemma fold_update_distinct:
  "distinct (map fst (old @ m)) \<Longrightarrow> fold (\<lambda>(k, v). AList.update k v) m old = old @ m"
proof (induction m arbitrary: old)
  case (Cons kv m)
  obtain k v where kv: "kv = (k, v)" by (cases kv)
  with Cons.prems have "k \<notin> fst ` set old" by auto
  then have "AList.update k v old = old @ [(k, v)]" by (induction old) auto
  with Cons kv show ?case by simp
qed simp

lemma clearjunk_distinct: "distinct (map fst m) \<Longrightarrow> AList.clearjunk m = m"
  by (rule distinct_clearjunk_id)

lemma dec_str_map_enc:
  assumes "sorted (map fst m)" "distinct (map fst m)"
  shows "dec_str_map [] (enc_str_map m) = Some m"
  using assms fold_update_distinct [of "[]" m]
  by (simp add: enc_str_map_def clearjunk_distinct sort_key_id_if_sorted dec_str_members_enc)

text \<open>Finding the fields of a struct: a tag names its own field.\<close>

lemma find_field_Cons_eq [simp]: "find_field ((k, d) # fs) k = Some d"
  by (simp add: find_field_def)


text \<open>
  Decoding into two structs: a relation every field decoder preserves is preserved by the whole.
\<close>

lemma find_field_in: "find_field fs k = Some d \<Longrightarrow> \<exists>n. (n, d) \<in> set fs"
  by (auto simp: find_field_def find_Some_iff dest: map_of_SomeD split: option.splits)
    (metis nth_mem)

lemma dec_fields_rel:
  assumes "R r r'"
    and "\<And>n d r r' v. (n, d) \<in> set fs \<Longrightarrow> R r r' \<Longrightarrow> rel_option R (d r v) (d r' v)"
  shows "rel_option R (dec_fields fs kvs r) (dec_fields fs kvs r')"
  using assms(1)
proof (induction kvs arbitrary: r r')
  case (Cons kv kvs)
  obtain k v where kv: "kv = (k, v)" by (cases kv)
  show ?case
  proof (cases "find_field fs k")
    case None
    with Cons kv show ?thesis by simp
  next
    case (Some d)
    then obtain n where "(n, d) \<in> set fs" using find_field_in by blast
    from assms(2) [OF this Cons.prems, of v] show ?thesis
      by (cases rule: option.rel_cases) (auto simp: kv Some intro: Cons.IH)
  qed
qed simp

lemma dec_struct_rel:
  assumes "R r r'"
    and "\<And>n d r r' v. (n, d) \<in> set fs \<Longrightarrow> R r r' \<Longrightarrow> rel_option R (d r v) (d r' v)"
  shows "rel_option R (dec_struct fs r j) (dec_struct fs r' j)"
  by (cases j) (auto intro: assms dec_fields_rel)

text \<open>Whether a scalar can be decoded does not depend on what it replaces.\<close>

lemma dec_None_iff:
  "dec_string s j = None \<longleftrightarrow> dec_string s' j = None"
  "dec_int i j = None \<longleftrightarrow> dec_int i' j = None"
  "dec_float x j = None \<longleftrightarrow> dec_float x' j = None"
  "dec_bool b j = None \<longleftrightarrow> dec_bool b' j = None"
  by (cases j; simp)+


lemma those_map: "(\<And>x. x \<in> set xs \<Longrightarrow> d x = Some (f x)) \<Longrightarrow> those (map d xs) = Some (map f xs)"
  by (induction xs) auto

lemma dec_list_enc_map:
  "(\<And>x. x \<in> set xs \<Longrightarrow> d (e x) = Some (f x)) \<Longrightarrow> dec_list d (enc_list e xs) = Some (map f xs)"
  using those_map [of xs "d \<circ> e" f] by (auto simp: enc_list_def)

end
