(* ===== verification/Canary.thy ===== *)
theory Canary
  imports GoJson
begin

text \<open>
  The contract of the synthetic tests (internal/agent/canary/canary.go): what a test
  definition and a result are, the JSON form in which results travel from the agents to the
  processor, and the interface every kind of test implements.
\<close>

subsection \<open>Test definitions and results\<close>

text \<open>Durations and instants are in nanoseconds.\<close>

record TestDefinition =
  td_ID :: string
  td_Type :: string
  td_Target :: string
  td_Interval :: int
  td_Timeout :: int
  td_Config :: bytes

record Result =
  rs_TestID :: string
  rs_AgentID :: string
  rs_POPName :: string
  rs_TestType :: string
  rs_Target :: string
  rs_Timestamp :: int
  rs_DurationMS :: float64
  rs_Success :: bool
  rs_Metrics :: "json option"
  rs_Error :: string
  rs_Metadata :: "(string \<times> string) list"

definition zero_Result :: Result where
  "zero_Result = \<lparr>rs_TestID = [], rs_AgentID = [], rs_POPName = [], rs_TestType = [],
     rs_Target = [], rs_Timestamp = 0, rs_DurationMS = 0, rs_Success = False,
     rs_Metrics = None, rs_Error = [], rs_Metadata = []\<rparr>"

subsection \<open>The JSON form of a result\<close>

definition Result_fields :: "codec \<Rightarrow> Result fields" where
  "Result_fields C =
     [(''test_id'', field rs_TestID rs_TestID_update dec_string),
      (''agent_id'', field rs_AgentID rs_AgentID_update dec_string),
      (''pop_name'', field rs_POPName rs_POPName_update dec_string),
      (''test_type'', field rs_TestType rs_TestType_update dec_string),
      (''target'', field rs_Target rs_Target_update dec_string),
      (''timestamp'', field rs_Timestamp rs_Timestamp_update (dec_time C)),
      (''duration_ms'', field rs_DurationMS rs_DurationMS_update dec_float),
      (''success'', field rs_Success rs_Success_update dec_bool),
      (''metrics'', field rs_Metrics rs_Metrics_update dec_raw),
      (''error'', field rs_Error rs_Error_update dec_string),
      (''metadata'', field rs_Metadata rs_Metadata_update dec_str_map)]"

definition dec_Result :: "codec \<Rightarrow> json \<Rightarrow> Result option" where
  "dec_Result C = dec_struct (Result_fields C) zero_Result"

text \<open>
  \<open>Marshal\<close> of a result, \<open>None\<close> where it returns an error: a duration that is no finite
  \<open>float64\<close>, or a timestamp without a text form.
\<close>

definition enc_Result :: "codec \<Rightarrow> Result \<Rightarrow> json option" where
  "enc_Result C r =
     (case print_time C (rs_Timestamp r) of
        None \<Rightarrow> None
      | Some ts \<Rightarrow>
          if \<not> f64_finite (rs_DurationMS r) then None
          else Some (JObj
            ([(''test_id'', JStr (rs_TestID r)),
              (''agent_id'', JStr (rs_AgentID r)),
              (''pop_name'', JStr (rs_POPName r)),
              (''test_type'', JStr (rs_TestType r)),
              (''target'', JStr (rs_Target r)),
              (''timestamp'', JStr ts),
              (''duration_ms'', enc_float (rs_DurationMS r)),
              (''success'', JBool (rs_Success r)),
              (''metrics'', enc_raw (rs_Metrics r))]
             @ omitempty (rs_Error r = []) ''error'' (JStr (rs_Error r))
             @ omitempty (rs_Metadata r = []) ''metadata'' (enc_str_map (rs_Metadata r)))))"

definition marshal_Result :: "codec \<Rightarrow> Result \<Rightarrow> bytes option" where
  "marshal_Result C r = map_option (print_json C) (enc_Result C r)"

definition unmarshal_Result :: "codec \<Rightarrow> bytes \<Rightarrow> Result option" where
  "unmarshal_Result C = unmarshal C (dec_Result C)"

text \<open>
  What a reader of the message gets back: the result itself, except that a nil \<open>Metrics\<close>
  arrives as the document \<open>null\<close>.
\<close>

definition sent_Result :: "Result \<Rightarrow> Result" where
  "sent_Result r = r\<lparr>rs_Metrics := Some (enc_raw (rs_Metrics r))\<rparr>"

definition metadata_ok :: "Result \<Rightarrow> bool" where
  "metadata_ok r \<longleftrightarrow> sorted (map fst (rs_Metadata r)) \<and> distinct (map fst (rs_Metadata r))"

lemma dec_enc_Result:
  assumes enc: "enc_Result C r = Some d" and time: "\<And>s. print_time C (rs_Timestamp r) = Some s \<Longrightarrow>
      parse_time C s = Some (rs_Timestamp r)" and md: "metadata_ok r"
  shows "dec_Result C d = Some (sent_Result r)"
proof -
  obtain ts where ts: "print_time C (rs_Timestamp r) = Some ts" "f64_finite (rs_DurationMS r)"
    using enc by (auto simp: enc_Result_def split: option.splits if_splits)
  have meta: "dec_str_map [] (enc_str_map (rs_Metadata r)) = Some (rs_Metadata r)"
    using md by (intro dec_str_map_enc) (auto simp: metadata_ok_def)
  show ?thesis
    using enc ts time [OF ts(1)] meta
    by (auto simp: enc_Result_def dec_Result_def Result_fields_def omitempty_def find_field_def
        field_def dec_raw_def zero_Result_def sent_Result_def)
qed

text \<open>The laws of the text codec a round trip needs, for one document and one instant.\<close>

definition codec_ok :: "codec \<Rightarrow> Result \<Rightarrow> bool" where
  "codec_ok C r \<longleftrightarrow>
     (\<forall>d. enc_Result C r = Some d \<longrightarrow> parse_json C (print_json C d) = Some d)
     \<and> (\<forall>s. print_time C (rs_Timestamp r) = Some s \<longrightarrow> parse_time C s = Some (rs_Timestamp r))"

lemma unmarshal_marshal_Result:
  assumes "codec_ok C r" "metadata_ok r" "marshal_Result C r = Some b"
  shows "unmarshal_Result C b = Some (sent_Result r)"
  using assms dec_enc_Result [of C r]
  by (auto simp: marshal_Result_def unmarshal_Result_def unmarshal_def codec_ok_def)

subsection \<open>The interface of a kind of test\<close>

text \<open>
  \<open>execute\<close> gets what the test observes (the network, the clock) as its first argument. A
  result names the test it belongs to; the agent fills in its own name afterwards.
\<close>

locale canary_impl =
  fixes ctype :: string
    and execute :: "'env \<Rightarrow> TestDefinition \<Rightarrow> 'err + Result"
  assumes execute_identity: "execute env test = Inr r \<Longrightarrow>
      rs_TestID r = td_ID test \<and> rs_TestType r = ctype \<and> rs_Target r = td_Target test"
    and execute_metadata: "execute env test = Inr r \<Longrightarrow> rs_Metadata r = []"

end
