(* ===== verification/Agent.thy ===== *)
theory Agent
  imports AgentConfig Buffer Canary
begin

text \<open>
  The canary agent (internal/agent/agent.go): registration of the kinds of tests, the loops
  \<open>Run\<close> starts, one execution of a test, publication with the fall-back to the local buffer,
  heartbeats and the draining of the buffer. The transport is a handler \<open>publish\<close> with a
  state of its own and the buffer is any implementation of its interface; the clock and what a
  test observes are arguments.
\<close>

subsection \<open>State\<close>

text \<open>
  What a call of \<open>Execute\<close> does: it returns a result (possibly the nil pointer) without error,
  an error, or it panics.
\<close>

datatype exec_outcome = Exec_result "Result option" | Exec_error string | Exec_panic

record 'env canary =
  cn_Type :: string
  cn_Execute :: "'env \<Rightarrow> TestDefinition \<Rightarrow> exec_outcome"
  cn_Validate :: "bytes \<Rightarrow> string option"

record 'env agent =
  ag_cfg :: Config
  ag_canaries :: "string \<rightharpoonup> 'env canary"

definition new_agent :: "Config \<Rightarrow> 'env agent" where
  "new_agent cfg = \<lparr>ag_cfg = cfg, ag_canaries = Map.empty\<rparr>"

definition RegisterCanary :: "'env canary \<Rightarrow> 'env agent \<Rightarrow> 'env agent" where
  "RegisterCanary c a = a\<lparr>ag_canaries := (ag_canaries a)(cn_Type c \<mapsto> c)\<rparr>"

definition loadTests :: "'env agent \<Rightarrow> TestDefinition list" where
  "loadTests a = map (\<lambda>st. \<lparr>td_ID = st_ID st, td_Type = st_Type st, td_Target = st_Target st,
     td_Interval = st_Interval st, td_Timeout = st_Timeout st, td_Config = st_Config st\<rparr>)
     (StaticTests (ag_cfg a))"

text \<open>
  The test loops \<open>Run\<close> starts, \<open>None\<close> when a loop panics: \<open>NewTicker\<close> does for an interval
  that is not positive, and the loops call it outside the recovery of \<open>executeTest\<close>.
\<close>

definition newTicker :: "int \<Rightarrow> int option" where
  "newTicker d = (if d \<le> 0 then None else Some d)"

definition run_loops :: "'env agent \<Rightarrow> (TestDefinition \<times> 'env canary) list option" where
  "run_loops a =
     (case newTicker (HeartbeatInterval (ag_cfg a)) of
        None \<Rightarrow> None
      | Some _ \<Rightarrow>
          let loops = List.map_filter
                (\<lambda>t. map_option (Pair t) (ag_canaries a (td_Type t))) (loadTests a)
          in if list_all (\<lambda>(t, c). newTicker (td_Interval t) \<noteq> None) loops
             then Some loops else None)"

subsection \<open>Publishing\<close>

text \<open>What became of a result or heartbeat, as the agent logs it.\<close>

datatype outcome =
    Published message
  | Buffered message
  | Dropped message
  | NotMarshalled
  | Heartbeat message
  | HeartbeatLost message
  | Recovered

definition result_topic :: "string \<Rightarrow> topic" where
  "result_topic testType = ''netvantage.'' @ testType @ ''.results''"

definition publishResult ::
  "'s handler \<Rightarrow> (topic \<Rightarrow> bytes \<Rightarrow> 'b \<Rightarrow> 'b \<times> string option) \<Rightarrow> codec \<Rightarrow> string \<Rightarrow> Result
     \<Rightarrow> 's \<times> 'b \<Rightarrow> ('s \<times> 'b) \<times> outcome" where
  "publishResult publish push C testType result sb =
     (let topic = result_topic testType; (s, b) = sb
      in case marshal_Result C result of
           None \<Rightarrow> ((s, b), NotMarshalled)
         | Some data \<Rightarrow>
             (case publish topic data s of
                (s', None) \<Rightarrow> ((s', b), Published (topic, data))
              | (s', Some _) \<Rightarrow>
                  (case push topic data b of
                     (b', None) \<Rightarrow> ((s', b'), Buffered (topic, data))
                   | (b', Some _) \<Rightarrow> ((s', b'), Dropped (topic, data)))))"

definition failure_result :: "Config \<Rightarrow> int \<Rightarrow> TestDefinition \<Rightarrow> string \<Rightarrow> Result" where
  "failure_result cfg now test err = \<lparr>rs_TestID = td_ID test, rs_AgentID = AgentID cfg,
     rs_POPName = POPName cfg, rs_TestType = td_Type test, rs_Target = td_Target test,
     rs_Timestamp = now, rs_DurationMS = 0, rs_Success = False, rs_Metrics = None,
     rs_Error = err, rs_Metadata = []\<rparr>"

text \<open>
  \<open>executeTest\<close>, given what \<open>Execute\<close> did. A panic, also the one of writing through a nil
  result, is recovered and nothing is published.
\<close>

definition executeTest ::
  "'s handler \<Rightarrow> (topic \<Rightarrow> bytes \<Rightarrow> 'b \<Rightarrow> 'b \<times> string option) \<Rightarrow> codec \<Rightarrow> Config \<Rightarrow> int
     \<Rightarrow> exec_outcome \<Rightarrow> TestDefinition \<Rightarrow> 's \<times> 'b \<Rightarrow> ('s \<times> 'b) \<times> outcome" where
  "executeTest publish push C cfg now ex test sb =
     (let name = (\<lambda>r. r\<lparr>rs_AgentID := AgentID cfg, rs_POPName := POPName cfg\<rparr>)
      in case ex of
           Exec_panic \<Rightarrow> (sb, Recovered)
         | Exec_error err \<Rightarrow> publishResult publish push C (td_Type test)
             (name (failure_result cfg now test err)) sb
         | Exec_result None \<Rightarrow> (sb, Recovered)
         | Exec_result (Some result) \<Rightarrow>
             publishResult publish push C (td_Type test) (name result) sb)"

text \<open>The heartbeat is a Go map, whose keys the printer sorts. It is never buffered.\<close>

definition heartbeat_json :: "Config \<Rightarrow> string \<Rightarrow> json" where
  "heartbeat_json cfg ts = JObj [(''agent_id'', JStr (AgentID cfg)),
     (''pop_name'', JStr (POPName cfg)), (''status'', JStr ''online''), (''timestamp'', JStr ts)]"

definition sendHeartbeat ::
  "'s handler \<Rightarrow> codec \<Rightarrow> Config \<Rightarrow> int \<Rightarrow> 's \<times> 'b \<Rightarrow> ('s \<times> 'b) \<times> outcome" where
  "sendHeartbeat publish C cfg now sb =
     (let (s, b) = sb; topic = ''netvantage.agent.heartbeat''
      in case map_option (\<lambda>ts. print_json C (heartbeat_json cfg ts)) (print_time C now) of
           None \<Rightarrow> ((s, b), NotMarshalled)
         | Some data \<Rightarrow>
             (case publish topic data s of
                (s', None) \<Rightarrow> ((s', b), Heartbeat (topic, data))
              | (s', Some _) \<Rightarrow> ((s', b), HeartbeatLost (topic, data))))"

text \<open>One tick of the drain loop. The error of \<open>Drain\<close> is ignored.\<close>

definition drainTick ::
  "'s handler \<Rightarrow> ('s handler \<Rightarrow> 'b \<Rightarrow> 's \<Rightarrow> 'b \<times> 's) \<Rightarrow> ('b \<Rightarrow> nat) \<Rightarrow> 's \<times> 'b \<Rightarrow> 's \<times> 'b" where
  "drainTick publish drain len sb =
     (let (s, b) = sb
      in if len b = 0 then (s, b)
         else let (b', s') = drain (\<lambda>topic msg. publish topic msg) b s in (s', b'))"

subsection \<open>Runs\<close>

text \<open>
  The goroutines of the agent share the transport and the buffer only, and each tick of a loop
  is one of these operations; a run is a sequence of them in any order.
\<close>

datatype agent_tick =
    ExecTick int exec_outcome TestDefinition
  | HeartbeatTick int
  | DrainTick

fun agent_op ::
  "'s handler \<Rightarrow> (topic \<Rightarrow> bytes \<Rightarrow> 'b \<Rightarrow> 'b \<times> string option) \<Rightarrow> ('s handler \<Rightarrow> 'b \<Rightarrow> 's \<Rightarrow> 'b \<times> 's)
     \<Rightarrow> ('b \<Rightarrow> nat) \<Rightarrow> codec \<Rightarrow> Config \<Rightarrow> agent_tick \<Rightarrow> 's \<times> 'b \<Rightarrow> ('s \<times> 'b) \<times> outcome list" where
  "agent_op publish push drain len C cfg (ExecTick now ex test) sb =
     (let (sb', out) = executeTest publish push C cfg now ex test sb in (sb', [out]))"
| "agent_op publish push drain len C cfg (HeartbeatTick now) sb =
     (let (sb', out) = sendHeartbeat publish C cfg now sb in (sb', [out]))"
| "agent_op publish push drain len C cfg DrainTick sb = (drainTick publish drain len sb, [])"

fun agent_run ::
  "'s handler \<Rightarrow> (topic \<Rightarrow> bytes \<Rightarrow> 'b \<Rightarrow> 'b \<times> string option) \<Rightarrow> ('s handler \<Rightarrow> 'b \<Rightarrow> 's \<Rightarrow> 'b \<times> 's)
     \<Rightarrow> ('b \<Rightarrow> nat) \<Rightarrow> codec \<Rightarrow> Config \<Rightarrow> agent_tick list \<Rightarrow> 's \<times> 'b \<Rightarrow> ('s \<times> 'b) \<times> outcome list" where
  "agent_run publish push drain len C cfg [] sb = (sb, [])"
| "agent_run publish push drain len C cfg (op # ops) sb =
     (let (sb1, o1) = agent_op publish push drain len C cfg op sb;
          (sb2, o2) = agent_run publish push drain len C cfg ops sb1
      in (sb2, o1 @ o2))"

subsection \<open>What a tick is meant to send\<close>

text \<open>
  The message of a tick, whatever becomes of it: the result of the test, or the failure result
  of an error, with the names of the agent and the POP, on the topic of the test's kind; nothing
  after a panic, for a nil result, or for what cannot be marshalled. A heartbeat always has one.
\<close>

fun tick_message :: "codec \<Rightarrow> Config \<Rightarrow> agent_tick \<Rightarrow> message list" where
  "tick_message C cfg (ExecTick now ex test) =
     (let send = (\<lambda>r. case marshal_Result C (r\<lparr>rs_AgentID := AgentID cfg, rs_POPName := POPName cfg\<rparr>) of
             None \<Rightarrow> []
           | Some data \<Rightarrow> [(''netvantage.'' @ td_Type test @ ''.results'', data)])
      in case ex of
           Exec_result (Some r) \<Rightarrow> send r
         | Exec_result None \<Rightarrow> []
         | Exec_error err \<Rightarrow> send (failure_result cfg now test err)
         | Exec_panic \<Rightarrow> [])"
| "tick_message C cfg (HeartbeatTick now) =
     (case print_time C now of
        None \<Rightarrow> []
      | Some ts \<Rightarrow> [(''netvantage.agent.heartbeat'', print_json C (heartbeat_json cfg ts))])"
| "tick_message C cfg DrainTick = []"

fun executes :: "agent_tick \<Rightarrow> bool" where
  "executes (ExecTick now ex test) = True"
| "executes _ = False"

text \<open>
  The messages a run may lose: those the transport refuses at their tick, for a result only if
  the buffer has no room for it then either.
\<close>

definition lost_at ::
  "'s handler \<Rightarrow> ('b \<Rightarrow> bytes \<Rightarrow> bool) \<Rightarrow> codec \<Rightarrow> Config \<Rightarrow> agent_tick \<Rightarrow> 's \<times> 'b \<Rightarrow> message list" where
  "lost_at publish room C cfg op sb =
     filter (\<lambda>(topic, data). snd (publish topic data (fst sb)) \<noteq> None
       \<and> (executes op \<longrightarrow> \<not> room (snd sb) data)) (tick_message C cfg op)"

fun losses ::
  "'s handler \<Rightarrow> (topic \<Rightarrow> bytes \<Rightarrow> 'b \<Rightarrow> 'b \<times> string option) \<Rightarrow> ('s handler \<Rightarrow> 'b \<Rightarrow> 's \<Rightarrow> 'b \<times> 's)
     \<Rightarrow> ('b \<Rightarrow> nat) \<Rightarrow> ('b \<Rightarrow> bytes \<Rightarrow> bool) \<Rightarrow> codec \<Rightarrow> Config \<Rightarrow> agent_tick list \<Rightarrow> 's \<times> 'b
     \<Rightarrow> message list" where
  "losses publish push drain len room C cfg [] sb = []"
| "losses publish push drain len room C cfg (op # ops) sb =
     lost_at publish room C cfg op sb
     @ losses publish push drain len room C cfg ops
         (fst (agent_op publish push drain len C cfg op sb))"

text \<open>The messages the agent logs as dropped or not sent.\<close>

fun reported_lost :: "outcome \<Rightarrow> message list" where
  "reported_lost (Dropped m) = [m]"
| "reported_lost (HeartbeatLost m) = [m]"
| "reported_lost _ = []"


subsection \<open>The interface to the transport\<close>

text \<open>
  What the agent relies on in a publisher: \<open>acked s\<close> are the messages acknowledged so far. A
  call that returns no error adds its message, a call with an error adds none.
\<close>

locale message_publisher =
  fixes publish :: "'s handler" and acked :: "'s \<Rightarrow> message list"
  assumes publish_ack: "publish t m s = (s', None) \<Longrightarrow> acked s' = acked s @ [(t, m)]"
    and publish_error: "publish t m s = (s', Some err) \<Longrightarrow> acked s' = acked s"

locale agent_io = message_publisher publish acked + result_buffer push drain contents ok fits room
  for publish :: "'s handler" and acked :: "'s \<Rightarrow> message list"
    and push :: "topic \<Rightarrow> bytes \<Rightarrow> 'b \<Rightarrow> 'b \<times> string option"
    and drain :: "'s handler \<Rightarrow> 'b \<Rightarrow> 's \<Rightarrow> 'b \<times> 's"
    and contents :: "'b \<Rightarrow> message list"
    and ok :: "'b \<Rightarrow> bool"
    and fits :: "'b \<Rightarrow> bytes \<Rightarrow> bool"
    and room :: "'b \<Rightarrow> bytes \<Rightarrow> bool"

context agent_io
begin

lemma acked_handle_msgs: "acked (handle_msgs publish ms s) = acked s @ handled_msgs publish ms s"
proof (induction ms arbitrary: s)
  case (Cons m ms)
  obtain t d where m: "m = (t, d)" by (cases m)
  obtain s' r where p: "publish t d s = (s', r)" by (cases "publish t d s")
  show ?case
    using Cons.IH [of s'] publish_ack [of t d s s'] publish_error [of t d s s']
    by (cases r) (simp_all add: m p)
qed simp

text \<open>
  A step balances when the messages it made are, beside those of before, acknowledged, buffered
  or lost, and the lost ones are the reported ones.
\<close>

abbreviation balanced ::
  "'s \<times> 'b \<Rightarrow> ('s \<times> 'b) \<times> outcome list \<Rightarrow> message list \<Rightarrow> message list \<Rightarrow> bool" where
  "balanced sb r lost ms \<equiv> ok (snd (fst r)) \<and> fits (snd (fst r)) = fits (snd sb)
     \<and> mset (acked (fst (fst r))) + mset (contents (snd (fst r))) + mset lost =
       mset (acked (fst sb)) + mset (contents (snd sb)) + mset ms
     \<and> concat (map reported_lost (snd r)) = lost"

lemma fits_push: "push t m b = (b', r) \<Longrightarrow> fits b' = fits b"
  using push_fits [of t m b] by (auto intro!: ext)

lemma publishResult_balanced:
  assumes "ok b" and fit: "\<And>d. marshal_Result C r = Some d \<Longrightarrow> fits b d"
  shows "balanced (s, b)
    (let (sb', out) = publishResult publish push C ty r (s, b) in (sb', [out]))
    (filter (\<lambda>(t, d). snd (publish t d s) \<noteq> None \<and> \<not> room b d)
      (case marshal_Result C r of None \<Rightarrow> [] | Some d \<Rightarrow> [(result_topic ty, d)]))
    (case marshal_Result C r of None \<Rightarrow> [] | Some d \<Rightarrow> [(result_topic ty, d)])"
proof (cases "marshal_Result C r")
  case None
  with assms(1) show ?thesis by (simp add: publishResult_def)
next
  case (Some d)
  let ?t = "result_topic ty"
  obtain s' res where p: "publish ?t d s = (s', res)" by (cases "publish ?t d s")
  show ?thesis
  proof (cases res)
    case None
    with p publish_ack [of ?t d s s'] Some assms(1) show ?thesis
      by (simp add: publishResult_def Let_def)
  next
    case (Some err)
    with p publish_error have acked: "acked s' = acked s" by blast
    note defs = publishResult_def Let_def p Some \<open>marshal_Result C r = Some d\<close> acked
    show ?thesis
      using assms(1) fit [OF \<open>marshal_Result C r = Some d\<close>]
    proof (cases rule: push_cases [of b d ?t])
      case (accepted b')
      with fits_push [OF accepted(1)] show ?thesis by (simp add: defs)
    next
      case (refused e)
      with assms(1) show ?thesis by (simp add: defs)
    qed
  qed
qed

lemma executeTest_balanced:
  assumes "ok b" and "\<And>m. m \<in> set (tick_message C cfg (ExecTick now ex test)) \<Longrightarrow> fits b (snd m)"
  shows "balanced (s, b)
    (agent_op publish push drain len C cfg (ExecTick now ex test) (s, b))
    (lost_at publish room C cfg (ExecTick now ex test) (s, b))
    (tick_message C cfg (ExecTick now ex test))"
proof (cases ex)
  case (Exec_result res)
  show ?thesis
  proof (cases res)
    case None
    with assms(1) Exec_result show ?thesis by (simp add: executeTest_def lost_at_def)
  next
    case (Some r)
    let ?r = "r\<lparr>rs_AgentID := AgentID cfg, rs_POPName := POPName cfg\<rparr>"
    have "fits b d" if "marshal_Result C ?r = Some d" for d
      using assms(2) that by (simp add: Exec_result Some)
    from publishResult_balanced [where ty = "td_Type test" and s = s and C = C and r = "?r", OF assms(1) this]
    show ?thesis unfolding result_topic_def by (simp add: Exec_result Some executeTest_def lost_at_def)
  qed
next
  case (Exec_error err)
  let ?r = "(failure_result cfg now test err)\<lparr>rs_AgentID := AgentID cfg, rs_POPName := POPName cfg\<rparr>"
  have "fits b d" if "marshal_Result C ?r = Some d" for d
    using assms(2) that by (simp add: Exec_error)
  from publishResult_balanced [where ty = "td_Type test" and s = s and C = C and r = "?r", OF assms(1) this]
  show ?thesis unfolding result_topic_def by (simp add: Exec_error executeTest_def lost_at_def)
next
  case Exec_panic
  with assms(1) show ?thesis by (simp add: executeTest_def lost_at_def)
qed

lemma sendHeartbeat_balanced:
  assumes "ok b"
  shows "balanced (s, b)
    (agent_op publish push drain len C cfg (HeartbeatTick now) (s, b))
    (lost_at publish room C cfg (HeartbeatTick now) (s, b))
    (tick_message C cfg (HeartbeatTick now))"
proof (cases "print_time C now")
  case (Some ts)
  let ?t = "''netvantage.agent.heartbeat''" and ?d = "print_json C (heartbeat_json cfg ts)"
  obtain s' r where p: "publish ?t ?d s = (s', r)" by (cases "publish ?t ?d s")
  with Some assms publish_ack [of ?t ?d s s'] publish_error [of ?t ?d s s']
  show ?thesis by (cases r) (simp_all add: sendHeartbeat_def lost_at_def)
qed (use assms in \<open>simp add: sendHeartbeat_def lost_at_def\<close>)

lemma drainTick_balanced:
  assumes "ok b"
  shows "balanced (s, b) (agent_op publish push drain len C cfg DrainTick (s, b))
    (lost_at publish room C cfg DrainTick (s, b)) (tick_message C cfg DrainTick)"
proof (cases "len b = 0")
  case False
  obtain b' s' where d: "drain publish b s = (b', s')" by (cases "drain publish b s")
  have f: "fits b' = fits b" using drain_fits [of publish b s] d by (auto intro!: ext)
  have "acked s' = acked s @ handled_msgs publish (contents b) s"
    using drain_handles [OF assms, of publish s] acked_handle_msgs d by simp
  with False f drain_conserves [OF assms, of publish s] drain_ok [OF assms, of publish s] d
  show ?thesis by (simp add: drainTick_def lost_at_def union_ac)
qed (use assms in \<open>simp add: drainTick_def lost_at_def\<close>)

lemma drainTick_all_ok:
  assumes "ok b" "len b = length (contents b)" "\<And>t d s. snd (publish t d s) = None"
  shows "contents (snd (drainTick publish drain len (s, b))) = []
    \<and> acked (fst (drainTick publish drain len (s, b))) = acked s @ contents b"
proof -
  have "handled_msgs publish ms s = ms" for ms s
    using assms(3) by (induction ms arbitrary: s) auto
  with assms drain_empties [where h = publish and s = s, OF assms(1,3)] drain_handles [OF assms(1), of publish s]
  show ?thesis by (auto simp: drainTick_def split_beta acked_handle_msgs)
qed

lemma agent_op_balanced:
  assumes "ok b" and "\<And>m. executes op \<Longrightarrow> m \<in> set (tick_message C cfg op) \<Longrightarrow> fits b (snd m)"
  shows "balanced (s, b) (agent_op publish push drain len C cfg op (s, b))
    (lost_at publish room C cfg op (s, b)) (tick_message C cfg op)"
proof (cases op)
  case (ExecTick now ex test)
  show ?thesis
    unfolding ExecTick by (rule executeTest_balanced [OF assms(1)], rule assms(2)) (simp_all add: ExecTick)
next
  case (HeartbeatTick now)
  show ?thesis unfolding HeartbeatTick by (rule sendHeartbeat_balanced [OF assms(1)])
next
  case DrainTick
  show ?thesis unfolding DrainTick by (rule drainTick_balanced [OF assms(1)])
qed

lemma agent_run_balanced:
  assumes "ok b"
    and "\<And>op m. op \<in> set ops \<Longrightarrow> executes op \<Longrightarrow> m \<in> set (tick_message C cfg op) \<Longrightarrow> fits b (snd m)"
  shows "balanced (s, b) (agent_run publish push drain len C cfg ops (s, b))
    (losses publish push drain len room C cfg ops (s, b)) (concat (map (tick_message C cfg) ops))"
  using assms
proof (induction ops arbitrary: s b)
  case (Cons op ops)
  obtain s1 b1 o1 where op: "agent_op publish push drain len C cfg op (s, b) = ((s1, b1), o1)"
    by (metis prod.collapse)
  have step: "balanced (s, b) ((s1, b1), o1) (lost_at publish room C cfg op (s, b)) (tick_message C cfg op)"
    using agent_op_balanced [where op = op and C = C and cfg = cfg and s = s and len = len, OF Cons.prems(1)]
      Cons.prems(2) [of op] unfolding op by simp
  have "balanced (s1, b1) (agent_run publish push drain len C cfg ops (s1, b1))
      (losses publish push drain len room C cfg ops (s1, b1)) (concat (map (tick_message C cfg) ops))"
    using step Cons.prems(2) by (intro Cons.IH) auto
  with step show ?case by (simp add: op split_beta union_ac)
qed simp

end


subsection \<open>The agent on the memory buffer\<close>

text \<open>Any publisher, with a log of the messages it acknowledged.\<close>

definition logged :: "'p handler \<Rightarrow> ('p \<times> message list) handler" where
  "logged publish t m s =
     (case publish t m (fst s) of
        (p', None) \<Rightarrow> ((p', snd s @ [(t, m)]), None)
      | (p', Some err) \<Rightarrow> ((p', snd s), Some err))"

interpretation agent_mem: agent_io "logged publish" snd Push Drain messages buffer_inv msg_fits has_room
  for publish :: "'p handler"
proof unfold_locales
  show "snd s' = snd s @ [(t, m)]" if "logged publish t m s = (s', None)" for t m s s'
    using that by (auto simp: logged_def split: prod.splits option.splits)
  show "snd s' = snd s" if "logged publish t m s = (s', Some err)" for t m s s' err
    using that by (auto simp: logged_def split: prod.splits option.splits)
qed

abbreviation run_agent :: "'p handler \<Rightarrow> codec \<Rightarrow> Config \<Rightarrow> agent_tick list
    \<Rightarrow> ('p \<times> message list) \<times> MemoryBuffer
    \<Rightarrow> (('p \<times> message list) \<times> MemoryBuffer) \<times> outcome list" where
  "run_agent publish \<equiv> agent_run (logged publish) Push Drain Len"

abbreviation agent_losses :: "'p handler \<Rightarrow> codec \<Rightarrow> Config \<Rightarrow> agent_tick list
    \<Rightarrow> ('p \<times> message list) \<times> MemoryBuffer \<Rightarrow> message list" where
  "agent_losses publish \<equiv> losses (logged publish) Push Drain Len has_room"

subsection \<open>Properties\<close>

text \<open>
  C2: no message is lost silently or acknowledged twice. Take any sequence of test executions,
  heartbeats and drains over any transport, and the messages its ticks have to send, which their
  definition takes from the outcomes of the tests alone. Acknowledged, buffered and lost messages
  together are, with multiplicity, those acknowledged or buffered before and those messages. Lost
  are exactly the messages the transport refused at their tick, a result only if the buffer had
  no room for it either, and the agent reports just these, in order.
\<close>

theorem agent_conserves_messages:
  assumes "buffer_inv b"
    and "run_agent publish C cfg ops (s, b) = ((s', b'), outs)"
    and "list_all (\<lambda>m. msg_fits b (snd m)) (concat (map (tick_message C cfg) (filter executes ops)))"
  shows "mset (snd s') + mset (messages b') + mset (agent_losses publish C cfg ops (s, b)) =
      mset (snd s) + mset (messages b) + mset (concat (map (tick_message C cfg) ops)) \<and>
    concat (map reported_lost outs) = agent_losses publish C cfg ops (s, b) \<and>
    buffer_inv b'"
proof -
  have "msg_fits b (snd m)"
    if "op \<in> set ops" "executes op" "m \<in> set (tick_message C cfg op)" for op m
    using that assms(3) by (auto simp: list_all_iff)
  from agent_mem.agent_run_balanced [where publish = publish and len = Len and C = C and cfg = cfg
      and ops = ops and s = s, OF assms(1) this] assms(2)
  show ?thesis by simp
qed

text \<open>
  For the witnesses: a transport that is down for its first three calls, and a test that fails.
  With room for one message the first result is buffered, the second lost, the heartbeat too; a
  drain then delivers the first.
\<close>

definition down_thrice :: "nat handler" where
  "down_thrice t m n = (Suc n, if n < 3 then Some ''timeout'' else None)"

definition demo_print :: codec where
  "demo_print = \<lparr>parse_json = (\<lambda>_. None), print_json = (\<lambda>_. ''r''), parse_time = (\<lambda>_. None),
     print_time = (\<lambda>_. Some [])\<rparr>"

definition demo_test :: TestDefinition where
  "demo_test = \<lparr>td_ID = ''1'', td_Type = ''ping'', td_Target = ''h'', td_Interval = 1,
     td_Timeout = 1, td_Config = []\<rparr>"

definition demo_ticks :: "agent_tick list" where
  "demo_ticks = [ExecTick 1 (Exec_error ''e'') demo_test, ExecTick 2 (Exec_error ''e'') demo_test,
     HeartbeatTick 3, DrainTick]"

lemmas agent_run_defs = executeTest_def publishResult_def failure_result_def marshal_Result_def
  enc_Result_def sendHeartbeat_def demo_print_def logged_def result_topic_def demo_test_def
  Push_def NewMemoryBuffer_def drainTick_def Len_def Drain_def wrap64_def demo_ticks_def

lemma demo_run:
  "run_agent down_thrice demo_print (DefaultConfig ''/root'') demo_ticks ((0, []), NewMemoryBuffer 1) =
   (((4, [(''netvantage.ping.results'', ''r'')]), NewMemoryBuffer 1),
    [Buffered (''netvantage.ping.results'', ''r''), Dropped (''netvantage.ping.results'', ''r''),
     HeartbeatLost (''netvantage.agent.heartbeat'', ''r'')])"
  by (simp add: agent_run_defs down_thrice_def Let_def)

lemma agent_conserves_messages_witness:
  "let run = run_agent down_thrice demo_print (DefaultConfig ''/root'') demo_ticks
         ((0, []), NewMemoryBuffer 1)
   in mset (snd (fst (fst run))) + mset (messages (snd (fst run)))
        + mset (concat (map reported_lost (snd run))) =
      {#(''netvantage.ping.results'', ''r''), (''netvantage.ping.results'', ''r''),
        (''netvantage.agent.heartbeat'', ''r'')#}"
  using agent_conserves_messages [OF _ demo_run] buffer_inv_new [of 1]
  unfolding demo_run Let_def
  by (simp add: in_int64_def msg_fits_def NewMemoryBuffer_def demo_ticks_def demo_test_def
      demo_print_def marshal_Result_def enc_Result_def failure_result_def)

text \<open>
  After an outage, one tick of the drain loop over a transport that works again empties
  the buffer and delivers everything in it in the order it was buffered.
\<close>

theorem drain_after_outage:
  assumes "buffer_inv b" "\<And>t d s. snd (publish t d s) = None"
  shows "messages (snd (drainTick (logged publish) Drain Len (s, b))) = [] \<and>
    snd (fst (drainTick (logged publish) Drain Len (s, b))) = snd s @ messages b"
proof (intro conjI)
  have "snd (logged publish t d s) = None" for t d s
    using assms(2) [of t d "fst s"] by (auto simp: logged_def split: prod.splits option.splits)
  from agent_mem.drainTick_all_ok [where publish = publish and len = Len and s = s, OF assms(1) _ this]
  show "messages (snd (drainTick (logged publish) Drain Len (s, b))) = []"
    "snd (fst (drainTick (logged publish) Drain Len (s, b))) = snd s @ messages b"
    by (simp_all add: Len_def)
qed

lemma drain_after_outage_witness:
  "snd (fst (drainTick (logged (\<lambda>t d s. (s, None))) Drain Len (((), []), demo_buffer))) =
     [(''t'', ''1''), (''t'', ''2'')]"
  using drain_after_outage [THEN conjunct2, OF demo_buffer_inv, of "\<lambda>t d s. (s, None)" "((), [])"]
  by (simp add: demo_buffer_messages)


text \<open>
  \<open>Run\<close> starts a loop for exactly the static tests whose type has a registered canary,
  with the canary registered under that type. It panics exactly when the heartbeat interval or
  the interval of such a test is not positive; \<open>Validate\<close> checks neither.
\<close>

theorem run_loops_started:
  "(run_loops a = None \<longleftrightarrow> HeartbeatInterval (ag_cfg a) \<le> 0
      \<or> (\<exists>t. t \<in> set (loadTests a) \<and> ag_canaries a (td_Type t) \<noteq> None \<and> td_Interval t \<le> 0))
   \<and> (case run_loops a of
        None \<Rightarrow> True
      | Some loops \<Rightarrow>
          set loops = {(t, c). t \<in> set (loadTests a) \<and> ag_canaries a (td_Type t) = Some c})"
proof -
  let ?loops = "List.map_filter (\<lambda>t. map_option (Pair t) (ag_canaries a (td_Type t))) (loadTests a)"
  have loops: "set ?loops = {(t, c). t \<in> set (loadTests a) \<and> ag_canaries a (td_Type t) = Some c}"
    by (force simp: List.map_filter_def)
  have all: "list_all (\<lambda>(t, c). newTicker (td_Interval t) \<noteq> None) ?loops \<longleftrightarrow>
      (\<forall>t \<in> set (loadTests a). ag_canaries a (td_Type t) \<noteq> None \<longrightarrow> \<not> td_Interval t \<le> 0)"
    unfolding list_all_iff loops by (auto simp: newTicker_def)
  show ?thesis
    using loops all by (auto simp: run_loops_def Let_def newTicker_def split: if_splits)
qed

text \<open>
  There is a configuration that \<open>Validate\<close> accepts and with which the agent crashes on
  start, outside the recovery from panics in tests.
\<close>

theorem valid_config_can_crash:
  "\<exists>cfg c. Validate cfg = None \<and> cn_Type c = ''ping''
     \<and> run_loops (RegisterCanary c (new_agent cfg)) = None"
proof -
  let ?st = "\<lparr>st_ID = [], st_Type = ''ping'', st_Target = ''h'', st_Interval = 0, st_Timeout = 0,
    st_Config = []\<rparr>"
  let ?cfg = "(DefaultConfig ''/root'')\<lparr>StaticTests := [?st]\<rparr>"
  let ?c = "\<lparr>cn_Type = ''ping'', cn_Execute = (\<lambda>_ _. Exec_panic), cn_Validate = (\<lambda>_. None)\<rparr>"
  have "Validate ?cfg = None" by (simp add: Validate_ok config_ok_def DefaultConfig_def)
  moreover have "run_loops (RegisterCanary ?c (new_agent ?cfg)) = None"
    by (simp add: run_loops_def RegisterCanary_def new_agent_def loadTests_def newTicker_def
        DefaultConfig_def map_filter_simps)
  ultimately show ?thesis by (intro exI [of _ ?cfg] exI [of _ ?c]) simp
qed

end
