(* ===== verification/Metrics.thy ===== *)
theory Metrics
  imports GoFloat
begin

text \<open>
  The Prometheus metrics of the processor (\<open>New\<close> in internal/processor/processor.go) and of
  the correlation engine (\<open>New\<close> in internal/processor/correlation/correlation.go): their
  handles by the names of the Go fields, what each is registered as, and the calls
  \<open>m.WithLabelValues(...).Set(v)\<close> and \<open>m.WithLabelValues(...).Inc()\<close> a handler makes. A
  handler returns the list of its calls; \<open>gauges\<close> and \<open>counter\<close> read such a list the way the
  client library documents it.
\<close>

datatype metric =
    pingRTT | pingPacketLoss | pingJitter
  | dnsResolutionTime | dnsResponseCode
  | httpDuration | httpStatusCode | httpCertExpiry
  | tracerouteHopRTT | tracerouteHopLoss | tracerouteHopCount | traceroutePathChange
  | tracerouteReachable
  | resultsProcessed | processingErrors
  | mismatchTotal | correlationAge | matchStatus | correlationsRun

datatype vec_kind = GaugeVec | CounterVec

text \<open>What \<open>NewGaugeVec\<close> or \<open>NewCounterVec\<close> gets: kind, name, label names.\<close>

fun processor_vec :: "metric \<Rightarrow> (vec_kind \<times> string \<times> string list) option" where
  "processor_vec pingRTT =
     Some (GaugeVec, ''netvantage_ping_rtt_seconds'', [''target'', ''pop'', ''agent_id'', ''stat''])"
| "processor_vec pingPacketLoss =
     Some (GaugeVec, ''netvantage_ping_packet_loss_ratio'', [''target'', ''pop'', ''agent_id''])"
| "processor_vec pingJitter =
     Some (GaugeVec, ''netvantage_ping_jitter_seconds'', [''target'', ''pop'', ''agent_id''])"
| "processor_vec dnsResolutionTime =
     Some (GaugeVec, ''netvantage_dns_resolution_seconds'',
       [''target'', ''pop'', ''agent_id'', ''resolver'', ''record_type''])"
| "processor_vec dnsResponseCode =
     Some (GaugeVec, ''netvantage_dns_response_code'',
       [''target'', ''pop'', ''agent_id'', ''resolver'', ''response_code''])"
| "processor_vec httpDuration =
     Some (GaugeVec, ''netvantage_http_duration_seconds'',
       [''target'', ''pop'', ''agent_id'', ''phase''])"
| "processor_vec httpStatusCode =
     Some (GaugeVec, ''netvantage_http_status_code'', [''target'', ''pop'', ''agent_id''])"
| "processor_vec httpCertExpiry =
     Some (GaugeVec, ''netvantage_http_cert_expiry_days'', [''target'', ''pop'', ''agent_id''])"
| "processor_vec tracerouteHopRTT =
     Some (GaugeVec, ''netvantage_traceroute_hop_rtt_seconds'',
       [''target'', ''pop'', ''agent_id'', ''hop'', ''hop_ip'', ''hop_asn''])"
| "processor_vec tracerouteHopLoss =
     Some (GaugeVec, ''netvantage_traceroute_hop_loss_ratio'',
       [''target'', ''pop'', ''agent_id'', ''hop'', ''hop_ip''])"
| "processor_vec tracerouteHopCount =
     Some (GaugeVec, ''netvantage_traceroute_hop_count'', [''target'', ''pop'', ''agent_id''])"
| "processor_vec traceroutePathChange =
     Some (CounterVec, ''netvantage_traceroute_path_change_total'', [''target'', ''pop''])"
| "processor_vec tracerouteReachable =
     Some (GaugeVec, ''netvantage_traceroute_reachable'', [''target'', ''pop'', ''agent_id''])"
| "processor_vec resultsProcessed =
     Some (CounterVec, ''netvantage_processor_results_total'', [''test_type'', ''pop''])"
| "processor_vec processingErrors =
     Some (CounterVec, ''netvantage_processor_errors_total'', [''test_type'', ''error_type''])"
| "processor_vec _ = None"

fun engine_vec :: "metric \<Rightarrow> (vec_kind \<times> string \<times> string list) option" where
  "engine_vec mismatchTotal =
     Some (CounterVec, ''netvantage_path_correlation_mismatch_total'',
       [''prefix'', ''pop'', ''match_type''])"
| "engine_vec correlationAge =
     Some (GaugeVec, ''netvantage_path_correlation_age_seconds'', [''prefix'', ''pop''])"
| "engine_vec matchStatus =
     Some (GaugeVec, ''netvantage_path_correlation_status'', [''prefix'', ''pop'', ''target''])"
| "engine_vec correlationsRun =
     Some (CounterVec, ''netvantage_path_correlation_evaluations_total'', [''prefix'', ''pop''])"
| "engine_vec _ = None"

definition metric_vec :: "metric \<Rightarrow> (vec_kind \<times> string \<times> string list) option" where
  "metric_vec m = (case processor_vec m of Some v \<Rightarrow> Some v | None \<Rightarrow> engine_vec m)"

datatype metric_call = SetGauge metric "string list" float64 | IncCounter metric "string list"

text \<open>
  \<open>WithLabelValues\<close> panics when the number of values is not that of the label names, and only
  a gauge has \<open>Set\<close>: \<open>valid_call\<close> is a call that does neither. A label value that is not UTF-8
  makes the library panic too; that is left out, as all values come out of Go's JSON decoder,
  which replaces invalid bytes.
\<close>

definition valid_vec :: "vec_kind \<Rightarrow> metric \<Rightarrow> string list \<Rightarrow> bool" where
  "valid_vec k m ls =
     (case metric_vec m of
        None \<Rightarrow> False
      | Some (k', _, names) \<Rightarrow> k' = k \<and> length ls = length names)"

fun valid_call :: "metric_call \<Rightarrow> bool" where
  "valid_call (SetGauge m ls v) = valid_vec GaugeVec m ls"
| "valid_call (IncCounter m ls) = valid_vec CounterVec m ls"

subsection \<open>Reading a list of calls\<close>

fun apply_call :: "metric_call \<Rightarrow> (metric \<times> string list \<rightharpoonup> float64) \<Rightarrow> (metric \<times> string list \<rightharpoonup> float64)" where
  "apply_call (SetGauge m ls v) g = g((m, ls) \<mapsto> v)"
| "apply_call (IncCounter m ls) g = g"

definition gauges :: "metric_call list \<Rightarrow> metric \<times> string list \<rightharpoonup> float64" where
  "gauges cs = fold apply_call cs Map.empty"

definition counter :: "metric_call list \<Rightarrow> metric \<Rightarrow> string list \<Rightarrow> nat" where
  "counter cs m ls = count_list cs (IncCounter m ls)"

lemma gauges_Nil [simp]: "gauges [] = Map.empty"
  by (simp add: gauges_def)

lemma gauges_snoc [simp]: "gauges (cs @ [c]) = apply_call c (gauges cs)"
  by (simp add: gauges_def)

lemma gauges_append: "gauges (cs @ ds) = fold apply_call ds (gauges cs)"
  by (simp add: gauges_def)

lemma counter_Nil [simp]: "counter [] m ls = 0"
  by (simp add: counter_def)

lemma counter_Cons [simp]:
  "counter (c # cs) m ls = (if c = IncCounter m ls then Suc (counter cs m ls) else counter cs m ls)"
  by (simp add: counter_def)

lemma counter_append [simp]: "counter (cs @ ds) m ls = counter cs m ls + counter ds m ls"
  by (simp add: counter_def)

text \<open>A list of calls that sets no series of a metric leaves its gauges alone.\<close>

lemma fold_apply_call_other:
  "(\<And>v. SetGauge m ls v \<notin> set cs) \<Longrightarrow> fold apply_call cs g (m, ls) = g (m, ls)"
proof (induction cs arbitrary: g)
  case (Cons c cs)
  have "apply_call c g (m, ls) = g (m, ls)"
    using Cons.prems by (cases c) auto
  with Cons show ?case by auto
qed simp

text \<open>The last value set wins.\<close>

lemma fold_apply_call_last:
  "(\<And>v. SetGauge m ls v \<notin> set ds) \<Longrightarrow> fold apply_call (cs @ SetGauge m ls x # ds) g (m, ls) = Some x"
  by (simp add: fold_apply_call_other)

end
