(* ===== verification/Correlation.thy ===== *)
theory Correlation
  imports GoJson Metrics
begin

text \<open>
  The BGP and traceroute correlation engine (internal/processor/correlation/correlation.go):
  its three maps, the handlers that update them, the comparison of two AS paths and the
  metrics it reports. A call to \<open>time.Now\<close> is an argument \<open>now\<close>; the order in which Go
  iterates over a map is an argument too.
\<close>

subsection \<open>State\<close>

record BGPPathInfo =
  bp_Prefix :: string
  bp_OriginASN :: int
  bp_ASPath :: "int list"
  bp_PeerASN :: int
  bp_Collector :: string
  bp_UpdatedAt :: int

record TraceroutePathInfo =
  tp_Target :: string
  tp_POPName :: string
  tp_AgentID :: string
  tp_ASPath :: "int list"
  tp_HopCount :: int
  tp_Reached :: bool
  tp_UpdatedAt :: int

datatype MatchType = MatchExact | MatchPartial | MatchMismatch | MatchInsufficient

record CorrelationResult =
  cr_Prefix :: string
  cr_Target :: string
  cr_POPName :: string
  cr_BGPPath :: "int list"
  cr_TraceroutePath :: "int list"
  cr_Match :: MatchType
  cr_Details :: string
  cr_Timestamp :: int

record engine =
  bgpPaths :: "string \<rightharpoonup> BGPPathInfo"
  traceroutePaths :: "string \<rightharpoonup> TraceroutePathInfo"
  prefixTargetMap :: "string \<rightharpoonup> string"

definition new_engine :: engine where
  "new_engine = \<lparr>bgpPaths = Map.empty, traceroutePaths = Map.empty, prefixTargetMap = Map.empty\<rparr>"

subsection \<open>Comparing AS paths\<close>

text \<open>The inner loop of \<open>isSubsequence\<close>: does \<open>full[i..]\<close> start with \<open>sub\<close>?\<close>

function segment_matches :: "int list \<Rightarrow> int list \<Rightarrow> nat \<Rightarrow> nat \<Rightarrow> bool" where
  "segment_matches sub full i j =
     (if j < length sub
      then (if full ! (i + j) \<noteq> sub ! j then False else segment_matches sub full i (Suc j))
      else True)"
  by pat_completeness auto
termination
  by (relation "measure (\<lambda>(sub, full, i, j). length sub - j)") auto

declare segment_matches.simps [simp del]

text \<open>The outer loop, with \<open>i\<close> running up to \<open>len(full)-len(sub)\<close>.\<close>

function find_segment :: "int list \<Rightarrow> int list \<Rightarrow> nat \<Rightarrow> bool" where
  "find_segment sub full i =
     (if i \<le> length full - length sub
      then (if segment_matches sub full i 0 then True else find_segment sub full (Suc i))
      else False)"
  by pat_completeness auto
termination
  by (relation "measure (\<lambda>(sub, full, i). Suc (length full) - i)") auto

declare find_segment.simps [simp del]

definition isSubsequence :: "int list \<Rightarrow> int list \<Rightarrow> bool" where
  "isSubsequence sub full =
     (if length sub = 0 then True
      else if length sub > length full then False
      else find_segment sub full 0)"

text \<open>\<open>pathOverlap\<close>: the set of the first path, then a count over the second.\<close>

definition pathOverlap :: "int list \<Rightarrow> int list \<Rightarrow> nat" where
  "pathOverlap a b =
     (let m = fold (\<lambda>asn s. insert asn s) a {}
      in fold (\<lambda>asn count. if asn \<in> m then Suc count else count) b 0)"

text \<open>\<open>asPathStr\<close> joins with the UTF-8 bytes of the arrow U+2192 between two blanks.\<close>

definition asPathStr :: "int list \<Rightarrow> string" where
  "asPathStr path = str_join ('' '' @ [CHR 0xE2, CHR 0x86, CHR 0x92] @ '' '') (map itoa path)"

definition evaluate :: "int \<Rightarrow> BGPPathInfo \<Rightarrow> TraceroutePathInfo \<Rightarrow> CorrelationResult" where
  "evaluate now bgp tr =
     (let result = \<lambda>m d. \<lparr>cr_Prefix = bp_Prefix bgp, cr_Target = tp_Target tr,
            cr_POPName = tp_POPName tr, cr_BGPPath = bp_ASPath bgp,
            cr_TraceroutePath = tp_ASPath tr, cr_Match = m, cr_Details = d,
            cr_Timestamp = now\<rparr>
      in if \<not> tp_Reached tr \<or> length (tp_ASPath tr) < 2
         then result MatchInsufficient
                ''traceroute did not reach target or has insufficient AS data''
         else if length (bp_ASPath bgp) = 0
         then result MatchInsufficient ''BGP path is empty''
         else
           let bgpOrigin = bp_ASPath bgp ! (length (bp_ASPath bgp) - 1);
               trOrigin = tp_ASPath tr ! (length (tp_ASPath tr) - 1)
           in if bgpOrigin \<noteq> trOrigin
              then result MatchMismatch
                     (''origin AS mismatch: BGP says AS'' @ itoa bgpOrigin
                      @ '', traceroute observed AS'' @ itoa trOrigin)
              else if isSubsequence (tp_ASPath tr) (bp_ASPath bgp)
              then result MatchExact
                     ''traceroute AS path is consistent with BGP-announced path''
              else
                let overlap = pathOverlap (bp_ASPath bgp) (tp_ASPath tr)
                in if overlap > 0
                   then result MatchPartial
                          (''origin AS matches (AS'' @ itoa bgpOrigin
                           @ '') but transit paths diverge; '' @ itoa (int overlap)
                           @ '' ASNs overlap'')
                   else result MatchMismatch
                          (''origin AS matches (AS'' @ itoa bgpOrigin
                           @ '') but no transit path overlap''))"

subsection \<open>Reporting\<close>

fun status_val :: "MatchType \<Rightarrow> float64" where
  "status_val MatchExact = 1"
| "status_val MatchPartial = 1 / 2"
| "status_val MatchMismatch = 0"
| "status_val MatchInsufficient = - 1"

fun mismatch_calls :: "MatchType \<Rightarrow> string \<Rightarrow> string \<Rightarrow> metric_call list" where
  "mismatch_calls MatchPartial prefix' pop = [IncCounter mismatchTotal [prefix', pop, ''partial'']]"
| "mismatch_calls MatchMismatch prefix' pop = [IncCounter mismatchTotal [prefix', pop, ''mismatch'']]"
| "mismatch_calls _ prefix' pop = []"

definition recordResult :: "CorrelationResult \<Rightarrow> metric_call list" where
  "recordResult r =
     [IncCounter correlationsRun [cr_Prefix r, cr_POPName r],
      SetGauge correlationAge [cr_Prefix r, cr_POPName r] 0]
     @ mismatch_calls (cr_Match r) (cr_Prefix r) (cr_POPName r)
     @ [SetGauge matchStatus [cr_Prefix r, cr_POPName r, cr_Target r] (status_val (cr_Match r))]"

subsection \<open>Correlation\<close>

definition path_key :: "string \<Rightarrow> string \<Rightarrow> string" where
  "path_key target popName = target @ ''@'' @ popName"

definition correlateTarget :: "int \<Rightarrow> string \<Rightarrow> string \<Rightarrow> engine \<Rightarrow> metric_call list" where
  "correlateTarget now target popName e =
     (case prefixTargetMap e target of
        None \<Rightarrow> []
      | Some p \<Rightarrow>
          (case (bgpPaths e p, traceroutePaths e (path_key target popName)) of
             (Some bgpInfo, Some trInfo) \<Rightarrow> recordResult (evaluate now bgpInfo trInfo)
           | _ \<Rightarrow> []))"

text \<open>
  \<open>correlatePrefix\<close> collects the targets of the prefix, then for each target goes through
  the stored traceroute paths. \<open>targets\<close> is the order in which the first loop meets the keys
  of \<open>prefixTargetMap\<close>, \<open>keys t\<close> the order in which the second loop meets those of
  \<open>traceroutePaths\<close> for the target \<open>t\<close>. The function only
  reads; it releases the lock between two targets, and the model lets no other method in there.
\<close>

definition correlate_key :: "int \<Rightarrow> string \<Rightarrow> engine \<Rightarrow> string \<Rightarrow> metric_call list" where
  "correlate_key now target e key =
     (case traceroutePaths e key of
        None \<Rightarrow> []
      | Some trInfo \<Rightarrow>
          if tp_Target trInfo = target
          then correlateTarget now target (trim_prefix key (target @ ''@'')) e
          else [])"

definition correlatePrefix ::
  "int \<Rightarrow> string list \<Rightarrow> (string \<Rightarrow> string list) \<Rightarrow> string \<Rightarrow> engine \<Rightarrow> metric_call list" where
  "correlatePrefix now targets keys p e =
     concat (map (\<lambda>t. concat (map (correlate_key now t e) (keys t)))
       (filter (\<lambda>t. prefixTargetMap e t = Some p) targets))"

subsection \<open>Handlers\<close>

record BGPUpdate =
  bu_Prefix :: string
  bu_OriginASN :: int
  bu_ASPath :: "int list"
  bu_PeerASN :: int
  bu_Collector :: string
  bu_EventType :: string
  bu_Timestamp :: string

definition zero_BGPUpdate :: BGPUpdate where
  "zero_BGPUpdate = \<lparr>bu_Prefix = [], bu_OriginASN = 0, bu_ASPath = [], bu_PeerASN = 0,
     bu_Collector = [], bu_EventType = [], bu_Timestamp = []\<rparr>"

definition BGPUpdate_fields :: "BGPUpdate fields" where
  "BGPUpdate_fields =
     [(''prefix'', field bu_Prefix bu_Prefix_update dec_string),
      (''origin_asn'', field bu_OriginASN bu_OriginASN_update dec_int),
      (''as_path'', field bu_ASPath bu_ASPath_update (\<lambda>_. dec_list (dec_int 0))),
      (''peer_asn'', field bu_PeerASN bu_PeerASN_update dec_int),
      (''collector'', field bu_Collector bu_Collector_update dec_string),
      (''event_type'', field bu_EventType bu_EventType_update dec_string),
      (''timestamp'', field bu_Timestamp bu_Timestamp_update dec_string)]"

definition dec_BGPUpdate :: "json \<Rightarrow> BGPUpdate option" where
  "dec_BGPUpdate = dec_struct BGPUpdate_fields zero_BGPUpdate"

text \<open>The two effects of a decoded update: a withdrawal, or a new path and its correlation.\<close>

definition withdraw_path :: "string \<Rightarrow> engine \<Rightarrow> engine" where
  "withdraw_path p e = e\<lparr>bgpPaths := (bgpPaths e)(p := None)\<rparr>"

definition bgp_info :: "int \<Rightarrow> BGPUpdate \<Rightarrow> BGPPathInfo" where
  "bgp_info now u = \<lparr>bp_Prefix = bu_Prefix u, bp_OriginASN = bu_OriginASN u,
     bp_ASPath = bu_ASPath u, bp_PeerASN = bu_PeerASN u, bp_Collector = bu_Collector u,
     bp_UpdatedAt = now\<rparr>"

definition store_path :: "int \<Rightarrow> BGPUpdate \<Rightarrow> engine \<Rightarrow> engine" where
  "store_path now u e = e\<lparr>bgpPaths := (bgpPaths e)(bu_Prefix u \<mapsto> bgp_info now u)\<rparr>"

text \<open>
  \<open>HandleBGPUpdate\<close> never returns an error: a message that cannot be decoded is dropped. The
  result is the new engine and the calls on the metrics.
\<close>

definition HandleBGPUpdate ::
  "codec \<Rightarrow> int \<Rightarrow> string list \<Rightarrow> (string \<Rightarrow> string list) \<Rightarrow> bytes \<Rightarrow> engine
     \<Rightarrow> engine \<times> metric_call list" where
  "HandleBGPUpdate C now targets keys msg e =
     (case unmarshal C dec_BGPUpdate msg of
        None \<Rightarrow> (e, [])
      | Some update \<Rightarrow>
          if bu_EventType update = ''withdrawal''
          then (withdraw_path (bu_Prefix update) e, [])
          else let e' = store_path now update e
               in (e', correlatePrefix now targets keys (bu_Prefix update) e'))"

definition HandleTracerouteResult ::
  "int \<Rightarrow> string \<Rightarrow> string \<Rightarrow> string \<Rightarrow> int list \<Rightarrow> int \<Rightarrow> bool \<Rightarrow> engine
     \<Rightarrow> engine \<times> metric_call list" where
  "HandleTracerouteResult now target popName agentID asPath hopCount reached e =
     (let info = \<lparr>tp_Target = target, tp_POPName = popName, tp_AgentID = agentID,
            tp_ASPath = asPath, tp_HopCount = hopCount, tp_Reached = reached,
            tp_UpdatedAt = now\<rparr>;
          e' = e\<lparr>traceroutePaths := (traceroutePaths e)(path_key target popName \<mapsto> info)\<rparr>
      in (e', correlateTarget now target popName e'))"

definition RegisterPrefix :: "string \<Rightarrow> string \<Rightarrow> engine \<Rightarrow> engine" where
  "RegisterPrefix target p e = e\<lparr>prefixTargetMap := (prefixTargetMap e)(target \<mapsto> p)\<rparr>"

definition GetCorrelationState :: "int \<Rightarrow> engine \<Rightarrow> string \<rightharpoonup> CorrelationResult" where
  "GetCorrelationState now e key =
     (case traceroutePaths e key of
        None \<Rightarrow> None
      | Some trInfo \<Rightarrow>
          (case prefixTargetMap e (tp_Target trInfo) of
             None \<Rightarrow> None
           | Some p \<Rightarrow> map_option (\<lambda>bgpInfo. evaluate now bgpInfo trInfo) (bgpPaths e p)))"

subsection \<open>The two path routines against their specifications\<close>

lemma segment_matches_iff:
  "segment_matches sub full i j \<longleftrightarrow> (\<forall>k. j \<le> k \<and> k < length sub \<longrightarrow> full ! (i + k) = sub ! k)"
proof (induction sub full i j rule: segment_matches.induct)
  case (1 sub full i j)
  show ?case
  proof (cases "j < length sub \<and> full ! (i + j) = sub ! j")
    case True
    with 1 have "segment_matches sub full i (Suc j) \<longleftrightarrow>
        (\<forall>k. Suc j \<le> k \<and> k < length sub \<longrightarrow> full ! (i + k) = sub ! k)"
      by simp
    with True show ?thesis
      by (subst segment_matches.simps) (auto simp: Suc_le_eq nat_less_le)
  next
    case False
    then show ?thesis by (subst segment_matches.simps) auto
  qed
qed

lemma segment_matches_0:
  assumes "i + length sub \<le> length full"
  shows "segment_matches sub full i 0 \<longleftrightarrow> take (length sub) (drop i full) = sub"
  using assms by (auto simp: segment_matches_iff list_eq_iff_nth_eq)

lemma find_segment_iff:
  assumes "length sub \<le> length full"
  shows "find_segment sub full i \<longleftrightarrow>
    (\<exists>k. i \<le> k \<and> k + length sub \<le> length full \<and> take (length sub) (drop k full) = sub)"
  using assms
proof (induction sub full i rule: find_segment.induct)
  case (1 sub full i)
  show ?case
  proof (cases "i + length sub \<le> length full \<and> \<not> segment_matches sub full i 0")
    case True
    then have "i \<le> length full - length sub" by arith
    with True 1 have "find_segment sub full (Suc i) \<longleftrightarrow>
        (\<exists>k. Suc i \<le> k \<and> k + length sub \<le> length full \<and> take (length sub) (drop k full) = sub)"
      by simp
    with True "1.prems" show ?thesis
      by (subst find_segment.simps) (auto simp: segment_matches_0 Suc_le_eq nat_less_le)
  next
    case False
    with "1.prems" show ?thesis
      by (subst find_segment.simps) (auto simp: segment_matches_0)
  qed
qed

lemma sublist_iff_take_drop:
  "sublist xs ys \<longleftrightarrow> (\<exists>k. k + length xs \<le> length ys \<and> take (length xs) (drop k ys) = xs)"
proof
  assume "sublist xs ys"
  then obtain ps ss where "ys = ps @ xs @ ss" by (auto simp: sublist_def)
  then have "length ps + length xs \<le> length ys \<and> take (length xs) (drop (length ps) ys) = xs"
    by simp
  then show "\<exists>k. k + length xs \<le> length ys \<and> take (length xs) (drop k ys) = xs" by blast
next
  assume "\<exists>k. k + length xs \<le> length ys \<and> take (length xs) (drop k ys) = xs"
  then obtain k where "take (length xs) (drop k ys) = xs" by blast
  then have "ys = take k ys @ xs @ drop (length xs) (drop k ys)"
    by (metis append_take_drop_id)
  then show "sublist xs ys" unfolding sublist_def by blast
qed

lemma isSubsequence_sublist: "isSubsequence sub full \<longleftrightarrow> sublist sub full"
  by (auto simp: isSubsequence_def find_segment_iff sublist_iff_take_drop)

lemma fold_insert_set: "fold (\<lambda>x s. insert x s) xs s = set xs \<union> s"
  by (induction xs arbitrary: s) auto

lemma fold_count_filter:
  "fold (\<lambda>x c. if P x then Suc c else c) xs n = n + length (filter P xs)"
  by (induction xs arbitrary: n) auto

lemma pathOverlap_filter: "pathOverlap a b = length (filter (\<lambda>x. x \<in> set a) b)"
  by (simp add: pathOverlap_def fold_insert_set fold_count_filter)

lemma pathOverlap_card: "distinct b \<Longrightarrow> pathOverlap a b = card (set a \<inter> set b)"
  by (simp add: pathOverlap_filter distinct_length_filter Int_commute)

lemma pathOverlap_pos: "pathOverlap a b > 0 \<longleftrightarrow> set a \<inter> set b \<noteq> {}"
  by (auto simp: pathOverlap_filter filter_empty_conv)

subsection \<open>The classification\<close>

text \<open>What \<open>evaluate\<close> is meant to decide, from the two paths alone.\<close>

definition match_spec :: "bool \<Rightarrow> int list \<Rightarrow> int list \<Rightarrow> MatchType" where
  "match_spec reached bgp tr =
     (if reached \<and> 2 \<le> length tr \<and> bgp \<noteq> []
      then if last bgp \<noteq> last tr then MatchMismatch
           else if sublist tr bgp then MatchExact
           else MatchPartial
      else MatchInsufficient)"

lemma last_conv_pred_nth: "xs \<noteq> [] \<Longrightarrow> xs ! (length xs - Suc 0) = last xs"
  by (simp add: last_conv_nth)

text \<open>Paths with the same last AS overlap: the branch for no overlap is never taken.\<close>

lemma pathOverlap_same_origin:
  "a \<noteq> [] \<Longrightarrow> b \<noteq> [] \<Longrightarrow> last a = last b \<Longrightarrow> pathOverlap a b > 0"
  using last_in_set [of a] last_in_set [of b] by (auto simp: pathOverlap_pos)

lemma evaluate_sel [simp]:
  "cr_Prefix (evaluate now bgp tr) = bp_Prefix bgp"
  "cr_Target (evaluate now bgp tr) = tp_Target tr"
  "cr_POPName (evaluate now bgp tr) = tp_POPName tr"
  "cr_BGPPath (evaluate now bgp tr) = bp_ASPath bgp"
  "cr_TraceroutePath (evaluate now bgp tr) = tp_ASPath tr"
  "cr_Timestamp (evaluate now bgp tr) = now"
  by (simp_all add: evaluate_def Let_def)

lemma evaluate_match_cases:
  "cr_Match (evaluate now bgp tr) = match_spec (tp_Reached tr) (bp_ASPath bgp) (tp_ASPath tr)"
proof (cases "tp_Reached tr \<and> 2 \<le> length (tp_ASPath tr) \<and> bp_ASPath bgp \<noteq> []")
  case True
  then have ne: "tp_ASPath tr \<noteq> []" "bp_ASPath bgp \<noteq> []" by auto
  from True ne show ?thesis
    using pathOverlap_same_origin [OF ne(2) ne(1)]
    by (simp add: evaluate_def match_spec_def Let_def last_conv_pred_nth isSubsequence_sublist)
next
  case False
  then show ?thesis by (auto simp: evaluate_def match_spec_def Let_def)
qed

lemma evaluate_match_sel [simp]:
  "cr_Match (evaluate now bgp tr) = match_spec (tp_Reached tr) (bp_ASPath bgp) (tp_ASPath tr)"
  by (rule evaluate_match_cases)

subsection \<open>The keys of the traceroute map\<close>

lemma path_key_same_target [simp]: "path_key t p = path_key t q \<longleftrightarrow> p = q"
  by (simp add: path_key_def)

lemma path_key_trim [simp]: "trim_prefix (path_key t p) (t @ ''@'') = p"
  unfolding path_key_def append_assoc [symmetric] by (rule trim_prefix_append)

lemma path_key_inject:
  assumes "CHR ''@'' \<notin> set p" "CHR ''@'' \<notin> set q"
  shows "path_key t p = path_key u q \<longleftrightarrow> t = u \<and> p = q"
proof
  assume eq: "path_key t p = path_key u q"
  then have "last_index CHR ''@'' (path_key t p) = last_index CHR ''@'' (path_key u q)" by simp
  with assms have "length t = length u" by (simp add: path_key_def last_index_append)
  with eq show "t = u \<and> p = q" by (simp add: path_key_def)
qed simp

subsection \<open>The reachable engines\<close>

text \<open>
  The engine's state machine: one rule per method that changes it. The iteration orders of
  the two map loops are any orders of the maps' keys. A method is one step; the lock that
  \<open>correlatePrefix\<close> releases between two targets lets no other method in.
\<close>

inductive engine_step :: "engine \<Rightarrow> engine \<Rightarrow> metric_call list \<Rightarrow> bool" where
  bgp_update: "\<lbrakk>iteration_order targets (prefixTargetMap e);
      \<And>t. iteration_order (keys t) (traceroutePaths e);
      HandleBGPUpdate C now targets keys msg e = (e', calls)\<rbrakk> \<Longrightarrow> engine_step e e' calls"
| traceroute_result:
    "HandleTracerouteResult now target popName agentID asPath hopCount reached e = (e', calls)
      \<Longrightarrow> engine_step e e' calls"
| register_prefix: "engine_step e (RegisterPrefix target p e) []"

inductive reachable_engine :: "engine \<Rightarrow> bool" where
  start: "reachable_engine new_engine"
| step: "reachable_engine e \<Longrightarrow> engine_step e e' calls \<Longrightarrow> reachable_engine e'"

definition engine_inv :: "engine \<Rightarrow> bool" where
  "engine_inv e \<longleftrightarrow>
     (\<forall>k tr. traceroutePaths e k = Some tr \<longrightarrow> k = path_key (tp_Target tr) (tp_POPName tr))
     \<and> (\<forall>p b. bgpPaths e p = Some b \<longrightarrow> bp_Prefix b = p)"

lemma engine_invD:
  assumes "engine_inv e"
  shows "traceroutePaths e k = Some tr \<Longrightarrow> k = path_key (tp_Target tr) (tp_POPName tr)"
    and "bgpPaths e p = Some b \<Longrightarrow> bp_Prefix b = p"
  using assms by (auto simp: engine_inv_def)

lemma engine_inv_new [inv_intros]: "engine_inv new_engine"
  by (simp add: engine_inv_def new_engine_def)

lemma engine_inv_withdraw [inv_intros]: "engine_inv e \<Longrightarrow> engine_inv (withdraw_path p e)"
  by (auto simp: engine_inv_def withdraw_path_def)

lemma engine_inv_store [inv_intros]: "engine_inv e \<Longrightarrow> engine_inv (store_path now u e)"
  by (auto simp: engine_inv_def store_path_def bgp_info_def)

lemma HandleBGPUpdate_fst:
  "fst (HandleBGPUpdate C now targets keys msg e) =
     (case unmarshal C dec_BGPUpdate msg of
        None \<Rightarrow> e
      | Some u \<Rightarrow> if bu_EventType u = ''withdrawal'' then withdraw_path (bu_Prefix u) e
                  else store_path now u e)"
  by (simp add: HandleBGPUpdate_def Let_def split: option.split)

lemma engine_inv_bgp [inv_intros]:
  "engine_inv e \<Longrightarrow> engine_inv (fst (HandleBGPUpdate C now targets keys msg e))"
  by (auto simp: HandleBGPUpdate_fst intro: inv_intros split: option.split)

lemma engine_inv_traceroute [inv_intros]:
  "engine_inv e \<Longrightarrow> engine_inv (fst (HandleTracerouteResult now t p a path hc r e))"
  by (auto simp: engine_inv_def HandleTracerouteResult_def Let_def)

lemma engine_inv_register [inv_intros]: "engine_inv e \<Longrightarrow> engine_inv (RegisterPrefix t p e)"
  by (simp add: engine_inv_def RegisterPrefix_def)

lemma engine_step_inv: "engine_step e e' calls \<Longrightarrow> engine_inv e \<Longrightarrow> engine_inv e'"
proof (induction rule: engine_step.induct)
  case (bgp_update targets e keys C now msg e' calls)
  then show ?case using engine_inv_bgp [of e C now targets keys msg] by simp
next
  case (traceroute_result now target popName agentID asPath hopCount reached e e' calls)
  then show ?case
    using engine_inv_traceroute [of e now target popName agentID asPath hopCount reached] by simp
next
  case (register_prefix e target p)
  then show ?case by (rule engine_inv_register)
qed

lemma reachable_engine_inv: "reachable_engine e \<Longrightarrow> engine_inv e"
  by (induction rule: reachable_engine.induct) (auto intro: inv_intros engine_step_inv)

subsection \<open>What a correlation reports\<close>

lemma correlateTarget_Some:
  assumes "prefixTargetMap e t = Some p" "bgpPaths e p = Some b"
    "traceroutePaths e (path_key t pop) = Some tr"
  shows "correlateTarget now t pop e = recordResult (evaluate now b tr)"
  using assms by (simp add: correlateTarget_def)

lemma correlate_key_eq:
  assumes inv: "engine_inv e" and reg: "prefixTargetMap e t = Some p" and b: "bgpPaths e p = Some b"
  shows "correlate_key now t e key =
    (case traceroutePaths e key of
       None \<Rightarrow> []
     | Some tr \<Rightarrow> if tp_Target tr = t then recordResult (evaluate now b tr) else [])"
proof (cases "traceroutePaths e key")
  case (Some tr)
  show ?thesis
  proof (cases "tp_Target tr = t")
    case True
    with engine_invD(1) [OF inv Some] have key: "key = path_key t (tp_POPName tr)" by simp
    with Some True reg b show ?thesis
      by (simp add: correlate_key_def correlateTarget_Some)
  qed (simp add: correlate_key_def Some)
qed (simp add: correlate_key_def)

lemma set_recordResult_gauge:
  "SetGauge matchStatus ls v \<in> set (recordResult r) \<longleftrightarrow>
     ls = [cr_Prefix r, cr_POPName r, cr_Target r] \<and> v = status_val (cr_Match r)"
  by (cases "cr_Match r") (auto simp: recordResult_def)

lemma counter_recordResult:
  "counter (recordResult r) correlationsRun ls = (if ls = [cr_Prefix r, cr_POPName r] then 1 else 0)"
  by (cases "cr_Match r") (auto simp: recordResult_def)

text \<open>The traceroute paths a correlation of the prefix \<open>p\<close> compares: their keys.\<close>

definition covered :: "engine \<Rightarrow> string \<Rightarrow> (string \<times> string) set" where
  "covered e p = {(t, k). prefixTargetMap e t = Some p
     \<and> (\<exists>tr. traceroutePaths e k = Some tr \<and> tp_Target tr = t)}"

definition pairs :: "string list \<Rightarrow> (string \<Rightarrow> string list) \<Rightarrow> (string \<times> string) list" where
  "pairs ts ks = concat (map (\<lambda>t. map (Pair t) (ks t)) ts)"

lemma set_pairs: "set (pairs ts ks) = {(t, k). t \<in> set ts \<and> k \<in> set (ks t)}"
  by (auto simp: pairs_def)

lemma distinct_pairs: "distinct ts \<Longrightarrow> (\<And>t. distinct (ks t)) \<Longrightarrow> distinct (pairs ts ks)"
  by (induction ts) (auto simp: pairs_def distinct_map inj_on_def)

definition path_at :: "engine \<Rightarrow> string \<Rightarrow> TraceroutePathInfo" where
  "path_at e k = the (traceroutePaths e k)"

text \<open>
  Under the invariant, the calls of \<open>correlatePrefix\<close> are those of \<open>recordResult\<close> for the
  covered pairs, in the order of the two loops.
\<close>

lemma correlatePrefix_pairs:
  assumes inv: "engine_inv e" and b: "bgpPaths e p = Some b"
    and ts: "iteration_order ts (prefixTargetMap e)"
    and ks: "\<And>t. iteration_order (ks t) (traceroutePaths e)"
  shows "correlatePrefix now ts ks p e =
    concat (map (\<lambda>(t, k). recordResult (evaluate now b (path_at e k)))
      (filter (\<lambda>x. x \<in> covered e p) (pairs ts ks)))"
proof -
  have inner: "concat (map (correlate_key now t e) xs) =
      concat (map (\<lambda>(t, k). recordResult (evaluate now b (path_at e k)))
        (filter (\<lambda>x. x \<in> covered e p) (map (Pair t) xs)))"
    if "prefixTargetMap e t = Some p" for t xs
    using that
    by (induction xs)
      (auto simp: correlate_key_eq [OF inv that b] covered_def path_at_def split: option.splits)
  have skip: "filter (\<lambda>x. x \<in> covered e p) (map (Pair t) xs) = []"
    if "prefixTargetMap e t \<noteq> Some p" for t xs
    using that by (induction xs) (auto simp: covered_def)
  show ?thesis
    unfolding correlatePrefix_def pairs_def
    by (induction ts) (simp_all add: inner skip)
qed

lemma filter_pairs_set:
  assumes ts: "iteration_order ts (prefixTargetMap e)"
    and ks: "\<And>t. iteration_order (ks t) (traceroutePaths e)"
  shows "set (filter (\<lambda>x. x \<in> covered e p) (pairs ts ks)) = covered e p"
  using iteration_orderD(2) [OF ts] iteration_orderD(2) [OF ks]
  by (auto simp: set_pairs covered_def)

lemma filter_pairs_distinct:
  assumes ts: "iteration_order ts (prefixTargetMap e)"
    and ks: "\<And>t. iteration_order (ks t) (traceroutePaths e)"
  shows "distinct (filter (\<lambda>x. x \<in> covered e p) (pairs ts ks))"
  using iteration_orderD(1) [OF ts] iteration_orderD(1) [OF ks]
  by (intro distinct_filter distinct_pairs)

lemma covered_key:
  assumes "engine_inv e" "(t, k) \<in> covered e p"
  shows "k = path_key t (tp_POPName (path_at e k)) \<and> tp_Target (path_at e k) = t"
  using assms engine_invD(1) [of e k] by (auto simp: covered_def path_at_def)

text \<open>Distinct covered pairs write distinct series of the status gauge.\<close>

abbreviation pair_calls :: "int \<Rightarrow> BGPPathInfo \<Rightarrow> engine \<Rightarrow> string \<times> string \<Rightarrow> metric_call list" where
  "pair_calls now b e \<equiv> (\<lambda>(t, k). recordResult (evaluate now b (path_at e k)))"

lemma pair_calls_status:
  "SetGauge matchStatus [q, pop, t] v \<in> set (pair_calls now b e (u, k)) \<Longrightarrow>
     q = bp_Prefix b \<and> pop = tp_POPName (path_at e k) \<and> t = tp_Target (path_at e k)
     \<and> v = status_val (match_spec (tp_Reached (path_at e k)) (bp_ASPath b) (tp_ASPath (path_at e k)))"
  by (simp add: set_recordResult_gauge)

lemma recordResult_snoc:
  "\<exists>cs. recordResult r = cs @ [SetGauge matchStatus [cr_Prefix r, cr_POPName r, cr_Target r]
     (status_val (cr_Match r))]"
  by (simp add: recordResult_def)

lemma fold_pair_calls:
  assumes inv: "engine_inv e" and xs: "set xs \<subseteq> covered e p" "distinct xs" and x: "(t, k) \<in> set xs"
  shows "fold apply_call (concat (map (pair_calls now b e) xs)) g
      (matchStatus, [bp_Prefix b, tp_POPName (path_at e k), t]) =
    Some (status_val (match_spec (tp_Reached (path_at e k)) (bp_ASPath b) (tp_ASPath (path_at e k))))"
proof -
  define tr where "tr = path_at e k"
  obtain ys zs where split: "xs = ys @ (t, k) # zs" using split_list [OF x] by blast
  have tk: "(t, k) \<in> covered e p" using x xs(1) by blast
  have k: "k = path_key t (tp_POPName tr)" "tp_Target tr = t"
    using covered_key [OF inv tk] by (auto simp: tr_def)
  obtain cs where cs: "pair_calls now b e (t, k) =
      cs @ [SetGauge matchStatus [bp_Prefix b, tp_POPName tr, t]
        (status_val (match_spec (tp_Reached tr) (bp_ASPath b) (tp_ASPath tr)))]"
    using recordResult_snoc [of "evaluate now b tr"] k(2) by (auto simp: tr_def)
  have other: "SetGauge matchStatus [bp_Prefix b, tp_POPName tr, t] v
      \<notin> set (concat (map (pair_calls now b e) zs))" for v
  proof
    assume "SetGauge matchStatus [bp_Prefix b, tp_POPName tr, t] v
      \<in> set (concat (map (pair_calls now b e) zs))"
    then obtain u l where ul: "(u, l) \<in> set zs"
      and c: "SetGauge matchStatus [bp_Prefix b, tp_POPName tr, t] v \<in> set (pair_calls now b e (u, l))"
      by auto
    have "(u, l) \<in> covered e p" using ul split xs(1) by auto
    from covered_key [OF inv this] pair_calls_status [OF c] k have "(u, l) = (t, k)" by simp
    with ul split xs(2) show False by simp
  qed
  have "concat (map (pair_calls now b e) xs) =
      (concat (map (pair_calls now b e) ys) @ cs)
        @ SetGauge matchStatus [bp_Prefix b, tp_POPName tr, t]
            (status_val (match_spec (tp_Reached tr) (bp_ASPath b) (tp_ASPath tr)))
        # concat (map (pair_calls now b e) zs)"
    using cs by (simp add: split)
  with fold_apply_call_last [OF other] show ?thesis
    by (simp only: tr_def [symmetric])
qed

lemma counter_concat: "counter (concat (map f xs)) m ls = (\<Sum>x \<leftarrow> xs. counter (f x) m ls)"
  by (induction xs) auto

lemma counter_pair_calls:
  assumes "engine_inv e" "set xs \<subseteq> covered e p" "distinct xs" "bp_Prefix b = p"
  shows "counter (concat (map (pair_calls now b e) xs)) correlationsRun [p, pop] =
    card {t. (t, path_key t pop) \<in> set xs}"
proof -
  have one: "counter (pair_calls now b e x) correlationsRun [p, pop] =
      (if snd x = path_key (fst x) pop then 1 else 0)" if "x \<in> set xs" for x
  proof -
    obtain t k where x: "x = (t, k)" by (cases x)
    have "(t, k) \<in> covered e p" using that assms(2) x by blast
    then have "k = path_key t (tp_POPName (path_at e k))" using covered_key [OF assms(1)] by blast
    then have "k = path_key t pop \<longleftrightarrow> tp_POPName (path_at e k) = pop" by (metis path_key_same_target)
    then show ?thesis using assms(4) by (auto simp: x counter_recordResult)
  qed
  have "counter (concat (map (pair_calls now b e) xs)) correlationsRun [p, pop] =
      (\<Sum>x \<leftarrow> xs. if snd x = path_key (fst x) pop then 1 else 0)"
    unfolding counter_concat by (intro arg_cong [where f = sum_list] map_cong refl one)
  also have "\<dots> = length (filter (\<lambda>x. snd x = path_key (fst x) pop) xs)"
    by (induction xs) auto
  also have "\<dots> = card {x \<in> set xs. snd x = path_key (fst x) pop}"
    using assms(3) by (simp add: distinct_length_filter Collect_conj_eq Int_commute)
  also have "{x \<in> set xs. snd x = path_key (fst x) pop} =
      (\<lambda>t. (t, path_key t pop)) ` {t. (t, path_key t pop) \<in> set xs}"
    by force
  also have "card \<dots> = card {t. (t, path_key t pop) \<in> set xs}"
    by (intro card_image inj_onI) simp
  finally show ?thesis .
qed


subsection \<open>Which evaluations can happen\<close>

lemma set_recordResult_run:
  "IncCounter correlationsRun ls \<in> set (recordResult r) \<longleftrightarrow> ls = [cr_Prefix r, cr_POPName r]"
  by (cases "cr_Match r") (auto simp: recordResult_def)

lemma correlateTarget_run:
  assumes inv: "engine_inv e"
    and run: "IncCounter correlationsRun [p, pop] \<in> set (correlateTarget now t popName e)"
  shows "prefixTargetMap e t = Some p \<and> bgpPaths e p \<noteq> None
    \<and> (\<exists>tr. traceroutePaths e (path_key t popName) = Some tr \<and> tp_POPName tr = pop)"
proof -
  obtain q b tr where q: "prefixTargetMap e t = Some q" "bgpPaths e q = Some b"
      "traceroutePaths e (path_key t popName) = Some tr"
    using run by (auto simp: correlateTarget_def split: option.splits) (metis)
  with run have "[p, pop] = [bp_Prefix b, tp_POPName tr]"
    by (simp add: correlateTarget_Some set_recordResult_run)
  with q engine_invD(2) [OF inv q(2)] show ?thesis by simp
qed

lemma correlatePrefix_run:
  assumes inv: "engine_inv e"
    and run: "IncCounter correlationsRun [p, pop] \<in> set (correlatePrefix now ts ks q e)"
  shows "\<exists>t tr. prefixTargetMap e t = Some p \<and> bgpPaths e p \<noteq> None
    \<and> traceroutePaths e (path_key t pop) = Some tr \<and> tp_Target tr = t"
proof -
  obtain t k tr where k: "traceroutePaths e k = Some tr" "tp_Target tr = t"
    and c: "IncCounter correlationsRun [p, pop] \<in> set (correlateTarget now t (trim_prefix k (t @ ''@'')) e)"
    using run
    by (auto simp: correlatePrefix_def correlate_key_def split: option.splits if_splits) (metis)
  from engine_invD(1) [OF inv k(1)] k(2) have key: "k = path_key t (tp_POPName tr)" by simp
  from correlateTarget_run [OF inv c] key k show ?thesis by auto
qed

lemma engine_step_run:
  assumes inv: "engine_inv e" and st: "engine_step e e' calls"
    and run: "IncCounter correlationsRun [p, pop] \<in> set calls"
  shows "bgpPaths e' p \<noteq> None \<and> (\<exists>t tr. prefixTargetMap e' t = Some p
    \<and> traceroutePaths e' (path_key t pop) = Some tr \<and> tp_Target tr = t)"
proof -
  have inv': "engine_inv e'" by (rule engine_step_inv [OF st inv])
  from st show ?thesis
  proof cases
    case (bgp_update targets keys C now msg)
    then have "calls = [] \<or> (\<exists>q. calls = correlatePrefix now targets keys q e')"
      by (auto simp: HandleBGPUpdate_def Let_def split: option.splits if_splits)
    with run obtain q where "IncCounter correlationsRun [p, pop]
        \<in> set (correlatePrefix now targets keys q e')"
      by auto
    from correlatePrefix_run [OF inv' this] show ?thesis by blast
  next
    case (traceroute_result now target popName agentID asPath hopCount reached)
    then have c: "IncCounter correlationsRun [p, pop] \<in> set (correlateTarget now target popName e')"
      and tr: "tp_Target (the (traceroutePaths e' (path_key target popName))) = target"
         "tp_POPName (the (traceroutePaths e' (path_key target popName))) = popName"
      using run by (auto simp: HandleTracerouteResult_def Let_def)
    from correlateTarget_run [OF inv' c] tr show ?thesis by auto
  next
    case register_prefix
    with run show ?thesis by simp
  qed
qed

text \<open>Without a registered target the engine reports nothing.\<close>

lemma correlateTarget_unregistered:
  "prefixTargetMap e t = None \<Longrightarrow> correlateTarget now t popName e = []"
  by (simp add: correlateTarget_def)

lemma correlatePrefix_unregistered:
  "prefixTargetMap e = Map.empty \<Longrightarrow> correlatePrefix now ts ks p e = []"
  by (simp add: correlatePrefix_def)

lemma HandleBGPUpdate_prefixTargetMap [simp]:
  "prefixTargetMap (fst (HandleBGPUpdate C now ts ks msg e)) = prefixTargetMap e"
  by (simp add: HandleBGPUpdate_fst withdraw_path_def store_path_def split: option.split)

lemma HandleTracerouteResult_prefixTargetMap [simp]:
  "prefixTargetMap (fst (HandleTracerouteResult now t p a path hc r e)) = prefixTargetMap e"
  by (simp add: HandleTracerouteResult_def Let_def)

lemma HandleBGPUpdate_unregistered:
  "prefixTargetMap e = Map.empty \<Longrightarrow> snd (HandleBGPUpdate C now ts ks msg e) = []"
  by (simp add: HandleBGPUpdate_def Let_def correlatePrefix_unregistered store_path_def split: option.split)

lemma HandleTracerouteResult_unregistered:
  "prefixTargetMap e t = None \<Longrightarrow> snd (HandleTracerouteResult now t p a path hc r e) = []"
  by (simp add: HandleTracerouteResult_def Let_def correlateTarget_unregistered)

subsection \<open>A concrete engine\<close>

text \<open>
  For the concrete instances: a target registered under a prefix, a traceroute path stored for
  it, and an announcement of the prefix whose origin is the last AS of that path.
\<close>

definition demo_codec :: "json \<Rightarrow> codec" where
  "demo_codec j = \<lparr>parse_json = (\<lambda>_. Some j), print_json = (\<lambda>_. []),
     parse_time = (\<lambda>_. Some 0), print_time = (\<lambda>_. Some [])\<rparr>"

definition demo_engine :: engine where
  "demo_engine = fst (HandleTracerouteResult 5 ''h'' ''nyc'' ''a1'' [20, 30] 4 True
     (RegisterPrefix ''h'' ''192.0.2.0/24'' new_engine))"

definition demo_update :: BGPUpdate where
  "demo_update = zero_BGPUpdate\<lparr>bu_Prefix := ''192.0.2.0/24'', bu_ASPath := [10, 20, 30],
     bu_EventType := ''announcement''\<rparr>"

definition demo_doc :: json where
  "demo_doc = JObj [(''prefix'', JStr ''192.0.2.0/24''),
     (''as_path'', JArr [JInt 10, JInt 20, JInt 30]), (''event_type'', JStr ''announcement'')]"

lemma demo_engine_eq:
  "demo_engine = \<lparr>bgpPaths = Map.empty,
     traceroutePaths = [''h@nyc'' \<mapsto> \<lparr>tp_Target = ''h'', tp_POPName = ''nyc'', tp_AgentID = ''a1'',
       tp_ASPath = [20, 30], tp_HopCount = 4, tp_Reached = True, tp_UpdatedAt = 5\<rparr>],
     prefixTargetMap = [''h'' \<mapsto> ''192.0.2.0/24'']\<rparr>"
  by (simp add: demo_engine_def HandleTracerouteResult_def Let_def RegisterPrefix_def
      new_engine_def path_key_def)

lemma demo_reachable: "reachable_engine demo_engine"
proof -
  have "reachable_engine (RegisterPrefix ''h'' ''192.0.2.0/24'' new_engine)"
    by (rule reachable_engine.step [OF reachable_engine.start engine_step.register_prefix])
  then show ?thesis
    unfolding demo_engine_def
    by (rule reachable_engine.step) (rule engine_step.traceroute_result, rule prod.collapse [symmetric])
qed

lemma demo_orders:
  "iteration_order [''h''] (prefixTargetMap demo_engine)"
  "iteration_order [''h@nyc''] (traceroutePaths demo_engine)"
  by (auto simp: demo_engine_eq iteration_order_def)

lemma demo_decodes: "unmarshal (demo_codec demo_doc) dec_BGPUpdate msg = Some demo_update"
  by (simp add: unmarshal_def demo_codec_def demo_doc_def dec_BGPUpdate_def BGPUpdate_fields_def
      find_field_def field_def zero_BGPUpdate_def demo_update_def in_int64_def)


subsection \<open>Properties\<close>

text \<open>
  C17: the result of \<open>evaluate\<close> depends on the two paths as documented: insufficient data, then
  different origins, then a traceroute path that is a contiguous part of the announced path,
  and a partial match otherwise. The other fields are copied from the two sides.
\<close>

theorem evaluate_classifies:
  "let r = evaluate now bgp tr in
     cr_Match r = match_spec (tp_Reached tr) (bp_ASPath bgp) (tp_ASPath tr)
     \<and> cr_Prefix r = bp_Prefix bgp \<and> cr_Target r = tp_Target tr \<and> cr_POPName r = tp_POPName tr
     \<and> cr_BGPPath r = bp_ASPath bgp \<and> cr_TraceroutePath r = tp_ASPath tr \<and> cr_Timestamp r = now"
  by simp

text \<open>
  A mismatch is reported exactly when both paths are usable and their origin ASes differ,
  and its text names both origins: the last branch of \<open>evaluate\<close>, for paths without a common
  AS, is never taken, since paths with the same origin have it in common.
\<close>

theorem evaluate_mismatch_iff_origins_differ:
  "cr_Match (evaluate now bgp tr) = MatchMismatch \<longleftrightarrow>
     tp_Reached tr \<and> 2 \<le> length (tp_ASPath tr) \<and> bp_ASPath bgp \<noteq> []
     \<and> last (bp_ASPath bgp) \<noteq> last (tp_ASPath tr)
     \<and> cr_Details (evaluate now bgp tr) =
         ''origin AS mismatch: BGP says AS'' @ itoa (last (bp_ASPath bgp))
         @ '', traceroute observed AS'' @ itoa (last (tp_ASPath tr))"
proof (cases "tp_Reached tr \<and> 2 \<le> length (tp_ASPath tr) \<and> bp_ASPath bgp \<noteq> []
    \<and> last (bp_ASPath bgp) \<noteq> last (tp_ASPath tr)")
  case True
  then have "tp_ASPath tr \<noteq> []" by auto
  with True show ?thesis by (simp add: match_spec_def) (simp add: evaluate_def Let_def last_conv_pred_nth)
qed (auto simp: match_spec_def)

text \<open>
  \<open>isSubsequence\<close> decides whether the first path occurs contiguously in the second.
\<close>

theorem isSubsequence_contiguous:
  "isSubsequence sub full \<longleftrightarrow> (\<exists>pre post. full = pre @ sub @ post)"
  by (auto simp: isSubsequence_sublist sublist_def)

text \<open>
  C38: \<open>pathOverlap\<close> is at least the size of the intersection of the two paths, and it is that
  size exactly when no common AS occurs twice in the second path (prepending makes it larger).
\<close>

theorem pathOverlap_is_intersection_iff:
  "card (set a \<inter> set b) \<le> pathOverlap a b
   \<and> (pathOverlap a b = card (set a \<inter> set b) \<longleftrightarrow> distinct (filter (\<lambda>x. x \<in> set a) b))"
proof -
  have eq: "set a \<inter> set b = set (filter (\<lambda>x. x \<in> set a) b)" by auto
  show ?thesis
    unfolding eq pathOverlap_filter
    by (metis card_distinct card_length distinct_card)
qed

text \<open>
  In every reachable engine each stored traceroute path is stored under the key of its own
  target and POP, and each stored announcement under its own prefix.
\<close>

theorem reachable_engine_keys:
  assumes "reachable_engine e"
  shows "(traceroutePaths e k = Some tr \<longrightarrow> k = path_key (tp_Target tr) (tp_POPName tr)) \<and>
    (bgpPaths e p = Some b \<longrightarrow> bp_Prefix b = p)"
  using reachable_engine_inv [OF assms] by (auto simp: engine_inv_def)

lemma reachable_engine_keys_witness:
  "''h@nyc'' = path_key ''h'' ''nyc'' \<and> traceroutePaths demo_engine ''h@nyc'' \<noteq> None"
  using reachable_engine_keys [THEN conjunct1, OF demo_reachable, of "''h@nyc''"]
  by (simp add: demo_engine_eq)

text \<open>
  C5: an announcement handled in a reachable engine replaces the stored path of its prefix, and
  afterwards the status gauge of every traceroute path stored for a target of that prefix
  shows the classification against the new path, in whatever order Go iterates over its maps.
\<close>

theorem announcement_updates_every_status:
  assumes "reachable_engine e"
    and "iteration_order targets (prefixTargetMap e)"
    and "\<And>t. iteration_order (keys t) (traceroutePaths e)"
    and "unmarshal C dec_BGPUpdate msg = Some u" "bu_EventType u \<noteq> ''withdrawal''"
    and "HandleBGPUpdate C now targets keys msg e = (e', calls)"
    and "prefixTargetMap e t = Some (bu_Prefix u)"
    and "traceroutePaths e (path_key t pop) = Some tr" "tp_Target tr = t"
  shows "bgpPaths e' (bu_Prefix u) = Some (bgp_info now u) \<and>
    gauges calls (matchStatus, [bu_Prefix u, pop, t]) =
      Some (status_val (match_spec (tp_Reached tr) (bu_ASPath u) (tp_ASPath tr)))"
proof (intro conjI)
  define p where "p = bu_Prefix u"
  have e': "e' = store_path now u e" and calls: "calls = correlatePrefix now targets keys p e'"
    using assms(4-6) by (auto simp: HandleBGPUpdate_def Let_def p_def)
  have b: "bgpPaths e' p = Some (bgp_info now u)" by (simp add: e' store_path_def p_def)
  then show "bgpPaths e' (bu_Prefix u) = Some (bgp_info now u)" by (simp add: p_def)
  have inv: "engine_inv e'"
    unfolding e' by (rule engine_inv_store [OF reachable_engine_inv [OF assms(1)]])
  have maps: "prefixTargetMap e' = prefixTargetMap e" "traceroutePaths e' = traceroutePaths e"
    by (simp_all add: e' store_path_def)
  have ts: "iteration_order targets (prefixTargetMap e')"
    and ks: "\<And>t. iteration_order (keys t) (traceroutePaths e')"
    using assms(2,3) by (simp_all add: maps)
  let ?xs = "filter (\<lambda>x. x \<in> covered e' p) (pairs targets keys)"
  have set_xs: "set ?xs = covered e' p" by (rule filter_pairs_set [OF ts ks])
  have tr: "path_at e' (path_key t pop) = tr" using assms(8) by (simp add: path_at_def maps)
  have "(t, path_key t pop) \<in> covered e' p"
    using assms(7-9) by (simp add: covered_def maps p_def)
  from covered_key [OF inv this] have pop: "tp_POPName tr = pop" by (simp add: tr)
  have "(t, path_key t pop) \<in> set ?xs" unfolding set_xs by fact
  from fold_pair_calls [OF inv equalityD1 [OF set_xs] filter_pairs_distinct [OF ts ks] this,
      where b = "bgp_info now u" and now = now and g = Map.empty]
  show "gauges calls (matchStatus, [bu_Prefix u, pop, t]) =
      Some (status_val (match_spec (tp_Reached tr) (bu_ASPath u) (tp_ASPath tr)))"
    unfolding gauges_def calls correlatePrefix_pairs [OF inv b ts ks]
    by (simp add: tr pop bgp_info_def p_def)
qed

lemma announcement_updates_every_status_witness:
  "gauges (snd (HandleBGPUpdate (demo_codec demo_doc) 9 [''h''] (\<lambda>_. [''h@nyc'']) ''m'' demo_engine))
     (matchStatus, [''192.0.2.0/24'', ''nyc'', ''h'']) = Some 1"
  using announcement_updates_every_status [OF demo_reachable demo_orders
      demo_decodes [of "''m''"] _ prod.collapse [symmetric],
      where t = "''h''" and pop = "''nyc''" and now = 9, THEN conjunct2]
  by (simp add: demo_update_def demo_engine_eq path_key_def match_spec_def sublist_code)

text \<open>
  C40: an announcement handled in a reachable engine, in whatever order its two loops meet the keys
  of the maps, evaluates each stored traceroute path of the prefix exactly once: the evaluation
  counter of a POP grows by the number of registered targets of the prefix for which a path from
  that POP is stored.
\<close>

theorem announcement_evaluates_each_pair_once:
  assumes "reachable_engine e"
    and "iteration_order targets (prefixTargetMap e)"
    and "\<And>t. iteration_order (keys t) (traceroutePaths e)"
    and "unmarshal C dec_BGPUpdate msg = Some u" "bu_EventType u \<noteq> ''withdrawal''"
  shows "counter (snd (HandleBGPUpdate C now targets keys msg e)) correlationsRun [bu_Prefix u, pop] =
    card {t. prefixTargetMap e t = Some (bu_Prefix u)
      \<and> (\<exists>tr. traceroutePaths e (path_key t pop) = Some tr \<and> tp_Target tr = t)}"
proof -
  define e' where "e' = store_path now u e"
  have calls: "snd (HandleBGPUpdate C now targets keys msg e) =
      correlatePrefix now targets keys (bu_Prefix u) e'"
    using assms(4,5) by (simp add: HandleBGPUpdate_def Let_def e'_def)
  have b: "bgpPaths e' (bu_Prefix u) = Some (bgp_info now u)" by (simp add: e'_def store_path_def)
  have inv: "engine_inv e'"
    unfolding e'_def by (rule engine_inv_store [OF reachable_engine_inv [OF assms(1)]])
  have maps: "prefixTargetMap e' = prefixTargetMap e" "traceroutePaths e' = traceroutePaths e"
    by (simp_all add: e'_def store_path_def)
  have ts: "iteration_order targets (prefixTargetMap e')"
    and ks: "\<And>t. iteration_order (keys t) (traceroutePaths e')"
    using assms(2,3) by (simp_all add: maps)
  have set_xs: "set (filter (\<lambda>x. x \<in> covered e' (bu_Prefix u)) (pairs targets keys)) =
      covered e' (bu_Prefix u)"
    by (rule filter_pairs_set [OF ts ks])
  have "bp_Prefix (bgp_info now u) = bu_Prefix u" by (simp add: bgp_info_def)
  from counter_pair_calls [OF inv equalityD1 [OF set_xs] filter_pairs_distinct [OF ts ks] this]
  show ?thesis
    unfolding calls correlatePrefix_pairs [OF inv b ts ks] set_xs
    by (simp add: covered_def maps)
qed

lemma announcement_evaluates_each_pair_once_witness:
  "counter (snd (HandleBGPUpdate (demo_codec demo_doc) 9 [''h''] (\<lambda>_. [''h@nyc'']) ''m'' demo_engine))
     correlationsRun [''192.0.2.0/24'', ''nyc''] = card {''h''}"
proof -
  have "{t. prefixTargetMap demo_engine t = Some (bu_Prefix demo_update)
      \<and> (\<exists>tr. traceroutePaths demo_engine (path_key t ''nyc'') = Some tr \<and> tp_Target tr = t)} = {''h''}"
    by (auto simp: demo_engine_eq demo_update_def path_key_def)
  then show ?thesis
    using announcement_evaluates_each_pair_once [OF demo_reachable demo_orders
        demo_decodes [of "''m''"], where pop = "''nyc''" and now = 9]
    by (simp add: demo_update_def)
qed

text \<open>
  C8: whatever method is called on a reachable engine, an evaluation is reported for a prefix
  and a POP only when the engine afterwards holds an announcement of the prefix and a
  traceroute path from that POP to a target registered under the prefix. In particular a
  withdrawn prefix is not evaluated before it is announced again.
\<close>

theorem evaluations_have_both_sides:
  assumes "reachable_engine e" "engine_step e e' calls"
    and "IncCounter correlationsRun [p, pop] \<in> set calls"
  shows "bgpPaths e' p \<noteq> None
    \<and> (\<exists>t tr. prefixTargetMap e' t = Some p
        \<and> traceroutePaths e' (path_key t pop) = Some tr \<and> tp_Target tr = t)"
  by (rule engine_step_run [OF reachable_engine_inv [OF assms(1)] assms(2,3)])

lemma demo_bgp_step:
  "engine_step demo_engine
     (fst (HandleBGPUpdate (demo_codec demo_doc) 9 [''h''] (\<lambda>_. [''h@nyc'']) ''m'' demo_engine))
     (snd (HandleBGPUpdate (demo_codec demo_doc) 9 [''h''] (\<lambda>_. [''h@nyc'']) ''m'' demo_engine))"
  by (rule engine_step.bgp_update [OF demo_orders prod.collapse [symmetric]])

lemma demo_bgp_calls:
  "IncCounter correlationsRun [''192.0.2.0/24'', ''nyc'']
     \<in> set (snd (HandleBGPUpdate (demo_codec demo_doc) 9 [''h''] (\<lambda>_. [''h@nyc'']) ''m'' demo_engine))"
  by (simp add: HandleBGPUpdate_def Let_def demo_decodes demo_update_def store_path_def
      correlatePrefix_def correlate_key_def correlateTarget_def demo_engine_eq path_key_def
      set_recordResult_run bgp_info_def trim_prefix_def has_prefix_def)

lemma evaluations_have_both_sides_witness:
  "bgpPaths (fst (HandleBGPUpdate (demo_codec demo_doc) 9 [''h''] (\<lambda>_. [''h@nyc'']) ''m'' demo_engine))
     ''192.0.2.0/24'' \<noteq> None"
  using evaluations_have_both_sides [OF demo_reachable demo_bgp_step demo_bgp_calls] by blast

text \<open>
  A traceroute result replaces the stored path of its target and POP and nothing else, and
  reports the classification against the announcement of the target's prefix, or nothing when
  the target has no prefix or the prefix no announcement.
\<close>

theorem traceroute_result_correlates:
  assumes "HandleTracerouteResult now target popName agentID asPath hopCount reached e = (e', calls)"
  shows "traceroutePaths e' = (traceroutePaths e)(path_key target popName \<mapsto>
      \<lparr>tp_Target = target, tp_POPName = popName, tp_AgentID = agentID, tp_ASPath = asPath,
        tp_HopCount = hopCount, tp_Reached = reached, tp_UpdatedAt = now\<rparr>)
    \<and> bgpPaths e' = bgpPaths e \<and> prefixTargetMap e' = prefixTargetMap e
    \<and> (case Option.bind (prefixTargetMap e target) (bgpPaths e) of
         None \<Rightarrow> calls = []
       | Some b \<Rightarrow> gauges calls (matchStatus, [bp_Prefix b, popName, target]) =
             Some (status_val (match_spec reached (bp_ASPath b) asPath)))"
  using assms fold_apply_call_last [where ds = "[]"]
  by (auto simp: HandleTracerouteResult_def Let_def correlateTarget_def recordResult_def gauges_def
      fold_append split: option.splits)

lemma traceroute_result_correlates_witness:
  "snd (HandleTracerouteResult 1 ''h'' ''nyc'' ''a1'' [20, 30] 4 True new_engine) = []"
  using traceroute_result_correlates [of 1 "''h''" "''nyc''" "''a1''" "[20, 30]" 4 True new_engine,
      OF prod.collapse [symmetric]]
  by (simp add: new_engine_def)

text \<open>
  Distinct pairs of a target and a POP have distinct keys as long as no POP name contains
  an \<open>@\<close>.
\<close>

theorem path_key_injective:
  assumes "CHR ''@'' \<notin> set p" "CHR ''@'' \<notin> set q" "(t, p) \<noteq> (u, q)"
  shows "path_key t p \<noteq> path_key u q"
  using assms path_key_inject by blast

lemma path_key_injective_witness: "path_key ''a@b'' ''c'' \<noteq> path_key ''a'' ''c''"
  by (rule path_key_injective) simp_all

end
