(* ===== verification/Processor.thy ===== *)
theory Processor
  imports Canary Correlation
begin

text \<open>
  The metrics processor (internal/processor/processor.go): the structs it decodes the metrics
  of each kind of test into, one handler per topic, and \<open>Run\<close>'s subscriptions. A handler gets
  the message and the processor and returns the processor and the calls it made on the
  metrics, in order. Every handler returns \<open>nil\<close>, so no message is ever delivered again.
\<close>

subsection \<open>State\<close>

record processor =
  lastASPaths :: "string \<rightharpoonup> string"
  correlator :: engine

definition new_processor :: processor where
  "new_processor = \<lparr>lastASPaths = Map.empty, correlator = new_engine\<rparr>"

subsection \<open>Ping results\<close>

record pingMetrics =
  pm_RTTMin :: float64
  pm_RTTAvg :: float64
  pm_RTTMax :: float64
  pm_RTTStdDev :: float64
  pm_PacketLoss :: float64
  pm_Jitter :: float64
  pm_PacketsSent :: int
  pm_PacketsRecv :: int

definition zero_pingMetrics :: pingMetrics where
  "zero_pingMetrics = \<lparr>pm_RTTMin = 0, pm_RTTAvg = 0, pm_RTTMax = 0, pm_RTTStdDev = 0,
     pm_PacketLoss = 0, pm_Jitter = 0, pm_PacketsSent = 0, pm_PacketsRecv = 0\<rparr>"

definition pingMetrics_fields :: "pingMetrics fields" where
  "pingMetrics_fields =
     [(''rtt_min_ms'', field pm_RTTMin pm_RTTMin_update dec_float),
      (''rtt_avg_ms'', field pm_RTTAvg pm_RTTAvg_update dec_float),
      (''rtt_max_ms'', field pm_RTTMax pm_RTTMax_update dec_float),
      (''rtt_stddev_ms'', field pm_RTTStdDev pm_RTTStdDev_update dec_float),
      (''packet_loss_ratio'', field pm_PacketLoss pm_PacketLoss_update dec_float),
      (''jitter_ms'', field pm_Jitter pm_Jitter_update dec_float),
      (''packets_sent'', field pm_PacketsSent pm_PacketsSent_update dec_int),
      (''packets_recv'', field pm_PacketsRecv pm_PacketsRecv_update dec_int)]"

definition dec_pingMetrics :: "json \<Rightarrow> pingMetrics option" where
  "dec_pingMetrics = dec_struct pingMetrics_fields zero_pingMetrics"

definition labels3 :: "Result \<Rightarrow> string list" where
  "labels3 r = [rs_Target r, rs_POPName r, rs_AgentID r]"

definition ping_calls :: "Result \<Rightarrow> pingMetrics \<Rightarrow> metric_call list" where
  "ping_calls r m =
     [SetGauge pingRTT (labels3 r @ [''min'']) (f64_div (pm_RTTMin m) 1000),
      SetGauge pingRTT (labels3 r @ [''avg'']) (f64_div (pm_RTTAvg m) 1000),
      SetGauge pingRTT (labels3 r @ [''max'']) (f64_div (pm_RTTMax m) 1000),
      SetGauge pingRTT (labels3 r @ [''stddev'']) (f64_div (pm_RTTStdDev m) 1000),
      SetGauge pingPacketLoss (labels3 r) (pm_PacketLoss m),
      SetGauge pingJitter (labels3 r) (f64_div (pm_Jitter m) 1000)]"

definition handlePingResult :: "codec \<Rightarrow> bytes \<Rightarrow> processor \<Rightarrow> processor \<times> metric_call list" where
  "handlePingResult C msg p =
     (case unmarshal_Result C msg of
        None \<Rightarrow> (p, [IncCounter processingErrors [''ping'', ''unmarshal'']])
      | Some result \<Rightarrow>
          let processed = IncCounter resultsProcessed [''ping'', rs_POPName result]
          in (case unmarshal_raw dec_pingMetrics (rs_Metrics result) of
                None \<Rightarrow>
                  (p, [processed, IncCounter processingErrors [''ping'', ''metrics_unmarshal'']])
              | Some m \<Rightarrow> (p, processed # ping_calls result m)))"

subsection \<open>DNS results\<close>

record dnsResolverResult =
  dr_Resolver :: string
  dr_ResolutionTimeMS :: float64
  dr_ResponseCode :: string
  dr_ResolvedValues :: "string list"
  dr_Success :: bool
  dr_Error :: string

record dnsMetrics =
  dm_RecordType :: string
  dm_AvgResolutionTimeMS :: float64
  dm_Resolvers :: "dnsResolverResult list"

definition zero_dnsResolverResult :: dnsResolverResult where
  "zero_dnsResolverResult = \<lparr>dr_Resolver = [], dr_ResolutionTimeMS = 0, dr_ResponseCode = [],
     dr_ResolvedValues = [], dr_Success = False, dr_Error = []\<rparr>"

definition zero_dnsMetrics :: dnsMetrics where
  "zero_dnsMetrics = \<lparr>dm_RecordType = [], dm_AvgResolutionTimeMS = 0, dm_Resolvers = []\<rparr>"

definition dnsResolverResult_fields :: "dnsResolverResult fields" where
  "dnsResolverResult_fields =
     [(''resolver'', field dr_Resolver dr_Resolver_update dec_string),
      (''resolution_time_ms'', field dr_ResolutionTimeMS dr_ResolutionTimeMS_update dec_float),
      (''response_code'', field dr_ResponseCode dr_ResponseCode_update dec_string),
      (''resolved_values'', field dr_ResolvedValues dr_ResolvedValues_update
         (\<lambda>_. dec_list (dec_string []))),
      (''success'', field dr_Success dr_Success_update dec_bool),
      (''error'', field dr_Error dr_Error_update dec_string)]"

definition dec_dnsResolverResult :: "json \<Rightarrow> dnsResolverResult option" where
  "dec_dnsResolverResult = dec_struct dnsResolverResult_fields zero_dnsResolverResult"

definition dnsMetrics_fields :: "dnsMetrics fields" where
  "dnsMetrics_fields =
     [(''record_type'', field dm_RecordType dm_RecordType_update dec_string),
      (''avg_resolution_time_ms'',
         field dm_AvgResolutionTimeMS dm_AvgResolutionTimeMS_update dec_float),
      (''resolvers'', field dm_Resolvers dm_Resolvers_update (\<lambda>_. dec_list dec_dnsResolverResult))]"

definition dec_dnsMetrics :: "json \<Rightarrow> dnsMetrics option" where
  "dec_dnsMetrics = dec_struct dnsMetrics_fields zero_dnsMetrics"

definition resolver_calls :: "Result \<Rightarrow> string \<Rightarrow> dnsResolverResult \<Rightarrow> metric_call list" where
  "resolver_calls r rtype rr =
     [SetGauge dnsResolutionTime (labels3 r @ [dr_Resolver rr, rtype])
        (f64_div (dr_ResolutionTimeMS rr) 1000),
      SetGauge dnsResponseCode (labels3 r @ [dr_Resolver rr, dr_ResponseCode rr]) 1]"

definition handleDNSResult :: "codec \<Rightarrow> bytes \<Rightarrow> processor \<Rightarrow> processor \<times> metric_call list" where
  "handleDNSResult C msg p =
     (case unmarshal_Result C msg of
        None \<Rightarrow> (p, [IncCounter processingErrors [''dns'', ''unmarshal'']])
      | Some result \<Rightarrow>
          let processed = IncCounter resultsProcessed [''dns'', rs_POPName result]
          in (case unmarshal_raw dec_dnsMetrics (rs_Metrics result) of
                None \<Rightarrow>
                  (p, [processed, IncCounter processingErrors [''dns'', ''metrics_unmarshal'']])
              | Some m \<Rightarrow>
                  (p, processed
                    # concat (map (resolver_calls result (dm_RecordType m)) (dm_Resolvers m)))))"

subsection \<open>HTTP results\<close>

record httpResultMetrics =
  hm_DNSMS :: float64
  hm_TCPMS :: float64
  hm_TLSMS :: float64
  hm_TTFBMS :: float64
  hm_TotalMS :: float64
  hm_TransferMS :: float64
  hm_StatusCode :: int
  hm_ContentLength :: int
  hm_CertExpiryDays :: float64
  hm_RedirectCount :: int
  hm_ContentMatched :: bool

definition zero_httpResultMetrics :: httpResultMetrics where
  "zero_httpResultMetrics = \<lparr>hm_DNSMS = 0, hm_TCPMS = 0, hm_TLSMS = 0, hm_TTFBMS = 0,
     hm_TotalMS = 0, hm_TransferMS = 0, hm_StatusCode = 0, hm_ContentLength = 0,
     hm_CertExpiryDays = 0, hm_RedirectCount = 0, hm_ContentMatched = False\<rparr>"

definition httpResultMetrics_fields :: "httpResultMetrics fields" where
  "httpResultMetrics_fields =
     [(''dns_ms'', field hm_DNSMS hm_DNSMS_update dec_float),
      (''tcp_ms'', field hm_TCPMS hm_TCPMS_update dec_float),
      (''tls_ms'', field hm_TLSMS hm_TLSMS_update dec_float),
      (''ttfb_ms'', field hm_TTFBMS hm_TTFBMS_update dec_float),
      (''total_ms'', field hm_TotalMS hm_TotalMS_update dec_float),
      (''transfer_ms'', field hm_TransferMS hm_TransferMS_update dec_float),
      (''status_code'', field hm_StatusCode hm_StatusCode_update dec_int),
      (''content_length'', field hm_ContentLength hm_ContentLength_update dec_int),
      (''cert_expiry_days'', field hm_CertExpiryDays hm_CertExpiryDays_update dec_float),
      (''redirect_count'', field hm_RedirectCount hm_RedirectCount_update dec_int),
      (''content_matched'', field hm_ContentMatched hm_ContentMatched_update dec_bool)]"

definition dec_httpResultMetrics :: "json \<Rightarrow> httpResultMetrics option" where
  "dec_httpResultMetrics = dec_struct httpResultMetrics_fields zero_httpResultMetrics"

definition http_calls :: "Result \<Rightarrow> httpResultMetrics \<Rightarrow> metric_call list" where
  "http_calls r m =
     [SetGauge httpDuration (labels3 r @ [''dns'']) (f64_div (hm_DNSMS m) 1000),
      SetGauge httpDuration (labels3 r @ [''tcp'']) (f64_div (hm_TCPMS m) 1000),
      SetGauge httpDuration (labels3 r @ [''tls'']) (f64_div (hm_TLSMS m) 1000),
      SetGauge httpDuration (labels3 r @ [''ttfb'']) (f64_div (hm_TTFBMS m) 1000),
      SetGauge httpDuration (labels3 r @ [''total'']) (f64_div (hm_TotalMS m) 1000),
      SetGauge httpDuration (labels3 r @ [''transfer'']) (f64_div (hm_TransferMS m) 1000),
      SetGauge httpStatusCode (labels3 r) (f64_of_int (hm_StatusCode m))]
     @ (if hm_CertExpiryDays m > 0
        then [SetGauge httpCertExpiry (labels3 r) (hm_CertExpiryDays m)] else [])"

definition handleHTTPResult :: "codec \<Rightarrow> bytes \<Rightarrow> processor \<Rightarrow> processor \<times> metric_call list" where
  "handleHTTPResult C msg p =
     (case unmarshal_Result C msg of
        None \<Rightarrow> (p, [IncCounter processingErrors [''http'', ''unmarshal'']])
      | Some result \<Rightarrow>
          let processed = IncCounter resultsProcessed [''http'', rs_POPName result]
          in (case unmarshal_raw dec_httpResultMetrics (rs_Metrics result) of
                None \<Rightarrow>
                  (p, [processed, IncCounter processingErrors [''http'', ''metrics_unmarshal'']])
              | Some m \<Rightarrow> (p, processed # http_calls result m)))"


subsection \<open>Traceroute results\<close>

record tracerouteHopResult =
  th_HopNumber :: int
  th_IP :: string
  th_Hostname :: string
  th_ASN :: int
  th_RTTMin :: float64
  th_RTTAvg :: float64
  th_RTTMax :: float64
  th_PacketLoss :: float64
  th_Sent :: int
  th_Received :: int

record tracerouteResultMetrics =
  tm_Backend :: string
  tm_Hops :: "tracerouteHopResult list"
  tm_HopCount :: int
  tm_ReachedTarget :: bool
  tm_ASPath :: "int list"
  tm_TotalMS :: float64

definition zero_tracerouteHopResult :: tracerouteHopResult where
  "zero_tracerouteHopResult = \<lparr>th_HopNumber = 0, th_IP = [], th_Hostname = [], th_ASN = 0,
     th_RTTMin = 0, th_RTTAvg = 0, th_RTTMax = 0, th_PacketLoss = 0, th_Sent = 0,
     th_Received = 0\<rparr>"

definition zero_tracerouteResultMetrics :: tracerouteResultMetrics where
  "zero_tracerouteResultMetrics = \<lparr>tm_Backend = [], tm_Hops = [], tm_HopCount = 0,
     tm_ReachedTarget = False, tm_ASPath = [], tm_TotalMS = 0\<rparr>"

definition tracerouteHopResult_fields :: "tracerouteHopResult fields" where
  "tracerouteHopResult_fields =
     [(''hop_number'', field th_HopNumber th_HopNumber_update dec_int),
      (''ip'', field th_IP th_IP_update dec_string),
      (''hostname'', field th_Hostname th_Hostname_update dec_string),
      (''asn'', field th_ASN th_ASN_update dec_int),
      (''rtt_min_ms'', field th_RTTMin th_RTTMin_update dec_float),
      (''rtt_avg_ms'', field th_RTTAvg th_RTTAvg_update dec_float),
      (''rtt_max_ms'', field th_RTTMax th_RTTMax_update dec_float),
      (''packet_loss_ratio'', field th_PacketLoss th_PacketLoss_update dec_float),
      (''sent'', field th_Sent th_Sent_update dec_int),
      (''received'', field th_Received th_Received_update dec_int)]"

definition dec_tracerouteHopResult :: "json \<Rightarrow> tracerouteHopResult option" where
  "dec_tracerouteHopResult = dec_struct tracerouteHopResult_fields zero_tracerouteHopResult"

definition tracerouteResultMetrics_fields :: "tracerouteResultMetrics fields" where
  "tracerouteResultMetrics_fields =
     [(''backend'', field tm_Backend tm_Backend_update dec_string),
      (''hops'', field tm_Hops tm_Hops_update (\<lambda>_. dec_list dec_tracerouteHopResult)),
      (''hop_count'', field tm_HopCount tm_HopCount_update dec_int),
      (''reached_target'', field tm_ReachedTarget tm_ReachedTarget_update dec_bool),
      (''as_path'', field tm_ASPath tm_ASPath_update (\<lambda>_. dec_list (dec_int 0))),
      (''total_ms'', field tm_TotalMS tm_TotalMS_update dec_float)]"

definition dec_tracerouteResultMetrics :: "json \<Rightarrow> tracerouteResultMetrics option" where
  "dec_tracerouteResultMetrics =
     dec_struct tracerouteResultMetrics_fields zero_tracerouteResultMetrics"

definition asPathString :: "int list \<Rightarrow> string" where
  "asPathString path = (if length path = 0 then [] else str_join '' '' (map itoa path))"

definition hop_calls :: "Result \<Rightarrow> tracerouteHopResult \<Rightarrow> metric_call list" where
  "hop_calls r hop =
     (let hopNum = itoa (th_HopNumber hop);
          hopIP = (if th_IP hop = [] then ''*'' else th_IP hop);
          hopASN = itoa (th_ASN hop)
      in [SetGauge tracerouteHopRTT (labels3 r @ [hopNum, hopIP, hopASN])
            (f64_div (th_RTTAvg hop) 1000),
          SetGauge tracerouteHopLoss (labels3 r @ [hopNum, hopIP]) (th_PacketLoss hop)])"

text \<open>The detection of a changed path: the new map, and the call on the counter.\<close>

definition path_change ::
  "Result \<Rightarrow> string \<Rightarrow> (string \<rightharpoonup> string) \<Rightarrow> (string \<rightharpoonup> string) \<times> metric_call list" where
  "path_change r currentPath paths =
     (let pathKey = rs_Target r @ ''@'' @ rs_POPName r;
          calls = (case paths pathKey of
             None \<Rightarrow> []
           | Some lastPath \<Rightarrow>
               if lastPath \<noteq> currentPath \<and> currentPath \<noteq> []
               then [IncCounter traceroutePathChange [rs_Target r, rs_POPName r]] else [])
      in (if currentPath \<noteq> [] then paths(pathKey \<mapsto> currentPath) else paths, calls))"

definition handleTracerouteResult ::
  "codec \<Rightarrow> int \<Rightarrow> bytes \<Rightarrow> processor \<Rightarrow> processor \<times> metric_call list" where
  "handleTracerouteResult C now msg p =
     (case unmarshal_Result C msg of
        None \<Rightarrow> (p, [IncCounter processingErrors [''traceroute'', ''unmarshal'']])
      | Some result \<Rightarrow>
          let processed = IncCounter resultsProcessed [''traceroute'', rs_POPName result]
          in (case unmarshal_raw dec_tracerouteResultMetrics (rs_Metrics result) of
                None \<Rightarrow>
                  (p, [processed,
                       IncCounter processingErrors [''traceroute'', ''metrics_unmarshal'']])
              | Some m \<Rightarrow>
                  let reachable = (if tm_ReachedTarget m then 1 else 0);
                      (paths, change) =
                        path_change result (asPathString (tm_ASPath m)) (lastASPaths p);
                      (correlator', corr) =
                        HandleTracerouteResult now (rs_Target result) (rs_POPName result)
                          (rs_AgentID result) (tm_ASPath m) (tm_HopCount m) (tm_ReachedTarget m)
                          (correlator p)
                  in (\<lparr>lastASPaths = paths, correlator = correlator'\<rparr>,
                      [processed,
                       SetGauge tracerouteHopCount (labels3 result) (f64_of_int (tm_HopCount m)),
                       SetGauge tracerouteReachable (labels3 result) reachable]
                      @ concat (map (hop_calls result) (tm_Hops m)) @ change @ corr)))"

subsection \<open>Subscriptions\<close>

text \<open>
  \<open>Run\<close> subscribes one handler per topic. A step of the processor is the delivery of one
  message; \<open>targets\<close> and \<open>keys\<close> are the iteration orders of the correlation engine's maps.
\<close>

datatype subscription = PingSub | DNSSub | HTTPSub | TracerouteSub | BGPSub

definition subscriptions :: "(topic \<times> subscription) list" where
  "subscriptions =
     [(''netvantage.ping.results'', PingSub),
      (''netvantage.dns.results'', DNSSub),
      (''netvantage.http.results'', HTTPSub),
      (''netvantage.traceroute.results'', TracerouteSub),
      (''netvantage.bgp.paths'', BGPSub)]"

fun run_handler ::
  "codec \<Rightarrow> int \<Rightarrow> string list \<Rightarrow> (string \<Rightarrow> string list) \<Rightarrow> subscription \<Rightarrow> bytes \<Rightarrow> processor
     \<Rightarrow> processor \<times> metric_call list" where
  "run_handler C now targets keys PingSub msg p = handlePingResult C msg p"
| "run_handler C now targets keys DNSSub msg p = handleDNSResult C msg p"
| "run_handler C now targets keys HTTPSub msg p = handleHTTPResult C msg p"
| "run_handler C now targets keys TracerouteSub msg p = handleTracerouteResult C now msg p"
| "run_handler C now targets keys BGPSub msg p =
     (let (e, calls) = HandleBGPUpdate C now targets keys msg (correlator p)
      in (p\<lparr>correlator := e\<rparr>, calls))"

text \<open>A message on a topic without a subscription does not reach the processor.\<close>

definition deliver ::
  "codec \<Rightarrow> int \<Rightarrow> string list \<Rightarrow> (string \<Rightarrow> string list) \<Rightarrow> topic \<Rightarrow> bytes \<Rightarrow> processor
     \<Rightarrow> processor \<times> metric_call list" where
  "deliver C now targets keys topic msg p =
     (case map_of subscriptions topic of
        None \<Rightarrow> (p, [])
      | Some sub \<Rightarrow> run_handler C now targets keys sub msg p)"

inductive reachable_processor :: "codec \<Rightarrow> processor \<Rightarrow> metric_call list \<Rightarrow> bool" for C where
  start: "reachable_processor C new_processor []"
| deliver: "\<lbrakk>reachable_processor C p cs; deliver C now targets keys topic msg p = (p', ds);
      iteration_order targets (prefixTargetMap (correlator p));
      \<And>t. iteration_order (keys t) (traceroutePaths (correlator p))\<rbrakk>
      \<Longrightarrow> reachable_processor C p' (cs @ ds)"

text \<open>Several messages for one handler, in the order of their arrival.\<close>

fun handle_all :: "('m \<Rightarrow> processor \<Rightarrow> processor \<times> metric_call list) \<Rightarrow> 'm list \<Rightarrow> processor
    \<Rightarrow> processor \<times> metric_call list" where
  "handle_all h [] p = (p, [])"
| "handle_all h (m # ms) p =
     (let (p1, c1) = h m p; (p2, c2) = handle_all h ms p1 in (p2, c1 @ c2))"


subsection \<open>The calls of the handlers\<close>

lemma length_labels3 [simp]: "length (labels3 r) = 3"
  by (simp add: labels3_def)

lemmas vec_defs = valid_vec_def metric_vec_def

lemma valid_recordResult: "c \<in> set (recordResult r) \<Longrightarrow> valid_call c"
  by (cases "cr_Match r") (auto simp: recordResult_def vec_defs)

lemma set_correlateTarget:
  "c \<in> set (correlateTarget now t pop e) \<Longrightarrow> \<exists>r. c \<in> set (recordResult r)"
  by (auto simp: correlateTarget_def split: option.splits)

lemma set_HandleBGPUpdate:
  "c \<in> set (snd (HandleBGPUpdate C now ts ks msg e)) \<Longrightarrow> \<exists>r. c \<in> set (recordResult r)"
  by (auto simp: HandleBGPUpdate_def Let_def correlatePrefix_def correlate_key_def
      dest: set_correlateTarget split: option.splits if_splits)

lemma set_HandleTracerouteResult:
  "c \<in> set (snd (HandleTracerouteResult now t p a path hc r e)) \<Longrightarrow> \<exists>r. c \<in> set (recordResult r)"
  by (auto simp: HandleTracerouteResult_def Let_def dest: set_correlateTarget)

text \<open>Every call a delivery makes is one of these.\<close>

inductive processor_call :: "metric_call \<Rightarrow> bool" where
  processed: "processor_call (IncCounter resultsProcessed [ty, pop])"
| failed: "processor_call (IncCounter processingErrors [ty, err])"
| ping: "c \<in> set (ping_calls r m) \<Longrightarrow> processor_call c"
| resolver: "c \<in> set (resolver_calls r rtype rr) \<Longrightarrow> processor_call c"
| http: "c \<in> set (http_calls r hm) \<Longrightarrow> processor_call c"
| hop_count: "processor_call (SetGauge tracerouteHopCount (labels3 r) x)"
| reachable: "processor_call (SetGauge tracerouteReachable (labels3 r) x)"
| hop: "c \<in> set (hop_calls r h) \<Longrightarrow> processor_call c"
| path_change: "processor_call (IncCounter traceroutePathChange [t, pop])"

abbreviation own_or_correlation :: "metric_call \<Rightarrow> bool" where
  "own_or_correlation c \<equiv> processor_call c \<or> (\<exists>r. c \<in> set (recordResult r))"

lemma handlePingResult_calls:
  "c \<in> set (snd (handlePingResult C msg p)) \<Longrightarrow> processor_call c"
  by (auto simp: handlePingResult_def Let_def intro: processor_call.intros split: option.splits)

lemma handleDNSResult_calls:
  "c \<in> set (snd (handleDNSResult C msg p)) \<Longrightarrow> processor_call c"
  by (auto simp: handleDNSResult_def Let_def intro: processor_call.intros split: option.splits)

lemma handleHTTPResult_calls:
  "c \<in> set (snd (handleHTTPResult C msg p)) \<Longrightarrow> processor_call c"
  by (auto simp: handleHTTPResult_def Let_def intro: processor_call.intros split: option.splits)

lemma set_path_change:
  "c \<in> set (snd (path_change r cur paths)) \<Longrightarrow>
     c = IncCounter traceroutePathChange [rs_Target r, rs_POPName r]"
  by (auto simp: path_change_def Let_def split: option.splits if_splits)

lemma snd_handleTracerouteResult:
  "snd (handleTracerouteResult C now msg p) =
    (case unmarshal_Result C msg of
       None \<Rightarrow> [IncCounter processingErrors [''traceroute'', ''unmarshal'']]
     | Some r \<Rightarrow> IncCounter resultsProcessed [''traceroute'', rs_POPName r] #
         (case unmarshal_raw dec_tracerouteResultMetrics (rs_Metrics r) of
            None \<Rightarrow> [IncCounter processingErrors [''traceroute'', ''metrics_unmarshal'']]
          | Some m \<Rightarrow>
              [SetGauge tracerouteHopCount (labels3 r) (f64_of_int (tm_HopCount m)),
               SetGauge tracerouteReachable (labels3 r) (if tm_ReachedTarget m then 1 else 0)]
              @ concat (map (hop_calls r) (tm_Hops m))
              @ snd (path_change r (asPathString (tm_ASPath m)) (lastASPaths p))
              @ snd (HandleTracerouteResult now (rs_Target r) (rs_POPName r) (rs_AgentID r)
                  (tm_ASPath m) (tm_HopCount m) (tm_ReachedTarget m) (correlator p))))"
  by (simp add: handleTracerouteResult_def Let_def split_beta split: option.split)

lemma fst_handleTracerouteResult:
  "fst (handleTracerouteResult C now msg p) =
    (case unmarshal_Result C msg of
       None \<Rightarrow> p
     | Some r \<Rightarrow>
         (case unmarshal_raw dec_tracerouteResultMetrics (rs_Metrics r) of
            None \<Rightarrow> p
          | Some m \<Rightarrow>
              \<lparr>lastASPaths = fst (path_change r (asPathString (tm_ASPath m)) (lastASPaths p)),
               correlator = fst (HandleTracerouteResult now (rs_Target r) (rs_POPName r)
                 (rs_AgentID r) (tm_ASPath m) (tm_HopCount m) (tm_ReachedTarget m) (correlator p))\<rparr>))"
  by (simp add: handleTracerouteResult_def Let_def split_beta split: option.split)

lemma handleTracerouteResult_calls:
  assumes "c \<in> set (snd (handleTracerouteResult C now msg p))"
  shows "own_or_correlation c"
  using assms
  by (auto simp: snd_handleTracerouteResult intro: processor_call.intros
      dest: set_path_change set_HandleTracerouteResult split: option.splits)

lemma deliver_calls:
  assumes "c \<in> set (snd (deliver C now ts ks topic msg p))"
  shows "own_or_correlation c"
proof (cases "map_of subscriptions topic")
  case None
  with assms show ?thesis by (simp add: deliver_def)
next
  case (Some sub)
  with assms show ?thesis
    by (cases sub)
      (auto simp: deliver_def split_beta dest: handlePingResult_calls handleDNSResult_calls
        handleHTTPResult_calls handleTracerouteResult_calls set_HandleBGPUpdate)
qed

lemma valid_processor_call: "processor_call c \<Longrightarrow> valid_call c"
  by (induction rule: processor_call.induct)
    (auto simp: vec_defs ping_calls_def resolver_calls_def http_calls_def hop_calls_def Let_def
      split: if_splits)

lemma no_response_code:
  "SetGauge dnsResponseCode ls x \<notin> set (ping_calls r pm)"
  "SetGauge dnsResponseCode ls x \<notin> set (http_calls r hm)"
  "SetGauge dnsResponseCode ls x \<notin> set (hop_calls r h)"
  "SetGauge dnsResponseCode ls x \<notin> set (recordResult cr)"
  by (simp_all add: ping_calls_def http_calls_def hop_calls_def Let_def recordResult_def)
    (cases "cr_Match cr"; simp)

lemma resolver_response_code:
  "SetGauge dnsResponseCode ls x \<in> set (resolver_calls r rtype rr) \<longleftrightarrow>
     ls = labels3 r @ [dr_Resolver rr, dr_ResponseCode rr] \<and> x = 1"
  by (auto simp: resolver_calls_def)

inductive_cases processor_call_gauge: "processor_call (SetGauge m ls x)"

lemma processor_call_response_code:
  assumes "processor_call (SetGauge dnsResponseCode ls x)"
  shows "x = 1"
  using assms
  by (auto simp: no_response_code resolver_response_code elim!: processor_call_gauge)

lemma dnsResponseCode_call: "own_or_correlation (SetGauge dnsResponseCode ls x) \<Longrightarrow> x = 1"
  using processor_call_response_code no_response_code(4) by blast


subsection \<open>Path changes\<close>

lemma asPathString_Nil [simp]: "asPathString path = [] \<longleftrightarrow> path = []"
  by (cases path) (auto simp: asPathString_def str_join_eq_Nil)

lemma asPathString_inject [simp]: "asPathString a = asPathString b \<longleftrightarrow> a = b"
proof
  assume eq: "asPathString a = asPathString b"
  show "a = b"
  proof (cases "a = [] \<or> b = []")
    case True
    with eq show ?thesis by (metis asPathString_Nil)
  next
    case False
    with eq have "str_join '' '' (map itoa a) = str_join '' '' (map itoa b)"
      by (simp add: asPathString_def)
    then have "map itoa a = map itoa b"
      by (subst (asm) str_join_inject) (auto simp: itoa_no_space)
    then show ?thesis by (simp add: inj_map_eq_map inj_def)
  qed
qed simp

text \<open>The AS path a traceroute message reports for a target and a POP, if it is not empty.\<close>

definition observed_path :: "codec \<Rightarrow> string \<Rightarrow> string \<Rightarrow> bytes \<Rightarrow> int list option" where
  "observed_path C t pop msg =
     (case unmarshal_Result C msg of
        None \<Rightarrow> None
      | Some r \<Rightarrow>
          if rs_Target r = t \<and> rs_POPName r = pop
          then (case unmarshal_raw dec_tracerouteResultMetrics (rs_Metrics r) of
                  None \<Rightarrow> None
                | Some m \<Rightarrow> if tm_ASPath m = [] then None else Some (tm_ASPath m))
          else None)"

definition key_clash :: "codec \<Rightarrow> string \<Rightarrow> string \<Rightarrow> bytes \<Rightarrow> bool" where
  "key_clash C t pop msg =
     (case unmarshal_Result C msg of
        None \<Rightarrow> False
      | Some r \<Rightarrow> path_key (rs_Target r) (rs_POPName r) = path_key t pop
          \<and> (rs_Target r, rs_POPName r) \<noteq> (t, pop))"

lemma counter_recordResult_path_change [simp]:
  "counter (recordResult r) traceroutePathChange ls = 0"
  by (cases "cr_Match r") (auto simp: recordResult_def)

lemma counter_HandleTracerouteResult_path_change [simp]:
  "counter (snd (HandleTracerouteResult now t pop a path hc r e)) traceroutePathChange ls = 0"
  by (simp add: HandleTracerouteResult_def Let_def correlateTarget_def split: option.split)

lemma counter_hop_calls [simp]: "counter (hop_calls r h) m ls = 0"
  by (simp add: hop_calls_def Let_def)

lemma counter_path_change:
  "counter (snd (path_change r cur paths)) traceroutePathChange [t, pop] =
    (if rs_Target r = t \<and> rs_POPName r = pop \<and> cur \<noteq> []
        \<and> paths (path_key t pop) \<notin> {None, Some cur} then 1 else 0)"
  by (auto simp: path_change_def Let_def path_key_def split: option.splits)

lemma counter_handleTracerouteResult:
  "counter (snd (handleTracerouteResult C now msg p)) traceroutePathChange [t, pop] =
    (case observed_path C t pop msg of
       None \<Rightarrow> 0
     | Some path \<Rightarrow> if lastASPaths p (path_key t pop) \<in> {None, Some (asPathString path)} then 0 else 1)"
  by (auto simp: snd_handleTracerouteResult observed_path_def counter_path_change counter_concat
      split: option.splits)

lemma lastASPaths_handleTracerouteResult:
  assumes "\<not> key_clash C t pop msg"
  shows "lastASPaths (fst (handleTracerouteResult C now msg p)) (path_key t pop) =
    (case observed_path C t pop msg of
       None \<Rightarrow> lastASPaths p (path_key t pop)
     | Some path \<Rightarrow> Some (asPathString path))"
  using assms
  by (auto simp: fst_handleTracerouteResult observed_path_def key_clash_def path_change_def Let_def
      path_key_def split: option.splits)

lemma counter_path_changes:
  assumes "\<forall>nm \<in> set ms. \<not> key_clash C t pop (snd nm)"
    and "lastASPaths p (path_key t pop) = map_option asPathString q"
  shows "counter (snd (handle_all (\<lambda>nm. handleTracerouteResult C (fst nm) (snd nm)) ms p))
      traceroutePathChange [t, pop] =
    changes ((case q of None \<Rightarrow> [] | Some x \<Rightarrow> [x])
      @ List.map_filter (\<lambda>nm. observed_path C t pop (snd nm)) ms)"
  using assms
proof (induction ms arbitrary: p q)
  case Nil
  then show ?case by (cases q) (auto simp: map_filter_simps)
next
  case (Cons nm ms)
  obtain now msg where nm: "nm = (now, msg)" by (cases nm)
  define p' where "p' = fst (handleTracerouteResult C now msg p)"
  define q' where "q' = (case observed_path C t pop msg of None \<Rightarrow> q | Some path \<Rightarrow> Some path)"
  have clash: "\<not> key_clash C t pop msg" using Cons.prems(1) nm by auto
  have "lastASPaths p' (path_key t pop) = map_option asPathString q'"
    using Cons.prems(2) lastASPaths_handleTracerouteResult [OF clash, of now p]
    by (auto simp: p'_def q'_def split: option.splits)
  with Cons.IH [of p' q'] Cons.prems(1)
  have rest: "counter (snd (handle_all (\<lambda>nm. handleTracerouteResult C (fst nm) (snd nm)) ms p'))
      traceroutePathChange [t, pop] =
    changes ((case q' of None \<Rightarrow> [] | Some x \<Rightarrow> [x])
      @ List.map_filter (\<lambda>nm. observed_path C t pop (snd nm)) ms)"
    by auto
  show ?case
    using rest Cons.prems(2)
    by (auto simp: nm split_beta p'_def [symmetric] q'_def counter_handleTracerouteResult
        map_filter_simps split: option.splits)
qed


subsection \<open>Hops\<close>

definition hop_labels :: "Result \<Rightarrow> tracerouteHopResult \<Rightarrow> string list" where
  "hop_labels r hop =
     labels3 r @ [itoa (th_HopNumber hop), if th_IP hop = [] then ''*'' else th_IP hop]"

lemma hop_calls_eq:
  "hop_calls r hop =
     [SetGauge tracerouteHopRTT (hop_labels r hop @ [itoa (th_ASN hop)]) (f64_div (th_RTTAvg hop) 1000),
      SetGauge tracerouteHopLoss (hop_labels r hop) (th_PacketLoss hop)]"
  by (simp add: hop_calls_def hop_labels_def Let_def)

lemma hop_labels_number:
  "hop_labels r h = hop_labels r h' \<Longrightarrow> th_HopNumber h = th_HopNumber h'"
  by (simp add: hop_labels_def split: if_splits)

lemma no_hop_gauge_path_change:
  "SetGauge m ls x \<notin> set (snd (path_change r cur paths))"
  using set_path_change by blast

lemma no_hop_gauge_correlation:
  assumes "m \<noteq> correlationAge" "m \<noteq> matchStatus"
  shows "SetGauge m ls x \<notin> set (snd (HandleTracerouteResult now t pop a path hc rd e))"
proof
  assume "SetGauge m ls x \<in> set (snd (HandleTracerouteResult now t pop a path hc rd e))"
  then obtain r where "SetGauge m ls x \<in> set (recordResult r)"
    using set_HandleTracerouteResult by blast
  with assms show False by (cases "cr_Match r") (auto simp: recordResult_def)
qed

lemma hop_gauges_last:
  assumes hop: "hop \<in> set hops" and dist: "distinct (map th_HopNumber hops)"
    and rest: "\<And>ls x. SetGauge tracerouteHopRTT ls x \<notin> set ds"
      "\<And>ls x. SetGauge tracerouteHopLoss ls x \<notin> set ds"
  shows "fold apply_call (concat (map (hop_calls r) hops) @ ds) g
      (tracerouteHopRTT, hop_labels r hop @ [itoa (th_ASN hop)]) = Some (f64_div (th_RTTAvg hop) 1000)"
    and "fold apply_call (concat (map (hop_calls r) hops) @ ds) g
      (tracerouteHopLoss, hop_labels r hop) = Some (th_PacketLoss hop)"
proof -
  let ?rtt = "SetGauge tracerouteHopRTT (hop_labels r hop @ [itoa (th_ASN hop)])"
  let ?loss = "SetGauge tracerouteHopLoss (hop_labels r hop)"
  obtain ys zs where split: "hops = ys @ hop # zs" using split_list [OF hop] by blast
  have other: "hop_labels r hop \<noteq> hop_labels r h" if "h \<in> set zs" for h
    using hop_labels_number [of r hop h] that dist split by (auto simp: image_iff)
  have eq1: "concat (map (hop_calls r) hops) @ ds =
      concat (map (hop_calls r) ys)
      @ ?rtt (f64_div (th_RTTAvg hop) 1000)
      # (?loss (th_PacketLoss hop) # concat (map (hop_calls r) zs) @ ds)"
    by (simp add: split hop_calls_eq)
  have "?rtt v \<notin> set (?loss (th_PacketLoss hop) # concat (map (hop_calls r) zs) @ ds)" for v
    using other rest(1) by (auto simp: hop_calls_eq)
  from fold_apply_call_last [OF this]
  show "fold apply_call (concat (map (hop_calls r) hops) @ ds) g
      (tracerouteHopRTT, hop_labels r hop @ [itoa (th_ASN hop)]) = Some (f64_div (th_RTTAvg hop) 1000)"
    unfolding eq1 .
  have eq2: "concat (map (hop_calls r) hops) @ ds =
      (concat (map (hop_calls r) ys) @ [?rtt (f64_div (th_RTTAvg hop) 1000)])
      @ ?loss (th_PacketLoss hop) # concat (map (hop_calls r) zs) @ ds"
    by (simp add: split hop_calls_eq)
  have "?loss v \<notin> set (concat (map (hop_calls r) zs) @ ds)" for v
    using other rest(2) by (auto simp: hop_calls_eq)
  from fold_apply_call_last [OF this]
  show "fold apply_call (concat (map (hop_calls r) hops) @ ds) g
      (tracerouteHopLoss, hop_labels r hop) = Some (th_PacketLoss hop)"
    unfolding eq2 .
qed

subsection \<open>Properties\<close>

text \<open>
  C32: no delivery makes a call on a metric that would panic: every call passes as many label
  values as the metric has label names, and sets gauges and increments counters only.
\<close>

theorem deliver_calls_valid:
  "list_all valid_call (snd (deliver C now targets keys topic msg p))"
  unfolding list_all_iff using deliver_calls valid_processor_call valid_recordResult by blast

text \<open>
  C14: along any sequence of traceroute messages, the path change counter of a target and a POP
  counts the changes in the sequence of non-empty AS paths reported for them: messages of
  other targets, messages that cannot be decoded and empty paths in between do not matter. The
  hypothesis excludes two pairs of a target and a POP that share a key.
\<close>

theorem path_change_counter_counts_changes:
  assumes "lastASPaths p (path_key t pop) = None"
    and "list_all (\<lambda>nm. \<not> key_clash C t pop (snd nm)) ms"
  shows "counter (snd (handle_all (\<lambda>nm. handleTracerouteResult C (fst nm) (snd nm)) ms p))
      traceroutePathChange [t, pop] =
    changes (List.map_filter (\<lambda>nm. observed_path C t pop (snd nm)) ms)"
  using counter_path_changes [of ms C t pop p None] assms by (simp add: list_all_iff)

definition demo_trace_doc :: "int \<Rightarrow> json" where
  "demo_trace_doc asn = JObj [(''target'', JStr ''h''), (''pop_name'', JStr ''nyc''),
     (''metrics'', JObj [(''as_path'', JArr [JInt 10, JInt asn]), (''reached_target'', JBool True)])]"

definition demo_trace_codec :: codec where
  "demo_trace_codec = (demo_codec JNull)\<lparr>parse_json :=
     (\<lambda>b. if b = ''new'' then Some (demo_trace_doc 30)
          else if b = ''bad'' then None else Some (demo_trace_doc 20))\<rparr>"

lemma demo_trace_result:
  "unmarshal_Result demo_trace_codec b = (if b = ''bad'' then None else
     Some (zero_Result\<lparr>rs_Target := ''h'', rs_POPName := ''nyc'', rs_Metrics := Some (JObj
       [(''as_path'', JArr [JInt 10, JInt (if b = ''new'' then 30 else 20)]),
        (''reached_target'', JBool True)])\<rparr>))"
  by (simp add: unmarshal_Result_def unmarshal_def demo_trace_codec_def dec_Result_def
      demo_trace_doc_def Result_fields_def find_field_def field_def dec_raw_def zero_Result_def)

lemma demo_trace_path:
  "observed_path demo_trace_codec ''h'' ''nyc'' b =
     (if b = ''bad'' then None else Some [10, if b = ''new'' then 30 else 20])"
  by (simp add: observed_path_def demo_trace_result zero_Result_def unmarshal_raw_def
      dec_tracerouteResultMetrics_def tracerouteResultMetrics_fields_def find_field_def field_def
      zero_tracerouteResultMetrics_def in_int64_def)

lemma path_change_counter_counts_changes_witness:
  "counter (snd (handle_all (\<lambda>nm. handleTracerouteResult demo_trace_codec (fst nm) (snd nm))
     [(1, ''old''), (2, ''new''), (3, ''bad''), (4, ''new''), (5, ''old'')] new_processor))
     traceroutePathChange [''h'', ''nyc''] = 2"
  by (subst path_change_counter_counts_changes)
    (simp_all add: new_processor_def key_clash_def demo_trace_result zero_Result_def
      demo_trace_path map_filter_simps)


text \<open>The correlation engine of a processor knows no target.\<close>

lemma deliver_prefixTargetMap:
  "prefixTargetMap (correlator (fst (deliver C now ts ks topic msg p))) =
     prefixTargetMap (correlator p)"
proof (cases "map_of subscriptions topic")
  case (Some sub)
  then show ?thesis
    by (cases sub)
      (auto simp: deliver_def split_beta handlePingResult_def handleDNSResult_def
        handleHTTPResult_def fst_handleTracerouteResult Let_def split: option.split)
qed (simp add: deliver_def)

lemma deliver_unregistered_calls:
  assumes reg: "prefixTargetMap (correlator p) = Map.empty"
    and c: "c \<in> set (snd (deliver C now ts ks topic msg p))"
  shows "processor_call c"
proof (cases "map_of subscriptions topic")
  case (Some sub)
  with c reg show ?thesis
    by (cases sub)
      (auto simp: deliver_def split_beta snd_handleTracerouteResult
        HandleTracerouteResult_unregistered HandleBGPUpdate_unregistered
        dest: handlePingResult_calls handleDNSResult_calls handleHTTPResult_calls set_path_change
        intro: processor_call.intros split: option.splits)
qed (use c in \<open>simp add: deliver_def\<close>)

lemma reachable_processor_unregistered:
  "reachable_processor C p cs \<Longrightarrow>
     prefixTargetMap (correlator p) = Map.empty \<and> (\<forall>c \<in> set cs. processor_call c)"
proof (induction rule: reachable_processor.induct)
  case start
  show ?case by (simp add: new_processor_def new_engine_def)
next
  case (deliver p cs now targets keys topic msg p' ds)
  then have "p' = fst (deliver C now targets keys topic msg p)"
    "ds = snd (deliver C now targets keys topic msg p)"
    by simp_all
  with deliver.IH deliver_unregistered_calls show ?case
    by (auto simp: deliver_prefixTargetMap)
qed

lemma processor_call_engine_vec:
  "processor_call (IncCounter m ls) \<Longrightarrow> engine_vec m = None"
  "processor_call (SetGauge m ls x) \<Longrightarrow> engine_vec m = None"
  by (auto simp: ping_calls_def resolver_calls_def http_calls_def hop_calls_def Let_def
      elim!: processor_call.cases split: if_splits)


text \<open>
  C33: the processor itself never registers a target with its correlation engine, so no
  processor ever reports a correlation: in every reachable state the engine knows no target,
  and no call on a metric of the engine has been made.
\<close>

theorem processor_never_correlates:
  assumes "reachable_processor C p cs"
  shows "prefixTargetMap (correlator p) = Map.empty \<and>
    (engine_vec m \<noteq> None \<longrightarrow> counter cs m ls = 0 \<and> gauges cs (m, ls) = None)"
proof (intro conjI)
  note facts = reachable_processor_unregistered [OF assms]
  then show "prefixTargetMap (correlator p) = Map.empty" by blast
  show "engine_vec m \<noteq> None \<longrightarrow> counter cs m ls = 0 \<and> gauges cs (m, ls) = None"
  proof
    assume "engine_vec m \<noteq> None"
    then have "IncCounter m ls \<notin> set cs" and "SetGauge m ls x \<notin> set cs" for x
      using conjunct2 [OF facts] processor_call_engine_vec(1) [of m ls]
        processor_call_engine_vec(2) [of m ls x]
      by metis+
    then show "counter cs m ls = 0 \<and> gauges cs (m, ls) = None"
      by (simp add: counter_def count_list_0_iff gauges_def fold_apply_call_other)
  qed
qed

lemma new_processor_orders:
  "iteration_order [] (prefixTargetMap (correlator new_processor))"
  "iteration_order [] (traceroutePaths (correlator new_processor))"
  by (simp_all add: new_processor_def new_engine_def)

lemma processor_never_correlates_witness:
  "counter ([] @ snd (deliver (demo_codec demo_doc) 1 [] (\<lambda>_. []) ''netvantage.bgp.paths'' ''m''
     new_processor)) correlationsRun [''192.0.2.0/24'', ''nyc''] = 0"
  using processor_never_correlates [THEN conjunct2, OF reachable_processor.deliver
      [OF reachable_processor.start prod.collapse [symmetric] new_processor_orders],
      of correlationsRun]
  by simp

text \<open>
  Once a DNS response code has been seen for a target, a POP, an agent and a resolver, its
  gauge stays 1 whatever messages arrive afterwards: a later answer with another code sets
  another series and leaves the old one alone.
\<close>

theorem dns_response_code_never_reset:
  assumes "reachable_processor C p cs" "gauges cs (dnsResponseCode, ls) = Some 1"
  shows "gauges (cs @ snd (deliver C now targets keys topic msg p)) (dnsResponseCode, ls) = Some 1"
proof -
  have "fold apply_call ds g (dnsResponseCode, ls) = Some 1"
    if "g (dnsResponseCode, ls) = Some 1" "\<forall>c \<in> set ds. own_or_correlation c" for g ds
    using that
  proof (induction ds arbitrary: g)
    case (Cons c ds)
    then have "apply_call c g (dnsResponseCode, ls) = Some 1"
      using dnsResponseCode_call by (cases c) auto
    with Cons show ?case by simp
  qed simp
  with assms(2) deliver_calls show ?thesis unfolding gauges_append by blast
qed

definition demo_dns_codec :: codec where
  "demo_dns_codec = demo_codec (JObj [(''target'', JStr ''h''), (''metrics'',
     JObj [(''resolvers'', JArr [JObj [(''resolver'', JStr ''r''),
       (''response_code'', JStr ''NXDOMAIN'')]])])])"

lemma demo_dns_gauge:
  "gauges ([] @ snd (deliver demo_dns_codec 1 [] (\<lambda>_. []) ''netvantage.dns.results'' ''m'' new_processor))
     (dnsResponseCode, [''h'', [], [], ''r'', ''NXDOMAIN'']) = Some 1"
  by (simp add: deliver_def subscriptions_def handleDNSResult_def demo_dns_codec_def demo_codec_def
      unmarshal_Result_def unmarshal_def dec_Result_def Result_fields_def find_field_def field_def
      dec_raw_def zero_Result_def unmarshal_raw_def dec_dnsMetrics_def dnsMetrics_fields_def
      zero_dnsMetrics_def dec_dnsResolverResult_def dnsResolverResult_fields_def Let_def
      zero_dnsResolverResult_def resolver_calls_def labels3_def gauges_def)

lemma dns_response_code_never_reset_witness:
  "\<exists>p cs. gauges (cs @ snd (deliver demo_dns_codec 2 [] (\<lambda>_. []) ''netvantage.ping.results'' ''m'' p))
     (dnsResponseCode, [''h'', [], [], ''r'', ''NXDOMAIN'']) = Some 1"
  using dns_response_code_never_reset [OF reachable_processor.deliver
      [OF reachable_processor.start prod.collapse [symmetric] new_processor_orders] demo_dns_gauge]
  by blast


text \<open>
  A message that is no result, or whose metrics cannot be decoded, changes neither the
  state of the processor nor any gauge and counts one error; any other ping message counts as
  processed and sets exactly the six ping series of its target, POP and agent, milliseconds
  turned into seconds.
\<close>

theorem ping_message_effect:
  "fst (handlePingResult C msg p) = p \<and>
   (case unmarshal_Result C msg of
      None \<Rightarrow> snd (handlePingResult C msg p) = [IncCounter processingErrors [''ping'', ''unmarshal'']]
    | Some r \<Rightarrow>
        counter (snd (handlePingResult C msg p)) resultsProcessed [''ping'', rs_POPName r] = 1 \<and>
        (case unmarshal_raw dec_pingMetrics (rs_Metrics r) of
           None \<Rightarrow> gauges (cs @ snd (handlePingResult C msg p)) = gauges cs
             \<and> counter (snd (handlePingResult C msg p)) processingErrors
                 [''ping'', ''metrics_unmarshal''] = 1
         | Some m \<Rightarrow> gauges (cs @ snd (handlePingResult C msg p)) = (gauges cs)
             ((pingRTT, labels3 r @ [''min'']) \<mapsto> f64_div (pm_RTTMin m) 1000,
              (pingRTT, labels3 r @ [''avg'']) \<mapsto> f64_div (pm_RTTAvg m) 1000,
              (pingRTT, labels3 r @ [''max'']) \<mapsto> f64_div (pm_RTTMax m) 1000,
              (pingRTT, labels3 r @ [''stddev'']) \<mapsto> f64_div (pm_RTTStdDev m) 1000,
              (pingPacketLoss, labels3 r) \<mapsto> pm_PacketLoss m,
              (pingJitter, labels3 r) \<mapsto> f64_div (pm_Jitter m) 1000)))"
  by (auto simp: handlePingResult_def Let_def ping_calls_def gauges_append
      split: option.split)

text \<open>
  An HTTP message sets the certificate gauge only to a positive number of days. For an
  expired certificate the gauge keeps the value of an earlier message, while the status code
  of the same message is recorded.
\<close>

theorem http_expired_certificate_keeps_gauge:
  assumes "unmarshal_Result C msg = Some r"
    and "unmarshal_raw dec_httpResultMetrics (rs_Metrics r) = Some m"
  shows "gauges (cs @ snd (handleHTTPResult C msg p)) (httpCertExpiry, labels3 r) =
      (if hm_CertExpiryDays m > 0 then Some (hm_CertExpiryDays m)
       else gauges cs (httpCertExpiry, labels3 r)) \<and>
    gauges (cs @ snd (handleHTTPResult C msg p)) (httpStatusCode, labels3 r) =
      Some (f64_of_int (hm_StatusCode m))"
  using assms by (simp add: handleHTTPResult_def Let_def http_calls_def gauges_append)

definition demo_http_codec :: codec where
  "demo_http_codec = demo_codec (JObj [(''target'', JStr ''h''), (''metrics'',
     JObj [(''status_code'', JInt 495), (''cert_expiry_days'', JInt (-2))])])"

lemma demo_http_result:
  "unmarshal_Result demo_http_codec b = Some (zero_Result\<lparr>rs_Target := ''h'',
     rs_Metrics := Some (JObj [(''status_code'', JInt 495), (''cert_expiry_days'', JInt (-2))])\<rparr>)"
  by (simp add: unmarshal_Result_def unmarshal_def demo_http_codec_def demo_codec_def dec_Result_def
      Result_fields_def find_field_def field_def dec_raw_def zero_Result_def)

lemma f64_parse_neg2: "f64_parse (-2) = Some (-2)"
  by code_simp

lemma demo_http_metrics:
  "unmarshal_raw dec_httpResultMetrics
     (Some (JObj [(''status_code'', JInt 495), (''cert_expiry_days'', JInt (-2))])) =
   Some (zero_httpResultMetrics\<lparr>hm_StatusCode := 495, hm_CertExpiryDays := - 2\<rparr>)"
  by (simp add: unmarshal_raw_def dec_httpResultMetrics_def httpResultMetrics_fields_def
      find_field_def field_def zero_httpResultMetrics_def in_int64_def f64_parse_neg2)

lemma http_expired_certificate_keeps_gauge_witness:
  "gauges ([SetGauge httpCertExpiry [''h'', [], []] 3] @ snd (handleHTTPResult demo_http_codec ''m'' new_processor))
     (httpCertExpiry, [''h'', [], []]) = Some 3"
  using http_expired_certificate_keeps_gauge [THEN conjunct1, OF demo_http_result,
      of "zero_httpResultMetrics\<lparr>hm_StatusCode := 495, hm_CertExpiryDays := - 2\<rparr>"
         "[SetGauge httpCertExpiry [''h'', [], []] 3]" "''m''" new_processor]
  by (simp add: demo_http_metrics labels3_def zero_Result_def zero_httpResultMetrics_def gauges_def)

text \<open>
  A traceroute message whose hops have distinct numbers leaves, for every hop, its round
  trip time in seconds and its loss in the series of that hop, with \<open>*\<close> for a hop that did
  not answer, and the reachability of the target in its gauge.
\<close>

theorem traceroute_hop_gauges:
  assumes "unmarshal_Result C msg = Some r"
    and "unmarshal_raw dec_tracerouteResultMetrics (rs_Metrics r) = Some m"
    and "hop \<in> set (tm_Hops m)" "distinct (map th_HopNumber (tm_Hops m))"
  shows "gauges (cs @ snd (handleTracerouteResult C now msg p))
      (tracerouteHopRTT, [rs_Target r, rs_POPName r, rs_AgentID r, itoa (th_HopNumber hop),
         if th_IP hop = [] then ''*'' else th_IP hop, itoa (th_ASN hop)]) =
      Some (f64_div (th_RTTAvg hop) 1000) \<and>
    gauges (cs @ snd (handleTracerouteResult C now msg p))
      (tracerouteHopLoss, [rs_Target r, rs_POPName r, rs_AgentID r, itoa (th_HopNumber hop),
         if th_IP hop = [] then ''*'' else th_IP hop]) = Some (th_PacketLoss hop)"
  using hop_gauges_last [OF assms(3,4), of "snd (path_change r (asPathString (tm_ASPath m))
      (lastASPaths p)) @ snd (HandleTracerouteResult now (rs_Target r) (rs_POPName r)
      (rs_AgentID r) (tm_ASPath m) (tm_HopCount m) (tm_ReachedTarget m) (correlator p))"] assms(1,2)
  by (auto simp: snd_handleTracerouteResult gauges_append no_hop_gauge_path_change
      no_hop_gauge_correlation hop_labels_def labels3_def)

definition demo_hop_codec :: codec where
  "demo_hop_codec = demo_codec (JObj [(''target'', JStr ''h''), (''metrics'',
     JObj [(''hops'', JArr [JObj [(''hop_number'', JInt 1), (''rtt_avg_ms'', JInt 500)]])])])"

lemma f64_500: "f64_parse 500 = Some 500" "f64_div 500 1000 = 1 / 2"
  by code_simp+

lemma traceroute_hop_gauges_witness:
  "gauges ([] @ snd (handleTracerouteResult demo_hop_codec 1 ''m'' new_processor))
     (tracerouteHopRTT, [''h'', [], [], ''1'', ''*'', ''0'']) = Some (1 / 2)"
proof -
  let ?hops = "JObj [(''hops'', JArr [JObj [(''hop_number'', JInt 1), (''rtt_avg_ms'', JInt 500)]])]"
  let ?hop = "zero_tracerouteHopResult\<lparr>th_HopNumber := 1, th_RTTAvg := 500\<rparr>"
  have "unmarshal_Result demo_hop_codec b =
      Some (zero_Result\<lparr>rs_Target := ''h'', rs_Metrics := Some ?hops\<rparr>)" for b
    by (simp add: unmarshal_Result_def unmarshal_def demo_hop_codec_def demo_codec_def
        dec_Result_def Result_fields_def find_field_def field_def dec_raw_def zero_Result_def)
  moreover have "unmarshal_raw dec_tracerouteResultMetrics (Some ?hops) =
      Some (zero_tracerouteResultMetrics\<lparr>tm_Hops := [?hop]\<rparr>)"
    by (simp add: unmarshal_raw_def dec_tracerouteResultMetrics_def
        tracerouteResultMetrics_fields_def find_field_def field_def zero_tracerouteResultMetrics_def
        in_int64_def f64_500 dec_tracerouteHopResult_def tracerouteHopResult_fields_def
        zero_tracerouteHopResult_def)
  moreover have "itoa 1 = ''1''" "itoa 0 = ''0''" by code_simp+
  ultimately show ?thesis
    using traceroute_hop_gauges [THEN conjunct1, of demo_hop_codec "''m''"
        "zero_Result\<lparr>rs_Target := ''h'', rs_Metrics := Some ?hops\<rparr>"
        "zero_tracerouteResultMetrics\<lparr>tm_Hops := [?hop]\<rparr>" ?hop "[]" 1 new_processor]
    by (simp add: zero_Result_def zero_tracerouteHopResult_def f64_500)
qed

end
