(* ===== verification/Traceroute.thy ===== *)
theory Traceroute
  imports Canary
begin

text \<open>
  The traceroute test (internal/agent/canary/traceroute): its configuration, the command lines
  it builds for mtr and scamper, the parsers of their output, the AS path and the result. The
  two programs, the clock, the resolver, \<open>net.ParseIP\<close> and the texts of JSON errors are
  arguments, the record \<open>tr_env\<close>.
\<close>

subsection \<open>Configuration\<close>

record tr_config =
  tr_Backend :: string
  tr_Cycles :: int
  tr_MaxHops :: int
  tr_PacketSize :: int
  tr_Protocol :: string
  tr_Port :: int
  tr_IntervalSec :: float64
  tr_ResolveASN :: "bool option"
  tr_ResolveHostnames :: "bool option"

definition tr_zero_config :: tr_config where
  "tr_zero_config = \<lparr>tr_Backend = [], tr_Cycles = 0, tr_MaxHops = 0, tr_PacketSize = 0,
     tr_Protocol = [], tr_Port = 0, tr_IntervalSec = 0, tr_ResolveASN = None,
     tr_ResolveHostnames = None\<rparr>"

definition tr_DefaultConfig :: tr_config where
  "tr_DefaultConfig = \<lparr>tr_Backend = ''mtr'', tr_Cycles = 10, tr_MaxHops = 30, tr_PacketSize = 64,
     tr_Protocol = ''icmp'', tr_Port = 0, tr_IntervalSec = 1 / 4, tr_ResolveASN = Some True,
     tr_ResolveHostnames = Some True\<rparr>"

definition tr_config_fields :: "tr_config fields" where
  "tr_config_fields =
     [(''backend'', field tr_Backend tr_Backend_update dec_string),
      (''cycles'', field tr_Cycles tr_Cycles_update dec_int),
      (''max_hops'', field tr_MaxHops tr_MaxHops_update dec_int),
      (''packet_size'', field tr_PacketSize tr_PacketSize_update dec_int),
      (''protocol'', field tr_Protocol tr_Protocol_update dec_string),
      (''port'', field tr_Port tr_Port_update dec_int),
      (''interval_sec'', field tr_IntervalSec tr_IntervalSec_update dec_float),
      (''resolve_asn'', field tr_ResolveASN tr_ResolveASN_update (\<lambda>_. dec_ptr dec_bool False)),
      (''resolve_hostnames'',
         field tr_ResolveHostnames tr_ResolveHostnames_update (\<lambda>_. dec_ptr dec_bool False))]"

definition dec_tr_config :: "tr_config \<Rightarrow> json \<Rightarrow> tr_config option" where
  "dec_tr_config = dec_struct tr_config_fields"

datatype tr_error =
    TrInvalidConfig
  | TrBadBackend string
  | TrBadCycles int
  | TrBadMaxHops int
  | TrBadProtocol string
  | TrBadInterval float64
  | TrParseConfig
  | TrUnsupportedBackend string
  | TrMarshal

definition tr_Validate :: "(string \<Rightarrow> string) \<Rightarrow> codec \<Rightarrow> bytes \<Rightarrow> tr_error option" where
  "tr_Validate lower C config =
     (if length config = 0 \<or> config = ''null'' then None
      else case unmarshal C (dec_tr_config tr_zero_config) config of
        None \<Rightarrow> Some TrInvalidConfig
      | Some cfg \<Rightarrow>
          if tr_Backend cfg \<noteq> [] \<and> tr_Backend cfg \<noteq> ''mtr'' \<and> tr_Backend cfg \<noteq> ''scamper''
          then Some (TrBadBackend (tr_Backend cfg))
          else if tr_Cycles cfg < 0 then Some (TrBadCycles (tr_Cycles cfg))
          else if tr_MaxHops cfg < 0 \<or> tr_MaxHops cfg > 255 then Some (TrBadMaxHops (tr_MaxHops cfg))
          else if tr_Protocol cfg \<noteq> []
            \<and> to_lower lower (tr_Protocol cfg) \<notin> {''icmp'', ''udp'', ''tcp''}
          then Some (TrBadProtocol (tr_Protocol cfg))
          else if tr_IntervalSec cfg < 0 then Some (TrBadInterval (tr_IntervalSec cfg))
          else None)"

definition mergeDefaults :: "tr_config \<Rightarrow> tr_config" where
  "mergeDefaults cfg =
     (let d = tr_DefaultConfig in
      \<lparr>tr_Backend = (if tr_Backend cfg = [] then tr_Backend d else tr_Backend cfg),
       tr_Cycles = (if tr_Cycles cfg = 0 then tr_Cycles d else tr_Cycles cfg),
       tr_MaxHops = (if tr_MaxHops cfg = 0 then tr_MaxHops d else tr_MaxHops cfg),
       tr_PacketSize = (if tr_PacketSize cfg = 0 then tr_PacketSize d else tr_PacketSize cfg),
       tr_Protocol = (if tr_Protocol cfg = [] then tr_Protocol d else tr_Protocol cfg),
       tr_Port = tr_Port cfg,
       tr_IntervalSec = (if tr_IntervalSec cfg = 0 then tr_IntervalSec d else tr_IntervalSec cfg),
       tr_ResolveASN = (if tr_ResolveASN cfg = None then tr_ResolveASN d else tr_ResolveASN cfg),
       tr_ResolveHostnames = (if tr_ResolveHostnames cfg = None then tr_ResolveHostnames d
          else tr_ResolveHostnames cfg)\<rparr>)"

subsection \<open>Hops and metrics\<close>

record Hop =
  hp_HopNumber :: int
  hp_IP :: string
  hp_Hostname :: string
  hp_ASN :: int
  hp_ASName :: string
  hp_RTTMin :: float64
  hp_RTTAvg :: float64
  hp_RTTMax :: float64
  hp_RTTStdDev :: float64
  hp_PacketLoss :: float64
  hp_Sent :: int
  hp_Received :: int

text \<open>\<open>Hops\<close> is \<open>None\<close> for the nil slice, which is printed as \<open>null\<close>.\<close>

record tr_metrics =
  trm_Backend :: string
  trm_Hops :: "Hop list option"
  trm_HopCount :: int
  trm_ReachedTarget :: bool
  trm_ASPath :: "int list"
  trm_TotalMS :: float64

definition zero_Hop :: Hop where
  "zero_Hop = \<lparr>hp_HopNumber = 0, hp_IP = [], hp_Hostname = [], hp_ASN = 0, hp_ASName = [],
     hp_RTTMin = 0, hp_RTTAvg = 0, hp_RTTMax = 0, hp_RTTStdDev = 0, hp_PacketLoss = 0,
     hp_Sent = 0, hp_Received = 0\<rparr>"

definition enc_Hop :: "Hop \<Rightarrow> json" where
  "enc_Hop h = JObj
     ([(''hop_number'', JInt (hp_HopNumber h))]
      @ omitempty (hp_IP h = []) ''ip'' (JStr (hp_IP h))
      @ omitempty (hp_Hostname h = []) ''hostname'' (JStr (hp_Hostname h))
      @ omitempty (hp_ASN h = 0) ''asn'' (JInt (hp_ASN h))
      @ omitempty (hp_ASName h = []) ''as_name'' (JStr (hp_ASName h))
      @ [(''rtt_min_ms'', enc_float (hp_RTTMin h)),
         (''rtt_avg_ms'', enc_float (hp_RTTAvg h)),
         (''rtt_max_ms'', enc_float (hp_RTTMax h))]
      @ omitempty (hp_RTTStdDev h = 0) ''rtt_stddev_ms'' (enc_float (hp_RTTStdDev h))
      @ [(''packet_loss_ratio'', enc_float (hp_PacketLoss h)),
         (''sent'', JInt (hp_Sent h))]
      @ omitempty (hp_Received h = 0) ''received'' (JInt (hp_Received h)))"

definition hop_finite :: "Hop \<Rightarrow> bool" where
  "hop_finite h \<longleftrightarrow> f64_finite (hp_RTTMin h) \<and> f64_finite (hp_RTTAvg h) \<and> f64_finite (hp_RTTMax h)
     \<and> f64_finite (hp_RTTStdDev h) \<and> f64_finite (hp_PacketLoss h)"

text \<open>\<open>Marshal\<close> fails on a number that is no finite \<open>float64\<close>.\<close>

definition marshal_tr_metrics :: "tr_metrics \<Rightarrow> json option" where
  "marshal_tr_metrics m =
     (if list_all hop_finite (case trm_Hops m of None \<Rightarrow> [] | Some hs \<Rightarrow> hs)
         \<and> f64_finite (trm_TotalMS m)
      then Some (JObj
        ([(''backend'', JStr (trm_Backend m)),
          (''hops'', case trm_Hops m of None \<Rightarrow> JNull | Some hs \<Rightarrow> JArr (map enc_Hop hs)),
          (''hop_count'', JInt (trm_HopCount m)),
          (''reached_target'', JBool (trm_ReachedTarget m))]
         @ omitempty (trm_ASPath m = []) ''as_path'' (JArr (map JInt (trm_ASPath m)))
         @ [(''total_ms'', enc_float (trm_TotalMS m))]))
      else None)"

subsection \<open>Environment\<close>

text \<open>
  \<open>run\<close> runs a program with arguments under a deadline (none for 0), returning its standard
  output or the text of the failure; \<open>parse_ip\<close> is \<open>net.ParseIP\<close> followed by \<open>String\<close>.
\<close>

record tr_env =
  run :: "string \<Rightarrow> string list \<Rightarrow> int \<Rightarrow> bytes fallible"
  lookup_host :: "string \<Rightarrow> string list option"
  parse_ip :: "string \<Rightarrow> string option"
  json_error :: "bytes \<Rightarrow> string"
  lower :: "string \<Rightarrow> string"
  start :: int
  elapsed :: int

subsection \<open>Command lines\<close>

text \<open>\<open>%.2f\<close>: two decimals, exactly rounded to the nearest, ties to the even digit.\<close>

definition format_f2 :: "float64 \<Rightarrow> string" where
  "format_f2 x =
     (let n = round_even (100 * \<bar>x\<bar>); s = itoa (n mod 100)
      in (if x < 0 then ''-'' else []) @ itoa (n div 100) @ ''.''
         @ (if length s < 2 then ''0'' else []) @ s)"

definition buildMTRArgs :: "(string \<Rightarrow> string) \<Rightarrow> string \<Rightarrow> tr_config \<Rightarrow> string list" where
  "buildMTRArgs u target cfg =
     [''--json'', ''--report'', ''-c'', itoa (tr_Cycles cfg), ''-m'', itoa (tr_MaxHops cfg),
      ''-s'', itoa (tr_PacketSize cfg), ''-i'', format_f2 (tr_IntervalSec cfg)]
     @ (if tr_ResolveHostnames cfg = Some False then [''--no-dns''] else [])
     @ (let p = to_lower u (tr_Protocol cfg) in
        if p = ''tcp'' then ''--tcp'' # (if tr_Port cfg > 0 then [''-P'', itoa (tr_Port cfg)] else [])
        else if p = ''udp'' then ''--udp'' # (if tr_Port cfg > 0 then [''-P'', itoa (tr_Port cfg)] else [])
        else [])
     @ [target]"

definition buildScamperArgs :: "(string \<Rightarrow> string) \<Rightarrow> string \<Rightarrow> tr_config \<Rightarrow> string list" where
  "buildScamperArgs u target cfg =
     (let traceCmd = ''trace -P '' @ to_lower u (tr_Protocol cfg) @ '' -q '' @ itoa (tr_Cycles cfg)
            @ '' -m '' @ itoa (tr_MaxHops cfg)
            @ (if tr_Port cfg > 0 \<and> (tr_Protocol cfg = ''tcp'' \<or> tr_Protocol cfg = ''udp'')
               then '' -d '' @ itoa (tr_Port cfg) else [])
      in [''-O'', ''json'', ''-c'', traceCmd, ''-i'', target])"


subsection \<open>The output of mtr\<close>

record mtrHop =
  mh_Count :: int
  mh_Host :: string
  mh_Loss :: float64
  mh_Sent :: int
  mh_Last :: float64
  mh_Avg :: float64
  mh_Best :: float64
  mh_Worst :: float64
  mh_StDev :: float64

record mtrInfo =
  mi_Src :: string
  mi_Dst :: string
  mi_TOS :: int
  mi_Tests :: int
  mi_PacketSize :: string
  mi_BitPattern :: string

record mtrReport =
  mr_MTR :: mtrInfo
  mr_Hops :: "mtrHop list"

definition zero_mtrHop :: mtrHop where
  "zero_mtrHop = \<lparr>mh_Count = 0, mh_Host = [], mh_Loss = 0, mh_Sent = 0, mh_Last = 0, mh_Avg = 0,
     mh_Best = 0, mh_Worst = 0, mh_StDev = 0\<rparr>"

definition zero_mtrReport :: mtrReport where
  "zero_mtrReport = \<lparr>mr_MTR = \<lparr>mi_Src = [], mi_Dst = [], mi_TOS = 0, mi_Tests = 0,
     mi_PacketSize = [], mi_BitPattern = []\<rparr>, mr_Hops = []\<rparr>"

definition mtrHop_fields :: "mtrHop fields" where
  "mtrHop_fields =
     [(''count'', field mh_Count mh_Count_update dec_int),
      (''host'', field mh_Host mh_Host_update dec_string),
      (''Loss%'', field mh_Loss mh_Loss_update dec_float),
      (''Snt'', field mh_Sent mh_Sent_update dec_int),
      (''Last'', field mh_Last mh_Last_update dec_float),
      (''Avg'', field mh_Avg mh_Avg_update dec_float),
      (''Best'', field mh_Best mh_Best_update dec_float),
      (''Wrst'', field mh_Worst mh_Worst_update dec_float),
      (''StDev'', field mh_StDev mh_StDev_update dec_float)]"

definition mtrInfo_fields :: "mtrInfo fields" where
  "mtrInfo_fields =
     [(''src'', field mi_Src mi_Src_update dec_string),
      (''dst'', field mi_Dst mi_Dst_update dec_string),
      (''tos'', field mi_TOS mi_TOS_update dec_int),
      (''tests'', field mi_Tests mi_Tests_update dec_int),
      (''psize'', field mi_PacketSize mi_PacketSize_update dec_string),
      (''bitpattern'', field mi_BitPattern mi_BitPattern_update dec_string)]"

definition mtrReport_fields :: "mtrReport fields" where
  "mtrReport_fields =
     [(''mtr'', field mr_MTR mr_MTR_update (dec_struct mtrInfo_fields)),
      (''hubs'', field mr_Hops mr_Hops_update (\<lambda>_. dec_list (dec_struct mtrHop_fields zero_mtrHop)))]"

text \<open>The outer struct has the one field \<open>report\<close>.\<close>

definition dec_mtr_output :: "json \<Rightarrow> mtrReport option" where
  "dec_mtr_output = dec_struct [(''report'', \<lambda>r. dec_struct mtrReport_fields r)] zero_mtrReport"

definition mtr_addr :: "tr_env \<Rightarrow> string \<Rightarrow> Hop \<Rightarrow> Hop" where
  "mtr_addr E host hop =
     (if host = ''???'' then hop
      else case parse_ip E host of
        Some _ \<Rightarrow> hop\<lparr>hp_IP := host\<rparr>
      | None \<Rightarrow>
          (case lookup_host E host of
             Some (ip # _) \<Rightarrow> hop\<lparr>hp_Hostname := host, hp_IP := ip\<rparr>
           | _ \<Rightarrow> hop\<lparr>hp_Hostname := host\<rparr>))"

definition hop_of_mtr :: "tr_env \<Rightarrow> nat \<Rightarrow> mtrHop \<Rightarrow> Hop" where
  "hop_of_mtr E i h =
     (let loss = f64_div (mh_Loss h) 100;
          hop = mtr_addr E (mh_Host h) (zero_Hop\<lparr>hp_HopNumber := int i + 1, hp_RTTMin := mh_Best h,
            hp_RTTAvg := mh_Avg h, hp_RTTMax := mh_Worst h, hp_RTTStdDev := mh_StDev h,
            hp_PacketLoss := loss, hp_Sent := mh_Sent h\<rparr>)
      in if mh_Sent h > 0
         then hop\<lparr>hp_Received := wrap64 (mh_Sent h
                - int_of_f64 (f64_add (f64_mul (f64_of_int (mh_Sent h)) loss) (1 / 2)))\<rparr>
         else hop)"

definition parseMTRJSON :: "tr_env \<Rightarrow> codec \<Rightarrow> bytes \<Rightarrow> Hop list fallible" where
  "parseMTRJSON E C data =
     (case unmarshal C dec_mtr_output data of
        None \<Rightarrow> Inl (''parse mtr json: '' @ json_error E data)
      | Some report \<Rightarrow>
          Inr (map (\<lambda>(i, h). hop_of_mtr E i h) (List.enumerate 0 (mr_Hops report))))"

definition runMTR :: "tr_env \<Rightarrow> codec \<Rightarrow> string \<Rightarrow> tr_config \<Rightarrow> int \<Rightarrow> Hop list fallible" where
  "runMTR E C target cfg timeout =
     (case run E ''mtr'' (buildMTRArgs (lower E) target cfg) (if timeout > 0 then timeout else 0) of
        Inl err \<Rightarrow> Inl (''mtr execution failed: '' @ err)
      | Inr out \<Rightarrow> parseMTRJSON E C out)"

subsection \<open>The output of scamper\<close>

record scamperProbe =
  sp_RTT :: float64
  sp_Reply :: int

record scamperHop =
  sh_Addr :: string
  sh_Name :: string
  sh_ProbeTTL :: int
  sh_Probes :: "scamperProbe list"
  sh_RTT :: float64

record scamperTrace =
  sc_Type :: string
  sc_Src :: string
  sc_Dst :: string
  sc_Hops :: "scamperHop list"
  sc_HopCnt :: int

definition zero_scamperHop :: scamperHop where
  "zero_scamperHop = \<lparr>sh_Addr = [], sh_Name = [], sh_ProbeTTL = 0, sh_Probes = [], sh_RTT = 0\<rparr>"

definition zero_scamperTrace :: scamperTrace where
  "zero_scamperTrace = \<lparr>sc_Type = [], sc_Src = [], sc_Dst = [], sc_Hops = [], sc_HopCnt = 0\<rparr>"

definition scamperProbe_fields :: "scamperProbe fields" where
  "scamperProbe_fields =
     [(''rtt'', field sp_RTT sp_RTT_update dec_float),
      (''reply'', field sp_Reply sp_Reply_update dec_int)]"

definition scamperHop_fields :: "scamperHop fields" where
  "scamperHop_fields =
     [(''addr'', field sh_Addr sh_Addr_update dec_string),
      (''name'', field sh_Name sh_Name_update dec_string),
      (''probe_ttl'', field sh_ProbeTTL sh_ProbeTTL_update dec_int),
      (''probes'', field sh_Probes sh_Probes_update
         (\<lambda>_. dec_list (dec_struct scamperProbe_fields \<lparr>sp_RTT = 0, sp_Reply = 0\<rparr>))),
      (''rtt'', field sh_RTT sh_RTT_update dec_float)]"

definition scamperTrace_fields :: "scamperTrace fields" where
  "scamperTrace_fields =
     [(''type'', field sc_Type sc_Type_update dec_string),
      (''src'', field sc_Src sc_Src_update dec_string),
      (''dst'', field sc_Dst sc_Dst_update dec_string),
      (''hops'', field sc_Hops sc_Hops_update
         (\<lambda>_. dec_list (dec_struct scamperHop_fields zero_scamperHop))),
      (''hop_count'', field sc_HopCnt sc_HopCnt_update dec_int)]"

text \<open>Decoding into an \<open>interface{}\<close> fails on a number that overflows a \<open>float64\<close> only.\<close>

fun any_ok :: "json \<Rightarrow> bool" where
  "any_ok (JInt i) = (f64_parse (of_int i) \<noteq> None)"
| "any_ok (JFrac q) = (f64_parse q \<noteq> None)"
| "any_ok (JArr js) = list_all any_ok js"
| "any_ok (JObj kvs) = list_all (\<lambda>(k, v). any_ok v) kvs"
| "any_ok _ = True"

text \<open>
  The loop over the lines: a line that is no JSON object is skipped, the first object whose
  \<open>type\<close> is \<open>trace\<close> is decoded and ends the loop. In a Go map the last member of a name wins.
\<close>

definition is_trace :: "json \<Rightarrow> bool" where
  "is_trace j = (case j of JObj kvs \<Rightarrow> any_ok j \<and> map_of (rev kvs) ''type'' = Some (JStr ''trace'')
     | _ \<Rightarrow> False)"

fun find_trace :: "tr_env \<Rightarrow> codec \<Rightarrow> string list \<Rightarrow> scamperTrace fallible" where
  "find_trace E C [] = Inr zero_scamperTrace"
| "find_trace E C (line # lines) =
     (let line' = trim_space line
      in if length line' = 0 then find_trace E C lines
         else case parse_json C line' of
           None \<Rightarrow> find_trace E C lines
         | Some j \<Rightarrow>
             if is_trace j
             then (case dec_struct scamperTrace_fields zero_scamperTrace j of
                     None \<Rightarrow> Inl (''parse scamper trace: '' @ json_error E line')
                   | Some trace \<Rightarrow> Inr trace)
             else find_trace E C lines)"

text \<open>The loop over the probes: received, sum, min and max so far.\<close>

fun probe_loop :: "scamperProbe list \<Rightarrow> nat \<Rightarrow> float64 \<Rightarrow> float64 \<Rightarrow> float64
    \<Rightarrow> nat \<times> float64 \<times> float64 \<times> float64" where
  "probe_loop [] received acc mn mx = (received, acc, mn, mx)"
| "probe_loop (p # ps) received acc mn mx =
     (if sp_Reply p > 0
      then probe_loop ps (Suc received) (f64_add acc (sp_RTT p))
             (if sp_RTT p < mn then sp_RTT p else mn) (if sp_RTT p > mx then sp_RTT p else mx)
      else probe_loop ps received acc mn mx)"

definition hop_of_scamper :: "scamperHop \<Rightarrow> Hop" where
  "hop_of_scamper h =
     (let hop = zero_Hop\<lparr>hp_HopNumber := sh_ProbeTTL h, hp_IP := sh_Addr h, hp_Hostname := sh_Name h\<rparr>
      in case sh_Probes h of
           [] \<Rightarrow> hop
         | p # ps \<Rightarrow>
             let (received, acc, mn, mx) = probe_loop (p # ps) 0 0 (sp_RTT p) 0;
                 n = length (p # ps);
                 hop1 = hop\<lparr>hp_Sent := int n, hp_Received := int received\<rparr>;
                 hop2 = (if received > 0
                   then hop1\<lparr>hp_RTTMin := mn, hp_RTTMax := mx,
                          hp_RTTAvg := f64_div acc (f64_of_int (int received))\<rparr>
                   else hop1)
             in hop2\<lparr>hp_PacketLoss :=
                  f64_sub 1 (f64_div (f64_of_int (int received)) (f64_of_int (int n)))\<rparr>)"

definition parseScamperJSON :: "tr_env \<Rightarrow> codec \<Rightarrow> bytes \<Rightarrow> Hop list fallible" where
  "parseScamperJSON E C data =
     (case find_trace E C (str_split (CHR 0x0A) data) of
        Inl err \<Rightarrow> Inl err
      | Inr trace \<Rightarrow>
          if sc_Type trace = [] then Inl ''no trace object found in scamper output''
          else Inr (map hop_of_scamper (sc_Hops trace)))"

definition runScamper :: "tr_env \<Rightarrow> codec \<Rightarrow> string \<Rightarrow> tr_config \<Rightarrow> int \<Rightarrow> Hop list fallible" where
  "runScamper E C target cfg timeout =
     (case run E ''scamper'' (buildScamperArgs (lower E) target cfg)
             (if timeout > 0 then timeout else 0) of
        Inl err \<Rightarrow> Inl (''scamper execution failed: '' @ err)
      | Inr out \<Rightarrow> parseScamperJSON E C out)"


subsection \<open>The AS path and the target\<close>

definition as_path_step :: "Hop \<Rightarrow> int list \<Rightarrow> int list" where
  "as_path_step h path =
     (if hp_ASN h = 0 then path
      else if length path = 0 \<or> path ! (length path - 1) \<noteq> hp_ASN h then path @ [hp_ASN h]
      else path)"

definition buildASPath :: "Hop list \<Rightarrow> int list" where
  "buildASPath hops = fold as_path_step hops []"

fun last_ip :: "Hop list \<Rightarrow> string option" where
  "last_ip [] = None"
| "last_ip (h # hs) = (case last_ip hs of Some ip \<Rightarrow> Some ip
     | None \<Rightarrow> if hp_IP h \<noteq> [] then Some (hp_IP h) else None)"

definition target_ips :: "tr_env \<Rightarrow> string \<Rightarrow> string list" where
  "target_ips E target =
     (case parse_ip E target of
        Some ip \<Rightarrow> [ip]
      | None \<Rightarrow> (case lookup_host E target of None \<Rightarrow> [] | Some ips \<Rightarrow> ips))"

definition didReachTarget :: "tr_env \<Rightarrow> Hop list \<Rightarrow> string \<Rightarrow> bool" where
  "didReachTarget E hops target =
     (if length hops = 0 then False
      else case last_ip hops of
        None \<Rightarrow> False
      | Some ip \<Rightarrow> ip \<in> set (target_ips E target))"

subsection \<open>Execution\<close>

definition millis :: "int \<Rightarrow> float64" where
  "millis d = f64_of_int (d sdiv 1000000)"

definition tr_load_config :: "codec \<Rightarrow> bytes \<Rightarrow> tr_config option" where
  "tr_load_config C config =
     (if length config > 0 \<and> config \<noteq> ''null''
      then map_option mergeDefaults (unmarshal C (dec_tr_config tr_DefaultConfig) config)
      else Some (mergeDefaults tr_DefaultConfig))"

definition tr_result :: "tr_env \<Rightarrow> TestDefinition \<Rightarrow> bool \<Rightarrow> json option \<Rightarrow> string \<Rightarrow> Result" where
  "tr_result E test ok metrics err = \<lparr>rs_TestID = td_ID test, rs_AgentID = [], rs_POPName = [],
     rs_TestType = ''traceroute'', rs_Target = td_Target test, rs_Timestamp = start E,
     rs_DurationMS = millis (elapsed E), rs_Success = ok, rs_Metrics = metrics, rs_Error = err,
     rs_Metadata = []\<rparr>"

text \<open>The rest of \<open>Execute\<close>, once a program has run.\<close>

definition tr_finish ::
  "tr_env \<Rightarrow> TestDefinition \<Rightarrow> tr_config \<Rightarrow> Hop list fallible \<Rightarrow> tr_error + Result" where
  "tr_finish E test cfg probed =
     (case probed of
        Inl err \<Rightarrow>
          Inr (tr_result E test False
            (marshal_tr_metrics \<lparr>trm_Backend = tr_Backend cfg, trm_Hops = None, trm_HopCount = 0,
               trm_ReachedTarget = False, trm_ASPath = [], trm_TotalMS = millis (elapsed E)\<rparr>) err)
      | Inr hops \<Rightarrow>
          let reachedTarget = didReachTarget E hops (td_Target test);
              metrics = \<lparr>trm_Backend = tr_Backend cfg, trm_Hops = Some hops,
                trm_HopCount = int (length hops), trm_ReachedTarget = reachedTarget,
                trm_ASPath = buildASPath hops, trm_TotalMS = millis (elapsed E)\<rparr>
          in (case marshal_tr_metrics metrics of
                None \<Rightarrow> Inl TrMarshal
              | Some j \<Rightarrow> Inr (tr_result E test reachedTarget (Some j) [])))"

definition tr_Execute :: "codec \<Rightarrow> tr_env \<Rightarrow> TestDefinition \<Rightarrow> tr_error + Result" where
  "tr_Execute C E test =
     (case tr_load_config C (td_Config test) of
        None \<Rightarrow> Inl TrParseConfig
      | Some cfg \<Rightarrow>
          if tr_Backend cfg = ''mtr''
          then tr_finish E test cfg (runMTR E C (td_Target test) cfg (td_Timeout test))
          else if tr_Backend cfg = ''scamper''
          then tr_finish E test cfg (runScamper E C (td_Target test) cfg (td_Timeout test))
          else Inl (TrUnsupportedBackend (tr_Backend cfg)))"

subsection \<open>Lemmas\<close>

lemma as_path_step_eq:
  "hp_ASN h \<noteq> 0 \<Longrightarrow> as_path_step h path =
     (if path \<noteq> [] \<and> last path = hp_ASN h then path else path @ [hp_ASN h])"
  by (auto simp: as_path_step_def last_conv_nth)

lemma as_path_step_zero: "hp_ASN h = 0 \<Longrightarrow> as_path_step h path = path"
  by (simp add: as_path_step_def)

lemma remdups_adj_snoc:
  "remdups_adj (xs @ [x]) = (if xs \<noteq> [] \<and> last xs = x then remdups_adj xs else remdups_adj xs @ [x])"
  by (induction xs rule: remdups_adj.induct) auto

lemma buildASPath_remdups:
  "buildASPath hops = remdups_adj (filter (\<lambda>a. a \<noteq> 0) (map hp_ASN hops))"
proof (induction hops rule: rev_induct)
  case (snoc h hops)
  then show ?case
    by (cases "hp_ASN h = 0")
      (simp_all add: buildASPath_def as_path_step_zero as_path_step_eq remdups_adj_snoc
        last_remdups_adj)
qed (simp add: buildASPath_def)

lemma ASN_mtr [simp]: "hp_ASN (hop_of_mtr E i h) = 0"
  by (simp add: hop_of_mtr_def mtr_addr_def Let_def zero_Hop_def split: option.split list.split)

lemma ASN_scamper [simp]: "hp_ASN (hop_of_scamper h) = 0"
  by (simp add: hop_of_scamper_def Let_def zero_Hop_def split: list.split prod.split)

lemma buildASPath_empty: "(\<And>h. h \<in> set hops \<Longrightarrow> hp_ASN h = 0) \<Longrightarrow> buildASPath hops = []"
  by (simp add: buildASPath_remdups filter_empty_conv)

lemma runMTR_path: "runMTR E C t cfg d = Inr hops \<Longrightarrow> buildASPath hops = []"
  by (auto simp: runMTR_def parseMTRJSON_def intro!: buildASPath_empty split: sum.splits option.splits)

lemma runScamper_path: "runScamper E C t cfg d = Inr hops \<Longrightarrow> buildASPath hops = []"
  by (auto simp: runScamper_def parseScamperJSON_def intro!: buildASPath_empty
      split: sum.splits if_splits)


lemma marshal_no_path:
  "marshal_tr_metrics m = Some (JObj ms) \<Longrightarrow> trm_ASPath m = [] \<Longrightarrow> ''as_path'' \<notin> fst ` set ms"
  by (auto simp: marshal_tr_metrics_def omitempty_def split: if_splits)

lemma tr_finish_no_path:
  assumes "tr_finish E test cfg probed = Inr r" "rs_Metrics r = Some (JObj kvs)"
    and "\<And>hops. probed = Inr hops \<Longrightarrow> buildASPath hops = []"
  shows "''as_path'' \<notin> fst ` set kvs"
proof (cases probed)
  case (Inl err)
  from assms(1,2) show ?thesis
    by (intro marshal_no_path) (auto simp: Inl tr_finish_def tr_result_def)
next
  case (Inr hops)
  from assms(1,2) show ?thesis
    by (intro marshal_no_path [where m = "\<lparr>trm_Backend = tr_Backend cfg, trm_Hops = Some hops,
        trm_HopCount = int (length hops), trm_ReachedTarget = didReachTarget E hops (td_Target test),
        trm_ASPath = buildASPath hops, trm_TotalMS = millis (elapsed E)\<rparr>"])
      (auto simp: Inr tr_finish_def tr_result_def Let_def assms(3) split: option.splits)
qed

text \<open>The probe loop over answered probes: their number, and the bounds of their times.\<close>

lemma probe_loop_counts:
  "probe_loop ps r a mn mx = (r', a', mn', mx') \<Longrightarrow>
     r' = r + length (filter (\<lambda>p. sp_Reply p > 0) ps) \<and> mn' \<le> mn \<and> mx \<le> mx'
     \<and> (\<forall>p \<in> set ps. sp_Reply p > 0 \<longrightarrow> mn' \<le> sp_RTT p \<and> sp_RTT p \<le> mx')
     \<and> (mn' = mn \<or> (\<exists>p \<in> set ps. sp_Reply p > 0 \<and> mn' = sp_RTT p))
     \<and> (mx' = mx \<or> (\<exists>p \<in> set ps. sp_Reply p > 0 \<and> mx' = sp_RTT p))"
proof (induction ps arbitrary: r a mn mx)
  case (Cons p ps)
  show ?case
  proof (cases "sp_Reply p > 0")
    case True
    with Cons.prems have "probe_loop ps (Suc r) (f64_add a (sp_RTT p))
        (if sp_RTT p < mn then sp_RTT p else mn) (if sp_RTT p > mx then sp_RTT p else mx) =
      (r', a', mn', mx')" by simp
    from Cons.IH [OF this] True show ?thesis by (auto split: if_splits)
  next
    case False
    with Cons show ?thesis by auto
  qed
qed simp

lemma loss_range:
  assumes "k \<le> n" "0 < n" "n \<le> 2 ^ 53"
  shows "0 \<le> f64_sub 1 (f64_div (f64_of_int (int k)) (f64_of_int (int n)))
    \<and> f64_sub 1 (f64_div (f64_of_int (int k)) (f64_of_int (int n))) \<le> 1"
proof -
  have "f64_of_int (int k) = of_nat k" "f64_of_int (int n) = of_nat n"
    using assms by (simp_all add: f64_of_int_exact)
  then have "0 \<le> f64_div (f64_of_int (int k)) (f64_of_int (int n))"
      "f64_div (f64_of_int (int k)) (f64_of_int (int n)) \<le> 1"
    using assms by (simp_all add: f64_div_nonneg f64_div_le_1)
  then show ?thesis
    by (simp add: f64_sub_def f64_round_nonneg f64_round_le_1)
qed

text \<open>mtr: from a loss in percent, the number of answered probes is within the sent ones.\<close>

lemma mtr_received_range:
  assumes "0 \<le> l" "l \<le> 100" "0 < s" "s \<le> 2 ^ 51"
  defines "lost \<equiv> int_of_f64 (f64_add (f64_mul (f64_of_int s) (f64_div l 100)) (1 / 2))"
  shows "0 \<le> lost \<and> lost \<le> s"
proof -
  let ?p = "f64_mul (f64_of_int s) (f64_div l 100)"
  have d: "0 \<le> f64_div l 100" "f64_div l 100 \<le> 1" using assms by (auto intro: f64_div_nonneg f64_div_le_1)
  have e: "f64_of_int s = of_int s" using assms by (simp add: f64_of_int_exact)
  have p: "0 \<le> ?p" "?p \<le> of_int s"
    using d assms(3,4) unfolding f64_mul_def e
    by (auto intro!: f64_round_nonneg f64_round_le_int simp: mult_left_le)
  have "is_f64 (of_int s + 1 / 2)"
    unfolding is_f64_def using assms(3,4)
    by (intro exI [of _ "2 * s + 1"] exI [of _ "- 1"]) (simp add: power_int_minus field_simps)
  then have "f64_add ?p (1 / 2) \<le> of_int s + 1 / 2"
    using p(2) f64_round_mono [of "?p + 1 / 2" "of_int s + 1 / 2"] f64_round_exact
    by (simp add: f64_add_def)
  moreover have "0 \<le> f64_add ?p (1 / 2)"
    using p(1) by (simp add: f64_add_def f64_round_nonneg)
  ultimately show ?thesis
    by (simp add: lost_def int_of_f64_def floor_le_iff)
qed


lemma tr_finish_identity:
  "tr_finish E test cfg probed = Inr r \<Longrightarrow>
     rs_TestID r = td_ID test \<and> rs_TestType r = ''traceroute'' \<and> rs_Target r = td_Target test
     \<and> rs_Metadata r = []"
  by (auto simp: tr_finish_def tr_result_def Let_def split: sum.splits option.splits)

lemma tr_Execute_identity:
  "tr_Execute C E test = Inr r \<Longrightarrow>
     rs_TestID r = td_ID test \<and> rs_TestType r = ''traceroute'' \<and> rs_Target r = td_Target test
     \<and> rs_Metadata r = []"
  by (auto simp: tr_Execute_def dest: tr_finish_identity split: option.splits if_splits)

interpretation traceroute: canary_impl "''traceroute''" "tr_Execute C" for C
  by unfold_locales (auto dest: tr_Execute_identity)

text \<open>The two decodings of a configuration, into zero values and into the defaults.\<close>

definition config_sim :: "tr_config \<Rightarrow> tr_config \<Rightarrow> bool" where
  "config_sim c d \<longleftrightarrow> tr_Backend d = tr_Backend c \<or> tr_Backend c = [] \<and> tr_Backend d = ''mtr''"

lemma config_sim_fields:
  assumes "(n, f) \<in> set tr_config_fields" "config_sim r r'"
  shows "rel_option config_sim (f r v) (f r' v)"
  using assms
  by (cases v)
    (auto simp: tr_config_fields_def field_def config_sim_def f64_parse_def Let_def)

lemma tr_config_sim:
  "rel_option config_sim (unmarshal C (dec_tr_config tr_zero_config) b)
     (unmarshal C (dec_tr_config tr_DefaultConfig) b)"
proof -
  have "config_sim tr_zero_config tr_DefaultConfig"
    by (simp add: config_sim_def tr_zero_config_def tr_DefaultConfig_def)
  then have "rel_option config_sim (dec_struct tr_config_fields tr_zero_config j)
      (dec_struct tr_config_fields tr_DefaultConfig j)" for j
    by (rule dec_struct_rel) (rule config_sim_fields)
  then show ?thesis by (simp add: unmarshal_def dec_tr_config_def split: option.split)
qed

lemma validated_backend:
  assumes "tr_Validate u C config = None"
  shows "\<exists>cfg. tr_load_config C config = Some cfg \<and> tr_Backend cfg \<in> {''mtr'', ''scamper''}"
proof (cases "config = [] \<or> config = ''null''")
  case True
  then show ?thesis
    by (auto simp: tr_load_config_def mergeDefaults_def tr_DefaultConfig_def Let_def)
next
  case False
  with assms obtain c where c: "unmarshal C (dec_tr_config tr_zero_config) config = Some c"
      "tr_Backend c \<in> {[], ''mtr'', ''scamper''}"
    by (auto simp: tr_Validate_def split: option.splits if_splits)
  with tr_config_sim [of C config] obtain d where d: "unmarshal C (dec_tr_config tr_DefaultConfig) config = Some d"
      "config_sim c d"
    by (auto elim: option.rel_cases)
  with c False show ?thesis
    by (auto simp: tr_load_config_def mergeDefaults_def tr_DefaultConfig_def Let_def config_sim_def)
qed


subsection \<open>Properties\<close>

text \<open>
  \<open>buildASPath\<close> computes the sequence of the known ASes of the hops, with runs of equal
  ones collapsed.
\<close>

theorem buildASPath_collapses:
  "buildASPath hops = remdups_adj (filter (\<lambda>a. a \<noteq> 0) (map hp_ASN hops))"
  by (rule buildASPath_remdups)

text \<open>
  No backend ever fills in the AS of a hop, whatever \<open>ResolveASN\<close> says, so the hops of
  every completed run have an empty AS path and the metrics of its result, which print it only
  when it is not empty, have no member \<open>as_path\<close>.
\<close>

theorem traceroute_as_path_empty:
  assumes "tr_Execute C E test = Inr r" and "rs_Metrics r = Some (JObj kvs)"
  shows "''as_path'' \<notin> fst ` set kvs"
  using assms tr_finish_no_path [OF _ assms(2)] runMTR_path runScamper_path
  unfolding tr_Execute_def by (auto split: option.splits if_splits)

text \<open>For the witnesses: a run of mtr that reports one hop, the target.\<close>

definition demo_mtr_doc :: json where
  "demo_mtr_doc = JObj [(''report'', JObj [(''hubs'',
     JArr [JObj [(''host'', JStr ''192.0.2.7''), (''Snt'', JInt 10), (''Avg'', JInt 5)]])])]"

definition demo_mtr_codec :: codec where
  "demo_mtr_codec = \<lparr>parse_json = (\<lambda>_. Some demo_mtr_doc), print_json = (\<lambda>_. []),
     parse_time = (\<lambda>_. Some 0), print_time = (\<lambda>_. Some [])\<rparr>"

definition demo_tr_env :: tr_env where
  "demo_tr_env = \<lparr>run = (\<lambda>_ _ _. Inr ''out''), lookup_host = (\<lambda>_. None), parse_ip = Some,
     json_error = (\<lambda>_. []), lower = id, start = 0, elapsed = 0\<rparr>"

definition demo_tr_test :: TestDefinition where
  "demo_tr_test = \<lparr>td_ID = ''7'', td_Type = ''traceroute'', td_Target = ''192.0.2.7'',
     td_Interval = 1, td_Timeout = 1, td_Config = []\<rparr>"

definition demo_hop :: Hop where
  "demo_hop = zero_Hop\<lparr>hp_HopNumber := 1, hp_IP := ''192.0.2.7'', hp_RTTAvg := 5, hp_Sent := 10,
     hp_Received := 10\<rparr>"

lemma demo_floats: "f64_parse 5 = Some 5" "f64_div 0 100 = 0" "f64_mul (f64_of_int 10) 0 = 0"
  "int_of_f64 (f64_add 0 (1 / 2)) = 0" "millis 0 = 0"
  by code_simp+

lemma demo_finite: "f64_finite 5"
  using is_f64_of_int [of 5] by (simp add: f64_finite_def)

lemma demo_runMTR: "runMTR demo_tr_env demo_mtr_codec t cfg d = Inr [demo_hop]"
  by (simp add: runMTR_def demo_tr_env_def parseMTRJSON_def unmarshal_def demo_mtr_codec_def
      demo_mtr_doc_def dec_mtr_output_def mtrReport_fields_def mtrHop_fields_def zero_mtrReport_def
      zero_mtrHop_def find_field_def field_def in_int64_def demo_floats hop_of_mtr_def mtr_addr_def
      Let_def demo_hop_def zero_Hop_def wrap64_def)

lemma demo_tr_config:
  "tr_load_config C [] = Some tr_DefaultConfig"
  by (simp add: tr_load_config_def mergeDefaults_def tr_DefaultConfig_def Let_def)

definition demo_tr_members :: "(string \<times> json) list" where
  "demo_tr_members = [(''backend'', JStr ''mtr''), (''hops'', JArr [enc_Hop demo_hop]),
     (''hop_count'', JInt 1), (''reached_target'', JBool True), (''total_ms'', JInt 0)]"

lemma demo_tr_Execute:
  "tr_Execute demo_mtr_codec demo_tr_env demo_tr_test =
     Inr (tr_result demo_tr_env demo_tr_test True (Some (JObj demo_tr_members)) [])"
proof -
  have "didReachTarget demo_tr_env [demo_hop] (td_Target demo_tr_test)"
    by (simp add: didReachTarget_def target_ips_def demo_tr_env_def demo_hop_def zero_Hop_def
        demo_tr_test_def)
  moreover have "buildASPath [demo_hop] = []"
    by (simp add: buildASPath_def as_path_step_def demo_hop_def zero_Hop_def)
  moreover have "hop_finite demo_hop"
    by (simp add: hop_finite_def demo_hop_def zero_Hop_def demo_finite)
  moreover have "td_Config demo_tr_test = []" "elapsed demo_tr_env = 0"
      "tr_Backend tr_DefaultConfig = ''mtr''"
    by (simp_all add: demo_tr_test_def demo_tr_env_def tr_DefaultConfig_def)
  ultimately show ?thesis
    by (simp add: tr_Execute_def demo_tr_config demo_runMTR tr_finish_def Let_def
        marshal_tr_metrics_def omitempty_def demo_tr_members_def demo_floats enc_float_def)
qed

lemma traceroute_as_path_empty_witness: "''as_path'' \<notin> fst ` set demo_tr_members"
  using traceroute_as_path_empty [OF demo_tr_Execute] by (simp add: tr_result_def)

text \<open>
  A configuration \<open>Validate\<close> accepts never makes \<open>Execute\<close> fail on the configuration: it
  can be decoded and its backend is one of the two that are supported.
\<close>

theorem validated_traceroute_config_executes:
  assumes "tr_Validate u C (td_Config test) = None"
  shows "tr_Execute C E test \<noteq> Inl TrParseConfig \<and>
    (\<forall>b. tr_Execute C E test \<noteq> Inl (TrUnsupportedBackend b))"
  using validated_backend [OF assms]
  by (auto simp: tr_Execute_def tr_finish_def Let_def split: sum.splits option.splits)

lemma validated_traceroute_config_executes_witness:
  "tr_Execute demo_mtr_codec demo_tr_env demo_tr_test \<noteq> Inl TrParseConfig"
  by (rule validated_traceroute_config_executes [THEN conjunct1, of id])
    (simp add: tr_Validate_def demo_tr_test_def)

text \<open>
  What \<open>parseMTRJSON\<close> derives is in range: with a loss between 0 and 100 percent and at most
  \<open>2\<^sup>5\<^sup>1\<close> probes, the loss is a ratio between 0 and 1 and the received probes are
  between none and all. The hops are numbered from 1 in the order of the report.
\<close>

theorem mtr_hop_in_range:
  assumes "0 \<le> mh_Loss h" "mh_Loss h \<le> 100" "0 \<le> mh_Sent h" "mh_Sent h \<le> 2 ^ 51"
  shows "0 \<le> hp_PacketLoss (hop_of_mtr E i h) \<and>
    hp_PacketLoss (hop_of_mtr E i h) \<le> 1 \<and>
    0 \<le> hp_Received (hop_of_mtr E i h) \<and>
    hp_Received (hop_of_mtr E i h) \<le> mh_Sent h \<and>
    hp_HopNumber (hop_of_mtr E i h) = int i + 1"
proof (intro conjI)
  have addr: "hp_PacketLoss (mtr_addr E host hop) = hp_PacketLoss hop"
      "hp_Received (mtr_addr E host hop) = hp_Received hop"
      "hp_HopNumber (mtr_addr E host hop) = hp_HopNumber hop" for host hop
    by (simp_all add: mtr_addr_def split: option.split list.split)
  have loss: "hp_PacketLoss (hop_of_mtr E i h) = f64_div (mh_Loss h) 100"
    and num: "hp_HopNumber (hop_of_mtr E i h) = int i + 1"
    by (simp_all add: hop_of_mtr_def Let_def addr)
  show "0 \<le> hp_PacketLoss (hop_of_mtr E i h)" "hp_PacketLoss (hop_of_mtr E i h) \<le> 1"
    using assms by (simp_all add: loss f64_div_nonneg f64_div_le_1)
  let ?lost = "int_of_f64 (f64_add (f64_mul (f64_of_int (mh_Sent h)) (f64_div (mh_Loss h) 100)) (1 / 2))"
  have "0 \<le> hp_Received (hop_of_mtr E i h) \<and> hp_Received (hop_of_mtr E i h) \<le> mh_Sent h"
  proof (cases "0 < mh_Sent h")
    case True
    from mtr_received_range [OF assms(1,2) True assms(4)] have r: "0 \<le> ?lost" "?lost \<le> mh_Sent h"
      by simp_all
    then have "wrap64 (mh_Sent h - ?lost) = mh_Sent h - ?lost"
      using assms(4) by (intro wrap64_id) (auto simp: in_int64_def)
    with r True show ?thesis by (simp add: hop_of_mtr_def Let_def)
  next
    case False
    with assms(3) show ?thesis by (simp add: hop_of_mtr_def Let_def addr zero_Hop_def)
  qed
  then show "0 \<le> hp_Received (hop_of_mtr E i h)" "hp_Received (hop_of_mtr E i h) \<le> mh_Sent h"
    by simp_all
qed (simp add: hop_of_mtr_def mtr_addr_def Let_def split: option.split list.split)

lemma mtr_hop_in_range_witness:
  "hp_Received (hop_of_mtr demo_tr_env 0 (zero_mtrHop\<lparr>mh_Loss := 20, mh_Sent := 10\<rparr>)) \<le> 10"
  using mtr_hop_in_range [THEN conjunct2, THEN conjunct2, THEN conjunct2, THEN conjunct1, of "zero_mtrHop\<lparr>mh_Loss := 20, mh_Sent := 10\<rparr>" demo_tr_env 0]
  by (simp add: zero_mtrHop_def)


lemma hop_of_scamper_probes:
  assumes "sh_Probes h = p # ps" "probe_loop (p # ps) 0 0 (sp_RTT p) 0 = (r, a, mn, mx)"
  shows "hp_Sent (hop_of_scamper h) = int (length (sh_Probes h))"
    "hp_Received (hop_of_scamper h) = int r"
    "hp_RTTMin (hop_of_scamper h) = (if r > 0 then mn else 0)"
    "hp_RTTMax (hop_of_scamper h) = (if r > 0 then mx else 0)"
    "hp_PacketLoss (hop_of_scamper h) =
      f64_sub 1 (f64_div (f64_of_int (int r)) (f64_of_int (int (length (sh_Probes h)))))"
  using assms by (simp_all add: hop_of_scamper_def Let_def zero_Hop_def del: probe_loop.simps)

text \<open>
  C37: for a hop of scamper with up to \<open>2\<^sup>5\<^sup>3\<close> probes, sent and received are the numbers
  of all and of the answered probes, the loss is a ratio between 0 and 1, and when a probe was
  answered the time of every answered probe lies between the reported minimum and maximum.
\<close>

theorem scamper_hop_statistics:
  assumes "sh_Probes h \<noteq> []" "length (sh_Probes h) \<le> 2 ^ 53"
  shows "hp_Sent (hop_of_scamper h) = int (length (sh_Probes h)) \<and>
    hp_Received (hop_of_scamper h) =
      int (length (filter (\<lambda>p. sp_Reply p > 0) (sh_Probes h))) \<and>
    0 \<le> hp_PacketLoss (hop_of_scamper h) \<and> hp_PacketLoss (hop_of_scamper h) \<le> 1 \<and>
    (\<forall>p \<in> set (sh_Probes h). sp_Reply p > 0 \<longrightarrow>
      hp_RTTMin (hop_of_scamper h) \<le> sp_RTT p \<and> sp_RTT p \<le> hp_RTTMax (hop_of_scamper h))"
proof (intro conjI)
  obtain p ps where ps: "sh_Probes h = p # ps" using assms(1) by (cases "sh_Probes h") auto
  obtain r a mn mx where loop: "probe_loop (p # ps) 0 0 (sp_RTT p) 0 = (r, a, mn, mx)"
    by (metis prod_cases4)
  note hop = hop_of_scamper_probes [OF ps loop]
  from probe_loop_counts [OF loop]
  have r: "r = length (filter (\<lambda>p. sp_Reply p > 0) (sh_Probes h))"
    and rtt: "\<forall>q \<in> set (sh_Probes h). sp_Reply q > 0 \<longrightarrow> mn \<le> sp_RTT q \<and> sp_RTT q \<le> mx"
    by (simp_all add: ps)
  have "r \<le> length (sh_Probes h)" unfolding r by (rule length_filter_le)
  with loss_range [of r "length (sh_Probes h)"] assms
  show "0 \<le> hp_PacketLoss (hop_of_scamper h)" "hp_PacketLoss (hop_of_scamper h) \<le> 1"
    unfolding hop(5) by simp_all
  have "0 < r" if "q \<in> set (sh_Probes h)" "sp_Reply q > 0" for q
    using that by (auto simp: r filter_empty_conv)
  with rtt show "\<forall>p \<in> set (sh_Probes h). sp_Reply p > 0 \<longrightarrow>
      hp_RTTMin (hop_of_scamper h) \<le> sp_RTT p \<and> sp_RTT p \<le> hp_RTTMax (hop_of_scamper h)"
    by (auto simp: hop)
  show "hp_Sent (hop_of_scamper h) = int (length (sh_Probes h))"
    "hp_Received (hop_of_scamper h) = int (length (filter (\<lambda>p. sp_Reply p > 0) (sh_Probes h)))"
    unfolding hop r by simp_all
qed

definition demo_scamper_hop :: scamperHop where
  "demo_scamper_hop = zero_scamperHop\<lparr>sh_Probes := [\<lparr>sp_RTT = 0, sp_Reply = 0\<rparr>,
     \<lparr>sp_RTT = 10, sp_Reply = 1\<rparr>]\<rparr>"

lemma scamper_hop_statistics_witness: "10 \<le> hp_RTTMax (hop_of_scamper demo_scamper_hop)"
  using scamper_hop_statistics [THEN conjunct2, THEN conjunct2, THEN conjunct2, of demo_scamper_hop] by (simp add: demo_scamper_hop_def)

text \<open>
  The minimum starts from the time of the first probe even when that probe was not
  answered: with one probe lost and one answered after 10 ms the minimum is reported as 0.
\<close>

theorem scamper_minimum_from_lost_probe:
  "hp_Received (hop_of_scamper demo_scamper_hop) = 1
   \<and> hp_RTTMin (hop_of_scamper demo_scamper_hop) = 0
   \<and> hp_RTTMax (hop_of_scamper demo_scamper_hop) = 10"
  by (simp add: demo_scamper_hop_def hop_of_scamper_def Let_def zero_Hop_def)

end
