(* ===== verification/Ping.thy ===== *)
theory Ping
  imports Canary
begin

text \<open>
  The ping test (internal/agent/canary/ping): its configuration, the metrics it derives from
  the statistics of the pinger, and the result. The pinger itself (pro-bing) and the clock are
  arguments, the record \<open>ping_env\<close>.
\<close>

subsection \<open>Configuration\<close>

record ping_config =
  pc_Count :: int
  pc_Interval :: int
  pc_PayloadSize :: int
  pc_Privileged :: bool

definition ping_DefaultConfig :: ping_config where
  "ping_DefaultConfig =
     \<lparr>pc_Count = 5, pc_Interval = 200 * 1000000, pc_PayloadSize = 56, pc_Privileged = True\<rparr>"

definition ping_zero_config :: ping_config where
  "ping_zero_config = \<lparr>pc_Count = 0, pc_Interval = 0, pc_PayloadSize = 0, pc_Privileged = False\<rparr>"

definition ping_config_fields :: "ping_config fields" where
  "ping_config_fields =
     [(''count'', field pc_Count pc_Count_update dec_int),
      (''interval'', field pc_Interval pc_Interval_update dec_int),
      (''payload_size'', field pc_PayloadSize pc_PayloadSize_update dec_int),
      (''privileged'', field pc_Privileged pc_Privileged_update dec_bool)]"

definition dec_ping_config :: "ping_config \<Rightarrow> json \<Rightarrow> ping_config option" where
  "dec_ping_config = dec_struct ping_config_fields"

datatype ping_error =
    PingInvalidConfig
  | PingBadCount int
  | PingBadPayloadSize int
  | PingParseConfig
  | PingCreate string
  | PingContextDone string
  | PingRun string
  | PingMarshal

definition ping_Validate :: "codec \<Rightarrow> bytes \<Rightarrow> ping_error option" where
  "ping_Validate C config =
     (if length config = 0 then None
      else case unmarshal C (dec_ping_config ping_zero_config) config of
        None \<Rightarrow> Some PingInvalidConfig
      | Some cfg \<Rightarrow>
          if pc_Count cfg < 1 then Some (PingBadCount (pc_Count cfg))
          else if pc_PayloadSize cfg < 0 \<or> pc_PayloadSize cfg > 65535
          then Some (PingBadPayloadSize (pc_PayloadSize cfg))
          else None)"

subsection \<open>Metrics\<close>

text \<open>The statistics of a pinger: durations in nanoseconds, the loss in percent.\<close>

record statistics =
  MinRtt :: int
  AvgRtt :: int
  MaxRtt :: int
  StdDevRtt :: int
  PacketLoss :: float64
  PacketsSent :: int
  PacketsRecv :: int
  Rtts :: "int list"

record ping_metrics =
  pgm_RTTMin :: float64
  pgm_RTTAvg :: float64
  pgm_RTTMax :: float64
  pgm_RTTStdDev :: float64
  pgm_PacketLoss :: float64
  pgm_Jitter :: float64
  pgm_PacketsSent :: int
  pgm_PacketsRecv :: int

definition in_millis :: "int \<Rightarrow> float64" where
  "in_millis d = f64_div (f64_of_int d) (f64_of_int 1000000)"

text \<open>The loop of \<open>computeJitter\<close> over the adjacent pairs.\<close>

fun jitter_loop :: "int list \<Rightarrow> float64 \<Rightarrow> float64" where
  "jitter_loop (r # s # rtts) totalDiff =
     jitter_loop (s # rtts) (f64_add totalDiff \<bar>in_millis (wrap64 (s - r))\<bar>)"
| "jitter_loop _ totalDiff = totalDiff"

definition computeJitter :: "int list \<Rightarrow> float64" where
  "computeJitter rtts =
     (if length rtts < 2 then 0
      else f64_div (jitter_loop rtts 0) (f64_of_int (int (length rtts) - 1)))"

definition ping_metrics_of :: "statistics \<Rightarrow> ping_metrics" where
  "ping_metrics_of st = \<lparr>pgm_RTTMin = in_millis (MinRtt st), pgm_RTTAvg = in_millis (AvgRtt st),
     pgm_RTTMax = in_millis (MaxRtt st), pgm_RTTStdDev = in_millis (StdDevRtt st),
     pgm_PacketLoss = f64_div (PacketLoss st) 100, pgm_Jitter = computeJitter (Rtts st),
     pgm_PacketsSent = PacketsSent st, pgm_PacketsRecv = PacketsRecv st\<rparr>"

definition marshal_ping_metrics :: "ping_metrics \<Rightarrow> json option" where
  "marshal_ping_metrics m =
     (if list_all f64_finite [pgm_RTTMin m, pgm_RTTAvg m, pgm_RTTMax m, pgm_RTTStdDev m,
           pgm_PacketLoss m, pgm_Jitter m]
      then Some (JObj
        [(''rtt_min_ms'', enc_float (pgm_RTTMin m)),
         (''rtt_avg_ms'', enc_float (pgm_RTTAvg m)),
         (''rtt_max_ms'', enc_float (pgm_RTTMax m)),
         (''rtt_stddev_ms'', enc_float (pgm_RTTStdDev m)),
         (''packet_loss_ratio'', enc_float (pgm_PacketLoss m)),
         (''jitter_ms'', enc_float (pgm_Jitter m)),
         (''packets_sent'', JInt (pgm_PacketsSent m)),
         (''packets_recv'', JInt (pgm_PacketsRecv m))])
      else None)"

subsection \<open>Execution\<close>

text \<open>What the pinger does: it cannot be created, the context ends first, it fails, or it is done.\<close>

datatype ping_run =
    CannotCreate string
  | ContextDone string
  | RunFailed string
  | RunDone statistics

record ping_env =
  pe_run :: "string \<Rightarrow> ping_config \<Rightarrow> int \<Rightarrow> ping_run"
  pe_start :: int
  pe_elapsed :: int

definition ping_load_config :: "codec \<Rightarrow> bytes \<Rightarrow> ping_config option" where
  "ping_load_config C config =
     (if length config > 0 then unmarshal C (dec_ping_config ping_DefaultConfig) config
      else Some ping_DefaultConfig)"

definition ping_Execute :: "codec \<Rightarrow> ping_env \<Rightarrow> TestDefinition \<Rightarrow> ping_error + Result" where
  "ping_Execute C E test =
     (case ping_load_config C (td_Config test) of
        None \<Rightarrow> Inl PingParseConfig
      | Some cfg \<Rightarrow>
          (case pe_run E (td_Target test) cfg (td_Timeout test) of
             CannotCreate err \<Rightarrow> Inl (PingCreate err)
           | ContextDone err \<Rightarrow> Inl (PingContextDone err)
           | RunFailed err \<Rightarrow> Inl (PingRun err)
           | RunDone st \<Rightarrow>
               let m = ping_metrics_of st
               in (case marshal_ping_metrics m of
                     None \<Rightarrow> Inl PingMarshal
                   | Some j \<Rightarrow>
                       Inr \<lparr>rs_TestID = td_ID test, rs_AgentID = [], rs_POPName = [],
                         rs_TestType = ''ping'', rs_Target = td_Target test,
                         rs_Timestamp = pe_start E,
                         rs_DurationMS = f64_of_int (pe_elapsed E sdiv 1000000),
                         rs_Success = (pgm_PacketLoss m < 1), rs_Metrics = Some j,
                         rs_Error = [], rs_Metadata = []\<rparr>)))"

lemma ping_Execute_identity:
  "ping_Execute C E test = Inr r \<Longrightarrow>
     rs_TestID r = td_ID test \<and> rs_TestType r = ''ping'' \<and> rs_Target r = td_Target test
     \<and> rs_Metadata r = []"
  by (auto simp: ping_Execute_def Let_def split: option.splits ping_run.splits)

interpretation ping: canary_impl "''ping''" "ping_Execute C" for C
  by unfold_locales (auto dest: ping_Execute_identity)

lemma ping_field_rel:
  "(n, f) \<in> set ping_config_fields \<Longrightarrow> rel_option (\<lambda>_ _. True) (f r v) (f r' v)"
  by (cases v) (auto simp: ping_config_fields_def field_def)

lemma ping_config_decodes:
  "unmarshal C (dec_ping_config c) b = None \<longleftrightarrow> unmarshal C (dec_ping_config d) b = None"
proof -
  have "rel_option (\<lambda>_ _. True) (dec_struct ping_config_fields c j) (dec_struct ping_config_fields d j)" for j
    by (rule dec_struct_rel) (auto intro: ping_field_rel)
  from this have "dec_struct ping_config_fields c j = None \<longleftrightarrow> dec_struct ping_config_fields d j = None" for j
    by (cases rule: option.rel_cases [of "\<lambda>_ _. True"]) auto
  then show ?thesis by (simp add: unmarshal_def dec_ping_config_def split: option.split)
qed

lemma f64_of_int_million [simp]: "f64_of_int 1000000 = 1000000"
  using f64_of_int_exact [of 1000000] by simp

lemma in_millis_mono: "x \<le> y \<Longrightarrow> in_millis x \<le> in_millis y"
  unfolding in_millis_def f64_of_int_million
  by (intro f64_div_mono) (simp_all add: f64_of_int_def f64_round_mono)

lemma jitter_loop_nonneg: "0 \<le> t \<Longrightarrow> 0 \<le> jitter_loop rtts t"
  by (induction rtts t rule: jitter_loop.induct) (simp_all add: f64_add_def f64_round_nonneg)

lemma computeJitter_nonneg: "0 \<le> computeJitter rtts"
proof (cases "length rtts < 2")
  case False
  then have "(0 :: rat) \<le> f64_of_int (int (length rtts) - 1)"
    unfolding f64_of_int_def by (intro f64_round_nonneg) simp
  with jitter_loop_nonneg [of 0 rtts] show ?thesis
    by (auto simp: computeJitter_def f64_div_def intro!: f64_round_nonneg)
qed (simp add: computeJitter_def)

lemma jitter_loop_constant: "jitter_loop (replicate n r) 0 = 0"
proof (induction n rule: nat_less_induct)
  case (1 n)
  show ?case
  proof (cases n)
    case (Suc m)
    have zero: "in_millis (wrap64 0) = 0" by (simp add: in_millis_def f64_of_int_def f64_div_def wrap64_def)
    from 1 Suc show ?thesis by (cases m) (auto simp: zero f64_add_def)
  qed simp
qed

lemma f64_div_zero [simp]: "f64_div 0 x = 0"
  by (simp add: f64_div_def)

lemma computeJitter_constant: "computeJitter (replicate n r) = 0"
  by (simp add: computeJitter_def jitter_loop_constant)

subsection \<open>Properties\<close>

text \<open>
  The metrics of a ping keep what the statistics promise: the order of minimum, average
  and maximum, a loss between 0 and 1 for a loss between 0 and 100 percent, and a jitter that
  is never negative and is 0 when all round trips took the same time.
\<close>

theorem ping_metrics_sound:
  assumes "MinRtt st \<le> AvgRtt st" "AvgRtt st \<le> MaxRtt st" "0 \<le> PacketLoss st" "PacketLoss st \<le> 100"
  defines "m \<equiv> ping_metrics_of st"
  shows "pgm_RTTMin m \<le> pgm_RTTAvg m \<and>
    pgm_RTTAvg m \<le> pgm_RTTMax m \<and>
    0 \<le> pgm_PacketLoss m \<and>
    pgm_PacketLoss m \<le> 1 \<and>
    0 \<le> pgm_Jitter m \<and>
    (Rtts st = replicate n r \<longrightarrow> pgm_Jitter m = 0)"
  using assms
  by (auto simp: ping_metrics_of_def in_millis_mono f64_div_nonneg f64_div_le_1 computeJitter_nonneg
      computeJitter_constant)

lemma ping_metrics_sound_witness:
  "pgm_PacketLoss (ping_metrics_of \<lparr>MinRtt = 1, AvgRtt = 2, MaxRtt = 3, StdDevRtt = 1,
     PacketLoss = 20, PacketsSent = 5, PacketsRecv = 4, Rtts = [1, 3]\<rparr>) \<le> 1"
  by (rule ping_metrics_sound [THEN conjunct2, THEN conjunct2, THEN conjunct2, THEN conjunct1]) simp_all

text \<open>
  A configuration \<open>Validate\<close> accepts can be decoded by \<open>Execute\<close>, but not the other way
  round: \<open>Validate\<close> does not start from the defaults, so it rejects the empty object, with
  which \<open>Execute\<close> sends the default five packets.
\<close>

theorem ping_validate_without_defaults:
  assumes "parse_json C b = Some (JObj [])" "b \<noteq> []"
  shows "ping_Validate C b = Some (PingBadCount 0) \<and>
    ping_load_config C b = Some ping_DefaultConfig \<and>
    (ping_Validate C b' = None \<longrightarrow> ping_load_config C b' \<noteq> None)"
  using assms ping_config_decodes [of C ping_zero_config b' ping_DefaultConfig]
  by (auto simp: ping_Validate_def ping_load_config_def unmarshal_def dec_ping_config_def
      ping_zero_config_def split: option.splits)

lemma ping_validate_without_defaults_witness:
  "ping_Validate \<lparr>parse_json = (\<lambda>_. Some (JObj [])), print_json = (\<lambda>_. []),
     parse_time = (\<lambda>_. None), print_time = (\<lambda>_. None)\<rparr> ''{}'' = Some (PingBadCount 0)"
  by (rule ping_validate_without_defaults [THEN conjunct1]) simp_all

end
