(* ===== verification/Dns.thy ===== *)
theory Dns
  imports Canary
begin

text \<open>
  The DNS test (internal/agent/canary/dns): its configuration, the query of one resolver, the
  classification of errors, the validation of the answers and the result. The lookups of
  \<open>net.Resolver\<close>, the clock and the Unicode tables are arguments, the record \<open>dns_env\<close>.
\<close>

subsection \<open>Configuration\<close>

record dns_config =
  dc_RecordType :: string
  dc_Resolvers :: "string list"
  dc_ExpectedValues :: "string list"

definition dns_DefaultConfig :: dns_config where
  "dns_DefaultConfig = \<lparr>dc_RecordType = ''A'', dc_Resolvers = [], dc_ExpectedValues = []\<rparr>"

definition dns_zero_config :: dns_config where
  "dns_zero_config = \<lparr>dc_RecordType = [], dc_Resolvers = [], dc_ExpectedValues = []\<rparr>"

definition dns_config_fields :: "dns_config fields" where
  "dns_config_fields =
     [(''record_type'', field dc_RecordType dc_RecordType_update dec_string),
      (''resolvers'', field dc_Resolvers dc_Resolvers_update (\<lambda>_. dec_list (dec_string []))),
      (''expected_values'', field dc_ExpectedValues dc_ExpectedValues_update
         (\<lambda>_. dec_list (dec_string [])))]"

definition dec_dns_config :: "dns_config \<Rightarrow> json \<Rightarrow> dns_config option" where
  "dec_dns_config = dec_struct dns_config_fields"

datatype dns_error =
    DnsInvalidConfig
  | DnsUnsupportedType string
  | DnsParseConfig
  | DnsMarshal

definition dns_Validate :: "(string \<Rightarrow> string) \<Rightarrow> codec \<Rightarrow> bytes \<Rightarrow> dns_error option" where
  "dns_Validate upper C config =
     (if length config = 0 then None
      else case unmarshal C (dec_dns_config dns_zero_config) config of
        None \<Rightarrow> Some DnsInvalidConfig
      | Some cfg \<Rightarrow>
          if dc_RecordType cfg \<noteq> [] \<and> to_upper upper (dc_RecordType cfg)
               \<notin> {''A'', ''AAAA'', ''CNAME'', ''MX'', ''NS'', ''TXT'', ''SOA'', ''SRV''}
          then Some (DnsUnsupportedType (dc_RecordType cfg))
          else None)"

subsection \<open>One resolver\<close>

record ResolverResult =
  rr_Resolver :: string
  rr_ResolutionTimeMS :: float64
  rr_ResponseCode :: string
  rr_ResolvedValues :: "string list"
  rr_Success :: bool
  rr_Error :: string

text \<open>
  The lookups, by the position of the resolver in the list (a resolver listed twice is asked
  twice and may answer differently), its address (\<open>None\<close> for the system resolver) and the domain: an
  error text, or addresses with a mark for IPv4, a canonical name, mail servers with their
  preferences, name servers, texts, and services with priority, weight and port.
\<close>

record dns_env =
  lookup_ip :: "nat \<Rightarrow> string option \<Rightarrow> string \<Rightarrow> (string \<times> bool) list fallible"
  lookup_cname :: "nat \<Rightarrow> string option \<Rightarrow> string \<Rightarrow> string fallible"
  lookup_mx :: "nat \<Rightarrow> string option \<Rightarrow> string \<Rightarrow> (int \<times> string) list fallible"
  lookup_ns :: "nat \<Rightarrow> string option \<Rightarrow> string \<Rightarrow> string list fallible"
  lookup_txt :: "nat \<Rightarrow> string option \<Rightarrow> string \<Rightarrow> string list fallible"
  lookup_srv :: "nat \<Rightarrow> string option \<Rightarrow> string \<Rightarrow> (int \<times> int \<times> int \<times> string) list fallible"
  query_time :: "nat \<Rightarrow> int"
  dns_upper :: "string \<Rightarrow> string"
  dns_start :: int
  dns_elapsed :: int

text \<open>The address a configured resolver is dialled at.\<close>

definition dial_addr :: "string \<Rightarrow> string" where
  "dial_addr resolver = (if str_contains resolver '':'' then resolver else resolver @ '':53'')"

definition resolver_of :: "string \<Rightarrow> string option" where
  "resolver_of resolver = (if resolver \<noteq> [] then Some (dial_addr resolver) else None)"

definition dns_lookup :: "dns_env \<Rightarrow> nat \<Rightarrow> string \<Rightarrow> string \<Rightarrow> string \<Rightarrow> string list fallible" where
  "dns_lookup E i recordType resolver domain =
     (let r = resolver_of resolver
      in if recordType = ''A'' then map_sum id (\<lambda>ips. map fst (filter snd ips)) (lookup_ip E i r domain)
         else if recordType = ''AAAA''
         then map_sum id (\<lambda>ips. map fst (filter (\<lambda>ip. \<not> snd ip) ips)) (lookup_ip E i r domain)
         else if recordType = ''CNAME'' then map_sum id (\<lambda>c. [c]) (lookup_cname E i r domain)
         else if recordType = ''MX''
         then map_sum id (map (\<lambda>(pref, host). itoa pref @ '' '' @ host)) (lookup_mx E i r domain)
         else if recordType = ''NS'' then lookup_ns E i r domain
         else if recordType = ''TXT'' then lookup_txt E i r domain
         else if recordType = ''SRV''
         then map_sum id (map (\<lambda>(prio, weight, port, target). itoa prio @ '' '' @ itoa weight
                @ '' '' @ itoa port @ '' '' @ target)) (lookup_srv E i r domain)
         else Inl (''unsupported record type: '' @ recordType))"

definition classifyDNSError :: "string option \<Rightarrow> string" where
  "classifyDNSError err =
     (case err of
        None \<Rightarrow> ''NOERROR''
      | Some errStr \<Rightarrow>
          if str_contains errStr ''no such host'' then ''NXDOMAIN''
          else if str_contains errStr ''server misbehaving'' then ''SERVFAIL''
          else if str_contains errStr ''i/o timeout'' then ''TIMEOUT''
          else if str_contains errStr ''connection refused'' then ''REFUSED''
          else ''ERROR'')"

definition validateContent :: "string list \<Rightarrow> string list \<Rightarrow> bool" where
  "validateContent resolved expected =
     (let resolvedSet = fold (\<lambda>v s. insert v s) resolved {}
      in list_all (\<lambda>e. e \<in> resolvedSet) expected)"

text \<open>\<open>%v\<close> of a slice of strings.\<close>

definition format_strings :: "string list \<Rightarrow> string" where
  "format_strings xs = ''['' @ str_join '' '' xs @ '']''"

definition query_ms :: "int \<Rightarrow> float64" where
  "query_ms d = f64_div (f64_of_int (d sdiv 1000)) 1000"

definition queryResolver :: "dns_env \<Rightarrow> nat \<Rightarrow> string \<Rightarrow> string \<Rightarrow> dns_config \<Rightarrow> ResolverResult" where
  "queryResolver E i domain resolver cfg =
     (let upper = to_upper (dns_upper E) (dc_RecordType cfg);
          recordType = (if upper = [] then ''A'' else upper);
          answer = dns_lookup E i recordType resolver domain;
          resolved = (case answer of Inl _ \<Rightarrow> [] | Inr vs \<Rightarrow> vs);
          rr = \<lparr>rr_Resolver = (if resolver = [] then ''system'' else resolver),
            rr_ResolutionTimeMS = query_ms (query_time E i),
            rr_ResponseCode = (case answer of Inl err \<Rightarrow> classifyDNSError (Some err)
              | Inr _ \<Rightarrow> ''NOERROR''),
            rr_ResolvedValues = resolved,
            rr_Success = (case answer of Inl _ \<Rightarrow> False | Inr _ \<Rightarrow> True),
            rr_Error = (case answer of Inl err \<Rightarrow> err | Inr _ \<Rightarrow> [])\<rparr>
      in if rr_Success rr \<and> length (dc_ExpectedValues cfg) > 0
            \<and> \<not> validateContent resolved (dc_ExpectedValues cfg)
         then rr\<lparr>rr_Success := False,
             rr_Error := ''content validation failed: expected ''
               @ format_strings (dc_ExpectedValues cfg) @ '', got '' @ format_strings resolved\<rparr>
         else rr)"

subsection \<open>Execution\<close>

record dns_metrics =
  dnm_RecordType :: string
  dnm_AvgResolutionTimeMS :: float64
  dnm_Resolvers :: "ResolverResult list"

definition enc_ResolverResult :: "ResolverResult \<Rightarrow> json" where
  "enc_ResolverResult r = JObj
     ([(''resolver'', JStr (rr_Resolver r)),
       (''resolution_time_ms'', enc_float (rr_ResolutionTimeMS r)),
       (''response_code'', JStr (rr_ResponseCode r)),
       (''resolved_values'', enc_list JStr (rr_ResolvedValues r)),
       (''success'', JBool (rr_Success r))]
      @ omitempty (rr_Error r = []) ''error'' (JStr (rr_Error r)))"

definition marshal_dns_metrics :: "dns_metrics \<Rightarrow> json option" where
  "marshal_dns_metrics m =
     (if f64_finite (dnm_AvgResolutionTimeMS m)
         \<and> list_all (\<lambda>r. f64_finite (rr_ResolutionTimeMS r)) (dnm_Resolvers m)
      then Some (JObj
        [(''record_type'', JStr (dnm_RecordType m)),
         (''avg_resolution_time_ms'', enc_float (dnm_AvgResolutionTimeMS m)),
         (''resolvers'', enc_list enc_ResolverResult (dnm_Resolvers m))])
      else None)"

text \<open>The loop that builds the error message: the failed resolvers, separated by \<open>; \<close>.\<close>

definition add_error :: "ResolverResult \<Rightarrow> string \<Rightarrow> string" where
  "add_error rr errMsg =
     (if rr_Error rr \<noteq> []
      then (if errMsg \<noteq> [] then errMsg @ ''; '' else errMsg) @ rr_Resolver rr @ '': '' @ rr_Error rr
      else errMsg)"

definition dns_load_config :: "codec \<Rightarrow> bytes \<Rightarrow> dns_config option" where
  "dns_load_config C config =
     (if length config > 0 then unmarshal C (dec_dns_config dns_DefaultConfig) config
      else Some dns_DefaultConfig)"

definition dns_results :: "dns_env \<Rightarrow> string \<Rightarrow> dns_config \<Rightarrow> ResolverResult list" where
  "dns_results E domain cfg =
     (let resolvers = (if length (dc_Resolvers cfg) = 0 then [[]] else dc_Resolvers cfg)
      in map (\<lambda>(i, resolver). queryResolver E i domain resolver cfg) (enumerate 0 resolvers))"

definition dns_Execute :: "codec \<Rightarrow> dns_env \<Rightarrow> TestDefinition \<Rightarrow> dns_error + Result" where
  "dns_Execute C E test =
     (case dns_load_config C (td_Config test) of
        None \<Rightarrow> Inl DnsParseConfig
      | Some cfg \<Rightarrow>
          let allResults = dns_results E (td_Target test) cfg;
              success = list_all rr_Success allResults;
              totalTime = fold (\<lambda>rr t. f64_add t (rr_ResolutionTimeMS rr)) allResults 0;
              m = \<lparr>dnm_RecordType = to_upper (dns_upper E) (dc_RecordType cfg),
                dnm_AvgResolutionTimeMS = (if length allResults > 0
                  then f64_div totalTime (f64_of_int (int (length allResults))) else 0),
                dnm_Resolvers = allResults\<rparr>
          in (case marshal_dns_metrics m of
                None \<Rightarrow> Inl DnsMarshal
              | Some j \<Rightarrow>
                  Inr \<lparr>rs_TestID = td_ID test, rs_AgentID = [], rs_POPName = [],
                    rs_TestType = ''dns'', rs_Target = td_Target test, rs_Timestamp = dns_start E,
                    rs_DurationMS = f64_of_int (dns_elapsed E sdiv 1000000),
                    rs_Success = success, rs_Metrics = Some j,
                    rs_Error = fold add_error allResults [], rs_Metadata = []\<rparr>))"

lemma dns_Execute_identity:
  "dns_Execute C E test = Inr r \<Longrightarrow>
     rs_TestID r = td_ID test \<and> rs_TestType r = ''dns'' \<and> rs_Target r = td_Target test
     \<and> rs_Metadata r = []"
  by (auto simp: dns_Execute_def Let_def split: option.splits)

interpretation dns: canary_impl "''dns''" "dns_Execute C" for C
  by unfold_locales (auto dest: dns_Execute_identity)

lemma fold_insert_eq: "fold (\<lambda>v s. insert v s) xs s = set xs \<union> s"
  by (induction xs arbitrary: s) auto

lemma validateContent_subset: "validateContent resolved expected \<longleftrightarrow> set expected \<subseteq> set resolved"
  by (auto simp: validateContent_def fold_insert_eq list_all_iff)

subsection \<open>Properties\<close>

text \<open>
  A resolver succeeds exactly when its lookup returns no error and every expected value is
  among the answers; its response code is \<open>NOERROR\<close> exactly when the lookup returns no error,
  also when the answers are wrong.
\<close>

theorem resolver_success:
  "let rtype = to_upper (dns_upper E) (dc_RecordType cfg);
       answer = dns_lookup E i (if rtype = [] then ''A'' else rtype) resolver domain
   in (rr_Success (queryResolver E i domain resolver cfg) \<longleftrightarrow>
         (\<exists>vs. answer = Inr vs \<and> set (dc_ExpectedValues cfg) \<subseteq> set vs))
      \<and> (rr_ResponseCode (queryResolver E i domain resolver cfg) = ''NOERROR'' \<longleftrightarrow>
         (\<exists>vs. answer = Inr vs))"
  by (auto simp: queryResolver_def Let_def validateContent_subset classifyDNSError_def
      split: sum.splits)

lemma soa_unsupported:
  "str_contains (''unsupported record type: SOA'') ''no such host'' = False"
  "str_contains (''unsupported record type: SOA'') ''server misbehaving'' = False"
  "str_contains (''unsupported record type: SOA'') ''i/o timeout'' = False"
  "str_contains (''unsupported record type: SOA'') ''connection refused'' = False"
  by (simp_all add: has_prefix_def)


lemma soa_query:
  assumes "dc_RecordType cfg = ''SOA''"
  shows "rr_Success (queryResolver E i domain resolver cfg) = False
    \<and> rr_ResponseCode (queryResolver E i domain resolver cfg) = ''ERROR''"
proof -
  have "to_upper (dns_upper E) ''SOA'' = ''SOA''" by (simp add: to_upper_def is_ascii_def upper_char_def)
  with assms show ?thesis
    using soa_unsupported
    by (simp add: queryResolver_def Let_def dns_lookup_def classifyDNSError_def
        del: str_contains.simps)
qed

lemma soa_config:
  "unmarshal C (dec_dns_config c) b = Some (c\<lparr>dc_RecordType := ''SOA''\<rparr>)"
  if "parse_json C b = Some (JObj [(''record_type'', JStr ''SOA'')])"
  using that by (simp add: unmarshal_def dec_dns_config_def dns_config_fields_def field_def)

lemma soa_fails:
  assumes "dns_load_config C (td_Config test) = Some cfg" "dc_RecordType cfg = ''SOA''"
    "dns_Execute C E test = Inr r"
  shows "\<not> rs_Success r"
proof -
  have "\<exists>rr \<in> set (dns_results E (td_Target test) cfg). \<not> rr_Success rr"
    using soa_query [OF assms(2), of E 0 "td_Target test"]
    by (cases "dc_Resolvers cfg") (auto simp: dns_results_def)
  with assms(1,3) show ?thesis
    by (auto simp: dns_Execute_def Let_def list_all_iff split: option.splits)
qed

text \<open>
  \<open>Validate\<close> accepts the record type SOA, but a test of that type never succeeds: every
  resolver reports \<open>ERROR\<close> without a lookup, whatever the network answers.
\<close>

theorem soa_validated_but_fails:
  assumes "parse_json C (td_Config test) = Some (JObj [(''record_type'', JStr ''SOA'')])"
    and "td_Config test \<noteq> []"
  shows "dns_Validate u C (td_Config test) = None \<and>
    (dns_Execute C E test = Inr r \<longrightarrow> \<not> rs_Success r)"
proof (intro conjI)
  have "to_upper u ''SOA'' = ''SOA''" by (simp add: to_upper_def is_ascii_def upper_char_def)
  then show "dns_Validate u C (td_Config test) = None"
    using assms(2) soa_config [OF assms(1)] by (simp add: dns_Validate_def)
  have "dns_load_config C (td_Config test) = Some (dns_DefaultConfig\<lparr>dc_RecordType := ''SOA''\<rparr>)"
    using assms(2) soa_config [OF assms(1)] by (simp add: dns_load_config_def)
  then show "dns_Execute C E test = Inr r \<longrightarrow> \<not> rs_Success r"
    using soa_fails [of C test _ E r] by simp
qed

lemma soa_validated_but_fails_witness:
  "dns_Validate id \<lparr>parse_json = (\<lambda>_. Some (JObj [(''record_type'', JStr ''SOA'')])),
     print_json = (\<lambda>_. []), parse_time = (\<lambda>_. None), print_time = (\<lambda>_. None)\<rparr> ''soa'' = None"
  using soa_validated_but_fails [THEN conjunct1, of "\<lparr>parse_json = (\<lambda>_. Some (JObj [(''record_type'', JStr ''SOA'')])),
     print_json = (\<lambda>_. []), parse_time = (\<lambda>_. None), print_time = (\<lambda>_. None)\<rparr>"
     "\<lparr>td_ID = [], td_Type = ''dns'', td_Target = [], td_Interval = 1, td_Timeout = 1,
       td_Config = ''soa''\<rparr>" id]
  by simp

end
