(* ===== verification/HttpTest.thy ===== *)
theory HttpTest
  imports Canary
begin

text \<open>
  The HTTP test (internal/agent/canary/http): its configuration, the request with its
  redirects, the timing breakdown, the checks of the response and the result. The server, the
  clock, the regular expressions and the names of \<open>crypto/tls\<close> are arguments, the record
  \<open>http_env\<close>.
\<close>

subsection \<open>Configuration\<close>

record http_config =
  hc_Method :: string
  hc_Headers :: "(string \<times> string) list"
  hc_Body :: string
  hc_ExpectedStatus :: int
  hc_ContentMatch :: string
  hc_ContentRegex :: string
  hc_FollowRedirects :: "bool option"
  hc_MaxRedirects :: int
  hc_TLSSkipVerify :: bool
  hc_ValidateTLS :: "bool option"

definition http_zero_config :: http_config where
  "http_zero_config = \<lparr>hc_Method = [], hc_Headers = [], hc_Body = [], hc_ExpectedStatus = 0,
     hc_ContentMatch = [], hc_ContentRegex = [], hc_FollowRedirects = None, hc_MaxRedirects = 0,
     hc_TLSSkipVerify = False, hc_ValidateTLS = None\<rparr>"

definition http_DefaultConfig :: http_config where
  "http_DefaultConfig = http_zero_config\<lparr>hc_Method := ''GET'', hc_ExpectedStatus := 200,
     hc_FollowRedirects := Some True, hc_MaxRedirects := 10, hc_ValidateTLS := Some True\<rparr>"

definition http_config_fields :: "http_config fields" where
  "http_config_fields =
     [(''method'', field hc_Method hc_Method_update dec_string),
      (''headers'', field hc_Headers hc_Headers_update dec_str_map),
      (''body'', field hc_Body hc_Body_update dec_string),
      (''expected_status'', field hc_ExpectedStatus hc_ExpectedStatus_update dec_int),
      (''content_match'', field hc_ContentMatch hc_ContentMatch_update dec_string),
      (''content_regex'', field hc_ContentRegex hc_ContentRegex_update dec_string),
      (''follow_redirects'',
         field hc_FollowRedirects hc_FollowRedirects_update (\<lambda>_. dec_ptr dec_bool False)),
      (''max_redirects'', field hc_MaxRedirects hc_MaxRedirects_update dec_int),
      (''tls_skip_verify'', field hc_TLSSkipVerify hc_TLSSkipVerify_update dec_bool),
      (''validate_tls'', field hc_ValidateTLS hc_ValidateTLS_update (\<lambda>_. dec_ptr dec_bool False))]"

definition dec_http_config :: "http_config \<Rightarrow> json \<Rightarrow> http_config option" where
  "dec_http_config = dec_struct http_config_fields"

datatype http_error =
    HttpInvalidConfig
  | HttpUnsupportedMethod string
  | HttpBadStatus
  | HttpInvalidRegex
  | HttpBadRedirects
  | HttpParseConfig

subsection \<open>Environment\<close>

text \<open>
  A regular expression is \<open>None\<close> when it does not compile. \<open>new_request\<close> is the error of building
  the request, from the method and the target. \<open>server\<close> tells what comes back for each request
  the client sends, counted from 0: a redirect with its \<open>Location\<close> and the URL that makes, the
  final response, or the text of an error of \<open>Do\<close>. \<open>quote\<close> is \<open>strconv.Quote\<close>, of \<open>%q\<close>.
\<close>

record tls_info =
  tls_version :: int
  tls_cipher :: int
  tls_cert :: "(string \<times> string \<times> int) option"

record response =
  rsp_StatusCode :: int
  rsp_ContentLength :: int
  rsp_Proto :: string
  rsp_Body :: "bytes fallible"
  rsp_TLS :: "tls_info option"

datatype reply = Redirect string string response | Final response | Broken string

text \<open>The instants of the trace, \<open>None\<close> for one that was never set.\<close>

record timing =
  DNSStart :: "int option"
  DNSDone :: "int option"
  ConnectStart :: "int option"
  ConnectDone :: "int option"
  TLSStart :: "int option"
  TLSDone :: "int option"
  GotFirstByte :: "int option"
  RequestStart :: int
  ReadDone :: int

record http_env =
  regex :: "string \<Rightarrow> (bytes \<Rightarrow> bool) option"
  regex_error :: "string \<Rightarrow> string"
  new_request :: "string \<Rightarrow> string \<Rightarrow> string option"
  server :: "http_config \<Rightarrow> string \<Rightarrow> nat \<Rightarrow> reply"
  trace_times :: timing
  cipher_name :: "int \<Rightarrow> string"
  http_now :: int
  http_upper :: "string \<Rightarrow> string"
  quote :: "string \<Rightarrow> string"
  http_start :: int
  http_elapsed :: int

definition http_Validate ::
  "(string \<Rightarrow> string) \<Rightarrow> (string \<Rightarrow> (bytes \<Rightarrow> bool) option) \<Rightarrow> codec \<Rightarrow> bytes \<Rightarrow> http_error option" where
  "http_Validate upper compile C config =
     (if length config = 0 \<or> config = ''{}'' \<or> config = ''null'' then None
      else case unmarshal C (dec_http_config http_zero_config) config of
        None \<Rightarrow> Some HttpInvalidConfig
      | Some cfg \<Rightarrow>
          if to_upper upper (hc_Method cfg)
               \<notin> {[], ''GET'', ''POST'', ''HEAD'', ''PUT'', ''DELETE'', ''PATCH'', ''OPTIONS''}
          then Some (HttpUnsupportedMethod (hc_Method cfg))
          else if hc_ExpectedStatus cfg < 0 \<or> hc_ExpectedStatus cfg > 999 then Some HttpBadStatus
          else if hc_ContentRegex cfg \<noteq> [] \<and> compile (hc_ContentRegex cfg) = None
          then Some HttpInvalidRegex
          else if hc_MaxRedirects cfg < 0 then Some HttpBadRedirects
          else None)"

subsection \<open>The request\<close>

record http_metrics =
  htm_DNSMS :: float64
  htm_TCPMS :: float64
  htm_TLSMS :: float64
  htm_TTFBMS :: float64
  htm_TotalMS :: float64
  htm_TransferMS :: float64
  htm_StatusCode :: int
  htm_ContentLength :: int
  htm_Protocol :: string
  htm_TLSVersion :: string
  htm_TLSCipher :: string
  htm_CertSubject :: string
  htm_CertIssuer :: string
  htm_CertExpiryDays :: float64
  htm_RedirectCount :: int
  htm_RedirectChain :: "string list"
  htm_ContentMatched :: bool

text \<open>
  The variables \<open>redirectCount\<close> and \<open>redirectChain\<close> the closure \<open>CheckRedirect\<close> captures, and its
  answer for a redirect to \<open>url\<close>.
\<close>

record redirect_vars =
  redirectCount :: int
  redirectChain :: "string list"

datatype redirect_answer = UseLastResponse | RefuseRedirect string | FollowRedirect

definition CheckRedirect ::
  "bool \<Rightarrow> int \<Rightarrow> string \<Rightarrow> redirect_vars \<Rightarrow> redirect_vars \<times> redirect_answer" where
  "CheckRedirect follow maxRedirects url v =
     (let v = v\<lparr>redirectCount := redirectCount v + 1\<rparr>;
          v = v\<lparr>redirectChain := redirectChain v @ [url]\<rparr>
      in if \<not> follow then (v, UseLastResponse)
         else if redirectCount v > maxRedirects
         then (v, RefuseRedirect (''max redirects ('' @ itoa maxRedirects @ '') exceeded''))
         else (v, FollowRedirect))"

lemma CheckRedirect_cases:
  obtains (last) "\<not> follow"
      "CheckRedirect follow mx url v = (v\<lparr>redirectCount := redirectCount v + 1,
         redirectChain := redirectChain v @ [url]\<rparr>, UseLastResponse)"
  | (refused) "follow" "redirectCount v + 1 > mx"
      "CheckRedirect follow mx url v = (v\<lparr>redirectCount := redirectCount v + 1,
         redirectChain := redirectChain v @ [url]\<rparr>,
         RefuseRedirect (''max redirects ('' @ itoa mx @ '') exceeded''))"
  | (followed) "follow" "redirectCount v + 1 \<le> mx"
      "CheckRedirect follow mx url v = (v\<lparr>redirectCount := redirectCount v + 1,
         redirectChain := redirectChain v @ [url]\<rparr>, FollowRedirect)"
  by (cases follow; cases "redirectCount v + 1 > mx") (simp_all add: CheckRedirect_def Let_def)

lemma CheckRedirect_followed:
  "CheckRedirect follow mx url v = (v', FollowRedirect) \<Longrightarrow>
     redirectCount v' = redirectCount v + 1 \<and> redirectCount v + 1 \<le> mx"
  by (cases rule: CheckRedirect_cases [of follow mx url v]) auto

text \<open>
  \<open>client.Do\<close> puts an error of \<open>CheckRedirect\<close> into a \<open>*url.Error\<close> with the operation (the first
  request's method, capitalised) and the \<open>Location\<close>; \<open>n\<close> requests were answered by a redirect.
\<close>

definition url_error :: "(string \<Rightarrow> string) \<Rightarrow> string \<Rightarrow> string \<Rightarrow> string \<Rightarrow> string" where
  "url_error qt meth loc err =
     (if meth = [] then ''Get''
      else if is_ascii meth then take 1 meth @ drop 1 (map lower_char meth) else meth)
     @ '' '' @ qt loc @ '': '' @ err"

function do_redirects ::
  "(string \<Rightarrow> string) \<Rightarrow> string \<Rightarrow> (nat \<Rightarrow> reply) \<Rightarrow> bool \<Rightarrow> int \<Rightarrow> nat \<Rightarrow> redirect_vars
     \<Rightarrow> redirect_vars \<times> response fallible" where
  "do_redirects qt meth srv follow maxRedirects n v =
     (case srv n of
        Broken err \<Rightarrow> (v, Inl err)
      | Final rsp \<Rightarrow> (v, Inr rsp)
      | Redirect loc url rsp \<Rightarrow>
          (let (v', answer) = CheckRedirect follow maxRedirects url v
           in case answer of
                UseLastResponse \<Rightarrow> (v', Inr rsp)
              | RefuseRedirect err \<Rightarrow> (v', Inl (url_error qt meth loc err))
              | FollowRedirect \<Rightarrow> do_redirects qt meth srv follow maxRedirects (Suc n) v'))"
  by pat_completeness auto
termination
  by (relation "measure (\<lambda>(qt, meth, srv, follow, maxRedirects, n, v).
      nat (maxRedirects + 1 - redirectCount v))")
    (auto dest!: sym [of "(_, FollowRedirect)"] CheckRedirect_followed)

declare do_redirects.simps [simp del]

definition msElapsed :: "int \<Rightarrow> int \<Rightarrow> float64" where
  "msElapsed start end' = f64_div (f64_of_int (time_sub end' start sdiv 1000)) 1000"

definition phase_ms :: "int option \<Rightarrow> int option \<Rightarrow> float64" where
  "phase_ms s d = (case (s, d) of (Some a, Some b) \<Rightarrow> msElapsed a b | _ \<Rightarrow> 0)"

text \<open>\<open>%04x\<close> for the version numbers that have no name.\<close>

definition hex_digit :: "int \<Rightarrow> char" where
  "hex_digit n = ''0123456789abcdef'' ! nat n"

definition tlsVersionString :: "int \<Rightarrow> string" where
  "tlsVersionString v =
     (if v = 0x0301 then ''TLS 1.0'' else if v = 0x0302 then ''TLS 1.1''
      else if v = 0x0303 then ''TLS 1.2'' else if v = 0x0304 then ''TLS 1.3''
      else ''0x'' @ map (\<lambda>s. hex_digit (v div s mod 16)) [4096, 256, 16, 1])"

text \<open>\<open>Duration.Hours\<close> and the days until the certificate expires, rounded down to a tenth.\<close>

definition duration_hours :: "int \<Rightarrow> float64" where
  "duration_hours d =
     (let hour = d sdiv 3600000000000; nsec = d smod 3600000000000
      in f64_add (f64_of_int hour) (f64_div (f64_of_int nsec) 3600000000000))"

definition cert_days :: "int \<Rightarrow> float64" where
  "cert_days d = f64_div (of_int \<lfloor>f64_mul (f64_div (duration_hours d) 24) 10\<rfloor>) 10"

definition content_matched :: "http_env \<Rightarrow> http_config \<Rightarrow> bytes \<Rightarrow> bool" where
  "content_matched E cfg body =
     (let m1 = (if hc_ContentMatch cfg \<noteq> [] then str_contains body (hc_ContentMatch cfg) else True)
      in if hc_ContentRegex cfg \<noteq> [] \<and> m1
         then (case regex E (hc_ContentRegex cfg) of None \<Rightarrow> False | Some re \<Rightarrow> re body)
         else m1)"

definition response_metrics ::
  "http_env \<Rightarrow> http_config \<Rightarrow> response \<Rightarrow> redirect_vars \<Rightarrow> bytes \<Rightarrow> http_metrics" where
  "response_metrics E cfg rsp v body =
     (let tm = trace_times E;
          cert = Option.bind (rsp_TLS rsp) tls_cert
      in \<lparr>htm_DNSMS = phase_ms (DNSStart tm) (DNSDone tm),
          htm_TCPMS = phase_ms (ConnectStart tm) (ConnectDone tm),
          htm_TLSMS = phase_ms (TLSStart tm) (TLSDone tm),
          htm_TTFBMS = phase_ms (Some (RequestStart tm)) (GotFirstByte tm),
          htm_TotalMS = msElapsed (RequestStart tm) (ReadDone tm),
          htm_TransferMS = phase_ms (GotFirstByte tm) (Some (ReadDone tm)),
          htm_StatusCode = rsp_StatusCode rsp, htm_ContentLength = rsp_ContentLength rsp,
          htm_Protocol = rsp_Proto rsp,
          htm_TLSVersion = (case rsp_TLS rsp of None \<Rightarrow> [] | Some t \<Rightarrow> tlsVersionString (tls_version t)),
          htm_TLSCipher = (case rsp_TLS rsp of None \<Rightarrow> [] | Some t \<Rightarrow> cipher_name E (tls_cipher t)),
          htm_CertSubject = (case cert of None \<Rightarrow> [] | Some (subject, issuer, notAfter) \<Rightarrow> subject),
          htm_CertIssuer = (case cert of None \<Rightarrow> [] | Some (subject, issuer, notAfter) \<Rightarrow> issuer),
          htm_CertExpiryDays = (case cert of None \<Rightarrow> 0
            | Some (subject, issuer, notAfter) \<Rightarrow> cert_days (time_sub notAfter (http_now E))),
          htm_RedirectCount = redirectCount v, htm_RedirectChain = redirectChain v,
          htm_ContentMatched = content_matched E cfg body\<rparr>)"

text \<open>\<open>client.Do\<close>, and what \<open>doRequest\<close> makes of it. The body is read up to 1 MB.\<close>

definition client_Do ::
  "http_env \<Rightarrow> string \<Rightarrow> http_config \<Rightarrow> redirect_vars \<times> response fallible" where
  "client_Do E target cfg =
     do_redirects (quote E) (to_upper (http_upper E) (hc_Method cfg)) (server E cfg target)
       (hc_FollowRedirects cfg = Some True) (hc_MaxRedirects cfg) 0
       \<lparr>redirectCount = 0, redirectChain = []\<rparr>"

definition doRequest :: "http_env \<Rightarrow> string \<Rightarrow> http_config \<Rightarrow> http_metrics fallible" where
  "doRequest E target cfg =
     (case new_request E (to_upper (http_upper E) (hc_Method cfg)) target of
        Some err \<Rightarrow> Inl (''build request: '' @ err)
      | None \<Rightarrow>
          (case client_Do E target cfg of
             (v, Inl err) \<Rightarrow> Inl (''request failed: '' @ err)
           | (v, Inr rsp) \<Rightarrow>
               (case rsp_Body rsp of
                  Inl err \<Rightarrow> Inl (''read response body: '' @ err)
                | Inr body \<Rightarrow>
                    Inr (response_metrics E cfg rsp v (take (2 ^ 20) body)))))"


subsection \<open>Execution\<close>

definition marshal_http_metrics :: "http_metrics \<Rightarrow> json option" where
  "marshal_http_metrics m =
     (if list_all f64_finite [htm_DNSMS m, htm_TCPMS m, htm_TLSMS m, htm_TTFBMS m, htm_TotalMS m,
           htm_TransferMS m, htm_CertExpiryDays m]
      then Some (JObj
        ([(''dns_ms'', enc_float (htm_DNSMS m)),
          (''tcp_ms'', enc_float (htm_TCPMS m)),
          (''tls_ms'', enc_float (htm_TLSMS m)),
          (''ttfb_ms'', enc_float (htm_TTFBMS m)),
          (''total_ms'', enc_float (htm_TotalMS m)),
          (''transfer_ms'', enc_float (htm_TransferMS m)),
          (''status_code'', JInt (htm_StatusCode m)),
          (''content_length'', JInt (htm_ContentLength m))]
         @ omitempty (htm_Protocol m = []) ''protocol'' (JStr (htm_Protocol m))
         @ omitempty (htm_TLSVersion m = []) ''tls_version'' (JStr (htm_TLSVersion m))
         @ omitempty (htm_TLSCipher m = []) ''tls_cipher'' (JStr (htm_TLSCipher m))
         @ omitempty (htm_CertSubject m = []) ''cert_subject'' (JStr (htm_CertSubject m))
         @ omitempty (htm_CertIssuer m = []) ''cert_issuer'' (JStr (htm_CertIssuer m))
         @ omitempty (htm_CertExpiryDays m = 0) ''cert_expiry_days'' (enc_float (htm_CertExpiryDays m))
         @ [(''redirect_count'', JInt (htm_RedirectCount m))]
         @ omitempty (htm_RedirectChain m = []) ''redirect_chain'' (enc_list JStr (htm_RedirectChain m))
         @ [(''content_matched'', JBool (htm_ContentMatched m))]))
      else None)"

text \<open>The defaults for the fields left empty after decoding.\<close>

definition http_fill :: "http_config \<Rightarrow> http_config" where
  "http_fill cfg = cfg
     \<lparr>hc_FollowRedirects := (case hc_FollowRedirects cfg of None \<Rightarrow> Some True | v \<Rightarrow> v),
      hc_ValidateTLS := (case hc_ValidateTLS cfg of None \<Rightarrow> Some True | v \<Rightarrow> v),
      hc_Method := (if hc_Method cfg = [] then ''GET'' else hc_Method cfg),
      hc_ExpectedStatus := (if hc_ExpectedStatus cfg = 0 then 200 else hc_ExpectedStatus cfg),
      hc_MaxRedirects := (if hc_MaxRedirects cfg = 0 then 10 else hc_MaxRedirects cfg)\<rparr>"

definition http_load_config :: "codec \<Rightarrow> bytes \<Rightarrow> http_config option" where
  "http_load_config C config =
     (if length config > 0 \<and> config \<noteq> ''null''
      then map_option http_fill (unmarshal C (dec_http_config http_DefaultConfig) config)
      else Some (http_fill http_DefaultConfig))"

text \<open>\<open>Execute\<close> ignores the error of \<open>Marshal\<close>, which leaves the metrics nil.\<close>

definition http_Execute :: "codec \<Rightarrow> http_env \<Rightarrow> TestDefinition \<Rightarrow> http_error + Result" where
  "http_Execute C E test =
     (case http_load_config C (td_Config test) of
        None \<Rightarrow> Inl HttpParseConfig
      | Some cfg \<Rightarrow>
          let result = \<lparr>rs_TestID = td_ID test, rs_AgentID = [], rs_POPName = [],
                rs_TestType = ''http'', rs_Target = td_Target test, rs_Timestamp = http_start E,
                rs_DurationMS = f64_of_int (http_elapsed E sdiv 1000000),
                rs_Success = False, rs_Metrics = None, rs_Error = [], rs_Metadata = []\<rparr>
          in (case doRequest E (td_Target test) cfg of
                Inl err \<Rightarrow> Inr (result\<lparr>rs_Error := err\<rparr>)
              | Inr m \<Rightarrow>
                  let statusOK = (htm_StatusCode m = hc_ExpectedStatus cfg);
                      contentOK = htm_ContentMatched m
                  in Inr (result\<lparr>rs_Success := (statusOK \<and> contentOK),
                       rs_Error := (if \<not> statusOK
                          then ''expected status '' @ itoa (hc_ExpectedStatus cfg) @ '', got ''
                            @ itoa (htm_StatusCode m)
                          else if \<not> contentOK then ''content match failed'' else []),
                       rs_Metrics := marshal_http_metrics m\<rparr>)))"

lemma http_Execute_identity:
  "http_Execute C E test = Inr r \<Longrightarrow>
     rs_TestID r = td_ID test \<and> rs_TestType r = ''http'' \<and> rs_Target r = td_Target test
     \<and> rs_Metadata r = []"
  by (auto simp: http_Execute_def Let_def split: option.splits sum.splits)

interpretation http: canary_impl "''http''" "http_Execute C" for C
  by unfold_locales (auto dest: http_Execute_identity)

subsection \<open>Redirects\<close>

abbreviation redirected :: "string \<Rightarrow> redirect_vars \<Rightarrow> redirect_vars" where
  "redirected url v \<equiv> v\<lparr>redirectCount := redirectCount v + 1, redirectChain := redirectChain v @ [url]\<rparr>"

lemma do_redirects_Broken: "srv n = Broken err \<Longrightarrow> do_redirects qt meth srv follow mx n v = (v, Inl err)"
  by (simp add: do_redirects.simps [of qt meth srv])

lemma do_redirects_Final: "srv n = Final rsp \<Longrightarrow> do_redirects qt meth srv follow mx n v = (v, Inr rsp)"
  by (simp add: do_redirects.simps [of qt meth srv])

lemma do_redirects_last:
  "srv n = Redirect loc url rsp \<Longrightarrow>
     do_redirects qt meth srv False mx n v = (redirected url v, Inr rsp)"
  by (simp add: do_redirects.simps [of qt meth srv] CheckRedirect_def Let_def)

lemma do_redirects_refused:
  "srv n = Redirect loc url rsp \<Longrightarrow> redirectCount v + 1 > mx \<Longrightarrow>
     do_redirects qt meth srv True mx n v = (redirected url v,
       Inl (url_error qt meth loc (''max redirects ('' @ itoa mx @ '') exceeded'')))"
  by (simp add: do_redirects.simps [of qt meth srv] CheckRedirect_def Let_def)

lemma do_redirects_followed:
  "srv n = Redirect loc url rsp \<Longrightarrow> redirectCount v + 1 \<le> mx \<Longrightarrow>
     do_redirects qt meth srv True mx n v = do_redirects qt meth srv True mx (Suc n) (redirected url v)"
  by (subst do_redirects.simps) (simp add: CheckRedirect_def Let_def)

lemmas do_redirects_steps = do_redirects_Broken do_redirects_Final do_redirects_last
  do_redirects_refused do_redirects_followed

definition redirect_url :: "reply \<Rightarrow> string option" where
  "redirect_url r = (case r of Redirect loc url rsp \<Rightarrow> Some url | _ \<Rightarrow> None)"

text \<open>
  After \<open>n\<close> redirects the variables hold their number and their URLs.
\<close>

definition redirects_seen :: "(nat \<Rightarrow> reply) \<Rightarrow> nat \<Rightarrow> redirect_vars \<Rightarrow> bool" where
  "redirects_seen srv n v \<longleftrightarrow> redirectCount v = int n
     \<and> map (\<lambda>i. redirect_url (srv i)) [0..<n] = map Some (redirectChain v)"

lemma redirects_seen_Suc:
  "redirects_seen srv n v \<Longrightarrow> srv n = Redirect loc url rsp \<Longrightarrow>
     redirects_seen srv (Suc n) (redirected url v)"
  by (simp add: redirects_seen_def redirect_url_def)

lemma redirects_seen_length: "redirects_seen srv n v \<Longrightarrow> length (redirectChain v) = n"
  by (auto simp: redirects_seen_def dest: map_eq_imp_length_eq)

text \<open>
  The response the client returns, if any: with redirects followed the first reply that is not
  a redirect, if it comes after at most \<open>mx\<close> of them; otherwise the first reply.
\<close>

definition final_response :: "(nat \<Rightarrow> reply) \<Rightarrow> bool \<Rightarrow> int \<Rightarrow> response \<Rightarrow> bool" where
  "final_response srv follow mx rsp \<longleftrightarrow>
     (if follow
      then \<exists>k. (\<forall>i < k. redirect_url (srv i) \<noteq> None) \<and> srv k = Final rsp \<and> int k \<le> max 0 mx
      else srv 0 = Final rsp \<or> (\<exists>loc url. srv 0 = Redirect loc url rsp))"

text \<open>
  One induction over the number of redirects left carries what the client promises: the
  variables, the response, the error, and that only the first replies matter.
\<close>

lemma follow_induct [consumes 2, case_names Broken Final refused followed]:
  assumes "int n \<le> max 0 mx" "redirectCount v = int n"
    and "\<And>n v err. redirectCount v = int n \<Longrightarrow> int n \<le> max 0 mx \<Longrightarrow> srv n = Broken err \<Longrightarrow> P n v"
    and "\<And>n v rsp. redirectCount v = int n \<Longrightarrow> int n \<le> max 0 mx \<Longrightarrow> srv n = Final rsp \<Longrightarrow> P n v"
    and "\<And>n v loc url rsp. redirectCount v = int n \<Longrightarrow> int n = max 0 mx \<Longrightarrow>
      srv n = Redirect loc url rsp \<Longrightarrow> redirectCount v + 1 > mx \<Longrightarrow> P n v"
    and "\<And>n v loc url rsp. redirectCount v = int n \<Longrightarrow> int (Suc n) \<le> max 0 mx \<Longrightarrow>
      srv n = Redirect loc url rsp \<Longrightarrow> redirectCount v + 1 \<le> mx \<Longrightarrow>
      P (Suc n) (redirected url v) \<Longrightarrow> P n v"
  shows "P (n :: nat) (v :: redirect_vars)"
  using assms(1,2)
proof (induction "nat (max 0 mx - int n)" arbitrary: n v rule: less_induct)
  case less
  show ?case
  proof (cases "srv n")
    case (Redirect loc url rsp)
    show ?thesis
    proof (cases "redirectCount v + 1 \<le> mx")
      case True
      with less.prems have "P (Suc n) (redirected url v)" by (intro less.hyps) auto
      with assms(6) [OF less.prems(2) _ Redirect True] True less.prems show ?thesis by simp
    next
      case False
      with assms(5) [OF less.prems(2) _ Redirect] less.prems show ?thesis by simp
    qed
  qed (use assms(3,4) less.prems in auto)
qed

lemma do_redirects_seen:
  assumes "redirectCount v = int n" "int n \<le> max 0 mx" "redirects_seen srv n v"
  shows "\<exists>m. redirects_seen srv m (fst (do_redirects qt meth srv True mx n v)) \<and> int m \<le> max 0 mx + 1
    \<and> (isl (snd (do_redirects qt meth srv True mx n v)) \<or> int m \<le> max 0 mx)"
  using assms(2,1,3)
proof (induction n v rule: follow_induct [where srv = srv])
  case (refused n v loc url rsp)
  then show ?case
    using redirects_seen_Suc [of srv n v loc url rsp]
    by (intro exI [of _ "Suc n"]) (simp add: do_redirects_refused)
next
  case (followed n v loc url rsp)
  then show ?case
    using redirects_seen_Suc [of srv n v loc url rsp] by (simp add: do_redirects_followed)
qed (auto simp: do_redirects_steps)

lemma do_redirects_exceeded:
  assumes "redirectCount v = int n" "int n \<le> max 0 mx"
    and "\<And>i. n \<le> i \<Longrightarrow> int i \<le> max 0 mx \<Longrightarrow> redirect_url (srv i) \<noteq> None"
  shows "\<exists>loc. snd (do_redirects qt meth srv True mx n v) =
    Inl (url_error qt meth loc (''max redirects ('' @ itoa mx @ '') exceeded''))"
  using assms(2,1,3)
proof (induction n v rule: follow_induct [where srv = srv])
  case (Broken n v err)
  then show ?case using Broken.prems [of n] by (auto simp: redirect_url_def)
next
  case (Final n v err)
  then show ?case using Final.prems [of n] by (auto simp: redirect_url_def)
qed (auto simp: do_redirects_steps)

lemma do_redirects_cong:
  assumes "redirectCount v = int n" "int n \<le> max 0 mx"
    and "\<And>i. n \<le> i \<Longrightarrow> int i \<le> max 0 mx \<Longrightarrow> srv' i = srv i"
  shows "do_redirects qt meth srv' True mx n v = do_redirects qt meth srv True mx n v"
  using assms(2,1,3)
  by (induction n v rule: follow_induct [where srv = srv]) (simp_all add: do_redirects_steps)

lemma first_reply:
  "redirect_url (srv n) = None \<Longrightarrow>
     n \<le> k \<and> (\<forall>i \<in> {n ..< k}. redirect_url (srv i) \<noteq> None) \<and> srv k = Final rsp \<and> int k \<le> m \<longleftrightarrow>
     k = n \<and> srv n = Final rsp \<and> int n \<le> m"
  by (cases "k = n") (auto dest: bspec [of _ _ n])

lemma do_redirects_response:
  assumes "redirectCount v = int n" "int n \<le> max 0 mx"
  shows "snd (do_redirects qt meth srv True mx n v) = Inr rsp \<longleftrightarrow>
    (\<exists>k \<ge> n. (\<forall>i \<in> {n ..< k}. redirect_url (srv i) \<noteq> None) \<and> srv k = Final rsp \<and> int k \<le> max 0 mx)"
  using assms(2,1)
proof (induction n v rule: follow_induct [where srv = srv])
  case (followed n v loc url r)
  have "srv n \<noteq> Final rsp" "redirect_url (srv n) \<noteq> None"
    using followed(3) by (simp_all add: redirect_url_def)
  then have "(k \<ge> n \<and> (\<forall>i \<in> {n ..< k}. redirect_url (srv i) \<noteq> None) \<and> srv k = Final rsp \<and> int k \<le> max 0 mx) \<longleftrightarrow>
      (k \<ge> Suc n \<and> (\<forall>i \<in> {Suc n ..< k}. redirect_url (srv i) \<noteq> None) \<and> srv k = Final rsp \<and> int k \<le> max 0 mx)"
    for k
    by (cases "k = n") (auto simp: le_Suc_eq not_less_eq_eq intro!: Suc_leI elim!: Suc_leD dest: le_neq_implies_less)
  with followed show ?case by (simp add: do_redirects_followed)
next
  case (Broken n v err)
  then have "redirect_url (srv n) = None" by (simp add: redirect_url_def)
  from first_reply [where srv = srv, OF this] Broken show ?case by (simp add: do_redirects_Broken)
next
  case (Final n v r)
  then have "redirect_url (srv n) = None" by (simp add: redirect_url_def)
  from first_reply [where srv = srv, OF this] Final show ?case by (simp add: do_redirects_Final)
next
  case (refused n v loc url r)
  have "\<not> (n \<le> k \<and> srv k = Final rsp \<and> int k \<le> max 0 mx)" for k
    using refused by (cases "k = n") auto
  with refused show ?case by (auto simp: do_redirects_refused)
qed

lemma client_Do_True:
  "client_Do E target cfg = do_redirects (quote E) (to_upper (http_upper E) (hc_Method cfg))
     (server E cfg target) True (hc_MaxRedirects cfg) 0 \<lparr>redirectCount = 0, redirectChain = []\<rparr>"
  if "hc_FollowRedirects cfg = Some True"
  using that by (simp add: client_Do_def)

lemma client_Do_False:
  "client_Do E target cfg = (case server E cfg target 0 of
       Broken err \<Rightarrow> (\<lparr>redirectCount = 0, redirectChain = []\<rparr>, Inl err)
     | Final rsp \<Rightarrow> (\<lparr>redirectCount = 0, redirectChain = []\<rparr>, Inr rsp)
     | Redirect loc url rsp \<Rightarrow> (\<lparr>redirectCount = 1, redirectChain = [url]\<rparr>, Inr rsp))"
  if "hc_FollowRedirects cfg \<noteq> Some True"
  using that by (simp add: client_Do_def do_redirects_steps split: reply.split)

lemma client_Do_response:
  "snd (client_Do E target cfg) = Inr rsp \<longleftrightarrow>
     final_response (server E cfg target) (hc_FollowRedirects cfg = Some True) (hc_MaxRedirects cfg) rsp"
proof (cases "hc_FollowRedirects cfg = Some True")
  case True
  then show ?thesis
    by (simp add: client_Do_True final_response_def do_redirects_response Ball_def)
next
  case False
  then show ?thesis
    by (auto simp: client_Do_False final_response_def split: reply.split)
qed

lemma client_Do_cong:
  assumes "\<And>i. int i \<le> (if hc_FollowRedirects cfg = Some True then max 0 (hc_MaxRedirects cfg) else 0) \<Longrightarrow>
      srv cfg target i = server E cfg target i"
  shows "client_Do (E\<lparr>server := srv\<rparr>) target cfg = client_Do E target cfg"
proof (cases "hc_FollowRedirects cfg = Some True")
  case True
  with assms show ?thesis by (simp add: client_Do_True) (rule do_redirects_cong, simp_all)
next
  case False
  with assms [of 0] show ?thesis by (simp add: client_Do_False)
qed

lemma client_Do_seen:
  "\<exists>m. redirects_seen (server E cfg target) m (fst (client_Do E target cfg))
     \<and> int m \<le> (if hc_FollowRedirects cfg = Some True then max 0 (hc_MaxRedirects cfg) else 0) + 1
     \<and> (hc_FollowRedirects cfg = Some True \<and> \<not> isl (snd (client_Do E target cfg))
          \<longrightarrow> int m \<le> max 0 (hc_MaxRedirects cfg))"
proof (cases "hc_FollowRedirects cfg = Some True")
  case True
  have "redirects_seen (server E cfg target) 0 \<lparr>redirectCount = 0, redirectChain = []\<rparr>"
    by (simp add: redirects_seen_def)
  from do_redirects_seen [OF _ _ this] True show ?thesis by (simp add: client_Do_True) blast
next
  case False
  then show ?thesis
    by (cases "server E cfg target 0") (auto simp: client_Do_False redirects_seen_def redirect_url_def
        intro: exI [of _ 0] exI [of _ 1])
qed

subsection \<open>Properties\<close>

text \<open>
  C35: the redirects of a request are bounded by the configuration, however the request ends and
  even if the server redirects forever. With \<open>n = MaxRedirects\<close> (0 when negative) if redirects are
  followed and \<open>n = 0\<close> if not: at most \<open>n + 1\<close> redirects are counted, at most \<open>n\<close> before a response
  of a followed request; the count is the length of the chain, which holds the URLs the server
  redirected to, in order, and both are what a successful request records; what the server would
  answer after the first \<open>n + 1\<close> requests makes no difference; and if all of these are redirects
  that are followed, the request fails with the error that says so.
\<close>

theorem redirects_bounded:
  fixes E :: http_env and target :: string and cfg :: http_config
  defines "n \<equiv> if hc_FollowRedirects cfg = Some True then max 0 (hc_MaxRedirects cfg) else 0"
    and "v \<equiv> fst (client_Do E target cfg)"
    and "r \<equiv> snd (client_Do E target cfg)"
  shows "redirectCount v \<le> n + 1 \<and>
    (hc_FollowRedirects cfg = Some True \<and> \<not> isl r \<longrightarrow>
       redirectCount v \<le> n) \<and>
    redirectCount v = int (length (redirectChain v)) \<and>
    map Some (redirectChain v) =
      map (\<lambda>i. redirect_url (server E cfg target i)) [0..<length (redirectChain v)] \<and>
    (\<forall>m. doRequest E target cfg = Inr m \<longrightarrow> htm_RedirectCount m = redirectCount v
       \<and> htm_RedirectChain m = redirectChain v) \<and>
    (\<forall>srv. (\<forall>i. int i \<le> n \<longrightarrow> srv cfg target i = server E cfg target i) \<longrightarrow>
       client_Do (E\<lparr>server := srv\<rparr>) target cfg = client_Do E target cfg) \<and>
    (hc_FollowRedirects cfg = Some True
       \<and> (\<forall>i. int i \<le> n \<longrightarrow> redirect_url (server E cfg target i) \<noteq> None) \<longrightarrow>
       (\<exists>loc. r = Inl (url_error (quote E) (to_upper (http_upper E) (hc_Method cfg)) loc
          (''max redirects ('' @ itoa (hc_MaxRedirects cfg) @ '') exceeded''))))"
proof -
  obtain m where m: "redirects_seen (server E cfg target) m v" "int m \<le> n + 1"
      "hc_FollowRedirects cfg = Some True \<and> \<not> isl r \<longrightarrow> int m \<le> n"
    using client_Do_seen [of E cfg target] by (auto simp: n_def v_def r_def)
  have "client_Do (E\<lparr>server := srv\<rparr>) target cfg = client_Do E target cfg"
    if "\<forall>i. int i \<le> n \<longrightarrow> srv cfg target i = server E cfg target i" for srv
    by (rule client_Do_cong) (use that in \<open>simp add: n_def\<close>)
  moreover have "\<exists>loc. r = Inl (url_error (quote E) (to_upper (http_upper E) (hc_Method cfg)) loc
      (''max redirects ('' @ itoa (hc_MaxRedirects cfg) @ '') exceeded''))"
    if "hc_FollowRedirects cfg = Some True"
      "\<forall>i. int i \<le> n \<longrightarrow> redirect_url (server E cfg target i) \<noteq> None"
    unfolding r_def client_Do_True [OF that(1)]
    by (rule do_redirects_exceeded) (use that in \<open>simp_all add: n_def\<close>)
  moreover have "htm_RedirectCount m' = redirectCount v
      \<and> htm_RedirectChain m' = redirectChain v" if "doRequest E target cfg = Inr m'" for m'
    using that by (auto simp: doRequest_def v_def response_metrics_def Let_def
        split: option.splits sum.splits prod.splits)
  ultimately show ?thesis
    using m redirects_seen_length [OF m(1)] by (auto simp: redirects_seen_def)
qed

text \<open>For the witnesses: a server that answers, and one that redirects forever.\<close>

definition demo_response :: response where
  "demo_response = \<lparr>rsp_StatusCode = 200, rsp_ContentLength = 2, rsp_Proto = ''HTTP/1.1'',
     rsp_Body = Inr ''ok'', rsp_TLS = None\<rparr>"

definition demo_http_env :: http_env where
  "demo_http_env = \<lparr>regex = (\<lambda>_. None), regex_error = (\<lambda>_. []), new_request = (\<lambda>_ _. None),
     server = (\<lambda>_ _ n. if n < 2 then Redirect ''/next'' ''http://t/next'' demo_response
       else Final demo_response),
     trace_times = \<lparr>DNSStart = None, DNSDone = None, ConnectStart = None, ConnectDone = None,
       TLSStart = None, TLSDone = None, GotFirstByte = None, RequestStart = 0, ReadDone = 0\<rparr>,
     cipher_name = (\<lambda>_. []), http_now = 0, http_upper = id, quote = id, http_start = 0, http_elapsed = 0\<rparr>"

definition loop_http_env :: http_env where
  "loop_http_env = demo_http_env\<lparr>server := (\<lambda>_ _ n. Redirect ''/next'' ''http://t/next'' demo_response)\<rparr>"

lemma redirects_bounded_witness:
  "redirectCount (fst (client_Do loop_http_env ''t'' http_DefaultConfig)) \<le> 11
   \<and> (\<exists>loc. snd (client_Do loop_http_env ''t'' http_DefaultConfig) =
       Inl (url_error id ''GET'' loc (''max redirects ('' @ itoa 10 @ '') exceeded'')))"
proof
  note bounded = redirects_bounded [of loop_http_env "''t''" http_DefaultConfig]
  have cfg: "hc_FollowRedirects http_DefaultConfig = Some True" "hc_MaxRedirects http_DefaultConfig = 10"
    by (simp_all add: http_DefaultConfig_def http_zero_config_def)
  have meth: "to_upper (http_upper loop_http_env) (hc_Method http_DefaultConfig) = ''GET''"
    by (simp add: http_DefaultConfig_def http_zero_config_def to_upper_def is_ascii_def upper_char_def)
  have loop: "redirect_url (server loop_http_env c u i) \<noteq> None" "quote loop_http_env = id" for c u i
    by (simp_all add: loop_http_env_def demo_http_env_def redirect_url_def)
  show "redirectCount (fst (client_Do loop_http_env ''t'' http_DefaultConfig)) \<le> 11"
    using bounded [THEN conjunct1] by (simp add: cfg)
  show "\<exists>loc. snd (client_Do loop_http_env ''t'' http_DefaultConfig) =
      Inl (url_error id ''GET'' loc (''max redirects ('' @ itoa 10 @ '') exceeded''))"
    using bounded [THEN conjunct2, THEN conjunct2, THEN conjunct2, THEN conjunct2, THEN conjunct2,
        THEN conjunct2] by (simp add: cfg meth loop)
qed

text \<open>What a body has to be for the test to succeed.\<close>

definition content_expected :: "http_env \<Rightarrow> http_config \<Rightarrow> bytes \<Rightarrow> bool" where
  "content_expected E cfg body \<longleftrightarrow>
     (hc_ContentMatch cfg \<noteq> [] \<longrightarrow> (\<exists>before after. body = before @ hc_ContentMatch cfg @ after))
     \<and> (hc_ContentRegex cfg \<noteq> [] \<longrightarrow> (\<exists>re. regex E (hc_ContentRegex cfg) = Some re \<and> re body))"

lemma content_matched_iff: "content_matched E cfg body \<longleftrightarrow> content_expected E cfg body"
  by (auto simp: content_matched_def content_expected_def str_contains_iff Let_def split: option.splits)

lemma doRequest_Inr:
  "doRequest E target cfg = Inr m \<longleftrightarrow>
     new_request E (to_upper (http_upper E) (hc_Method cfg)) target = None
     \<and> (\<exists>rsp body. final_response (server E cfg target) (hc_FollowRedirects cfg = Some True)
            (hc_MaxRedirects cfg) rsp
          \<and> rsp_Body rsp = Inr body
          \<and> m = response_metrics E cfg rsp (fst (client_Do E target cfg)) (take (2 ^ 20) body))"
  unfolding doRequest_def client_Do_response [symmetric]
  by (cases "client_Do E target cfg") (auto split: option.splits sum.splits)

lemma response_metrics_checks:
  "htm_StatusCode (response_metrics E cfg rsp v body) = rsp_StatusCode rsp"
  "htm_ContentMatched (response_metrics E cfg rsp v body) = content_expected E cfg body"
  by (simp_all add: response_metrics_def Let_def content_matched_iff)

text \<open>
  C36: the test always produces a result once its configuration is decoded. It succeeds exactly
  when the request could be built, the server's replies lead to a final response whose body could
  be read, that response has the expected status, the first megabyte of its body contains the
  expected text, and the expected expression compiles and matches it. Any other test fails with
  an error text, and it has no metrics exactly when no response was read or they cannot be
  marshalled.
\<close>

theorem http_result_classifies:
  assumes "http_load_config C (td_Config test) = Some cfg"
  shows "\<exists>r. http_Execute C E test = Inr r
    \<and> (rs_Success r \<longleftrightarrow>
        new_request E (to_upper (http_upper E) (hc_Method cfg)) (td_Target test) = None
        \<and> (\<exists>rsp body. final_response (server E cfg (td_Target test))
              (hc_FollowRedirects cfg = Some True) (hc_MaxRedirects cfg) rsp
            \<and> rsp_Body rsp = Inr body \<and> rsp_StatusCode rsp = hc_ExpectedStatus cfg
            \<and> content_expected E cfg (take (2 ^ 20) body)))
    \<and> (rs_Error r = [] \<longleftrightarrow> rs_Success r)
    \<and> rs_Metrics r = (case doRequest E (td_Target test) cfg of
        Inl err \<Rightarrow> None | Inr m \<Rightarrow> marshal_http_metrics m)"
proof -
  let ?ok = "new_request E (to_upper (http_upper E) (hc_Method cfg)) (td_Target test) = None
        \<and> (\<exists>rsp body. final_response (server E cfg (td_Target test))
              (hc_FollowRedirects cfg = Some True) (hc_MaxRedirects cfg) rsp
            \<and> rsp_Body rsp = Inr body \<and> rsp_StatusCode rsp = hc_ExpectedStatus cfg
            \<and> content_expected E cfg (take (2 ^ 20) body))"
  have ok: "(\<exists>m. doRequest E (td_Target test) cfg = Inr m \<and> htm_StatusCode m = hc_ExpectedStatus cfg
      \<and> htm_ContentMatched m) \<longleftrightarrow> ?ok"
    unfolding doRequest_Inr using response_metrics_checks [of E cfg] by metis
  have "doRequest E (td_Target test) cfg = Inl err \<Longrightarrow> err \<noteq> []" for err
    by (auto simp: doRequest_def split: option.splits sum.splits prod.splits)
  with assms ok show ?thesis
    by (cases "doRequest E (td_Target test) cfg") (auto simp: http_Execute_def Let_def)
qed

definition demo_http_codec :: codec where
  "demo_http_codec = \<lparr>parse_json = (\<lambda>_. None), print_json = (\<lambda>_. []), parse_time = (\<lambda>_. None),
     print_time = (\<lambda>_. None)\<rparr>"

lemma http_result_classifies_witness:
  "\<exists>r. http_Execute demo_http_codec demo_http_env \<lparr>td_ID = [], td_Type = ''http'', td_Target = ''t'',
       td_Interval = 1, td_Timeout = 1, td_Config = []\<rparr> = Inr r \<and> rs_Success r \<and> rs_Error r = []"
proof -
  let ?test = "\<lparr>td_ID = [], td_Type = ''http'', td_Target = ''t'', td_Interval = 1, td_Timeout = 1,
    td_Config = []\<rparr>"
  have cfg: "http_load_config demo_http_codec (td_Config ?test) = Some http_DefaultConfig"
    by (simp add: http_load_config_def http_fill_def http_DefaultConfig_def http_zero_config_def)
  have "final_response (server demo_http_env http_DefaultConfig ''t'') True 10 demo_response"
    unfolding final_response_def
    by (simp, rule exI [of _ 2]) (simp add: demo_http_env_def redirect_url_def)
  then show ?thesis
    using http_result_classifies [where E = demo_http_env, OF cfg]
    by (auto simp: content_expected_def demo_response_def http_DefaultConfig_def
        http_zero_config_def) (simp_all add: demo_http_env_def)
qed

end
