(* ===== verification/Pipeline.thy ===== *)
theory Pipeline
  imports Agent Processor Traceroute Ping Dns HttpTest
begin

text \<open>
  The pipeline from a test on an agent to the metrics of the processor: the result the agent
  publishes is what the processor decodes, and the structs of the processor mirror those of
  the tests field by field.
\<close>

subsection \<open>The envelope\<close>

definition named :: "Config \<Rightarrow> Result \<Rightarrow> Result" where
  "named cfg r = r\<lparr>rs_AgentID := AgentID cfg, rs_POPName := POPName cfg\<rparr>"

lemma executeTest_published:
  assumes "snd (executeTest publish push C cfg now (Exec_result (Some r)) test (s, b)) =
    Published (topic, data)"
  shows "topic = result_topic (td_Type test)" "marshal_Result C (named cfg r) = Some data"
  using assms
  by (auto simp: executeTest_def publishResult_def named_def Let_def
      split: option.splits prod.splits)

lemma executeTest_error_published:
  assumes "snd (executeTest publish push C cfg now (Exec_error err) test (s, b)) =
    Published (topic, data)"
  shows "topic = result_topic (td_Type test)"
    "marshal_Result C (failure_result cfg now test err) = Some data"
  using assms
  by (auto simp: executeTest_def publishResult_def failure_result_def Let_def
      split: option.splits prod.splits)

context canary_impl
begin

text \<open>What a reader of the published message learns about the test and the agent.\<close>

lemma published_identity:
  assumes "execute env test = Inr r" "td_Type test = ctype"
    and "snd (executeTest publish push C cfg now (Exec_result (Some r)) test (s, b)) =
      Published (topic, data)"
    and "codec_ok C (named cfg r)"
  shows "topic = ''netvantage.'' @ ctype @ ''.results''
    \<and> unmarshal_Result C data = Some (sent_Result (named cfg r))
    \<and> rs_TestID r = td_ID test \<and> rs_TestType r = td_Type test \<and> rs_Target r = td_Target test"
proof -
  have "metadata_ok (named cfg r)"
    using execute_metadata [OF assms(1)] by (simp add: metadata_ok_def named_def)
  from unmarshal_marshal_Result [OF assms(4) this executeTest_published(2) [OF assms(3)]]
  show ?thesis
    using execute_identity [OF assms(1)] executeTest_published(1) [OF assms(3)] assms(2)
    by (simp add: result_topic_def)
qed

end

subsection \<open>The metrics\<close>

definition ping_mirror :: "ping_metrics \<Rightarrow> pingMetrics" where
  "ping_mirror m = \<lparr>pm_RTTMin = pgm_RTTMin m, pm_RTTAvg = pgm_RTTAvg m, pm_RTTMax = pgm_RTTMax m,
     pm_RTTStdDev = pgm_RTTStdDev m, pm_PacketLoss = pgm_PacketLoss m, pm_Jitter = pgm_Jitter m,
     pm_PacketsSent = pgm_PacketsSent m, pm_PacketsRecv = pgm_PacketsRecv m\<rparr>"

lemma dec_enc_ping_metrics:
  assumes "marshal_ping_metrics m = Some j" "in_int64 (pgm_PacketsSent m)" "in_int64 (pgm_PacketsRecv m)"
  shows "dec_pingMetrics j = Some (ping_mirror m)"
  using assms
  by (auto simp: marshal_ping_metrics_def dec_pingMetrics_def pingMetrics_fields_def find_field_def
      field_def zero_pingMetrics_def ping_mirror_def split: if_splits)

definition resolver_mirror :: "ResolverResult \<Rightarrow> dnsResolverResult" where
  "resolver_mirror r = \<lparr>dr_Resolver = rr_Resolver r, dr_ResolutionTimeMS = rr_ResolutionTimeMS r,
     dr_ResponseCode = rr_ResponseCode r, dr_ResolvedValues = rr_ResolvedValues r,
     dr_Success = rr_Success r, dr_Error = rr_Error r\<rparr>"

lemma dec_enc_strings: "dec_list (dec_string []) (enc_list JStr xs) = Some xs"
  by (rule dec_list_enc) simp

lemma dec_enc_resolver:
  assumes "f64_finite (rr_ResolutionTimeMS r)"
  shows "dec_dnsResolverResult (enc_ResolverResult r) = Some (resolver_mirror r)"
  using assms
  by (auto simp: enc_ResolverResult_def dec_dnsResolverResult_def dnsResolverResult_fields_def
      find_field_def field_def zero_dnsResolverResult_def resolver_mirror_def omitempty_def
      dec_enc_strings)


definition dns_mirror :: "dns_metrics \<Rightarrow> dnsMetrics" where
  "dns_mirror m = \<lparr>dm_RecordType = dnm_RecordType m,
     dm_AvgResolutionTimeMS = dnm_AvgResolutionTimeMS m,
     dm_Resolvers = map resolver_mirror (dnm_Resolvers m)\<rparr>"

lemma dec_enc_dns_metrics:
  assumes "marshal_dns_metrics m = Some j"
  shows "dec_dnsMetrics j = Some (dns_mirror m)"
proof -
  have fin: "f64_finite (dnm_AvgResolutionTimeMS m)"
    "dec_list dec_dnsResolverResult (enc_list enc_ResolverResult (dnm_Resolvers m)) =
      Some (map resolver_mirror (dnm_Resolvers m))"
    using assms
    by (auto simp: marshal_dns_metrics_def list_all_iff intro!: dec_list_enc_map dec_enc_resolver
        split: if_splits)
  show ?thesis
    using assms fin
    by (auto simp: marshal_dns_metrics_def dec_dnsMetrics_def dnsMetrics_fields_def find_field_def
        field_def zero_dnsMetrics_def dns_mirror_def split: if_splits)
qed

definition http_mirror :: "http_metrics \<Rightarrow> httpResultMetrics" where
  "http_mirror m = \<lparr>hm_DNSMS = htm_DNSMS m, hm_TCPMS = htm_TCPMS m, hm_TLSMS = htm_TLSMS m,
     hm_TTFBMS = htm_TTFBMS m, hm_TotalMS = htm_TotalMS m, hm_TransferMS = htm_TransferMS m,
     hm_StatusCode = htm_StatusCode m, hm_ContentLength = htm_ContentLength m,
     hm_CertExpiryDays = htm_CertExpiryDays m, hm_RedirectCount = htm_RedirectCount m,
     hm_ContentMatched = htm_ContentMatched m\<rparr>"

definition http_ints_ok :: "http_metrics \<Rightarrow> bool" where
  "http_ints_ok m \<longleftrightarrow> in_int64 (htm_StatusCode m) \<and> in_int64 (htm_ContentLength m)
     \<and> in_int64 (htm_RedirectCount m)"

lemma dec_fields_append:
  "dec_fields fs (kvs @ kvs') r = Option.bind (dec_fields fs kvs r) (dec_fields fs kvs')"
  by (induction fs kvs r rule: dec_fields.induct) (auto split: option.split)

lemma dec_fields_omitempty:
  "dec_fields fs (omitempty z k v @ kvs) r =
     (if z then dec_fields fs kvs r else dec_fields fs ((k, v) # kvs) r)"
  "dec_fields fs (omitempty z k v) r = (if z then Some r else dec_fields fs [(k, v)] r)"
  by (simp_all add: omitempty_def)

lemma http_unknown_fields:
  "find_field httpResultMetrics_fields ''protocol'' = None"
  "find_field httpResultMetrics_fields ''tls_version'' = None"
  "find_field httpResultMetrics_fields ''tls_cipher'' = None"
  "find_field httpResultMetrics_fields ''cert_subject'' = None"
  "find_field httpResultMetrics_fields ''cert_issuer'' = None"
  "find_field httpResultMetrics_fields ''redirect_chain'' = None"
  by (simp_all add: httpResultMetrics_fields_def find_field_def ascii_upper_def)

lemma http_known_fields:
  "find_field httpResultMetrics_fields ''dns_ms'' = Some (field hm_DNSMS hm_DNSMS_update dec_float)"
  "find_field httpResultMetrics_fields ''tcp_ms'' = Some (field hm_TCPMS hm_TCPMS_update dec_float)"
  "find_field httpResultMetrics_fields ''tls_ms'' = Some (field hm_TLSMS hm_TLSMS_update dec_float)"
  "find_field httpResultMetrics_fields ''ttfb_ms'' = Some (field hm_TTFBMS hm_TTFBMS_update dec_float)"
  "find_field httpResultMetrics_fields ''total_ms'' = Some (field hm_TotalMS hm_TotalMS_update dec_float)"
  "find_field httpResultMetrics_fields ''transfer_ms'' =
     Some (field hm_TransferMS hm_TransferMS_update dec_float)"
  "find_field httpResultMetrics_fields ''status_code'' =
     Some (field hm_StatusCode hm_StatusCode_update dec_int)"
  "find_field httpResultMetrics_fields ''content_length'' =
     Some (field hm_ContentLength hm_ContentLength_update dec_int)"
  "find_field httpResultMetrics_fields ''cert_expiry_days'' =
     Some (field hm_CertExpiryDays hm_CertExpiryDays_update dec_float)"
  "find_field httpResultMetrics_fields ''redirect_count'' =
     Some (field hm_RedirectCount hm_RedirectCount_update dec_int)"
  "find_field httpResultMetrics_fields ''content_matched'' =
     Some (field hm_ContentMatched hm_ContentMatched_update dec_bool)"
  by (simp_all add: httpResultMetrics_fields_def find_field_def)

lemma dec_enc_http_metrics:
  assumes "marshal_http_metrics m = Some j" "http_ints_ok m"
  shows "dec_httpResultMetrics j = Some (http_mirror m)"
  using assms
  by (auto simp: marshal_http_metrics_def http_ints_ok_def dec_httpResultMetrics_def
      dec_fields_omitempty http_unknown_fields http_known_fields field_def
      zero_httpResultMetrics_def http_mirror_def split: if_splits)


definition hop_mirror :: "Hop \<Rightarrow> tracerouteHopResult" where
  "hop_mirror h = \<lparr>th_HopNumber = hp_HopNumber h, th_IP = hp_IP h, th_Hostname = hp_Hostname h,
     th_ASN = hp_ASN h, th_RTTMin = hp_RTTMin h, th_RTTAvg = hp_RTTAvg h, th_RTTMax = hp_RTTMax h,
     th_PacketLoss = hp_PacketLoss h, th_Sent = hp_Sent h, th_Received = hp_Received h\<rparr>"

definition hop_ints_ok :: "Hop \<Rightarrow> bool" where
  "hop_ints_ok h \<longleftrightarrow> in_int64 (hp_HopNumber h) \<and> in_int64 (hp_ASN h) \<and> in_int64 (hp_Sent h)
     \<and> in_int64 (hp_Received h)"

lemma hop_fields_found:
  "find_field tracerouteHopResult_fields ''hop_number'' =
     Some (field th_HopNumber th_HopNumber_update dec_int)"
  "find_field tracerouteHopResult_fields ''ip'' = Some (field th_IP th_IP_update dec_string)"
  "find_field tracerouteHopResult_fields ''hostname'' =
     Some (field th_Hostname th_Hostname_update dec_string)"
  "find_field tracerouteHopResult_fields ''asn'' = Some (field th_ASN th_ASN_update dec_int)"
  "find_field tracerouteHopResult_fields ''as_name'' = None"
  "find_field tracerouteHopResult_fields ''rtt_min_ms'' =
     Some (field th_RTTMin th_RTTMin_update dec_float)"
  "find_field tracerouteHopResult_fields ''rtt_avg_ms'' =
     Some (field th_RTTAvg th_RTTAvg_update dec_float)"
  "find_field tracerouteHopResult_fields ''rtt_max_ms'' =
     Some (field th_RTTMax th_RTTMax_update dec_float)"
  "find_field tracerouteHopResult_fields ''rtt_stddev_ms'' = None"
  "find_field tracerouteHopResult_fields ''packet_loss_ratio'' =
     Some (field th_PacketLoss th_PacketLoss_update dec_float)"
  "find_field tracerouteHopResult_fields ''sent'' = Some (field th_Sent th_Sent_update dec_int)"
  "find_field tracerouteHopResult_fields ''received'' =
     Some (field th_Received th_Received_update dec_int)"
  by (simp_all add: tracerouteHopResult_fields_def find_field_def ascii_upper_def)

lemma dec_enc_hop:
  assumes "hop_finite h" "hop_ints_ok h"
  shows "dec_tracerouteHopResult (enc_Hop h) = Some (hop_mirror h)"
  using assms
  by (auto simp: enc_Hop_def hop_finite_def hop_ints_ok_def dec_tracerouteHopResult_def
      dec_fields_omitempty hop_fields_found field_def zero_tracerouteHopResult_def hop_mirror_def)

definition tr_mirror :: "tr_metrics \<Rightarrow> tracerouteResultMetrics" where
  "tr_mirror m = \<lparr>tm_Backend = trm_Backend m,
     tm_Hops = map hop_mirror (case trm_Hops m of None \<Rightarrow> [] | Some hs \<Rightarrow> hs),
     tm_HopCount = trm_HopCount m, tm_ReachedTarget = trm_ReachedTarget m,
     tm_ASPath = trm_ASPath m, tm_TotalMS = trm_TotalMS m\<rparr>"

definition tr_ints_ok :: "tr_metrics \<Rightarrow> bool" where
  "tr_ints_ok m \<longleftrightarrow> in_int64 (trm_HopCount m) \<and> list_all in_int64 (trm_ASPath m)
     \<and> list_all hop_ints_ok (case trm_Hops m of None \<Rightarrow> [] | Some hs \<Rightarrow> hs)"

lemma dec_hops:
  assumes "list_all hop_finite (case hops of None \<Rightarrow> [] | Some hs \<Rightarrow> hs)"
    "list_all hop_ints_ok (case hops of None \<Rightarrow> [] | Some hs \<Rightarrow> hs)"
  shows "dec_list dec_tracerouteHopResult
      (case hops of None \<Rightarrow> JNull | Some hs \<Rightarrow> JArr (map enc_Hop hs)) =
    Some (map hop_mirror (case hops of None \<Rightarrow> [] | Some hs \<Rightarrow> hs))"
  using assms those_map [of "the hops" "dec_tracerouteHopResult \<circ> enc_Hop" hop_mirror]
  by (auto simp: list_all_iff dec_enc_hop split: option.splits)

lemma dec_as_path:
  "list_all in_int64 path \<Longrightarrow> dec_list (dec_int 0) (JArr (map JInt path)) = Some path"
  using those_map [of path "dec_int 0 \<circ> JInt" id] by (auto simp: list_all_iff)

lemma tr_fields_found:
  "find_field tracerouteResultMetrics_fields ''backend'' =
     Some (field tm_Backend tm_Backend_update dec_string)"
  "find_field tracerouteResultMetrics_fields ''hops'' =
     Some (field tm_Hops tm_Hops_update (\<lambda>_. dec_list dec_tracerouteHopResult))"
  "find_field tracerouteResultMetrics_fields ''hop_count'' =
     Some (field tm_HopCount tm_HopCount_update dec_int)"
  "find_field tracerouteResultMetrics_fields ''reached_target'' =
     Some (field tm_ReachedTarget tm_ReachedTarget_update dec_bool)"
  "find_field tracerouteResultMetrics_fields ''as_path'' =
     Some (field tm_ASPath tm_ASPath_update (\<lambda>_. dec_list (dec_int 0)))"
  "find_field tracerouteResultMetrics_fields ''total_ms'' =
     Some (field tm_TotalMS tm_TotalMS_update dec_float)"
  by (simp_all add: tracerouteResultMetrics_fields_def find_field_def)

lemma dec_enc_tr_metrics:
  assumes "marshal_tr_metrics m = Some j" "tr_ints_ok m"
  shows "dec_tracerouteResultMetrics j = Some (tr_mirror m)"
  using assms dec_hops [of "trm_Hops m"] dec_as_path [of "trm_ASPath m"]
  by (auto simp: marshal_tr_metrics_def tr_ints_ok_def dec_tracerouteResultMetrics_def
      dec_fields_omitempty tr_fields_found field_def zero_tracerouteResultMetrics_def tr_mirror_def
      simp del: dec_list.simps split: if_splits)


subsection \<open>From a test to the metrics\<close>

lemma result_topic_subscribed:
  "map_of subscriptions (result_topic ''ping'') = Some PingSub"
  "map_of subscriptions (result_topic ''dns'') = Some DNSSub"
  "map_of subscriptions (result_topic ''http'') = Some HTTPSub"
  "map_of subscriptions (result_topic ''traceroute'') = Some TracerouteSub"
  by (simp_all add: subscriptions_def result_topic_def)

lemma sent_Result_sel [simp]:
  "rs_Target (sent_Result r) = rs_Target r" "rs_POPName (sent_Result r) = rs_POPName r"
  "rs_AgentID (sent_Result r) = rs_AgentID r"
  "rs_Metrics (sent_Result r) = Some (enc_raw (rs_Metrics r))"
  by (simp_all add: sent_Result_def)

lemma named_sel [simp]:
  "rs_Target (named cfg r) = rs_Target r" "rs_POPName (named cfg r) = POPName cfg"
  "rs_AgentID (named cfg r) = AgentID cfg" "rs_Metrics (named cfg r) = rs_Metrics r"
  by (simp_all add: named_def)

lemma ping_delivered:
  assumes "unmarshal_Result C data = Some r" "unmarshal_raw dec_pingMetrics (rs_Metrics r) = Some m"
  shows "gauges (cs @ snd (deliver C now ts ks (result_topic ''ping'') data p)) =
    fold apply_call (ping_calls r m) (gauges cs)"
  using assms
  by (simp add: deliver_def result_topic_subscribed handlePingResult_def Let_def gauges_append)

lemma no_path_decoded:
  assumes "marshal_tr_metrics m = Some j" "trm_ASPath m = []" "dec_tracerouteResultMetrics j = Some m'"
  shows "tm_ASPath m' = []"
  using assms
  by (auto simp: marshal_tr_metrics_def dec_tracerouteResultMetrics_def dec_fields_omitempty
      tr_fields_found field_def zero_tracerouteResultMetrics_def simp del: dec_list.simps
      split: if_splits option.splits)

lemma tr_Execute_metrics:
  assumes "tr_Execute C E test = Inr r"
  shows "rs_Metrics r = None
    \<or> (\<exists>m. rs_Metrics r = marshal_tr_metrics m \<and> trm_ASPath m = [])"
proof -
  have "rs_Metrics r = None \<or> (\<exists>m. rs_Metrics r = marshal_tr_metrics m \<and> trm_ASPath m = [])"
    if fin: "tr_finish E test cfg probed = Inr r"
      and path: "\<And>hops. probed = Inr hops \<Longrightarrow> buildASPath hops = []" for cfg probed
  proof (cases probed)
    case (Inl err)
    from fin have "rs_Metrics r = marshal_tr_metrics \<lparr>trm_Backend = tr_Backend cfg, trm_Hops = None,
        trm_HopCount = 0, trm_ReachedTarget = False, trm_ASPath = [], trm_TotalMS = millis (elapsed E)\<rparr>"
      by (auto simp: Inl tr_finish_def tr_result_def)
    then show ?thesis by (intro disjI2) (rule exI, rule conjI, assumption, simp)
  next
    case (Inr hops)
    from fin have "rs_Metrics r = marshal_tr_metrics \<lparr>trm_Backend = tr_Backend cfg,
        trm_Hops = Some hops, trm_HopCount = int (length hops),
        trm_ReachedTarget = didReachTarget E hops (td_Target test),
        trm_ASPath = buildASPath hops, trm_TotalMS = millis (elapsed E)\<rparr>"
      by (auto simp: Inr tr_finish_def tr_result_def Let_def split: option.splits)
    with path [OF Inr] show ?thesis by (intro disjI2) (rule exI, rule conjI, assumption, simp)
  qed
  with assms runMTR_path runScamper_path show ?thesis
    unfolding tr_Execute_def by (auto split: option.splits if_splits)
qed

lemma tr_Execute_no_path:
  assumes ex: "tr_Execute C E test = Inr r"
    and dec: "unmarshal_raw dec_tracerouteResultMetrics (Some (enc_raw (rs_Metrics r))) = Some m'"
  shows "tm_ASPath m' = []"
  using tr_Execute_metrics [OF ex]
proof
  assume "rs_Metrics r = None"
  with dec show ?thesis
    by (auto simp: unmarshal_raw_def enc_raw_def dec_tracerouteResultMetrics_def
        zero_tracerouteResultMetrics_def)
next
  assume "\<exists>m. rs_Metrics r = marshal_tr_metrics m \<and> trm_ASPath m = []"
  then obtain m where m: "rs_Metrics r = marshal_tr_metrics m" "trm_ASPath m = []" by blast
  show ?thesis
  proof (cases "marshal_tr_metrics m")
    case None
    with m dec show ?thesis
      by (auto simp: unmarshal_raw_def enc_raw_def dec_tracerouteResultMetrics_def
          zero_tracerouteResultMetrics_def)
  next
    case (Some j)
    with m dec no_path_decoded [OF Some m(2)] show ?thesis
      by (simp add: unmarshal_raw_def enc_raw_def)
  qed
qed


subsection \<open>Properties\<close>

text \<open>
  The JSON form of results loses nothing: decoding the message of a result gives the result
  back, a nil \<open>Metrics\<close> as the document \<open>null\<close>. The hypotheses are the round trip laws of the text
  codec for this document and this instant, and metadata kept in the order of its keys.
\<close>

theorem result_round_trip:
  assumes "codec_ok C r" "metadata_ok r" "marshal_Result C r = Some b"
  shows "unmarshal_Result C b = Some (sent_Result r)"
  by (rule unmarshal_marshal_Result [OF assms])

text \<open>A codec that knows one document, for the witnesses.\<close>

definition one_doc :: "Result \<Rightarrow> codec" where
  "one_doc r =
     (let C = \<lparr>parse_json = (\<lambda>_. None), print_json = (\<lambda>_. ''d''),
            parse_time = (\<lambda>_. Some (rs_Timestamp r)), print_time = (\<lambda>_. Some ''t'')\<rparr>
      in C\<lparr>parse_json := (\<lambda>b. if b = ''d'' then enc_Result C r else None)\<rparr>)"

lemma enc_Result_print_time:
  "print_time C = print_time D \<Longrightarrow> enc_Result C r = enc_Result D r"
  by (simp add: enc_Result_def)

lemma one_doc_ok: "codec_ok (one_doc r) r"
proof -
  have "enc_Result (one_doc r) r = enc_Result \<lparr>parse_json = (\<lambda>_. None), print_json = (\<lambda>_. ''d''),
      parse_time = (\<lambda>_. Some (rs_Timestamp r)), print_time = (\<lambda>_. Some ''t'')\<rparr> r"
    by (rule enc_Result_print_time) (simp add: one_doc_def Let_def)
  then show ?thesis by (simp add: codec_ok_def one_doc_def Let_def)
qed

lemma one_doc_marshal: "f64_finite (rs_DurationMS r) \<Longrightarrow> marshal_Result (one_doc r) r = Some ''d''"
  by (simp add: marshal_Result_def enc_Result_def one_doc_def Let_def)

lemma result_round_trip_witness:
  "unmarshal_Result (one_doc zero_Result) ''d'' = Some (zero_Result\<lparr>rs_Metrics := Some JNull\<rparr>)"
proof -
  have "f64_finite (rs_DurationMS zero_Result)" "metadata_ok zero_Result"
    by (simp_all add: zero_Result_def metadata_ok_def)
  with result_round_trip [OF one_doc_ok _ one_doc_marshal, of zero_Result] show ?thesis
    by (simp add: sent_Result_def enc_raw_def zero_Result_def)
qed

text \<open>
  C16: the structs of the processor mirror those of the tests: the metrics any of the four tests
  marshals are decoded by the processor with every field it knows unchanged. The integers are
  within 64 bits, as they are in the Go structs.
\<close>

theorem metrics_mirrored:
  assumes "marshal_ping_metrics pm = Some pj" "in_int64 (pgm_PacketsSent pm)" "in_int64 (pgm_PacketsRecv pm)"
    and "marshal_dns_metrics dm = Some dj"
    and "marshal_http_metrics hm = Some hj" "http_ints_ok hm"
    and "marshal_tr_metrics tm = Some tj" "tr_ints_ok tm"
  shows "dec_pingMetrics pj = Some (ping_mirror pm) \<and>
    dec_dnsMetrics dj = Some (dns_mirror dm) \<and>
    dec_httpResultMetrics hj = Some (http_mirror hm) \<and>
    dec_tracerouteResultMetrics tj = Some (tr_mirror tm)"
  by (intro conjI dec_enc_ping_metrics [OF assms(1-3)] dec_enc_dns_metrics [OF assms(4)]
      dec_enc_http_metrics [OF assms(5,6)] dec_enc_tr_metrics [OF assms(7,8)])

definition zero_ping :: ping_metrics where
  "zero_ping = \<lparr>pgm_RTTMin = 0, pgm_RTTAvg = 0, pgm_RTTMax = 0, pgm_RTTStdDev = 0,
     pgm_PacketLoss = 0, pgm_Jitter = 0, pgm_PacketsSent = 5, pgm_PacketsRecv = 5\<rparr>"

definition zero_http :: http_metrics where
  "zero_http = \<lparr>htm_DNSMS = 0, htm_TCPMS = 0, htm_TLSMS = 0, htm_TTFBMS = 0, htm_TotalMS = 0,
     htm_TransferMS = 0, htm_StatusCode = 200, htm_ContentLength = -1, htm_Protocol = ''HTTP/1.1'',
     htm_TLSVersion = [], htm_TLSCipher = [], htm_CertSubject = [], htm_CertIssuer = [],
     htm_CertExpiryDays = 0, htm_RedirectCount = 0, htm_RedirectChain = [],
     htm_ContentMatched = True\<rparr>"

definition zero_tr :: tr_metrics where
  "zero_tr = \<lparr>trm_Backend = ''mtr'', trm_Hops = Some [zero_Hop], trm_HopCount = 1,
     trm_ReachedTarget = False, trm_ASPath = [10], trm_TotalMS = 0\<rparr>"

definition zero_dns :: dns_metrics where
  "zero_dns = \<lparr>dnm_RecordType = ''A'', dnm_AvgResolutionTimeMS = 0, dnm_Resolvers =
     [\<lparr>rr_Resolver = ''system'', rr_ResolutionTimeMS = 0, rr_ResponseCode = ''NOERROR'',
       rr_ResolvedValues = [''192.0.2.1''], rr_Success = True, rr_Error = []\<rparr>]\<rparr>"

lemma zero_marshal:
  "marshal_ping_metrics zero_ping = Some (the (marshal_ping_metrics zero_ping))"
  "marshal_dns_metrics zero_dns = Some (the (marshal_dns_metrics zero_dns))"
  "marshal_http_metrics zero_http = Some (the (marshal_http_metrics zero_http))"
  "marshal_tr_metrics zero_tr = Some (the (marshal_tr_metrics zero_tr))"
  by (simp_all add: marshal_ping_metrics_def zero_ping_def marshal_dns_metrics_def zero_dns_def
      marshal_http_metrics_def zero_http_def marshal_tr_metrics_def zero_tr_def hop_finite_def
      zero_Hop_def)

lemma zero_ints:
  "in_int64 (pgm_PacketsSent zero_ping)" "in_int64 (pgm_PacketsRecv zero_ping)"
  "http_ints_ok zero_http" "tr_ints_ok zero_tr"
  by (simp_all add: in_int64_def zero_ping_def http_ints_ok_def zero_http_def tr_ints_ok_def
      zero_tr_def hop_ints_ok_def zero_Hop_def)

lemma metrics_mirrored_witness:
  "dec_tracerouteResultMetrics (the (marshal_tr_metrics zero_tr)) = Some (tr_mirror zero_tr)"
  by (rule metrics_mirrored [THEN conjunct2, THEN conjunct2, THEN conjunct2, OF zero_marshal(1) zero_ints(1,2) zero_marshal(2,3) zero_ints(3)
        zero_marshal(4) zero_ints(4)])


text \<open>
  C1: a ping the agent published arrives: the message names the test, the agent and its POP, and
  delivered on its topic it sets the average round trip time of the statistics, in seconds, and
  the loss, as a ratio, in the series of that target, POP and agent.
\<close>

theorem ping_reaches_the_gauges:
  assumes "ping_Execute C E test = Inr r" "td_Type test = ''ping''"
    and "ping_load_config C (td_Config test) = Some pcfg"
    and "pe_run E (td_Target test) pcfg (td_Timeout test) = RunDone st"
    and "in_int64 (PacketsSent st)" "in_int64 (PacketsRecv st)"
    and "snd (executeTest publish push C cfg now (Exec_result (Some r)) test (s, b)) =
      Published (topic, data)"
    and "codec_ok C (named cfg r)"
  shows "gauges (cs @ snd (deliver C now' ts ks topic data p))
      (pingRTT, [td_Target test, POPName cfg, AgentID cfg, ''avg'']) =
        Some (f64_div (in_millis (AvgRtt st)) 1000) \<and>
    gauges (cs @ snd (deliver C now' ts ks topic data p))
      (pingPacketLoss, [td_Target test, POPName cfg, AgentID cfg]) =
        Some (f64_div (PacketLoss st) 100)"
proof (intro conjI)
  from ping.published_identity [OF assms(1,2,7,8)]
  have topic: "topic = result_topic ''ping''" and dec: "unmarshal_Result C data = Some (sent_Result (named cfg r))"
    and target: "rs_Target r = td_Target test"
    by (simp_all add: result_topic_def)
  have "rs_Metrics r = marshal_ping_metrics (ping_metrics_of st)" "rs_Metrics r \<noteq> None"
    using assms(1,3,4) by (auto simp: ping_Execute_def Let_def split: option.splits)
  then obtain j where j: "marshal_ping_metrics (ping_metrics_of st) = Some j" "rs_Metrics r = Some j"
    by auto
  have m: "dec_pingMetrics j = Some (ping_mirror (ping_metrics_of st))"
    using assms(5,6) by (intro dec_enc_ping_metrics [OF j(1)]) (simp_all add: ping_metrics_of_def)
  have raw: "unmarshal_raw dec_pingMetrics (rs_Metrics (sent_Result (named cfg r))) =
      Some (ping_mirror (ping_metrics_of st))"
    using m j(2) by (simp add: unmarshal_raw_def enc_raw_def)
  show "gauges (cs @ snd (deliver C now' ts ks topic data p))
      (pingRTT, [td_Target test, POPName cfg, AgentID cfg, ''avg'']) =
        Some (f64_div (in_millis (AvgRtt st)) 1000)"
    "gauges (cs @ snd (deliver C now' ts ks topic data p))
      (pingPacketLoss, [td_Target test, POPName cfg, AgentID cfg]) =
        Some (f64_div (PacketLoss st) 100)"
    unfolding topic ping_delivered [OF dec raw]
    by (simp_all add: ping_calls_def labels3_def target ping_mirror_def ping_metrics_of_def)
qed

definition demo_ping_test :: TestDefinition where
  "demo_ping_test = \<lparr>td_ID = ''1'', td_Type = ''ping'', td_Target = ''h'', td_Interval = 1,
     td_Timeout = 1, td_Config = []\<rparr>"

definition demo_stats :: statistics where
  "demo_stats = \<lparr>MinRtt = 0, AvgRtt = 0, MaxRtt = 0, StdDevRtt = 0, PacketLoss = 0, PacketsSent = 5,
     PacketsRecv = 5, Rtts = []\<rparr>"

definition demo_ping_env :: ping_env where
  "demo_ping_env = \<lparr>pe_run = (\<lambda>_ _ _. RunDone demo_stats), pe_start = 0, pe_elapsed = 0\<rparr>"

definition demo_ping_result :: Result where
  "demo_ping_result = \<lparr>rs_TestID = ''1'', rs_AgentID = [], rs_POPName = [], rs_TestType = ''ping'',
     rs_Target = ''h'', rs_Timestamp = 0, rs_DurationMS = 0, rs_Success = True,
     rs_Metrics = marshal_ping_metrics (ping_metrics_of demo_stats), rs_Error = [],
     rs_Metadata = []\<rparr>"

lemma in_millis_0: "in_millis 0 = 0"
  by (simp add: in_millis_def f64_of_int_def)

lemma demo_ping_metrics: "ping_metrics_of demo_stats = zero_ping"
  by (simp add: ping_metrics_of_def demo_stats_def zero_ping_def in_millis_0 computeJitter_def)

lemma demo_ping_Execute:
  "ping_Execute (one_doc r) demo_ping_env demo_ping_test = Inr demo_ping_result"
proof -
  obtain j where "marshal_ping_metrics zero_ping = Some j" using zero_marshal(1) by blast
  then show ?thesis
    by (simp add: ping_Execute_def ping_load_config_def demo_ping_env_def demo_ping_test_def
        demo_ping_result_def demo_ping_metrics f64_of_int_def zero_ping_def)
qed

lemma ping_reaches_the_gauges_witness:
  "gauges ([] @ snd (deliver (one_doc (named (DefaultConfig ''/'') demo_ping_result)) 1 [] (\<lambda>_. [])
     (result_topic ''ping'') ''d'' new_processor)) (pingRTT, [''h'', ''default'', [], ''avg'']) =
   Some (f64_div (in_millis 0) 1000)"
proof -
  let ?cfg = "DefaultConfig ''/''"
  let ?r = "named ?cfg demo_ping_result"
  have "marshal_Result (one_doc ?r) ?r = Some ''d''"
    by (rule one_doc_marshal) (simp add: named_def demo_ping_result_def)
  then have pub: "snd (executeTest (\<lambda>_ _ s. (s, None)) Push (one_doc ?r) ?cfg 0
      (Exec_result (Some demo_ping_result)) demo_ping_test ((), NewMemoryBuffer 0)) =
    Published (result_topic ''ping'', ''d'')"
    by (simp add: executeTest_def publishResult_def Let_def named_def demo_ping_test_def)
  from ping_reaches_the_gauges [THEN conjunct1, OF demo_ping_Execute [of ?r] _ _ _ _ _ pub one_doc_ok,
      of ping_DefaultConfig demo_stats "[]" 1 "[]" "\<lambda>_. []" new_processor]
  show ?thesis
    by (simp add: demo_ping_test_def ping_load_config_def demo_ping_env_def demo_stats_def
        in_int64_def DefaultConfig_def)
qed


text \<open>
  C31: whichever of the four tests ran, a published result is a message on the topic of its kind
  that names its test and target and the agent and POP that ran it.
\<close>

theorem published_result_identity:
  assumes "ty = ''ping'' \<and> ping_Execute C E1 test = Inr r
      \<or> ty = ''dns'' \<and> dns_Execute C E2 test = Inr r
      \<or> ty = ''http'' \<and> http_Execute C E3 test = Inr r
      \<or> ty = ''traceroute'' \<and> tr_Execute C E4 test = Inr r"
    and "td_Type test = ty"
    and "snd (executeTest publish push C cfg now (Exec_result (Some r)) test (s, b)) =
      Published (topic, data)"
    and "codec_ok C (named cfg r)"
  shows "\<exists>r'. topic = ''netvantage.'' @ ty @ ''.results'' \<and> unmarshal_Result C data = Some r'
    \<and> rs_TestID r' = td_ID test \<and> rs_TestType r' = ty \<and> rs_Target r' = td_Target test
    \<and> rs_AgentID r' = AgentID cfg \<and> rs_POPName r' = POPName cfg"
proof -
  have "topic = ''netvantage.'' @ ty @ ''.results''
      \<and> unmarshal_Result C data = Some (sent_Result (named cfg r))
      \<and> rs_TestID r = td_ID test \<and> rs_TestType r = ty \<and> rs_Target r = td_Target test"
    using assms(1)
  proof (elim disjE conjE)
    assume "ty = ''ping''" "ping_Execute C E1 test = Inr r"
    with ping.published_identity [OF _ _ assms(3,4)] assms(2) show ?thesis by simp
  next
    assume "ty = ''dns''" "dns_Execute C E2 test = Inr r"
    with dns.published_identity [OF _ _ assms(3,4)] assms(2) show ?thesis by simp
  next
    assume "ty = ''http''" "http_Execute C E3 test = Inr r"
    with http.published_identity [OF _ _ assms(3,4)] assms(2) show ?thesis by simp
  next
    assume "ty = ''traceroute''" "tr_Execute C E4 test = Inr r"
    with traceroute.published_identity [OF _ _ assms(3,4)] assms(2) show ?thesis by simp
  qed
  then show ?thesis
    by (intro exI [of _ "sent_Result (named cfg r)"]) (simp add: sent_Result_def named_def)
qed

lemma demo_published:
  "snd (executeTest (\<lambda>_ _ s. (s, None)) Push
      (one_doc (named (DefaultConfig ''/'') demo_ping_result)) (DefaultConfig ''/'') 0
      (Exec_result (Some demo_ping_result)) demo_ping_test ((), NewMemoryBuffer 0)) =
    Published (result_topic ''ping'', ''d'')"
proof -
  let ?r = "named (DefaultConfig ''/'') demo_ping_result"
  have "marshal_Result (one_doc ?r) ?r = Some ''d''"
    by (rule one_doc_marshal) (simp add: named_def demo_ping_result_def)
  then show ?thesis
    by (simp add: executeTest_def publishResult_def Let_def named_def demo_ping_test_def)
qed

lemma published_result_identity_witness:
  "\<exists>r'. unmarshal_Result (one_doc (named (DefaultConfig ''/'') demo_ping_result)) ''d'' = Some r'
     \<and> rs_POPName r' = ''default''"
  using published_result_identity [OF disjI1 _ demo_published one_doc_ok, of "''ping''"]
    demo_ping_Execute [of "named (DefaultConfig ''/'') demo_ping_result"]
  by (fastforce simp: demo_ping_test_def DefaultConfig_def)

text \<open>
  C34: a test that could not be executed is recorded as a perfect one. The failure result of the
  agent has no metrics, which travel as \<open>null\<close>; the processor decodes that into zeros and sets
  the average round trip time and the loss of the target to 0.
\<close>

theorem failed_ping_recorded_as_perfect:
  assumes "td_Type test = ''ping''"
    and "snd (executeTest publish push C cfg now (Exec_error err) test (s, b)) = Published (topic, data)"
    and "codec_ok C (failure_result cfg now test err)"
  shows "gauges (cs @ snd (deliver C now' ts ks topic data p))
      (pingRTT, [td_Target test, POPName cfg, AgentID cfg, ''avg'']) = Some 0 \<and>
    gauges (cs @ snd (deliver C now' ts ks topic data p))
      (pingPacketLoss, [td_Target test, POPName cfg, AgentID cfg]) = Some 0"
proof (intro conjI)
  note pub = executeTest_error_published [OF assms(2)]
  have "metadata_ok (failure_result cfg now test err)"
    by (simp add: metadata_ok_def failure_result_def)
  from unmarshal_marshal_Result [OF assms(3) this pub(2)]
  have dec: "unmarshal_Result C data = Some (sent_Result (failure_result cfg now test err))" .
  have raw: "unmarshal_raw dec_pingMetrics (rs_Metrics (sent_Result (failure_result cfg now test err))) =
      Some zero_pingMetrics"
    by (simp add: unmarshal_raw_def enc_raw_def failure_result_def dec_pingMetrics_def)
  have topic: "topic = result_topic ''ping''" using pub(1) assms(1) by simp
  show "gauges (cs @ snd (deliver C now' ts ks topic data p))
      (pingRTT, [td_Target test, POPName cfg, AgentID cfg, ''avg'']) = Some 0"
    "gauges (cs @ snd (deliver C now' ts ks topic data p))
      (pingPacketLoss, [td_Target test, POPName cfg, AgentID cfg]) = Some 0"
    unfolding topic ping_delivered [OF dec raw]
    by (simp_all add: ping_calls_def labels3_def failure_result_def zero_pingMetrics_def)
qed

lemma failed_ping_recorded_as_perfect_witness:
  "gauges ([] @ snd (deliver (one_doc (failure_result (DefaultConfig ''/'') 0 demo_ping_test ''down''))
     1 [] (\<lambda>_. []) (result_topic ''ping'') ''d'' new_processor))
     (pingPacketLoss, [''h'', ''default'', []]) = Some 0"
proof -
  let ?r = "failure_result (DefaultConfig ''/'') 0 demo_ping_test ''down''"
  have "marshal_Result (one_doc ?r) ?r = Some ''d''"
    by (rule one_doc_marshal) (simp add: failure_result_def)
  then have "snd (executeTest (\<lambda>_ _ s. (s, None)) Push (one_doc ?r) (DefaultConfig ''/'') 0
      (Exec_error ''down'') demo_ping_test ((), NewMemoryBuffer 0)) =
    Published (result_topic ''ping'', ''d'')"
    by (simp add: executeTest_def publishResult_def Let_def failure_result_def demo_ping_test_def)
  from failed_ping_recorded_as_perfect [THEN conjunct2, OF _ this one_doc_ok, of "[]" 1 "[]" "\<lambda>_. []" new_processor]
  show ?thesis by (simp add: demo_ping_test_def DefaultConfig_def)
qed

text \<open>
  C19: no traceroute of an agent ever counts as a path change. Whatever the programs of either
  backend report, the AS path of the result is empty, so once the agent has published it and the
  processor gets the message on its topic, read back as it was printed, the counter of path
  changes and the stored paths stay as they are.
\<close>

theorem agent_traceroutes_never_change_paths:
  assumes "tr_Execute C E test = Inr r" "td_Type test = ''traceroute''"
    and "snd (executeTest publish push C cfg now (Exec_result (Some r)) test (s, b)) =
      Published (topic, data)"
    and "codec_ok C (named cfg r)"
  shows "counter (snd (deliver C now' ts ks topic data p)) traceroutePathChange ls = 0 \<and>
    lastASPaths (fst (deliver C now' ts ks topic data p)) = lastASPaths p"
proof (intro conjI)
  from traceroute.published_identity [OF assms]
  have topic: "topic = result_topic ''traceroute''"
    and dec: "unmarshal_Result C data = Some (sent_Result (named cfg r))"
    by (simp_all add: result_topic_def)
  have d: "deliver C now' ts ks topic data p = handleTracerouteResult C now' data p"
    by (simp add: deliver_def topic result_topic_subscribed)
  have "tm_ASPath m = []"
    if "unmarshal_raw dec_tracerouteResultMetrics (Some (enc_raw (rs_Metrics r))) = Some m" for m
    by (rule tr_Execute_no_path [OF assms(1) that])
  then show "counter (snd (deliver C now' ts ks topic data p)) traceroutePathChange ls = 0"
    "lastASPaths (fst (deliver C now' ts ks topic data p)) = lastASPaths p"
    unfolding d snd_handleTracerouteResult fst_handleTracerouteResult
    by (auto simp: dec path_change_def Let_def counter_concat asPathString_def split: option.split)
qed


definition no_mtr_env :: tr_env where
  "no_mtr_env = demo_tr_env\<lparr>run := (\<lambda>_ _ _. Inl ''not found'')\<rparr>"

definition no_mtr_result :: Result where
  "no_mtr_result = tr_result no_mtr_env demo_tr_test False
     (marshal_tr_metrics \<lparr>trm_Backend = ''mtr'', trm_Hops = None, trm_HopCount = 0,
        trm_ReachedTarget = False, trm_ASPath = [], trm_TotalMS = millis (elapsed no_mtr_env)\<rparr>)
     ''mtr execution failed: not found''"

lemma no_mtr_Execute: "tr_Execute C no_mtr_env demo_tr_test = Inr no_mtr_result"
proof -
  have "td_Config demo_tr_test = []" "tr_Backend tr_DefaultConfig = ''mtr''"
    by (simp_all add: demo_tr_test_def tr_DefaultConfig_def)
  moreover have "runMTR no_mtr_env C t cfg d = Inl (''mtr execution failed: not found'')" for t cfg d
    by (simp add: runMTR_def no_mtr_env_def)
  ultimately show ?thesis
    by (simp add: tr_Execute_def demo_tr_config tr_finish_def no_mtr_result_def)
qed

lemma agent_traceroutes_never_change_paths_witness:
  "counter (snd (deliver (one_doc (named (DefaultConfig ''/'') no_mtr_result)) 1 [] (\<lambda>_. [])
     (result_topic ''traceroute'') ''d'' new_processor)) traceroutePathChange [''192.0.2.7'', ''default''] = 0"
proof -
  let ?r = "named (DefaultConfig ''/'') no_mtr_result"
  have "millis (elapsed no_mtr_env) = 0"
    by (simp add: no_mtr_env_def demo_tr_env_def demo_floats)
  then have "marshal_Result (one_doc ?r) ?r = Some ''d''"
    by (intro one_doc_marshal) (simp add: named_def no_mtr_result_def tr_result_def)
  then have pub: "snd (executeTest (\<lambda>_ _ s. (s, None)) Push (one_doc ?r) (DefaultConfig ''/'') 0
      (Exec_result (Some no_mtr_result)) demo_tr_test ((), NewMemoryBuffer 0)) =
    Published (result_topic ''traceroute'', ''d'')"
    by (simp add: executeTest_def publishResult_def Let_def named_def demo_tr_test_def)
  show ?thesis
    by (rule agent_traceroutes_never_change_paths [THEN conjunct1, OF no_mtr_Execute _ pub one_doc_ok])
      (simp add: demo_tr_test_def)
qed

end
