(* ===== verification/MemoryTransport.thy ===== *)
theory MemoryTransport
  imports Pipeline
begin

text \<open>
  The transport interface (internal/transport/transport.go) and the in-memory transport
  (internal/transport/memory/memory.go), which calls the subscribed handlers within \<open>Publish\<close>.
\<close>

subsection \<open>The interface\<close>

definition ErrClosed :: string where
  "ErrClosed = ''transport: connection closed''"

text \<open>A \<open>MessageHandler\<close>, with the state it works on.\<close>

type_synonym 's msg_handler = "bytes \<Rightarrow> 's \<Rightarrow> 's \<times> string option"

text \<open>Which of the messages a handler accepts that is called for one after the other.\<close>

fun accepted_along :: "'s msg_handler \<Rightarrow> bytes list \<Rightarrow> 's \<Rightarrow> bool list" where
  "accepted_along h [] s = []"
| "accepted_along h (m # ms) s = (snd (h m s) = None) # accepted_along h ms (fst (h m s))"

lemma length_accepted_along [simp]: "length (accepted_along h ms s) = length ms"
  by (induction ms arbitrary: s) auto

text \<open>
  What every transport promises about \<open>Close\<close>: a closed transport refuses to publish and to
  subscribe with \<open>ErrClosed\<close>, stays as it is, and may be closed again. A \<open>Subscribe\<close> may block
  for ever (\<open>None\<close>). The lemmas are what the
  agent gets from it: nothing it buffered is lost by draining into a closed transport.
\<close>

locale closable_transport =
  fixes publish :: "'t handler"
    and subscribe :: "topic \<Rightarrow> 'h \<Rightarrow> 't \<Rightarrow> ('t \<times> string option) option"
    and close :: "'t \<Rightarrow> 't \<times> string option"
    and closed :: "'t \<Rightarrow> bool"
  assumes publish_closed: "closed t \<Longrightarrow> publish topic m t = (t, Some ErrClosed)"
    and subscribe_closed: "closed t \<Longrightarrow> subscribe topic h t = Some (t, Some ErrClosed)"
    and close_closed: "closed t \<Longrightarrow> close t = (t, None)"
begin

lemma failed_closed: "closed t \<Longrightarrow> failed_msgs publish ms t = ms"
  by (induction ms) (auto simp: publish_closed)

lemma handled_closed: "closed t \<Longrightarrow> handle_msgs publish ms t = t"
  by (induction ms) (auto simp: publish_closed)

lemma Drain_closed:
  assumes "closed t" "buffer_inv b"
  shows "Drain publish b t = (b, t)"
  using assms by (simp add: Drain_eq failed_closed handled_closed) (simp add: buffer_inv_def)

text \<open>A result published into a closed transport is buffered as long as the buffer takes it.\<close>

lemma publishResult_closed:
  assumes "closed t" "marshal_Result C r = Some data"
  shows "publishResult publish Push C kind r (t, b) =
    (case Push (result_topic kind) data b of
       (b', None) \<Rightarrow> ((t, b'), Buffered (result_topic kind, data))
     | (b', Some _) \<Rightarrow> ((t, b'), Dropped (result_topic kind, data)))"
  using assms by (simp add: publishResult_def publish_closed Let_def)

end

subsection \<open>The in-memory transport\<close>

text \<open>
  The handlers share a state \<open>'s\<close>, which does not hold the transport itself: a handler that
  subscribed within \<open>Publish\<close> would wait for its own lock.
\<close>

record 's MemoryTransport =
  mt_handlers :: "topic \<rightharpoonup> 's msg_handler list"
  mt_closed :: bool

type_synonym 's memory_world = "'s MemoryTransport \<times> 's"

definition memory_New :: "'s MemoryTransport" where
  "memory_New = \<lparr>mt_handlers = Map.empty, mt_closed = False\<rparr>"

fun call_handlers :: "'s msg_handler list \<Rightarrow> bytes \<Rightarrow> 's \<Rightarrow> 's \<times> string option" where
  "call_handlers [] data s = (s, None)"
| "call_handlers (h # hs) data s =
     (case h data s of
        (s', Some err) \<Rightarrow> (s', Some err)
      | (s', None) \<Rightarrow> call_handlers hs data s')"

definition memory_Publish :: "'s memory_world handler" where
  "memory_Publish topic msg ts =
     (let (t, s) = ts
      in if mt_closed t then (ts, Some ErrClosed)
         else (case mt_handlers t topic of
                 None \<Rightarrow> (ts, None)
               | Some hs \<Rightarrow> (case call_handlers hs msg s of (s', r) \<Rightarrow> ((t, s'), r))))"

definition memory_Subscribe ::
  "topic \<Rightarrow> 's msg_handler \<Rightarrow> 's memory_world \<Rightarrow> 's memory_world \<times> string option" where
  "memory_Subscribe topic h ts =
     (let (t, s) = ts
      in if mt_closed t then (ts, Some ErrClosed)
         else ((t\<lparr>mt_handlers := (mt_handlers t)(topic \<mapsto>
                   (case mt_handlers t topic of None \<Rightarrow> [] | Some hs \<Rightarrow> hs) @ [h])\<rparr>, s), None))"

definition memory_Close :: "'s memory_world \<Rightarrow> 's memory_world \<times> string option" where
  "memory_Close ts = (((fst ts)\<lparr>mt_closed := True\<rparr>, snd ts), None)"

interpretation memory: closable_transport memory_Publish
    "\<lambda>topic h ts. Some (memory_Subscribe topic h ts)" memory_Close "\<lambda>ts. mt_closed (fst ts)"
  by unfold_locales
    (auto simp: memory_Publish_def memory_Subscribe_def memory_Close_def split: prod.splits)

text \<open>With a log of the acknowledged messages it is a publisher the agent can use.\<close>

interpretation memory_pub: message_publisher "logged memory_Publish" snd
  by unfold_locales (auto simp: logged_def split: prod.splits option.splits)

subsection \<open>The processor on the in-memory transport\<close>

text \<open>
  The handlers of the processor share the processor and the calls made on its metrics so far,
  and the number of deliveries. The clock and the map orders of the \<open>n\<close>-th delivery are
  \<open>now n\<close>, \<open>targets n\<close> and \<open>keys n\<close>.
\<close>

type_synonym metrics_run = "nat \<times> processor \<times> metric_call list"

definition processor_handler ::
  "codec \<Rightarrow> (nat \<Rightarrow> int) \<Rightarrow> (nat \<Rightarrow> string list) \<Rightarrow> (nat \<Rightarrow> string \<Rightarrow> string list) \<Rightarrow> subscription
     \<Rightarrow> metrics_run msg_handler" where
  "processor_handler C now targets keys sub msg st =
     (case st of (n, p, cs) \<Rightarrow>
        (case run_handler C (now n) (targets n) (keys n) sub msg p of
           (p', ds) \<Rightarrow> ((Suc n, p', cs @ ds), None)))"

lemma processor_handler_accepts [simp]: "snd (processor_handler C now targets keys sub msg st) = None"
  by (simp add: processor_handler_def split: prod.split)

lemma processor_accepts_all: "accepted_along (processor_handler C now targets keys sub) ms st = replicate (length ms) True"
  by (induction ms arbitrary: st) simp_all

text \<open>The same run with \<open>deliver\<close>.\<close>

fun deliver_all ::
  "codec \<Rightarrow> (nat \<Rightarrow> int) \<Rightarrow> (nat \<Rightarrow> string list) \<Rightarrow> (nat \<Rightarrow> string \<Rightarrow> string list) \<Rightarrow> message list
     \<Rightarrow> metrics_run \<Rightarrow> metrics_run" where
  "deliver_all C now targets keys [] st = st"
| "deliver_all C now targets keys ((topic, msg) # ms) (n, p, cs) =
     (case deliver C (now n) (targets n) (keys n) topic msg p of
        (p', ds) \<Rightarrow> deliver_all C now targets keys ms
          (if map_of subscriptions topic = None then n else Suc n, p', cs @ ds))"

text \<open>The subscriptions of \<open>Run\<close>, in any order, on a new transport.\<close>

definition subscribe_all ::
  "(subscription \<Rightarrow> 's msg_handler) \<Rightarrow> (topic \<times> subscription) list \<Rightarrow> 's memory_world
     \<Rightarrow> 's memory_world" where
  "subscribe_all h subs ts =
     fold (\<lambda>(topic, sub) ts. fst (memory_Subscribe topic (h sub) ts)) subs ts"

lemma subscribe_all_handlers:
  assumes "\<not> mt_closed t" "distinct (map fst subs)" "\<And>tp. tp \<in> fst ` set subs \<Longrightarrow> mt_handlers t tp = None"
  shows "subscribe_all h subs (t, s) =
    (t\<lparr>mt_handlers := mt_handlers t ++ (map_option (\<lambda>sub. [h sub]) \<circ> map_of subs)\<rparr>, s)"
  using assms
proof (induction subs arbitrary: t)
  case (Cons x subs)
  obtain tp sub where x: "x = (tp, sub)" by (cases x)
  let ?t = "t\<lparr>mt_handlers := (mt_handlers t)(tp \<mapsto> [h sub])\<rparr>"
  have step: "subscribe_all h (x # subs) (t, s) = subscribe_all h subs (?t, s)"
    using Cons.prems by (simp add: subscribe_all_def memory_Subscribe_def x)
  have fresh: "tp \<notin> fst ` set subs" using Cons.prems(2) by (auto simp: x image_iff)
  have none: "map_of subs tp = None" using fresh by (simp add: map_of_eq_None_iff)
  have rest: "subscribe_all h subs (?t, s) =
      (?t\<lparr>mt_handlers := mt_handlers ?t ++ (map_option (\<lambda>sub. [h sub]) \<circ> map_of subs)\<rparr>, s)"
    using Cons.prems fresh by (intro Cons.IH) (auto simp: x)
  have map: "mt_handlers ?t ++ (map_option (\<lambda>sub. [h sub]) \<circ> map_of subs) =
      mt_handlers t ++ (map_option (\<lambda>sub. [h sub]) \<circ> map_of (x # subs))"
    using none by (auto simp: x map_add_def fun_eq_iff split: option.splits)
  have upd: "?t\<lparr>mt_handlers := m\<rparr> = t\<lparr>mt_handlers := m\<rparr>" for m by simp
  show ?case unfolding step rest map upd by (rule refl)
qed (simp add: subscribe_all_def)

abbreviation processor_world ::
  "codec \<Rightarrow> (nat \<Rightarrow> int) \<Rightarrow> (nat \<Rightarrow> string list) \<Rightarrow> (nat \<Rightarrow> string \<Rightarrow> string list)
     \<Rightarrow> (topic \<times> subscription) list \<Rightarrow> metrics_run \<Rightarrow> metrics_run memory_world" where
  "processor_world C now targets keys subs st \<equiv>
     subscribe_all (processor_handler C now targets keys) subs (memory_New, st)"

lemma subscriptions_distinct: "distinct (map fst subscriptions)"
  by (simp add: subscriptions_def)

lemma map_of_subscriptions:
  assumes "mset subs = mset subscriptions"
  shows "distinct (map fst subs)" "map_of subs = map_of subscriptions"
proof -
  have "mset (map fst subs) = mset (map fst subscriptions)" using assms by simp
  then show dist: "distinct (map fst subs)"
    using mset_eq_imp_distinct_iff subscriptions_distinct by blast
  have "set subs = set subscriptions" using assms by (metis set_mset_mset)
  then show "map_of subs = map_of subscriptions"
    using map_of_inject_set [OF dist subscriptions_distinct] by simp
qed

lemma processor_world_publish:
  assumes "mset subs = mset subscriptions"
  shows "memory_Publish topic msg (processor_world C now targets keys subs st) =
    (processor_world C now targets keys subs (deliver_all C now targets keys [(topic, msg)] st), None)"
  using map_of_subscriptions [OF assms]
  by (cases st)
    (auto simp: subscribe_all_handlers memory_New_def memory_Publish_def deliver_def
      processor_handler_def split: option.splits prod.splits)

lemma deliver_all_Cons:
  "deliver_all C now targets keys (m # ms) st =
     deliver_all C now targets keys ms (deliver_all C now targets keys [m] st)"
  by (cases m; cases st) (simp split: prod.split)

lemma processor_handler_deliver_all:
  assumes "map_of subscriptions topic = Some sub"
  shows "fold (\<lambda>m s. fst (processor_handler C now targets keys sub m s)) ms st =
    deliver_all C now targets keys (map (Pair topic) ms) st"
proof (induction ms arbitrary: st)
  case (Cons m ms)
  have "fst (processor_handler C now targets keys sub m st) = deliver_all C now targets keys [(topic, m)] st"
    using assms by (cases st) (simp add: processor_handler_def deliver_def split: prod.split)
  with Cons.IH show ?case
    using deliver_all_Cons [of C now targets keys "(topic, m)" "map (Pair topic) ms" st] by simp
qed simp

lemma processor_world_run:
  assumes "mset subs = mset subscriptions"
  shows "failed_msgs memory_Publish ms (processor_world C now targets keys subs st) = []"
    "handle_msgs memory_Publish ms (processor_world C now targets keys subs st) =
      processor_world C now targets keys subs (deliver_all C now targets keys ms st)"
proof (induction ms arbitrary: st)
  case (Cons m ms)
  obtain topic msg where m: "m = (topic, msg)" by (cases m)
  have step: "memory_Publish topic msg (processor_world C now targets keys subs st) =
      (processor_world C now targets keys subs (deliver_all C now targets keys [m] st), None)"
    for st
    unfolding m by (rule processor_world_publish [OF assms])
  {
    case 1
    show ?case using step [of st] by (simp add: m Cons.IH(1))
  next
    case 2
    show ?case
      unfolding deliver_all_Cons [of C now targets keys m ms st] using step [of st]
      by (simp add: m Cons.IH(2))
  }
qed simp_all

subsection \<open>Properties\<close>

text \<open>
  C11: the in-memory transport connects the agent's buffer to the processor. Whatever the order of
  its subscriptions, draining the buffer into the transport empties the buffer, and the processor
  has then handled every buffered message in order, each exactly once, with the handler of the
  message's topic; a message on a topic nobody subscribed to is dropped.
\<close>

theorem memory_drain_reaches_processor:
  assumes "mset subs = mset subscriptions" and "buffer_inv b"
  shows "Drain memory_Publish b
      (subscribe_all (processor_handler C now targets keys) subs (memory_New, st)) =
    (b\<lparr>messages := [], curSize := 0\<rparr>,
     subscribe_all (processor_handler C now targets keys) subs
       (memory_New, deliver_all C now targets keys (messages b) st))"
  using assms by (simp add: Drain_eq processor_world_run)

text \<open>For the witness: a message nobody subscribed to, then one on the topic of the ping results.\<close>

definition ping_buffer :: MemoryBuffer where
  "ping_buffer = fst (Push ''netvantage.ping.results'' ''no json'' (fst (Push ''t'' ''1'' (NewMemoryBuffer 10))))"

lemma ping_buffer_inv: "buffer_inv ping_buffer"
  unfolding ping_buffer_def
  by (intro buffer_inv_Push buffer_inv_new) (simp_all add: msg_fits_def NewMemoryBuffer_def in_int64_def)

lemma ping_buffer_messages:
  "messages ping_buffer = [(''t'', ''1''), (''netvantage.ping.results'', ''no json'')]"
  by (simp add: ping_buffer_def Push_def NewMemoryBuffer_def Let_def wrap64_def)

lemma memory_drain_reaches_processor_witness:
  "Drain memory_Publish ping_buffer
      (subscribe_all (processor_handler demo_print (\<lambda>n. int n) (\<lambda>n. []) (\<lambda>n t. []))
         (rev subscriptions) (memory_New, (0, new_processor, []))) =
    (ping_buffer\<lparr>messages := [], curSize := 0\<rparr>,
     subscribe_all (processor_handler demo_print (\<lambda>n. int n) (\<lambda>n. []) (\<lambda>n t. []))
       (rev subscriptions) (memory_New, (1, new_processor, [IncCounter processingErrors [''ping'', ''unmarshal'']])))"
proof -
  have *: "deliver_all demo_print (\<lambda>n. int n) (\<lambda>n. []) (\<lambda>n t. []) (messages ping_buffer)
      (0, new_processor, []) = (1, new_processor, [IncCounter processingErrors [''ping'', ''unmarshal'']])"
    by (simp add: ping_buffer_messages deliver_def subscriptions_def handlePingResult_def
        unmarshal_Result_def unmarshal_def demo_print_def)
  have "mset (rev subscriptions) = mset subscriptions" by simp
  from memory_drain_reaches_processor [OF this ping_buffer_inv, of demo_print "\<lambda>n. int n"
      "\<lambda>n. []" "\<lambda>n t. []" "(0, new_processor, [])"]
  show ?thesis by (simp only: *)
qed

end
