(* ===== verification/NatsTransport.thy ===== *)
theory NatsTransport
  imports MemoryTransport
begin

text \<open>
  The NATS JetStream transport (internal/transport/nats/nats.go). The client library, the
  connection and the server behind it are the record \<open>nats_client\<close> over a state \<open>'c\<close>; errors of
  the library are their texts. What the server does with an acknowledgement is not modelled: the
  properties say which answers the code gives for which messages.
\<close>

subsection \<open>The client\<close>

record nats_options =
  no_Name :: string
  no_ReconnectWait :: int
  no_MaxReconnects :: int

record stream_config =
  sf_Name :: string
  sf_Subjects :: "string list"
  sf_FileStorage :: bool
  sf_LimitsPolicy :: bool
  sf_MaxAge :: int
  sf_Replicas :: int

record 'c nats_client =
  nj_Connect :: "string \<Rightarrow> nats_options \<Rightarrow> 'c \<Rightarrow> 'c \<times> string option"
  nj_JetStream :: "'c \<Rightarrow> 'c \<times> string option"
  nj_Close :: "'c \<Rightarrow> 'c"
  nj_IsClosed :: "'c \<Rightarrow> bool"
  nj_Drain :: "'c \<Rightarrow> 'c \<times> string option"
  nj_StreamInfo :: "string \<Rightarrow> 'c \<Rightarrow> 'c \<times> string option"
  nj_AddStream :: "stream_config \<Rightarrow> 'c \<Rightarrow> 'c \<times> string option"
  nj_Publish :: "topic \<Rightarrow> bytes \<Rightarrow> 'c \<Rightarrow> 'c \<times> string option"
  nj_Subscribe :: "topic \<Rightarrow> string \<Rightarrow> 'c \<Rightarrow> 'c \<times> string option"
  nj_Ack :: "bytes \<Rightarrow> 'c \<Rightarrow> 'c \<times> string option"
  nj_Nak :: "bytes \<Rightarrow> 'c \<Rightarrow> 'c \<times> string option"
  nj_Unsubscribe :: "topic \<Rightarrow> 'c \<Rightarrow> 'c"

text \<open>The paths of the certificates are read by nobody.\<close>

record NatsTransportConfig =
  nt_URL :: string
  nt_TLSCert :: string
  nt_TLSKey :: string
  nt_TLSCACert :: string

subsection \<open>Connecting\<close>

definition nats_opts :: nats_options where
  "nats_opts = \<lparr>no_Name = ''netvantage-agent'', no_ReconnectWait = seconds 2, no_MaxReconnects = - 1\<rparr>"

definition netvantage_stream :: stream_config where
  "netvantage_stream = \<lparr>sf_Name = ''NETVANTAGE'', sf_Subjects = [''netvantage.>''],
     sf_FileStorage = True, sf_LimitsPolicy = True, sf_MaxAge = seconds (24 * 60 * 60),
     sf_Replicas = 1\<rparr>"

definition ensureStream :: "'c nats_client \<Rightarrow> 'c \<Rightarrow> 'c \<times> string option" where
  "ensureStream N c =
     (let streamName = ''NETVANTAGE''
      in case nj_StreamInfo N streamName c of
           (c1, None) \<Rightarrow> (c1, None)
         | (c1, Some _) \<Rightarrow>
             (case nj_AddStream N netvantage_stream c1 of
                (c2, Some err) \<Rightarrow> (c2, Some (''nats: create stream '' @ streamName @ '': '' @ err))
              | (c2, None) \<Rightarrow> (c2, None)))"

definition nats_New :: "'c nats_client \<Rightarrow> NatsTransportConfig \<Rightarrow> 'c \<Rightarrow> 'c \<times> string option" where
  "nats_New N cfg c =
     (case nj_Connect N (nt_URL cfg) nats_opts c of
        (c1, Some err) \<Rightarrow> (c1, Some (''nats: connect to '' @ nt_URL cfg @ '': '' @ err))
      | (c1, None) \<Rightarrow>
          (case nj_JetStream N c1 of
             (c2, Some err) \<Rightarrow> (nj_Close N c2, Some (''nats: jetstream context: '' @ err))
           | (c2, None) \<Rightarrow>
               (case ensureStream N c2 of
                  (c3, Some err) \<Rightarrow> (nj_Close N c3, Some err)
                | (c3, None) \<Rightarrow> (c3, None))))"

subsection \<open>Operations\<close>

definition nats_Publish :: "'c nats_client \<Rightarrow> 'c handler" where
  "nats_Publish N topic msg c =
     (if nj_IsClosed N c then (c, Some ErrClosed)
      else (case nj_Publish N topic msg c of
              (c1, Some err) \<Rightarrow> (c1, Some (''nats: publish to '' @ topic @ '': '' @ err))
            | (c1, None) \<Rightarrow> (c1, None)))"

definition durable_name :: "topic \<Rightarrow> string" where
  "durable_name topic = ''netvantage-'' @ topic"

text \<open>
  The callback of a subscription: one call of the handler, on a state \<open>'s\<close> of its own, and the
  answer for the message, whose error is ignored.
\<close>

definition nats_callback ::
  "'c nats_client \<Rightarrow> 's msg_handler \<Rightarrow> bytes \<Rightarrow> 's \<times> 'c \<Rightarrow> 's \<times> 'c" where
  "nats_callback N h m sc =
     (let (s, c) = sc
      in case h m s of
           (s', Some err) \<Rightarrow> (s', fst (nj_Nak N m c))
         | (s', None) \<Rightarrow> (s', fst (nj_Ack N m c)))"

text \<open>
  Until the context is cancelled the library delivers messages, and the rest of the program uses
  the connection in between.
\<close>

datatype 'c nats_event = Delivery bytes | Elsewhere "'c \<Rightarrow> 'c"

fun nats_events :: "'c nats_client \<Rightarrow> 's msg_handler \<Rightarrow> 'c nats_event list \<Rightarrow> 's \<times> 'c \<Rightarrow> 's \<times> 'c" where
  "nats_events N h [] sc = sc"
| "nats_events N h (Delivery m # es) sc = nats_events N h es (nats_callback N h m sc)"
| "nats_events N h (Elsewhere f # es) sc = nats_events N h es (fst sc, f (snd sc))"

definition nats_Subscribe ::
  "'c nats_client \<Rightarrow> topic \<Rightarrow> 's msg_handler \<Rightarrow> 'c nats_event list \<Rightarrow> 's \<times> 'c
     \<Rightarrow> ('s \<times> 'c) \<times> string option" where
  "nats_Subscribe N topic h events sc =
     (let (s, c) = sc
      in if nj_IsClosed N c then ((s, c), Some ErrClosed)
         else (case nj_Subscribe N topic (durable_name topic) c of
                 (c1, Some err) \<Rightarrow> ((s, c1), Some (''nats: subscribe to '' @ topic @ '': '' @ err))
               | (c1, None) \<Rightarrow>
                   (case nats_events N h events (s, c1) of
                      (s', c2) \<Rightarrow> ((s', nj_Unsubscribe N topic c2), None))))"

definition nats_Close :: "'c nats_client \<Rightarrow> 'c \<Rightarrow> 'c \<times> string option" where
  "nats_Close N c = (if nj_IsClosed N c then (c, None) else nj_Drain N c)"

text \<open>For the interface the handler comes with its state and the events.\<close>

interpretation nats: closable_transport "nats_Publish N"
    "\<lambda>topic (h, s, events) c. Some (apfst snd (nats_Subscribe N topic h events (s, c)))"
    "nats_Close N" "nj_IsClosed N" for N :: "'c nats_client"
  by unfold_locales (auto simp: nats_Publish_def nats_Subscribe_def nats_Close_def)

interpretation nats_pub: message_publisher "logged (nats_Publish N)" snd for N :: "'c nats_client"
  by unfold_locales (auto simp: logged_def split: prod.splits option.splits)

subsection \<open>What a subscription does\<close>

fun delivered :: "'c nats_event list \<Rightarrow> bytes list" where
  "delivered [] = []"
| "delivered (Delivery m # es) = m # delivered es"
| "delivered (Elsewhere f # es) = delivered es"

datatype nats_answer = Ack | Nak

text \<open>The answers messages should get: acknowledged exactly if the handler accepts them.\<close>

definition answers_due :: "'s msg_handler \<Rightarrow> bytes list \<Rightarrow> 's \<Rightarrow> (bytes \<times> nats_answer) list" where
  "answers_due h ms s = zip ms (map (\<lambda>ok. if ok then Ack else Nak) (accepted_along h ms s))"

lemma answers_due_simps [simp]:
  "answers_due h [] s = []"
  "answers_due h (m # ms) s = (m, if snd (h m s) = None then Ack else Nak) # answers_due h ms (fst (h m s))"
  by (simp_all add: answers_due_def)

lemma nats_events_state:
  "fst (nats_events N h es (s, c)) = fold (\<lambda>m s. fst (h m s)) (delivered es) s"
  by (induction es arbitrary: s c rule: delivered.induct)
    (auto simp: nats_callback_def split: prod.splits option.splits)

text \<open>\<open>answers\<close> observes the answers the client was asked to give.\<close>

lemma nats_events_answers:
  assumes "\<And>m c. answers (fst (nj_Ack N m c)) = answers c @ [(m, Ack)]"
    and "\<And>m c. answers (fst (nj_Nak N m c)) = answers c @ [(m, Nak)]"
    and "\<And>f c. Elsewhere f \<in> set es \<Longrightarrow> answers (f c) = answers c"
  shows "answers (snd (nats_events N h es (s, c))) = answers c @ answers_due h (delivered es) s"
  using assms(3)
  by (induction es arbitrary: s c rule: delivered.induct)
    (auto simp: nats_callback_def assms(1,2) split: prod.splits option.splits)

subsection \<open>Properties\<close>

text \<open>
  C20: the answers of a NATS subscription are exact. Until its context is cancelled an established
  subscription calls the handler once for each delivered message, in order, each call on the state
  the previous one left, and then answers that message: it acknowledges it exactly if the handler
  returned no error, and otherwise asks for it again. The answers are observed through a function
  of the client's state to which an acknowledgement adds itself and which the rest of the program
  leaves alone. The subscription returns no error.
\<close>

theorem nats_answers_exactly:
  assumes "\<And>m c. answers (fst (nj_Ack N m c)) = answers c @ [(m, Ack)]"
    and "\<And>m c. answers (fst (nj_Nak N m c)) = answers c @ [(m, Nak)]"
    and "\<And>f c. Elsewhere f \<in> set events \<Longrightarrow> answers (f c) = answers c"
    and "\<And>c. answers (nj_Unsubscribe N topic c) = answers c"
    and "\<not> nj_IsClosed N c" and "nj_Subscribe N topic (durable_name topic) c = (c1, None)"
    and "nats_Subscribe N topic h events (s, c) = ((s', c'), r)"
  shows "s' = fold (\<lambda>m s. fst (h m s)) (delivered events) s \<and>
    answers c' = answers c1 @ answers_due h (delivered events) s \<and> r = None"
proof -
  have "answers (snd (nats_events N h events (s, c1))) =
      answers c1 @ answers_due h (delivered events) s"
    by (rule nats_events_answers) (fact assms(1), fact assms(2), fact assms(3))
  then show ?thesis
    using assms(5-7) nats_events_state [of N h events s c1]
    by (auto simp: nats_Subscribe_def assms(4) split: prod.splits)
qed

text \<open>A client that writes down its answers, and a handler that refuses its first message.\<close>

definition noting_client :: "(bytes \<times> nats_answer) list nats_client" where
  "noting_client = \<lparr>nj_Connect = (\<lambda>url opts c. (c, None)), nj_JetStream = (\<lambda>c. (c, None)),
     nj_Close = (\<lambda>c. c), nj_IsClosed = (\<lambda>c. False), nj_Drain = (\<lambda>c. (c, None)),
     nj_StreamInfo = (\<lambda>name c. (c, None)), nj_AddStream = (\<lambda>cfg c. (c, None)),
     nj_Publish = (\<lambda>topic m c. (c, None)), nj_Subscribe = (\<lambda>topic name c. (c, None)),
     nj_Ack = (\<lambda>m c. (c @ [(m, Ack)], None)), nj_Nak = (\<lambda>m c. (c @ [(m, Nak)], Some ''late'')),
     nj_Unsubscribe = (\<lambda>topic c. c)\<rparr>"

definition refuse_first :: "nat msg_handler" where
  "refuse_first m n = (Suc n, if n = 0 then Some ''busy'' else None)"

lemma nats_answers_exactly_witness:
  "snd (fst (nats_Subscribe noting_client ''t'' refuse_first
      [Delivery ''a'', Elsewhere (\<lambda>c. c), Delivery ''b'', Delivery ''a''] (0, []))) =
    [(''a'', Nak), (''b'', Ack), (''a'', Ack)]"
proof -
  let ?es = "[Delivery ''a'', Elsewhere (\<lambda>c. c), Delivery ''b'', Delivery ''a'']"
  obtain s' c' r where run: "nats_Subscribe noting_client ''t'' refuse_first ?es (0, []) = ((s', c'), r)"
    by (metis prod.collapse)
  note exact = nats_answers_exactly [where answers = "\<lambda>c. c" and N = noting_client and c = "[]"
      and topic = "''t''" and events = ?es and h = refuse_first and s = 0 and s' = s' and c' = c'
      and r = r]
  have "c' = answers_due refuse_first (delivered ?es) 0"
    using exact run by (simp add: noting_client_def)
  with run show ?thesis by (simp add: refuse_first_def)
qed

text \<open>
  The processor gets nothing over NATS. The server's client refuses consumer names with a
  dot; the name \<open>Subscribe\<close> makes is the topic with a prefix, and every topic of the processor
  has dots. So every subscription of \<open>Run\<close> fails, on an open connection and on a closed one.
\<close>

theorem nats_subscriptions_fail:
  assumes "\<And>topic name c. CHR ''.'' \<in> set name \<Longrightarrow> \<exists>c' err. nj_Subscribe N topic name c = (c', Some err)"
    and "(topic, sub) \<in> set subscriptions"
  shows "\<exists>sc' err. nats_Subscribe N topic h events sc = (sc', Some err)"
proof -
  have "CHR ''.'' \<in> set (durable_name topic)"
    using assms(2) by (auto simp: subscriptions_def durable_name_def)
  from assms(1) [OF this, of topic "snd sc"]
  show ?thesis by (auto simp: nats_Subscribe_def split: prod.splits)
qed

text \<open>A connection that only counts the calls, with the check of the names.\<close>

definition demo_client :: "nat nats_client" where
  "demo_client = \<lparr>nj_Connect = (\<lambda>url opts c. (Suc c, None)), nj_JetStream = (\<lambda>c. (Suc c, None)),
     nj_Close = (\<lambda>c. 0), nj_IsClosed = (\<lambda>c. c = 0), nj_Drain = (\<lambda>c. (0, None)),
     nj_StreamInfo = (\<lambda>name c. (Suc c, Some ''stream not found'')),
     nj_AddStream = (\<lambda>cfg c. (Suc c, Some ''no space'')),
     nj_Publish = (\<lambda>topic m c. (Suc c, None)),
     nj_Subscribe = (\<lambda>topic name c. (Suc c,
        if CHR ''.'' \<in> set name then Some ''invalid consumer name'' else None)),
     nj_Ack = (\<lambda>m c. (Suc c, None)), nj_Nak = (\<lambda>m c. (Suc c, None)),
     nj_Unsubscribe = (\<lambda>topic c. Suc c)\<rparr>"

lemma nats_subscriptions_fail_witness:
  "\<exists>sc' err. nats_Subscribe demo_client ''netvantage.ping.results'' refuse_first [] (0, 5) = (sc', Some err)"
  by (rule nats_subscriptions_fail [of demo_client _ PingSub])
    (auto simp: demo_client_def subscriptions_def)

text \<open>
  \<open>New\<close> leaves no connection behind when it fails. If connecting succeeded but the JetStream
  context or the stream could not be had, the connection is closed again, provided that closing
  a connection closes it; the error is the one that occurred.
\<close>

theorem nats_New_closes_on_error:
  assumes "\<And>c. nj_IsClosed N (nj_Close N c)"
    and "nj_Connect N (nt_URL cfg) nats_opts c = (c1, None)"
    and "nats_New N cfg c = (c', Some err)"
  shows "nj_IsClosed N c'
    \<and> ((\<exists>e. snd (nj_JetStream N c1) = Some e \<and> err = ''nats: jetstream context: '' @ e)
       \<or> snd (ensureStream N (fst (nj_JetStream N c1))) = Some err)"
  using assms by (auto simp: nats_New_def split: prod.splits option.splits)

lemma nats_New_closes_on_error_witness:
  "nj_IsClosed demo_client 0
    \<and> ((\<exists>e. snd (nj_JetStream demo_client 8) = Some e
          \<and> ''nats: create stream NETVANTAGE: no space'' = ''nats: jetstream context: '' @ e)
       \<or> snd (ensureStream demo_client (fst (nj_JetStream demo_client 8))) =
          Some ''nats: create stream NETVANTAGE: no space'')"
  by (rule nats_New_closes_on_error [of demo_client
        "\<lparr>nt_URL = ''u'', nt_TLSCert = [], nt_TLSKey = [], nt_TLSCACert = []\<rparr>" 7 8 0])
    (simp_all add: demo_client_def nats_New_def ensureStream_def)

end
