(* ===== verification/Domain.thy ===== *)
theory Domain
  imports GoJson
begin

text \<open>
  The control plane's domain models and errors (internal/domain) and the interfaces of its
  repositories (internal/server/repository/repository.go). Instants are in nanoseconds from the
  zero value of \<open>time.Time\<close>.
\<close>

subsection \<open>Errors\<close>

datatype sentinel = ErrNotFound | ErrAlreadyExists | ErrInvalidInput | ErrUnauthorized | ErrForbidden

text \<open>
  A Go \<open>error\<close> of the control plane: a sentinel, one wrapped by \<open>Errorf\<close> (\<open>%w: ...\<close>) with what
  follows the colon, or any other error by its text.
\<close>

datatype go_error = Sentinel sentinel | Wrapped sentinel string | Other string

fun sentinel_text :: "sentinel \<Rightarrow> string" where
  "sentinel_text ErrNotFound = ''not found''"
| "sentinel_text ErrAlreadyExists = ''already exists''"
| "sentinel_text ErrInvalidInput = ''invalid input''"
| "sentinel_text ErrUnauthorized = ''unauthorized''"
| "sentinel_text ErrForbidden = ''forbidden''"

fun error_text :: "go_error \<Rightarrow> string" where
  "error_text (Sentinel e) = sentinel_text e"
| "error_text (Wrapped e s) = sentinel_text e @ '': '' @ s"
| "error_text (Other s) = s"

text \<open>\<open>errors.Is\<close>.\<close>

fun error_is :: "go_error \<Rightarrow> sentinel \<Rightarrow> bool" where
  "error_is (Sentinel e) e' = (e = e')"
| "error_is (Wrapped e s) e' = (e = e')"
| "error_is (Other s) e' = False"

subsection \<open>Models\<close>

text \<open>
  A slice or map is an option where nil and empty are told apart. A map is the list of its
  entries with distinct keys. \<open>Config\<close> is the document the \<open>RawMessage\<close> holds.
\<close>

type_synonym labels = "(string \<times> string) list option"

record AgentInfo =
  ai_ID :: string
  ai_POPName :: string
  ai_Version :: string
  ai_Status :: string
  ai_Capabilities :: "string list option"
  ai_Labels :: labels
  ai_LastHeartbeat :: int
  ai_RegisteredAt :: int
  ai_UpdatedAt :: int

definition AgentStatusOnline :: string where
  "AgentStatusOnline = ''online''"

record POP =
  pp_Name :: string
  pp_Provider :: string
  pp_City :: string
  pp_Country :: string
  pp_Latitude :: "float64 option"
  pp_Longitude :: "float64 option"
  pp_Labels :: labels
  pp_CreatedAt :: int
  pp_UpdatedAt :: int

record TestDef =
  df_ID :: string
  df_Name :: string
  df_TestType :: string
  df_Target :: string
  df_IntervalMS :: int
  df_TimeoutMS :: int
  df_Config :: json
  df_Enabled :: bool
  df_CreatedAt :: int
  df_UpdatedAt :: int

record TestAssignment =
  ta_ID :: int
  ta_TestID :: string
  ta_POPName :: string
  ta_CreatedAt :: int

record HeartbeatInfo =
  hb_AgentID :: string
  hb_POPName :: string
  hb_Version :: string
  hb_Timestamp :: int
  hb_Status :: string
  hb_ActiveTests :: int

record APIKey =
  ky_ID :: string
  ky_Name :: string
  ky_KeyHash :: string
  ky_Role :: string
  ky_Scopes :: "string list option"
  ky_CreatedAt :: int
  ky_ExpiresAt :: "int option"
  ky_LastUsed :: "int option"

text \<open>\<open>ChangeDiff\<close> is the text of the \<open>RawMessage\<close>: nobody has parsed it.\<close>

record AuditEntry =
  ae_ID :: int
  ae_Timestamp :: int
  ae_ActorID :: string
  ae_ActorRole :: string
  ae_Action :: string
  ae_Resource :: string
  ae_ResourceID :: string
  ae_SourceIP :: string
  ae_ChangeDiff :: "bytes option"

subsection \<open>Their JSON form\<close>

text \<open>
  \<open>None\<close> where \<open>Marshal\<close> returns an error: an instant without a text form, or a \<open>RawMessage\<close>
  that holds no document.
\<close>

definition enc_opt_list :: "('a \<Rightarrow> json) \<Rightarrow> 'a list option \<Rightarrow> json" where
  "enc_opt_list e xs = (case xs of None \<Rightarrow> JNull | Some ys \<Rightarrow> JArr (map e ys))"

definition enc_labels :: "labels \<Rightarrow> json" where
  "enc_labels l = (case l of None \<Rightarrow> JNull | Some m \<Rightarrow> enc_str_map m)"

definition no_labels :: "labels \<Rightarrow> bool" where
  "no_labels l \<longleftrightarrow> l = None \<or> l = Some []"

definition enc_AgentInfo :: "codec \<Rightarrow> AgentInfo \<Rightarrow> json option" where
  "enc_AgentInfo C a =
     (case (print_time C (ai_LastHeartbeat a), print_time C (ai_RegisteredAt a),
            print_time C (ai_UpdatedAt a)) of
        (Some h, Some r, Some u) \<Rightarrow> Some (JObj
          ([(''id'', JStr (ai_ID a)),
            (''pop_name'', JStr (ai_POPName a)),
            (''version'', JStr (ai_Version a)),
            (''status'', JStr (ai_Status a)),
            (''capabilities'', enc_opt_list JStr (ai_Capabilities a))]
           @ omitempty (no_labels (ai_Labels a)) ''labels'' (enc_labels (ai_Labels a))
           @ [(''last_heartbeat'', JStr h),
              (''registered_at'', JStr r),
              (''updated_at'', JStr u)]))
      | _ \<Rightarrow> None)"

definition enc_float_ptr :: "string \<Rightarrow> float64 option \<Rightarrow> (string \<times> json) list" where
  "enc_float_ptr k p = (case p of None \<Rightarrow> [] | Some x \<Rightarrow> [(k, enc_float x)])"

definition enc_POP :: "codec \<Rightarrow> POP \<Rightarrow> json option" where
  "enc_POP C p =
     (case (print_time C (pp_CreatedAt p), print_time C (pp_UpdatedAt p)) of
        (Some c, Some u) \<Rightarrow> Some (JObj
          ([(''name'', JStr (pp_Name p))]
           @ omitempty (pp_Provider p = []) ''provider'' (JStr (pp_Provider p))
           @ omitempty (pp_City p = []) ''city'' (JStr (pp_City p))
           @ omitempty (pp_Country p = []) ''country'' (JStr (pp_Country p))
           @ enc_float_ptr ''latitude'' (pp_Latitude p)
           @ enc_float_ptr ''longitude'' (pp_Longitude p)
           @ omitempty (no_labels (pp_Labels p)) ''labels'' (enc_labels (pp_Labels p))
           @ [(''created_at'', JStr c), (''updated_at'', JStr u)]))
      | _ \<Rightarrow> None)"

definition enc_TestDef :: "codec \<Rightarrow> TestDef \<Rightarrow> json option" where
  "enc_TestDef C t =
     (case (print_time C (df_CreatedAt t), print_time C (df_UpdatedAt t)) of
        (Some c, Some u) \<Rightarrow> Some (JObj
          [(''id'', JStr (df_ID t)),
           (''name'', JStr (df_Name t)),
           (''test_type'', JStr (df_TestType t)),
           (''target'', JStr (df_Target t)),
           (''interval_ms'', JInt (df_IntervalMS t)),
           (''timeout_ms'', JInt (df_TimeoutMS t)),
           (''config'', df_Config t),
           (''enabled'', JBool (df_Enabled t)),
           (''created_at'', JStr c),
           (''updated_at'', JStr u)])
      | _ \<Rightarrow> None)"

definition enc_AuditEntry :: "codec \<Rightarrow> AuditEntry \<Rightarrow> json option" where
  "enc_AuditEntry C e =
     (case (print_time C (ae_Timestamp e),
            case ae_ChangeDiff e of None \<Rightarrow> Some []
            | Some b \<Rightarrow> if b = [] then Some []
                else map_option (\<lambda>j. [(''change_diff'', j)]) (parse_json C b)) of
        (Some ts, Some diff) \<Rightarrow> Some (JObj
          ([(''id'', JInt (ae_ID e)),
            (''timestamp'', JStr ts),
            (''actor_id'', JStr (ae_ActorID e)),
            (''actor_role'', JStr (ae_ActorRole e)),
            (''action'', JStr (ae_Action e)),
            (''resource'', JStr (ae_Resource e)),
            (''resource_id'', JStr (ae_ResourceID e)),
            (''source_ip'', JStr (ae_SourceIP e))] @ diff))
      | _ \<Rightarrow> None)"

text \<open>A nil slice of pointers prints as \<open>null\<close>; the lists of the repositories are nil when empty.\<close>

definition enc_all :: "('a \<Rightarrow> json option) \<Rightarrow> 'a list \<Rightarrow> json option" where
  "enc_all e xs = (if xs = [] then Some JNull else map_option JArr (those (map e xs)))"

subsection \<open>Repositories\<close>

text \<open>
  An operation of a repository: it changes the state behind the repository and returns a value
  or an error. The Go interfaces are records of operations.
\<close>

type_synonym ('s, 'a) op = "'s \<Rightarrow> 's \<times> (go_error + 'a)"

record 's AgentRepository =
  ar_Create :: "AgentInfo \<Rightarrow> ('s, unit) op"
  ar_Get :: "string \<Rightarrow> ('s, AgentInfo) op"
  ar_List :: "('s, AgentInfo list) op"
  ar_UpdateHeartbeat :: "string \<Rightarrow> HeartbeatInfo \<Rightarrow> ('s, unit) op"
  ar_Delete :: "string \<Rightarrow> ('s, unit) op"

record 's POPRepository =
  pr_Create :: "POP \<Rightarrow> ('s, unit) op"
  pr_Get :: "string \<Rightarrow> ('s, POP) op"
  pr_List :: "('s, POP list) op"
  pr_Delete :: "string \<Rightarrow> ('s, unit) op"

record 's TestRepository =
  te_Create :: "TestDef \<Rightarrow> ('s, unit) op"
  te_Get :: "string \<Rightarrow> ('s, TestDef) op"
  te_List :: "('s, TestDef list) op"
  te_Update :: "TestDef \<Rightarrow> ('s, unit) op"
  te_Delete :: "string \<Rightarrow> ('s, unit) op"
  te_ListByPOP :: "string \<Rightarrow> ('s, TestDef list) op"

record 's TestAssignmentRepository =
  as_Assign :: "string \<Rightarrow> string \<Rightarrow> ('s, unit) op"
  as_Unassign :: "string \<Rightarrow> string \<Rightarrow> ('s, unit) op"
  as_ListByTest :: "string \<Rightarrow> ('s, TestAssignment list) op"
  as_ListByPOP :: "string \<Rightarrow> ('s, TestAssignment list) op"

record 's APIKeyRepository =
  kr_Create :: "APIKey \<Rightarrow> ('s, unit) op"
  kr_GetByHash :: "string \<Rightarrow> ('s, APIKey) op"
  kr_TouchLastUsed :: "string \<Rightarrow> ('s, unit) op"

record 's AuditRepository =
  au_Record :: "AuditEntry \<Rightarrow> ('s, unit) op"
  au_List :: "int \<Rightarrow> int \<Rightarrow> ('s, AuditEntry list) op"
  au_ListByResource :: "string \<Rightarrow> string \<Rightarrow> int \<Rightarrow> ('s, AuditEntry list) op"

subsection \<open>The contract of a repository of named items\<close>

text \<open>
  What agents, POPs and test definitions have in common. \<open>view\<close> is the abstract table: which
  item each key names. \<open>stored x y\<close> says that \<open>y\<close> is what the store keeps of a created \<open>x\<close>. An
  error that is no sentinel says nothing about whether the operation took place: the store may
  have applied it and the reply may have been lost.
\<close>

locale keyed_repository =
  fixes key :: "'a \<Rightarrow> string"
    and create :: "'a \<Rightarrow> ('s, unit) op"
    and get :: "string \<Rightarrow> ('s, 'a) op"
    and delete :: "string \<Rightarrow> ('s, unit) op"
    and view :: "'s \<Rightarrow> string \<rightharpoonup> 'a"
    and stored :: "'a \<Rightarrow> 'a \<Rightarrow> bool"
  assumes get_view: "view (fst (get k s)) = view s"
    and get_found: "snd (get k s) = Inr x \<Longrightarrow> view s k = Some x"
    and get_sentinel: "snd (get k s) = Inl (Sentinel e) \<Longrightarrow> e = ErrNotFound \<and> view s k = None"
    and create_cases: "(\<exists>y. stored x y \<and> view s (key x) = None
        \<and> view (fst (create x s)) = (view s)(key x \<mapsto> y))
      \<or> (snd (create x s) \<noteq> Inr () \<and> view (fst (create x s)) = view s)"
    and create_sentinel: "snd (create x s) = Inl (Sentinel e) \<Longrightarrow> e = ErrAlreadyExists"
    and delete_cases: "view (fst (delete k s)) = (view s)(k := None)
      \<or> (snd (delete k s) \<noteq> Inr () \<and> view (fst (delete k s)) = view s)"
    and delete_done: "snd (delete k s) = Inr () \<Longrightarrow> view s k \<noteq> None"
    and delete_sentinel: "snd (delete k s) = Inl (Sentinel e) \<Longrightarrow> e = ErrNotFound \<and> view s k = None"
begin

lemma create_done:
  assumes "snd (create x s) = Inr ()"
  obtains y where "stored x y" "view s (key x) = None"
    "view (fst (create x s)) = (view s)(key x \<mapsto> y)"
  using create_cases [of x s] assms by auto

text \<open>What was created is found under its key, and the other keys are not touched.\<close>

lemma get_created:
  assumes "snd (create x s) = Inr ()" "snd (get (key x) (fst (create x s))) = Inr y"
  shows "stored x y"
  using assms(1) by (rule create_done) (use get_found [OF assms(2)] in auto)

lemma created_found:
  assumes "snd (create x s) = Inr ()"
  shows "snd (get (key x) (fst (create x s))) \<noteq> Inl (Sentinel e)"
  using assms by (rule create_done) (use get_sentinel [of "key x" "fst (create x s)" e] in auto)

lemma create_other: "k \<noteq> key x \<Longrightarrow> view (fst (create x s)) k = view s k"
  using create_cases [of x s] by auto

lemma delete_other: "k' \<noteq> k \<Longrightarrow> view (fst (delete k s)) k' = view s k'"
  using delete_cases [of k s] by auto

lemma deleted_not_found:
  assumes "snd (delete k s) = Inr ()"
  shows "snd (get k (fst (delete k s))) \<noteq> Inr y"
  using delete_cases [of k s] get_found [of k "fst (delete k s)" y] assms by auto

lemma create_twice:
  assumes "snd (create x s) = Inr ()" "key x' = key x"
  shows "snd (create x' (fst (create x s))) \<noteq> Inr ()"
proof
  assume again: "snd (create x' (fst (create x s))) = Inr ()"
  from assms(1) obtain y where "view (fst (create x s)) = (view s)(key x \<mapsto> y)"
    by (rule create_done)
  with again assms(2) show False
    using create_cases [of x' "fst (create x s)"] by auto
qed

end

end
