(* ===== verification/Handlers.thy ===== *)
theory Handlers
  imports Domain
begin

text \<open>
  The request handlers of the control plane (internal/server/api/handler), over any
  implementation of the repository interfaces. A handler gets the request and the state behind
  the repositories and returns the state and the response; \<open>now\<close> is \<open>time.Now\<close>. What the
  handlers log is left out.
\<close>

subsection \<open>Requests and responses\<close>

text \<open>
  \<open>rq_Params\<close> are the URL parameters and \<open>rq_Pattern\<close> the pattern of chi's route context,
  \<open>rq_AuthID\<close> and \<open>rq_AuthRole\<close> the values the authentication puts into the context. Looking
  up an absent header, query key or URL parameter gives the empty string.
\<close>

record http_request =
  rq_Method :: string
  rq_Header :: "string \<Rightarrow> string"
  rq_RemoteAddr :: string
  rq_Body :: bytes
  rq_Query :: "string \<Rightarrow> string"
  rq_Params :: "(string \<times> string) list"
  rq_Pattern :: "string option"
  rq_AuthID :: "string option"
  rq_AuthRole :: "string option"

definition URLParam :: "http_request \<Rightarrow> string \<Rightarrow> string" where
  "URLParam rq k = (case map_of (rq_Params rq) k of None \<Rightarrow> [] | Some v \<Rightarrow> v)"

text \<open>No body where nothing is written, also because \<open>Encode\<close> returns an error.\<close>

record http_response =
  rp_Status :: int
  rp_Body :: "json option"

text \<open>
  What the handlers take from elsewhere: the text codec, the first JSON value of a stream (what
  \<open>Decoder.Decode\<close> reads) and the text of its errors, and the quotation of \<open>%q\<close>.
\<close>

record api_env =
  ap_codec :: codec
  ap_decode :: "bytes \<Rightarrow> json option"
  ap_decode_error :: "bytes \<Rightarrow> string"
  ap_quote :: "string \<Rightarrow> string"

definition writeJSON :: "int \<Rightarrow> json option \<Rightarrow> http_response" where
  "writeJSON status v = \<lparr>rp_Status = status, rp_Body = v\<rparr>"

definition error_status :: "go_error \<Rightarrow> int" where
  "error_status err =
     (if error_is err ErrNotFound then 404
      else if error_is err ErrAlreadyExists then 409
      else if error_is err ErrInvalidInput then 400
      else if error_is err ErrUnauthorized then 401
      else if error_is err ErrForbidden then 403
      else 500)"

definition errorResponse :: "go_error \<Rightarrow> http_response" where
  "errorResponse err = writeJSON (error_status err) (Some (JObj [(''error'', JStr (error_text err))]))"

definition NoContent :: http_response where
  "NoContent = \<lparr>rp_Status = 204, rp_Body = None\<rparr>"

subsection \<open>Reading a body\<close>

text \<open>With \<open>DisallowUnknownFields\<close> a member that names no field is an error.\<close>

fun dec_fields_strict :: "'r fields \<Rightarrow> (string \<times> json) list \<Rightarrow> 'r \<Rightarrow> 'r option" where
  "dec_fields_strict fs [] r = Some r"
| "dec_fields_strict fs ((k, v) # kvs) r =
     (case find_field fs k of
        None \<Rightarrow> None
      | Some d \<Rightarrow> (case d r v of None \<Rightarrow> None | Some r' \<Rightarrow> dec_fields_strict fs kvs r'))"

fun dec_struct_strict :: "'r fields \<Rightarrow> 'r \<Rightarrow> json \<Rightarrow> 'r option" where
  "dec_struct_strict fs r JNull = Some r"
| "dec_struct_strict fs r (JObj kvs) = dec_fields_strict fs kvs r"
| "dec_struct_strict fs r _ = None"

definition readJSON :: "api_env \<Rightarrow> 'r fields \<Rightarrow> 'r \<Rightarrow> bytes \<Rightarrow> string + 'r" where
  "readJSON A fs z body =
     (case Option.bind (ap_decode A body) (dec_struct_strict fs z) of
        None \<Rightarrow> Inl (ap_decode_error A body)
      | Some r \<Rightarrow> Inr r)"

text \<open>
  A \<open>[]string\<close> that may be nil, its elements decoded over those it had, and a map that may be
  nil.
\<close>

fun dec_strings :: "string list \<Rightarrow> json list \<Rightarrow> string list option" where
  "dec_strings old [] = Some []"
| "dec_strings old (j # js) =
     (case dec_string (case old of [] \<Rightarrow> [] | s # _ \<Rightarrow> s) j of
        None \<Rightarrow> None
      | Some s \<Rightarrow> map_option ((#) s) (dec_strings (tl old) js))"

fun dec_opt_strings :: "string list option \<Rightarrow> json \<Rightarrow> string list option option" where
  "dec_opt_strings old JNull = Some None"
| "dec_opt_strings old (JArr js) =
     map_option Some (dec_strings (case old of None \<Rightarrow> [] | Some xs \<Rightarrow> xs) js)"
| "dec_opt_strings old _ = None"

fun dec_labels :: "labels \<Rightarrow> json \<Rightarrow> labels option" where
  "dec_labels old JNull = Some None"
| "dec_labels old j = map_option Some (dec_str_map (case old of None \<Rightarrow> [] | Some m \<Rightarrow> m) j)"

definition dec_opt :: "('a \<Rightarrow> json \<Rightarrow> 'a option) \<Rightarrow> 'a \<Rightarrow> 'a option \<Rightarrow> json \<Rightarrow> 'a option option" where
  "dec_opt d z old j = dec_ptr d z j"

subsection \<open>Agents\<close>

record RegisterRequest =
  rr_ID :: string
  rr_POPName :: string
  rr_Version :: string
  rr_Capabilities :: "string list option"
  rr_Labels :: labels

definition zero_RegisterRequest :: RegisterRequest where
  "zero_RegisterRequest = \<lparr>rr_ID = [], rr_POPName = [], rr_Version = [], rr_Capabilities = None,
     rr_Labels = None\<rparr>"

definition RegisterRequest_fields :: "RegisterRequest fields" where
  "RegisterRequest_fields =
     [(''id'', field rr_ID rr_ID_update dec_string),
      (''pop_name'', field rr_POPName rr_POPName_update dec_string),
      (''version'', field rr_Version rr_Version_update dec_string),
      (''capabilities'', field rr_Capabilities rr_Capabilities_update dec_opt_strings),
      (''labels'', field rr_Labels rr_Labels_update dec_labels)]"

definition AgentHandler_Register ::
  "api_env \<Rightarrow> 's AgentRepository \<Rightarrow> 's POPRepository \<Rightarrow> int \<Rightarrow> http_request \<Rightarrow> 's
     \<Rightarrow> 's \<times> http_response" where
  "AgentHandler_Register A ags pps now rq s =
     (case readJSON A RegisterRequest_fields zero_RegisterRequest (rq_Body rq) of
        Inl e \<Rightarrow> (s, errorResponse (Wrapped ErrInvalidInput e))
      | Inr req \<Rightarrow>
          if rr_ID req = [] \<or> rr_POPName req = []
          then (s, errorResponse (Wrapped ErrInvalidInput ''id and pop_name are required''))
          else (case pr_Get pps (rr_POPName req) s of
             (s1, Inl _) \<Rightarrow> (s1, errorResponse (Wrapped ErrInvalidInput
                 (''pop '' @ ap_quote A (rr_POPName req) @ '' not found'')))
           | (s1, Inr _) \<Rightarrow>
               let agent = \<lparr>ai_ID = rr_ID req, ai_POPName = rr_POPName req,
                     ai_Version = rr_Version req, ai_Status = AgentStatusOnline,
                     ai_Capabilities = rr_Capabilities req, ai_Labels = rr_Labels req,
                     ai_LastHeartbeat = now, ai_RegisteredAt = now, ai_UpdatedAt = 0\<rparr>
               in (case ar_Create ags agent s1 of
                     (s2, Inl e) \<Rightarrow> (s2, errorResponse e)
                   | (s2, Inr _) \<Rightarrow> (s2, writeJSON 201 (enc_AgentInfo (ap_codec A) agent)))))"

text \<open>The common shapes of the handlers that list, that get and that delete one item.\<close>

definition list_response ::
  "('a \<Rightarrow> json option) \<Rightarrow> 's \<times> (go_error + 'a list) \<Rightarrow> 's \<times> http_response" where
  "list_response enc r =
     (case r of
        (s, Inl e) \<Rightarrow> (s, errorResponse e)
      | (s, Inr xs) \<Rightarrow> (s, writeJSON 200 (enc_all enc xs)))"

definition get_response ::
  "('a \<Rightarrow> json option) \<Rightarrow> 's \<times> (go_error + 'a) \<Rightarrow> 's \<times> http_response" where
  "get_response enc r =
     (case r of
        (s, Inl e) \<Rightarrow> (s, errorResponse e)
      | (s, Inr x) \<Rightarrow> (s, writeJSON 200 (enc x)))"

definition delete_response :: "'s \<times> (go_error + unit) \<Rightarrow> 's \<times> http_response" where
  "delete_response r =
     (case r of
        (s, Inl e) \<Rightarrow> (s, errorResponse e)
      | (s, Inr _) \<Rightarrow> (s, NoContent))"

definition AgentHandler_List ::
  "api_env \<Rightarrow> 's AgentRepository \<Rightarrow> 's \<Rightarrow> 's \<times> http_response" where
  "AgentHandler_List A ags s = list_response (enc_AgentInfo (ap_codec A)) (ar_List ags s)"

definition AgentHandler_Get ::
  "api_env \<Rightarrow> 's AgentRepository \<Rightarrow> http_request \<Rightarrow> 's \<Rightarrow> 's \<times> http_response" where
  "AgentHandler_Get A ags rq s =
     get_response (enc_AgentInfo (ap_codec A)) (ar_Get ags (URLParam rq ''id'') s)"

definition AgentHandler_Delete ::
  "'s AgentRepository \<Rightarrow> http_request \<Rightarrow> 's \<Rightarrow> 's \<times> http_response" where
  "AgentHandler_Delete ags rq s = delete_response (ar_Delete ags (URLParam rq ''id'') s)"

record HeartbeatRequest =
  hr_Version :: string
  hr_Status :: string
  hr_ActiveTests :: int

definition zero_HeartbeatRequest :: HeartbeatRequest where
  "zero_HeartbeatRequest = \<lparr>hr_Version = [], hr_Status = [], hr_ActiveTests = 0\<rparr>"

definition HeartbeatRequest_fields :: "HeartbeatRequest fields" where
  "HeartbeatRequest_fields =
     [(''version'', field hr_Version hr_Version_update dec_string),
      (''status'', field hr_Status hr_Status_update dec_string),
      (''active_tests'', field hr_ActiveTests hr_ActiveTests_update dec_int)]"

definition AgentHandler_Heartbeat ::
  "api_env \<Rightarrow> 's AgentRepository \<Rightarrow> int \<Rightarrow> http_request \<Rightarrow> 's \<Rightarrow> 's \<times> http_response" where
  "AgentHandler_Heartbeat A ags now rq s =
     (let i = URLParam rq ''id''
      in case readJSON A HeartbeatRequest_fields zero_HeartbeatRequest (rq_Body rq) of
           Inl e \<Rightarrow> (s, errorResponse (Wrapped ErrInvalidInput e))
         | Inr req \<Rightarrow>
             (case ar_UpdateHeartbeat ags i \<lparr>hb_AgentID = i, hb_POPName = [],
                 hb_Version = hr_Version req, hb_Timestamp = now, hb_Status = hr_Status req,
                 hb_ActiveTests = hr_ActiveTests req\<rparr> s of
                (s1, Inl e) \<Rightarrow> (s1, errorResponse e)
              | (s1, Inr _) \<Rightarrow> (s1, writeJSON 200 (Some (JObj [(''status'', JStr ''ok'')])))))"

subsection \<open>POPs\<close>

record CreatePOPRequest =
  cp_Name :: string
  cp_Provider :: string
  cp_City :: string
  cp_Country :: string
  cp_Latitude :: "float64 option"
  cp_Longitude :: "float64 option"
  cp_Labels :: labels

definition zero_CreatePOPRequest :: CreatePOPRequest where
  "zero_CreatePOPRequest = \<lparr>cp_Name = [], cp_Provider = [], cp_City = [], cp_Country = [],
     cp_Latitude = None, cp_Longitude = None, cp_Labels = None\<rparr>"

definition CreatePOPRequest_fields :: "CreatePOPRequest fields" where
  "CreatePOPRequest_fields =
     [(''name'', field cp_Name cp_Name_update dec_string),
      (''provider'', field cp_Provider cp_Provider_update dec_string),
      (''city'', field cp_City cp_City_update dec_string),
      (''country'', field cp_Country cp_Country_update dec_string),
      (''latitude'', field cp_Latitude cp_Latitude_update (dec_opt dec_float 0)),
      (''longitude'', field cp_Longitude cp_Longitude_update (dec_opt dec_float 0)),
      (''labels'', field cp_Labels cp_Labels_update dec_labels)]"

definition POPHandler_Create ::
  "api_env \<Rightarrow> 's POPRepository \<Rightarrow> http_request \<Rightarrow> 's \<Rightarrow> 's \<times> http_response" where
  "POPHandler_Create A pps rq s =
     (case readJSON A CreatePOPRequest_fields zero_CreatePOPRequest (rq_Body rq) of
        Inl e \<Rightarrow> (s, errorResponse (Wrapped ErrInvalidInput e))
      | Inr req \<Rightarrow>
          if cp_Name req = []
          then (s, errorResponse (Wrapped ErrInvalidInput ''name is required''))
          else
            let pop = \<lparr>pp_Name = cp_Name req, pp_Provider = cp_Provider req, pp_City = cp_City req,
                  pp_Country = cp_Country req, pp_Latitude = cp_Latitude req,
                  pp_Longitude = cp_Longitude req, pp_Labels = cp_Labels req, pp_CreatedAt = 0,
                  pp_UpdatedAt = 0\<rparr>
            in (case pr_Create pps pop s of
                  (s1, Inl e) \<Rightarrow> (s1, errorResponse e)
                | (s1, Inr _) \<Rightarrow> (s1, writeJSON 201 (enc_POP (ap_codec A) pop))))"

definition POPHandler_List :: "api_env \<Rightarrow> 's POPRepository \<Rightarrow> 's \<Rightarrow> 's \<times> http_response" where
  "POPHandler_List A pps s = list_response (enc_POP (ap_codec A)) (pr_List pps s)"

definition POPHandler_Get ::
  "api_env \<Rightarrow> 's POPRepository \<Rightarrow> http_request \<Rightarrow> 's \<Rightarrow> 's \<times> http_response" where
  "POPHandler_Get A pps rq s =
     get_response (enc_POP (ap_codec A)) (pr_Get pps (URLParam rq ''name'') s)"

definition POPHandler_Delete ::
  "'s POPRepository \<Rightarrow> http_request \<Rightarrow> 's \<Rightarrow> 's \<times> http_response" where
  "POPHandler_Delete pps rq s = delete_response (pr_Delete pps (URLParam rq ''name'') s)"

subsection \<open>Tests\<close>

record CreateTestRequest =
  ct_ID :: string
  ct_Name :: string
  ct_TestType :: string
  ct_Target :: string
  ct_IntervalMS :: int
  ct_TimeoutMS :: int
  ct_Config :: "json option"
  ct_Enabled :: "bool option"
  ct_POPs :: "string list option"

definition zero_CreateTestRequest :: CreateTestRequest where
  "zero_CreateTestRequest = \<lparr>ct_ID = [], ct_Name = [], ct_TestType = [], ct_Target = [],
     ct_IntervalMS = 0, ct_TimeoutMS = 0, ct_Config = None, ct_Enabled = None, ct_POPs = None\<rparr>"

definition CreateTestRequest_fields :: "CreateTestRequest fields" where
  "CreateTestRequest_fields =
     [(''id'', field ct_ID ct_ID_update dec_string),
      (''name'', field ct_Name ct_Name_update dec_string),
      (''test_type'', field ct_TestType ct_TestType_update dec_string),
      (''target'', field ct_Target ct_Target_update dec_string),
      (''interval_ms'', field ct_IntervalMS ct_IntervalMS_update dec_int),
      (''timeout_ms'', field ct_TimeoutMS ct_TimeoutMS_update dec_int),
      (''config'', field ct_Config ct_Config_update dec_raw),
      (''enabled'', field ct_Enabled ct_Enabled_update (dec_opt dec_bool False)),
      (''pops'', field ct_POPs ct_POPs_update dec_opt_strings)]"

definition validTestTypes :: "string list" where
  "validTestTypes = [''ping'', ''dns'', ''http'', ''traceroute'']"

definition validateCreateRequest :: "api_env \<Rightarrow> CreateTestRequest \<Rightarrow> go_error option" where
  "validateCreateRequest A req =
     (if ct_ID req = [] then Some (Wrapped ErrInvalidInput ''id is required'')
      else if ct_Name req = [] then Some (Wrapped ErrInvalidInput ''name is required'')
      else if ct_TestType req \<notin> set validTestTypes
      then Some (Wrapped ErrInvalidInput (''invalid test_type '' @ ap_quote A (ct_TestType req)))
      else if ct_Target req = [] then Some (Wrapped ErrInvalidInput ''target is required'')
      else if ct_IntervalMS req \<le> 0
      then Some (Wrapped ErrInvalidInput ''interval_ms must be positive'')
      else if ct_TimeoutMS req \<le> 0
      then Some (Wrapped ErrInvalidInput ''timeout_ms must be positive'')
      else None)"

text \<open>The assignments to a list of POPs, or the global one; the errors are dropped.\<close>

definition pop_list :: "string list option \<Rightarrow> string list" where
  "pop_list pops = (case pops of None \<Rightarrow> [] | Some ns \<Rightarrow> ns)"

definition assign_all ::
  "'s TestAssignmentRepository \<Rightarrow> string \<Rightarrow> string list \<Rightarrow> 's \<Rightarrow> 's" where
  "assign_all asn i pops s =
     (if length pops = 0 then fst (as_Assign asn i [] s)
      else fold (\<lambda>pop s. fst (as_Assign asn i pop s)) pops s)"

text \<open>The definition \<open>Create\<close> builds: enabled unless told otherwise, \<open>{}\<close> for a missing \<open>config\<close>.\<close>

definition new_test :: "CreateTestRequest \<Rightarrow> TestDef" where
  "new_test req =
     \<lparr>df_ID = ct_ID req, df_Name = ct_Name req, df_TestType = ct_TestType req,
      df_Target = ct_Target req, df_IntervalMS = ct_IntervalMS req,
      df_TimeoutMS = ct_TimeoutMS req,
      df_Config = (case ct_Config req of None \<Rightarrow> JObj [] | Some j \<Rightarrow> j),
      df_Enabled = (case ct_Enabled req of None \<Rightarrow> True | Some b \<Rightarrow> b),
      df_CreatedAt = 0, df_UpdatedAt = 0\<rparr>"

definition TestHandler_Create ::
  "api_env \<Rightarrow> 's TestRepository \<Rightarrow> 's TestAssignmentRepository \<Rightarrow> http_request \<Rightarrow> 's
     \<Rightarrow> 's \<times> http_response" where
  "TestHandler_Create A tsts asn rq s =
     (case readJSON A CreateTestRequest_fields zero_CreateTestRequest (rq_Body rq) of
        Inl e \<Rightarrow> (s, errorResponse (Wrapped ErrInvalidInput e))
      | Inr req \<Rightarrow>
          (case validateCreateRequest A req of
             Some e \<Rightarrow> (s, errorResponse e)
           | None \<Rightarrow>
               (case te_Create tsts (new_test req) s of
                  (s1, Inl e) \<Rightarrow> (s1, errorResponse e)
                | (s1, Inr _) \<Rightarrow>
                    (assign_all asn (ct_ID req) (pop_list (ct_POPs req)) s1,
                     writeJSON 201 (enc_TestDef (ap_codec A) (new_test req))))))"

definition TestHandler_List :: "api_env \<Rightarrow> 's TestRepository \<Rightarrow> 's \<Rightarrow> 's \<times> http_response" where
  "TestHandler_List A tsts s = list_response (enc_TestDef (ap_codec A)) (te_List tsts s)"

definition TestHandler_Get ::
  "api_env \<Rightarrow> 's TestRepository \<Rightarrow> http_request \<Rightarrow> 's \<Rightarrow> 's \<times> http_response" where
  "TestHandler_Get A tsts rq s =
     get_response (enc_TestDef (ap_codec A)) (te_Get tsts (URLParam rq ''id'') s)"

record UpdateTestRequest =
  ut_Name :: string
  ut_TestType :: string
  ut_Target :: string
  ut_IntervalMS :: "int option"
  ut_TimeoutMS :: "int option"
  ut_Config :: "json option"
  ut_Enabled :: "bool option"

definition zero_UpdateTestRequest :: UpdateTestRequest where
  "zero_UpdateTestRequest = \<lparr>ut_Name = [], ut_TestType = [], ut_Target = [], ut_IntervalMS = None,
     ut_TimeoutMS = None, ut_Config = None, ut_Enabled = None\<rparr>"

definition UpdateTestRequest_fields :: "UpdateTestRequest fields" where
  "UpdateTestRequest_fields =
     [(''name'', field ut_Name ut_Name_update dec_string),
      (''test_type'', field ut_TestType ut_TestType_update dec_string),
      (''target'', field ut_Target ut_Target_update dec_string),
      (''interval_ms'', field ut_IntervalMS ut_IntervalMS_update (dec_opt dec_int 0)),
      (''timeout_ms'', field ut_TimeoutMS ut_TimeoutMS_update (dec_opt dec_int 0)),
      (''config'', field ut_Config ut_Config_update dec_raw),
      (''enabled'', field ut_Enabled ut_Enabled_update (dec_opt dec_bool False))]"

text \<open>The merge of an update into the stored definition: fields that are present replace.\<close>

definition merge_update :: "UpdateTestRequest \<Rightarrow> TestDef \<Rightarrow> TestDef" where
  "merge_update req t = t
     \<lparr>df_Name := (if ut_Name req \<noteq> [] then ut_Name req else df_Name t),
      df_TestType := (if ut_TestType req \<noteq> [] then ut_TestType req else df_TestType t),
      df_Target := (if ut_Target req \<noteq> [] then ut_Target req else df_Target t),
      df_IntervalMS := (case ut_IntervalMS req of None \<Rightarrow> df_IntervalMS t | Some i \<Rightarrow> i),
      df_TimeoutMS := (case ut_TimeoutMS req of None \<Rightarrow> df_TimeoutMS t | Some i \<Rightarrow> i),
      df_Config := (case ut_Config req of None \<Rightarrow> df_Config t | Some j \<Rightarrow> j),
      df_Enabled := (case ut_Enabled req of None \<Rightarrow> df_Enabled t | Some b \<Rightarrow> b)\<rparr>"

definition TestHandler_Update ::
  "api_env \<Rightarrow> 's TestRepository \<Rightarrow> http_request \<Rightarrow> 's \<Rightarrow> 's \<times> http_response" where
  "TestHandler_Update A tsts rq s =
     (case te_Get tsts (URLParam rq ''id'') s of
        (s1, Inl e) \<Rightarrow> (s1, errorResponse e)
      | (s1, Inr existing) \<Rightarrow>
          (case readJSON A UpdateTestRequest_fields zero_UpdateTestRequest (rq_Body rq) of
             Inl e \<Rightarrow> (s1, errorResponse (Wrapped ErrInvalidInput e))
           | Inr req \<Rightarrow>
               if ut_TestType req \<noteq> [] \<and> ut_TestType req \<notin> set validTestTypes
               then (s1, errorResponse (Wrapped ErrInvalidInput
                       (''invalid test_type '' @ ap_quote A (ut_TestType req))))
               else
                 let merged = merge_update req existing
                 in (case te_Update tsts merged s1 of
                       (s2, Inl e) \<Rightarrow> (s2, errorResponse e)
                     | (s2, Inr _) \<Rightarrow> (s2, writeJSON 200 (enc_TestDef (ap_codec A) merged)))))"

definition TestHandler_Delete ::
  "'s TestRepository \<Rightarrow> http_request \<Rightarrow> 's \<Rightarrow> 's \<times> http_response" where
  "TestHandler_Delete tsts rq s = delete_response (te_Delete tsts (URLParam rq ''id'') s)"

record AssignRequest =
  ar_POPs :: "string list option"

definition zero_AssignRequest :: AssignRequest where
  "zero_AssignRequest = \<lparr>ar_POPs = None\<rparr>"

definition AssignRequest_fields :: "AssignRequest fields" where
  "AssignRequest_fields = [(''pops'', field ar_POPs ar_POPs_update dec_opt_strings)]"

definition TestHandler_Assign ::
  "api_env \<Rightarrow> 's TestRepository \<Rightarrow> 's TestAssignmentRepository \<Rightarrow> http_request \<Rightarrow> 's
     \<Rightarrow> 's \<times> http_response" where
  "TestHandler_Assign A tsts asn rq s =
     (case te_Get tsts (URLParam rq ''id'') s of
        (s1, Inl e) \<Rightarrow> (s1, errorResponse e)
      | (s1, Inr _) \<Rightarrow>
          (case readJSON A AssignRequest_fields zero_AssignRequest (rq_Body rq) of
             Inl e \<Rightarrow> (s1, errorResponse (Wrapped ErrInvalidInput e))
           | Inr req \<Rightarrow>
               (assign_all asn (URLParam rq ''id'') (pop_list (ar_POPs req)) s1,
                writeJSON 200 (Some (JObj [(''status'', JStr ''assigned'')])))))"

subsection \<open>Configuration sync\<close>

definition SyncHandler_ConfigSync ::
  "api_env \<Rightarrow> 's TestRepository \<Rightarrow> http_request \<Rightarrow> 's \<Rightarrow> 's \<times> http_response" where
  "SyncHandler_ConfigSync A tsts rq s =
     (let agentID = URLParam rq ''id''; popName = rq_Query rq ''pop''
      in if popName = []
         then (s, writeJSON 400 (Some (JObj [(''error'', JStr ''pop query parameter is required'')])))
         else (case te_ListByPOP tsts popName s of
            (s1, Inl e) \<Rightarrow> (s1, errorResponse e)
          | (s1, Inr tests) \<Rightarrow>
              (s1, writeJSON 200 (map_option (\<lambda>j. JObj [(''agent_id'', JStr agentID),
                 (''pop'', JStr popName), (''tests'', j)])
                 (enc_all (enc_TestDef (ap_codec A)) tests)))))"

subsection \<open>Audit log\<close>

definition query_limit :: "http_request \<Rightarrow> int" where
  "query_limit rq =
     (let v = rq_Query rq ''limit''
      in if v = [] then 50
         else (case atoi v of None \<Rightarrow> 50 | Some n \<Rightarrow> if n > 0 \<and> n \<le> 1000 then n else 50))"

definition query_offset :: "http_request \<Rightarrow> int" where
  "query_offset rq =
     (let v = rq_Query rq ''offset''
      in if v = [] then 0
         else (case atoi v of None \<Rightarrow> 0 | Some n \<Rightarrow> if n \<ge> 0 then n else 0))"

definition AuditHandler_List ::
  "api_env \<Rightarrow> 's AuditRepository \<Rightarrow> http_request \<Rightarrow> 's \<Rightarrow> 's \<times> http_response" where
  "AuditHandler_List A aud rq s =
     (let resource = rq_Query rq ''resource''; resourceID = rq_Query rq ''resource_id''
      in list_response (enc_AuditEntry (ap_codec A))
           (if resource \<noteq> [] \<and> resourceID \<noteq> []
            then au_ListByResource aud resource resourceID (query_limit rq) s
            else au_List aud (query_limit rq) (query_offset rq) s))"

definition Healthz :: http_response where
  "Healthz = writeJSON 200 (Some (JObj [(''status'', JStr ''ok'')]))"

end
