(* ===== verification/RateLimit.thy ===== *)
theory RateLimit
  imports GoStrings
begin

text \<open>
  The token bucket rate limiter of the control plane (internal/server/api/middleware/ratelimit.go).
  Instants and durations are in nanoseconds, \<open>int\<close> and \<open>Duration\<close> have 64 bits, and a
  division by a zero interval panics (\<open>None\<close>). Both operations hold the mutex, so a run is a
  sequence of requests and cleanups; the instants are those of the monotonic clock.
\<close>

record bucket =
  tokens :: int
  lastRefill :: int

record RateLimiter =
  visitors :: "string \<rightharpoonup> bucket"
  rl_rate :: int
  rl_interval :: int
  rl_burst :: int

definition NewRateLimiter :: "int \<Rightarrow> int \<Rightarrow> int \<Rightarrow> RateLimiter" where
  "NewRateLimiter rate interval burst =
     \<lparr>visitors = Map.empty, rl_rate = rate, rl_interval = interval, rl_burst = burst\<rparr>"

definition refill :: "RateLimiter \<Rightarrow> int \<Rightarrow> int \<Rightarrow> bucket \<Rightarrow> bucket" where
  "refill rl now refills b =
     (if refills > 0
      then let t = wrap64 (tokens b + wrap64 (refills * rl_rate rl))
           in b\<lparr>tokens := if t > rl_burst rl then rl_burst rl else t, lastRefill := now\<rparr>
      else b)"

definition allow :: "RateLimiter \<Rightarrow> int \<Rightarrow> string \<Rightarrow> (RateLimiter \<times> bool) option" where
  "allow rl now key =
     (case visitors rl key of
        None \<Rightarrow>
          Some (rl\<lparr>visitors := (visitors rl)
                  (key \<mapsto> \<lparr>tokens = wrap64 (rl_burst rl - 1), lastRefill = now\<rparr>)\<rparr>, True)
      | Some b \<Rightarrow>
          if rl_interval rl = 0 then None
          else
            let elapsed = time_sub now (lastRefill b);
                b1 = refill rl now (wrap64 (elapsed sdiv rl_interval rl)) b
            in if tokens b1 \<le> 0
               then Some (rl\<lparr>visitors := (visitors rl)(key \<mapsto> b1)\<rparr>, False)
               else Some (rl\<lparr>visitors := (visitors rl)
                      (key \<mapsto> b1\<lparr>tokens := wrap64 (tokens b1 - 1)\<rparr>)\<rparr>, True))"

definition minutes :: "int \<Rightarrow> int" where
  "minutes n = n * 60000000000"

text \<open>One round of \<open>cleanup\<close>: the buckets last refilled before the cutoff are deleted.\<close>

definition cleanup :: "RateLimiter \<Rightarrow> int \<Rightarrow> RateLimiter" where
  "cleanup rl now =
     (let cutoff = now - minutes 10
      in rl\<lparr>visitors := (\<lambda>key. case visitors rl key of
              None \<Rightarrow> None
            | Some b \<Rightarrow> if lastRefill b < cutoff then None else Some b)\<rparr>)"

text \<open>
  \<open>Middleware\<close>: a refused request is answered with status 429, an allowed one is passed on
  (\<open>None\<close>). The key is \<open>RemoteAddr\<close>, which \<open>net/http\<close> sets to the address and the port of the
  client.
\<close>

record limited =
  l_headers :: "(string \<times> string) list"
  l_status :: int
  l_body :: string

definition Middleware :: "RateLimiter \<Rightarrow> int \<Rightarrow> string \<Rightarrow> (RateLimiter \<times> limited option) option" where
  "Middleware rl now remoteAddr =
     (case allow rl now remoteAddr of
        None \<Rightarrow> None
      | Some (rl', False) \<Rightarrow>
          Some (rl', Some \<lparr>l_headers = [(''Content-Type'', ''application/json''), (''Retry-After'', ''1'')],
            l_status = 429, l_body = ''{'' @ [CHR 0x22] @ ''error'' @ [CHR 0x22] @ '':'' @ [CHR 0x22]
              @ ''rate limit exceeded'' @ [CHR 0x22] @ ''}''\<rparr>)
      | Some (rl', True) \<Rightarrow> Some (rl', None))"

definition remote_addr :: "string \<Rightarrow> int \<Rightarrow> string" where
  "remote_addr ip port = ip @ '':'' @ itoa port"

subsection \<open>Runs\<close>

datatype rl_event = Request int string | CleanupTick int

fun event_time :: "rl_event \<Rightarrow> int" where
  "event_time (Request now key) = now"
| "event_time (CleanupTick now) = now"

text \<open>The decisions of a run for one key, in order; \<open>None\<close> when a request panics.\<close>

fun rl_run :: "string \<Rightarrow> rl_event list \<Rightarrow> RateLimiter \<Rightarrow> (RateLimiter \<times> bool list) option" where
  "rl_run k [] rl = Some (rl, [])"
| "rl_run k (CleanupTick now # es) rl = rl_run k es (cleanup rl now)"
| "rl_run k (Request now key # es) rl =
     (case allow rl now key of
        None \<Rightarrow> None
      | Some (rl', d) \<Rightarrow>
          map_option (\<lambda>(rl'', ds). (rl'', if key = k then d # ds else ds)) (rl_run k es rl'))"

definition granted :: "bool list \<Rightarrow> int" where
  "granted ds = int (length (filter (\<lambda>d. d) ds))"

lemma granted_simps [simp]:
  "granted [] = 0"
  "granted (d # ds) = (if d then 1 else 0) + granted ds"
  by (simp_all add: granted_def)


subsection \<open>The budget of a key\<close>

text \<open>The tokens a key earns from \<open>t0\<close> to \<open>t\<close>, beside the burst it starts with.\<close>

definition earned :: "RateLimiter \<Rightarrow> int \<Rightarrow> int \<Rightarrow> int" where
  "earned rl t0 t = rl_rate rl * ((t - t0) div rl_interval rl)"

text \<open>
  Sensible parameters, and a window short enough for the 64-bit arithmetic to be exact.
\<close>

definition limiter_ok :: "RateLimiter \<Rightarrow> int \<Rightarrow> int \<Rightarrow> bool" where
  "limiter_ok rl t0 t1 \<longleftrightarrow> 0 < rl_interval rl \<and> 0 \<le> rl_rate rl \<and> 1 \<le> rl_burst rl
     \<and> t0 \<le> t1 \<and> t1 - t0 < 2 ^ 63 \<and> rl_burst rl + earned rl t0 t1 < 2 ^ 63"

text \<open>A bucket that is old enough to be deleted would have been full again.\<close>

definition refills_in_time :: "RateLimiter \<Rightarrow> bool" where
  "refills_in_time rl \<longleftrightarrow> rl_burst rl \<le> rl_rate rl * (minutes 10 div rl_interval rl)"

lemma div_superadd: "0 < c \<Longrightarrow> a div c + b div c \<le> (a + b) div (c :: int)"
  using div_add1_eq [of a b c] pos_mod_sign [of c a] pos_mod_sign [of c b]
    pos_imp_zdiv_nonneg_iff [of c "a mod c + b mod c"] by simp

lemma earned_mono:
  "0 \<le> rl_rate rl \<Longrightarrow> 0 < rl_interval rl \<Longrightarrow> t \<le> u \<Longrightarrow> earned rl t0 t \<le> earned rl t0 u"
  unfolding earned_def by (intro mult_left_mono zdiv_mono1) auto

lemma earned_nonneg:
  "0 \<le> rl_rate rl \<Longrightarrow> 0 < rl_interval rl \<Longrightarrow> t0 \<le> t \<Longrightarrow> 0 \<le> earned rl t0 t"
  by (simp add: earned_def pos_imp_zdiv_nonneg_iff)

lemma earned_add:
  assumes "0 \<le> rl_rate rl" "0 < rl_interval rl"
  shows "earned rl t0 u + rl_rate rl * ((v - u) div rl_interval rl) \<le> earned rl t0 v"
proof -
  have "(u - t0) div rl_interval rl + (v - u) div rl_interval rl \<le> (v - t0) div rl_interval rl"
    using div_superadd [OF assms(2), of "u - t0" "v - u"] by simp
  from mult_left_mono [OF this assms(1)] show ?thesis by (simp add: earned_def algebra_simps)
qed

definition key_inv :: "RateLimiter \<Rightarrow> string \<Rightarrow> int \<Rightarrow> int \<Rightarrow> int \<Rightarrow> bool" where
  "key_inv rl k t0 T n \<longleftrightarrow>
     (case visitors rl k of
        None \<Rightarrow> n = 0 \<or> (\<exists>lr. t0 \<le> lr \<and> lr + minutes 10 < T \<and> n \<le> rl_burst rl + earned rl t0 lr)
      | Some b \<Rightarrow> t0 \<le> lastRefill b \<and> lastRefill b \<le> T \<and> 0 \<le> tokens b
          \<and> tokens b \<le> rl_burst rl \<and> n + tokens b \<le> rl_burst rl + earned rl t0 (lastRefill b))"

lemma key_inv_bound:
  assumes "key_inv rl k t0 T n" "limiter_ok rl t0 t1" "t0 \<le> T"
  shows "n \<le> rl_burst rl + earned rl t0 T"
proof -
  have mono: "t \<le> T \<Longrightarrow> earned rl t0 t \<le> earned rl t0 T" for t
    using assms(2) by (intro earned_mono) (auto simp: limiter_ok_def)
  have "0 \<le> earned rl t0 T"
    using assms(2,3) by (intro earned_nonneg) (auto simp: limiter_ok_def)
  then have base: "0 \<le> rl_burst rl + earned rl t0 T" using assms(2) by (simp add: limiter_ok_def)
  show ?thesis
  proof (cases "visitors rl k")
    case None
    with assms(1) consider "n = 0" | lr where "lr + minutes 10 < T" "n \<le> rl_burst rl + earned rl t0 lr"
      by (auto simp: key_inv_def)
    then show ?thesis
    proof cases
      case 1
      with base show ?thesis by simp
    next
      case (2 lr)
      then show ?thesis using mono [of lr] by (simp add: minutes_def)
    qed
  next
    case (Some b)
    with assms(1) mono [of "lastRefill b"] show ?thesis by (simp add: key_inv_def)
  qed
qed

lemma key_inv_later: "key_inv rl k t0 T n \<Longrightarrow> T \<le> T' \<Longrightarrow> key_inv rl k t0 T' n"
  by (fastforce simp: key_inv_def split: option.splits)

lemma key_inv_cleanup:
  "key_inv rl k t0 T n \<Longrightarrow> T \<le> now \<Longrightarrow> limiter_ok rl t0 t1 \<Longrightarrow> key_inv (cleanup rl now) k t0 now n"
  by (fastforce simp: key_inv_def cleanup_def Let_def earned_def split: option.splits)

text \<open>The refill of a bucket, with the arithmetic exact.\<close>

lemma refill_inv:
  assumes ok: "limiter_ok rl t0 t1" and b: "t0 \<le> lastRefill b" "0 \<le> tokens b"
      "n + tokens b \<le> rl_burst rl + earned rl t0 (lastRefill b)" "tokens b \<le> rl_burst rl"
    and now: "lastRefill b \<le> now" "now \<le> t1"
  defines "b1 \<equiv> refill rl now (wrap64 (time_sub now (lastRefill b) sdiv rl_interval rl)) b"
  shows "t0 \<le> lastRefill b1 \<and> lastRefill b1 \<le> now \<and> 0 \<le> tokens b1 \<and> tokens b1 \<le> rl_burst rl
    \<and> n + tokens b1 \<le> rl_burst rl + earned rl t0 (lastRefill b1)"
proof -
  let ?I = "rl_interval rl" and ?lr = "lastRefill b"
  define r where "r = (now - ?lr) div ?I"
  have I: "0 < ?I" "0 \<le> rl_rate rl" "1 \<le> rl_burst rl" using ok by (auto simp: limiter_ok_def)
  have sub: "time_sub now ?lr = now - ?lr"
    using ok b(1) now by (auto simp: time_sub_def limiter_ok_def)
  have r0: "0 \<le> r" using I now by (simp add: r_def pos_imp_zdiv_nonneg_iff)
  have "r \<le> now - ?lr" using zdiv_mono2 [of "now - ?lr" 1 ?I] I now by (simp add: r_def)
  then have r: "wrap64 (time_sub now ?lr sdiv ?I) = r"
    using sub I now r0 ok b(1)
    by (subst sub, subst sdiv_nonneg) (auto simp: r_def [symmetric] wrap64_id in_int64_def limiter_ok_def)
  have earn: "earned rl t0 ?lr + r * rl_rate rl \<le> earned rl t0 now"
    using earned_add [OF I(2,1), of t0 ?lr now] by (simp add: r_def mult.commute)
  have lim: "rl_burst rl + earned rl t0 now < 2 ^ 63"
    using ok earned_mono [OF I(2,1) now(2), of t0] by (auto simp: limiter_ok_def)
  have pos: "0 \<le> r * rl_rate rl" "0 \<le> earned rl t0 ?lr"
    using r0 I b(1) by (auto intro: earned_nonneg)
  have w: "wrap64 (tokens b + wrap64 (r * rl_rate rl)) = tokens b + r * rl_rate rl"
    using earn lim pos b I by (simp add: wrap64_id in_int64_def)
  show ?thesis
    unfolding b1_def r refill_def w Let_def using earn pos b now I by auto
qed


definition same_params :: "RateLimiter \<Rightarrow> RateLimiter \<Rightarrow> bool" where
  "same_params rl rl' \<longleftrightarrow> rl_rate rl' = rl_rate rl \<and> rl_interval rl' = rl_interval rl
     \<and> rl_burst rl' = rl_burst rl"

lemma same_params_ok:
  "same_params rl rl' \<Longrightarrow> limiter_ok rl' = limiter_ok rl"
  "same_params rl rl' \<Longrightarrow> refills_in_time rl' = refills_in_time rl"
  "same_params rl rl' \<Longrightarrow> earned rl' = earned rl"
  by (auto simp: same_params_def limiter_ok_def refills_in_time_def earned_def fun_eq_iff)

lemma same_params_allow: "allow rl now key = Some (rl', d) \<Longrightarrow> same_params rl rl'"
  by (auto simp: allow_def same_params_def Let_def split: option.splits if_splits)

lemma same_params_cleanup: "same_params rl (cleanup rl now)"
  by (simp add: cleanup_def same_params_def Let_def)

lemma allow_total: "rl_interval rl \<noteq> 0 \<Longrightarrow> allow rl now key \<noteq> None"
  by (auto simp: allow_def Let_def split: option.split)

lemma allow_other:
  "allow rl now key = Some (rl', d) \<Longrightarrow> key \<noteq> k \<Longrightarrow> visitors rl' k = visitors rl k"
  by (auto simp: allow_def Let_def split: option.splits if_splits)

lemma allow_new_inv:
  assumes inv: "key_inv rl k t0 T n" and ok: "limiter_ok rl t0 t1" and fast: "refills_in_time rl"
    and now: "t0 \<le> T" "T \<le> now" and new: "visitors rl k = None"
  shows "n + rl_burst rl \<le> rl_burst rl + earned rl t0 now"
proof -
  have p: "0 \<le> rl_rate rl" "0 < rl_interval rl" using ok by (auto simp: limiter_ok_def)
  from inv new consider "n = 0"
    | lr where "lr + minutes 10 < T" "n \<le> rl_burst rl + earned rl t0 lr"
    by (auto simp: key_inv_def)
  then show ?thesis
  proof cases
    case 1
    with now earned_nonneg [OF p, of t0 now] show ?thesis by simp
  next
    case (2 lr)
    have "minutes 10 div rl_interval rl \<le> (now - lr) div rl_interval rl"
      using 2(1) now p by (intro zdiv_mono1) auto
    then have "rl_burst rl \<le> rl_rate rl * ((now - lr) div rl_interval rl)"
      using fast mult_left_mono [OF _ p(1)] by (force simp: refills_in_time_def)
    with 2(2) earned_add [OF p, of t0 lr now] show ?thesis by simp
  qed
qed

lemma allow_inv:
  assumes inv: "key_inv rl k t0 T n" and ok: "limiter_ok rl t0 t1" and fast: "refills_in_time rl"
    and now: "t0 \<le> T" "T \<le> now" "now \<le> t1" and al: "allow rl now key = Some (rl', d)"
  shows "key_inv rl' k t0 now (if key = k \<and> d then n + 1 else n)"
proof (cases "key = k")
  case False
  have "earned rl' = earned rl" by (rule same_params_ok(3) [OF same_params_allow [OF al]])
  moreover have "rl_burst rl' = rl_burst rl"
    using same_params_allow [OF al] by (simp add: same_params_def)
  ultimately show ?thesis
    using allow_other [OF al False] key_inv_later [OF inv now(2)] False
    by (simp add: key_inv_def split: option.splits)
next
  case key: True
  have burst: "in_int64 (rl_burst rl - 1)" "1 \<le> rl_burst rl"
    using ok earned_nonneg [of rl t0 t1] by (auto simp: limiter_ok_def in_int64_def)
  show ?thesis
  proof (cases "visitors rl k")
    case None
    with al key have "rl' = rl\<lparr>visitors := (visitors rl)(k \<mapsto> \<lparr>tokens = rl_burst rl - 1, lastRefill = now\<rparr>)\<rparr>"
        "d = True"
      by (auto simp: allow_def wrap64_id burst)
    with allow_new_inv [OF inv ok fast now(1,2) None] burst now key show ?thesis
      by (simp add: key_inv_def earned_def)
  next
    case (Some b)
    define b1 where "b1 = refill rl now (wrap64 (time_sub now (lastRefill b) sdiv rl_interval rl)) b"
    have b1: "t0 \<le> lastRefill b1 \<and> lastRefill b1 \<le> now \<and> 0 \<le> tokens b1 \<and> tokens b1 \<le> rl_burst rl
        \<and> n + tokens b1 \<le> rl_burst rl + earned rl t0 (lastRefill b1)"
      unfolding b1_def using inv now Some by (intro refill_inv [OF ok]) (auto simp: key_inv_def)
    have "rl_interval rl \<noteq> 0" using ok by (simp add: limiter_ok_def)
    with al key Some have "rl' = (if tokens b1 \<le> 0 then rl\<lparr>visitors := (visitors rl)(k \<mapsto> b1)\<rparr>
        else rl\<lparr>visitors := (visitors rl)(k \<mapsto> b1\<lparr>tokens := wrap64 (tokens b1 - 1)\<rparr>)\<rparr>)"
        "d \<longleftrightarrow> \<not> tokens b1 \<le> 0"
      by (auto simp: allow_def Let_def b1_def split: if_splits)
    moreover have "wrap64 (tokens b1 - 1) = tokens b1 - 1" if "\<not> tokens b1 \<le> 0"
      using that b1 burst by (intro wrap64_id) (auto simp: in_int64_def)
    ultimately show ?thesis using b1 key by (auto simp: key_inv_def earned_def)
  qed
qed

text \<open>The events of a run are in the order of their instants, within the window.\<close>

fun times_from :: "int \<Rightarrow> int \<Rightarrow> rl_event list \<Rightarrow> bool" where
  "times_from T t1 [] \<longleftrightarrow> T \<le> t1"
| "times_from T t1 (e # es) \<longleftrightarrow> T \<le> event_time e \<and> times_from (event_time e) t1 es"

lemma times_from_le: "times_from T t1 es \<Longrightarrow> T \<le> t1"
  by (induction es arbitrary: T) (auto intro: order_trans)

lemma rl_run_budget:
  assumes "key_inv rl k t0 T n" "limiter_ok rl t0 t1" "refills_in_time rl" "t0 \<le> T"
    "times_from T t1 es"
  shows "\<exists>rl' ds. rl_run k es rl = Some (rl', ds)
    \<and> n + granted ds \<le> rl_burst rl + earned rl t0 t1"
  using assms
proof (induction k es rl arbitrary: T n rule: rl_run.induct)
  case (1 k rl)
  from key_inv_bound [OF "1.prems"(1,2,4)] "1.prems"
    earned_mono [of rl T t1 t0] show ?case
    by (auto simp: limiter_ok_def)
next
  case (2 k now es rl)
  have par: "same_params rl (cleanup rl now)" by (rule same_params_cleanup)
  have "key_inv (cleanup rl now) k t0 now n"
    using "2.prems" by (intro key_inv_cleanup) auto
  from "2.IH" [OF this] "2.prems" par show ?case
    by (simp add: same_params_ok) (simp add: same_params_def)
next
  case (3 k now key es rl)
  have now: "T \<le> now" "now \<le> t1" "times_from now t1 es"
    using "3.prems"(5) times_from_le by auto
  obtain rl' d where al: "allow rl now key = Some (rl', d)"
    using allow_total [of rl now key] "3.prems"(2) by (cases "allow rl now key") (auto simp: limiter_ok_def)
  have par: "same_params rl rl'" by (rule same_params_allow [OF al])
  have "key_inv rl' k t0 now (if key = k \<and> d then n + 1 else n)"
    by (rule allow_inv [OF "3.prems"(1-4) now(1,2) al])
  from "3.IH" [OF al refl this] "3.prems" now(3) \<open>T \<le> now\<close> obtain rl'' ds where
      "rl_run k es rl' = Some (rl'', ds)"
      "(if key = k \<and> d then n + 1 else n) + granted ds \<le> rl_burst rl' + earned rl' t0 t1"
    by (auto simp: same_params_ok [OF par])
  moreover have "rl_burst rl' = rl_burst rl" "earned rl' = earned rl"
    using par same_params_ok(3) [OF par] by (simp_all add: same_params_def)
  ultimately show ?case using al by (cases d) auto
qed


lemma key_inv_new: "key_inv (NewRateLimiter rate interval burst) k t0 t0 0"
  by (simp add: key_inv_def NewRateLimiter_def)

subsection \<open>Properties\<close>

text \<open>
  C10: whatever the other clients do and whenever the cleanup runs, a key is granted at most
  the burst plus the rate for every whole interval of a window, and no request panics. The
  hypotheses are sensible parameters, a bucket that fills up within the ten minutes after
  which it may be deleted, and a window the 64-bit arithmetic can represent.
\<close>

theorem rate_limit_bound:
  assumes "limiter_ok (NewRateLimiter rate interval burst) t0 t1"
    and "refills_in_time (NewRateLimiter rate interval burst)" and "times_from t0 t1 es"
  shows "\<exists>rl' ds. rl_run k es (NewRateLimiter rate interval burst) = Some (rl', ds)
    \<and> granted ds \<le> burst + rate * ((t1 - t0) div interval)"
  using rl_run_budget [OF key_inv_new assms(1,2) order_refl assms(3), of k]
  by (simp add: earned_def) (simp add: NewRateLimiter_def)

text \<open>The parameters of the router: 100 per second, bursts of 200.\<close>

lemma rate_limit_bound_witness:
  "\<exists>rl' ds. rl_run ''a'' [Request 5 ''a'', Request 6 ''b'', CleanupTick 7, Request 8 ''a'']
       (NewRateLimiter 100 1000000000 200) = Some (rl', ds) \<and> granted ds \<le> 300"
  using rate_limit_bound [of 100 1000000000 200 0 1000000000
      "[Request 5 ''a'', Request 6 ''b'', CleanupTick 7, Request 8 ''a'']" "''a''"]
  by (simp add: limiter_ok_def refills_in_time_def earned_def NewRateLimiter_def minutes_def)

text \<open>How many of the requests of the given clients at one instant are passed on.\<close>

fun passed :: "int \<Rightarrow> string list \<Rightarrow> RateLimiter \<Rightarrow> nat option" where
  "passed now [] rl = Some 0"
| "passed now (key # keys) rl =
     (case Middleware rl now key of
        None \<Rightarrow> None
      | Some (rl', response) \<Rightarrow>
          map_option (\<lambda>n. if response = None then Suc n else n) (passed now keys rl'))"

lemma passed_fresh:
  assumes "distinct keys" "set keys \<inter> dom (visitors rl) = {}"
  shows "passed now keys rl = Some (length keys)"
  using assms
proof (induction keys arbitrary: rl)
  case (Cons key keys)
  let ?rl = "rl\<lparr>visitors := (visitors rl)
    (key \<mapsto> \<lparr>tokens = wrap64 (rl_burst rl - 1), lastRefill = now\<rparr>)\<rparr>"
  have "visitors rl key = None" using Cons.prems by auto
  then have m: "Middleware rl now key = Some (?rl, None)"
    by (simp add: Middleware_def allow_def)
  have "passed now keys ?rl = Some (length keys)"
    using Cons.prems by (intro Cons.IH) (auto split: if_splits)
  then show ?case unfolding passed.simps m by simp
qed simp

text \<open>
  The limit does not hold per address. Connections from different ports of one address have
  buckets of their own, so all their requests at one instant are let through, whatever the
  burst.
\<close>

theorem rate_limit_not_per_address:
  assumes "distinct ports"
  shows "passed now (map (remote_addr ip) ports) (NewRateLimiter rate interval burst) =
    Some (length ports)"
proof -
  have "distinct (map (remote_addr ip) ports)"
    using assms by (simp add: distinct_map inj_on_def remote_addr_def)
  from passed_fresh [OF this, of "NewRateLimiter rate interval burst" now]
  show ?thesis by (simp add: NewRateLimiter_def)
qed

lemma rate_limit_not_per_address_witness:
  "passed 0 (map (remote_addr ''192.0.2.1'') [5000, 5001, 5002]) (NewRateLimiter 1 1 1) = Some 3"
  by (subst rate_limit_not_per_address) simp_all

text \<open>
  For a limit that takes longer than ten minutes to refill, the cleanup hands out the burst
  again: with one request per hour and bursts of two, four requests pass within eleven minutes.
\<close>

theorem cleanup_resets_slow_limits:
  "map_option snd (rl_run ''a'' [Request 0 ''a'', Request 0 ''a'', CleanupTick (minutes 11),
      Request (minutes 11) ''a'', Request (minutes 11) ''a''] (NewRateLimiter 1 (minutes 60) 2)) =
    Some [True, True, True, True]"
  by (simp add: NewRateLimiter_def allow_def cleanup_def minutes_def Let_def refill_def
      time_sub_def wrap64_def signed_divide_int_def)

end
