(* ===== verification/ApiMiddleware.thy ===== *)
theory ApiMiddleware
  imports Handlers RateLimit
begin

text \<open>
  The authentication and audit middleware of the control plane
  (internal/server/api/middleware/auth.go, audit.go). A middleware wraps a handler. The
  goroutines it starts are jobs that run later or never: the handler returns them in the order
  in which they are started.
\<close>

datatype job = TouchLastUsed string | RecordAudit AuditEntry

text \<open>A handler behind the middleware: the state, the response and the jobs.\<close>

type_synonym 's http_handler = "http_request \<Rightarrow> 's \<Rightarrow> 's \<times> http_response \<times> job list"

definition no_jobs :: "(http_request \<Rightarrow> 's \<Rightarrow> 's \<times> http_response) \<Rightarrow> 's http_handler" where
  "no_jobs h rq s = (case h rq s of (s', r) \<Rightarrow> (s', r, []))"

subsection \<open>Authentication\<close>

definition extractBearerToken :: "http_request \<Rightarrow> string" where
  "extractBearerToken rq =
     (let auth = rq_Header rq ''Authorization''
      in if has_prefix auth ''Bearer '' then trim_prefix auth ''Bearer '' else [])"

definition hex_byte :: "char \<Rightarrow> string" where
  "hex_byte c =
     (let n = of_char c :: nat; digits = ''0123456789abcdef''
      in [digits ! (n div 16), digits ! (n mod 16)])"

definition hex_encode :: "bytes \<Rightarrow> string" where
  "hex_encode b = concat (map hex_byte b)"

text \<open>The key store has the hexadecimal SHA-256 of a key; the hash function is an argument.\<close>

definition hashKey :: "(bytes \<Rightarrow> bytes) \<Rightarrow> string \<Rightarrow> string" where
  "hashKey sha256 raw = hex_encode (sha256 raw)"

definition unauthorized :: http_response where
  "unauthorized = \<lparr>rp_Status = 401, rp_Body = Some (JObj [(''error'', JStr ''unauthorized'')])\<rparr>"

definition forbidden :: http_response where
  "forbidden = \<lparr>rp_Status = 403, rp_Body = Some (JObj [(''error'', JStr ''forbidden'')])\<rparr>"

text \<open>\<open>key.ExpiresAt.Before(time.Now())\<close>.\<close>

definition expired :: "int \<Rightarrow> APIKey \<Rightarrow> bool" where
  "expired now key = (case ky_ExpiresAt key of None \<Rightarrow> False | Some t \<Rightarrow> t < now)"

definition APIKeyAuth ::
  "(bytes \<Rightarrow> bytes) \<Rightarrow> 's APIKeyRepository \<Rightarrow> string list \<Rightarrow> int \<Rightarrow> 's http_handler
     \<Rightarrow> 's http_handler" where
  "APIKeyAuth sha256 keys allowedRoles now handler rq s =
     (let token = extractBearerToken rq
      in if token = [] then (s, unauthorized, [])
         else (case kr_GetByHash keys (hashKey sha256 token) s of
            (s1, Inl _) \<Rightarrow> (s1, unauthorized, [])
          | (s1, Inr key) \<Rightarrow>
              if expired now key then (s1, unauthorized, [])
              else if length allowedRoles > 0 \<and> ky_Role key \<notin> set allowedRoles
              then (s1, forbidden, [])
              else (case handler (rq\<lparr>rq_AuthRole := Some (ky_Role key),
                                     rq_AuthID := Some (ky_ID key)\<rparr>) s1 of
                      (s2, r, jobs) \<Rightarrow> (s2, r, TouchLastUsed (ky_ID key) # jobs))))"

subsection \<open>Audit log\<close>

definition isMutation :: "string \<Rightarrow> bool" where
  "isMutation m \<longleftrightarrow> m \<in> set [''POST'', ''PUT'', ''PATCH'', ''DELETE'']"

definition methodToAction :: "string \<Rightarrow> string" where
  "methodToAction m =
     (if m = ''POST'' then ''create''
      else if m = ''PUT'' \<or> m = ''PATCH'' then ''update''
      else if m = ''DELETE'' then ''delete''
      else m)"

definition extractResource :: "http_request \<Rightarrow> string \<times> string" where
  "extractResource rq =
     (case rq_Pattern rq of
        None \<Rightarrow> (''unknown'', [])
      | Some pattern \<Rightarrow>
          let parts = str_split (CHR ''/'') (trim_prefix pattern ''/api/v1/'');
              resource = parts ! 0;
              resourceID = (if URLParam rq ''id'' \<noteq> [] then URLParam rq ''id''
                            else if URLParam rq ''name'' \<noteq> [] then URLParam rq ''name''
                            else [])
          in (if length parts > 2 then resource @ ''.'' @ parts ! (length parts - 1)
              else resource, resourceID))"

definition extractActorID :: "http_request \<Rightarrow> string" where
  "extractActorID rq = (case rq_AuthID rq of Some i \<Rightarrow> i | None \<Rightarrow> ''anonymous'')"

definition extractActorRole :: "http_request \<Rightarrow> string" where
  "extractActorRole rq = (case rq_AuthRole rq of Some r \<Rightarrow> r | None \<Rightarrow> ''unknown'')"

text \<open>\<open>strings.SplitN(xff, ",", 2)[0]\<close> is what stands before the first comma.\<close>

definition extractIP :: "http_request \<Rightarrow> string" where
  "extractIP rq =
     (let xff = rq_Header rq ''X-Forwarded-For''; xri = rq_Header rq ''X-Real-IP'';
          addr = rq_RemoteAddr rq
      in if xff \<noteq> [] then trim_space (takeWhile (\<lambda>c. c \<noteq> CHR '','') xff)
         else if xri \<noteq> [] then xri
         else (case last_index (CHR '':'') addr of None \<Rightarrow> addr | Some i \<Rightarrow> take i addr))"

text \<open>The body as the change diff, unless it is empty or has 10 KiB or more.\<close>

definition change_diff :: "bytes \<Rightarrow> bytes option" where
  "change_diff body = (if length body > 0 \<and> length body < 10240 then Some body else None)"

definition audit_entry :: "int \<Rightarrow> http_request \<Rightarrow> AuditEntry" where
  "audit_entry now rq =
     (let (resource, resourceID) = extractResource rq
      in \<lparr>ae_ID = 0, ae_Timestamp = now, ae_ActorID = extractActorID rq,
          ae_ActorRole = extractActorRole rq, ae_Action = methodToAction (rq_Method rq),
          ae_Resource = resource, ae_ResourceID = resourceID, ae_SourceIP = extractIP rq,
          ae_ChangeDiff = change_diff (rq_Body rq)\<rparr>)"

text \<open>\<open>now\<close> is the clock after the handler has returned.\<close>

definition AuditLogger :: "int \<Rightarrow> 's http_handler \<Rightarrow> 's http_handler" where
  "AuditLogger now handler rq s =
     (if \<not> isMutation (rq_Method rq) then handler rq s
      else (case handler rq s of
         (s1, r, jobs) \<Rightarrow>
           if rp_Status r \<ge> 200 \<and> rp_Status r < 400
           then (s1, r, jobs @ [RecordAudit (audit_entry now rq)])
           else (s1, r, jobs)))"

end
