(* ===== verification/Router.thy ===== *)
theory Router
  imports ApiMiddleware
begin

text \<open>
  The router of the control plane (internal/server/api/router/router.go) with its chain of
  middleware, and the server as a state machine: requests, the jobs that the requests leave
  behind, the cleanup of the rate limiter and restarts, in any order.
\<close>

subsection \<open>Routes\<close>

record 's deps =
  dp_Agents :: "'s AgentRepository"
  dp_POPs :: "'s POPRepository"
  dp_Tests :: "'s TestRepository"
  dp_Assignments :: "'s TestAssignmentRepository"
  dp_APIKeys :: "'s APIKeyRepository"
  dp_Audit :: "'s AuditRepository option"

datatype endpoint =
    AgentRegister | AgentList | AgentGet | AgentDelete | AgentHeartbeat | AgentConfig
  | POPCreate | POPList | POPGet | POPDelete
  | TestCreate | TestList | TestGet | TestUpdate | TestDelete | TestAssign
  | AuditList

text \<open>The method and the pattern each endpoint is registered with.\<close>

fun route :: "endpoint \<Rightarrow> string \<times> string" where
  "route AgentRegister = (''POST'', ''/api/v1/agents'')"
| "route AgentList = (''GET'', ''/api/v1/agents'')"
| "route AgentGet = (''GET'', ''/api/v1/agents/{id}'')"
| "route AgentDelete = (''DELETE'', ''/api/v1/agents/{id}'')"
| "route AgentHeartbeat = (''POST'', ''/api/v1/agents/{id}/heartbeat'')"
| "route AgentConfig = (''GET'', ''/api/v1/agents/{id}/config'')"
| "route POPCreate = (''POST'', ''/api/v1/pops'')"
| "route POPList = (''GET'', ''/api/v1/pops'')"
| "route POPGet = (''GET'', ''/api/v1/pops/{name}'')"
| "route POPDelete = (''DELETE'', ''/api/v1/pops/{name}'')"
| "route TestCreate = (''POST'', ''/api/v1/tests'')"
| "route TestList = (''GET'', ''/api/v1/tests'')"
| "route TestGet = (''GET'', ''/api/v1/tests/{id}'')"
| "route TestUpdate = (''PUT'', ''/api/v1/tests/{id}'')"
| "route TestDelete = (''DELETE'', ''/api/v1/tests/{id}'')"
| "route TestAssign = (''POST'', ''/api/v1/tests/{id}/assign'')"
| "route AuditList = (''GET'', ''/api/v1/audit'')"

text \<open>
  What chi finds for the method and path of a request: the health check, an endpoint of the API
  with the URL parameters, no endpoint below \<open>/api/v1\<close>, or nothing; the last two with the
  status 404 or 405. The middleware of the API also wraps its not-found handler.
\<close>

datatype chi_match =
    Health_route
  | Api_route endpoint "(string \<times> string) list"
  | Api_no_route int
  | No_route int

definition endpoint_handler ::
  "api_env \<Rightarrow> 's deps \<Rightarrow> int \<Rightarrow> endpoint \<Rightarrow> http_request \<Rightarrow> 's \<Rightarrow> 's \<times> http_response" where
  "endpoint_handler A D now ep rq s =
     (case ep of
        AgentRegister \<Rightarrow> AgentHandler_Register A (dp_Agents D) (dp_POPs D) now rq s
      | AgentList \<Rightarrow> AgentHandler_List A (dp_Agents D) s
      | AgentGet \<Rightarrow> AgentHandler_Get A (dp_Agents D) rq s
      | AgentDelete \<Rightarrow> AgentHandler_Delete (dp_Agents D) rq s
      | AgentHeartbeat \<Rightarrow> AgentHandler_Heartbeat A (dp_Agents D) now rq s
      | AgentConfig \<Rightarrow> SyncHandler_ConfigSync A (dp_Tests D) rq s
      | POPCreate \<Rightarrow> POPHandler_Create A (dp_POPs D) rq s
      | POPList \<Rightarrow> POPHandler_List A (dp_POPs D) s
      | POPGet \<Rightarrow> POPHandler_Get A (dp_POPs D) rq s
      | POPDelete \<Rightarrow> POPHandler_Delete (dp_POPs D) rq s
      | TestCreate \<Rightarrow> TestHandler_Create A (dp_Tests D) (dp_Assignments D) rq s
      | TestList \<Rightarrow> TestHandler_List A (dp_Tests D) s
      | TestGet \<Rightarrow> TestHandler_Get A (dp_Tests D) rq s
      | TestUpdate \<Rightarrow> TestHandler_Update A (dp_Tests D) rq s
      | TestDelete \<Rightarrow> TestHandler_Delete (dp_Tests D) rq s
      | TestAssign \<Rightarrow> TestHandler_Assign A (dp_Tests D) (dp_Assignments D) rq s
      | AuditList \<Rightarrow>
          (case dp_Audit D of
             None \<Rightarrow> (s, \<lparr>rp_Status = 404, rp_Body = None\<rparr>)
           | Some aud \<Rightarrow> AuditHandler_List A aud rq s))"

text \<open>The clock at the limiter, the authentication, the handler and the audit entry.\<close>

record clocks =
  ck_limit :: int
  ck_auth :: int
  ck_handler :: int
  ck_audit :: int

definition with_audit :: "'s deps \<Rightarrow> int \<Rightarrow> 's http_handler \<Rightarrow> 's http_handler" where
  "with_audit D now handler = (case dp_Audit D of None \<Rightarrow> handler | Some _ \<Rightarrow> AuditLogger now handler)"

text \<open>The routes below \<open>/api/v1\<close>: authentication without role restriction, then the audit log.\<close>

definition api_handler ::
  "api_env \<Rightarrow> (bytes \<Rightarrow> bytes) \<Rightarrow> 's deps \<Rightarrow> clocks \<Rightarrow> 's http_handler \<Rightarrow> 's http_handler" where
  "api_handler A sha256 D ck handler =
     APIKeyAuth sha256 (dp_APIKeys D) [] (ck_auth ck) (with_audit D (ck_audit ck) handler)"

definition plain_status :: "int \<Rightarrow> 's http_handler" where
  "plain_status status rq s = (s, \<lparr>rp_Status = status, rp_Body = None\<rparr>, [])"

definition dispatch ::
  "api_env \<Rightarrow> (bytes \<Rightarrow> bytes) \<Rightarrow> 's deps \<Rightarrow> clocks \<Rightarrow> chi_match \<Rightarrow> 's http_handler" where
  "dispatch A sha256 D ck m rq s =
     (case m of
        Health_route \<Rightarrow> (s, Healthz, [])
      | Api_route ep params \<Rightarrow>
          api_handler A sha256 D ck (no_jobs (endpoint_handler A D (ck_handler ck) ep))
            (rq\<lparr>rq_Params := params, rq_Pattern := Some (snd (route ep))\<rparr>) s
      | Api_no_route status \<Rightarrow> api_handler A sha256 D ck (plain_status status) rq s
      | No_route status \<Rightarrow> plain_status status rq s)"

subsection \<open>The server\<close>

record 's server =
  sv_state :: 's
  sv_limiter :: RateLimiter
  sv_jobs :: "job list"

definition router_limiter :: RateLimiter where
  "router_limiter = NewRateLimiter 100 1000000000 200"

definition new_server :: "'s \<Rightarrow> 's server" where
  "new_server s = \<lparr>sv_state = s, sv_limiter = router_limiter, sv_jobs = []\<rparr>"

definition too_many_requests :: http_response where
  "too_many_requests =
     \<lparr>rp_Status = 429, rp_Body = Some (JObj [(''error'', JStr ''rate limit exceeded'')])\<rparr>"

text \<open>One request; \<open>None\<close> when the limiter panics.\<close>

definition serve ::
  "api_env \<Rightarrow> (bytes \<Rightarrow> bytes) \<Rightarrow> 's deps \<Rightarrow> clocks \<Rightarrow> chi_match \<Rightarrow> http_request \<Rightarrow> 's server
     \<Rightarrow> ('s server \<times> http_response) option" where
  "serve A sha256 D ck m rq sv =
     (case Middleware (sv_limiter sv) (ck_limit ck) (rq_RemoteAddr rq) of
        None \<Rightarrow> None
      | Some (rl, Some _) \<Rightarrow> Some (sv\<lparr>sv_limiter := rl\<rparr>, too_many_requests)
      | Some (rl, None) \<Rightarrow>
          (case dispatch A sha256 D ck m rq (sv_state sv) of
             (s, r, jobs) \<Rightarrow>
               Some (sv\<lparr>sv_state := s, sv_limiter := rl, sv_jobs := sv_jobs sv @ jobs\<rparr>, r)))"

definition run_job :: "'s deps \<Rightarrow> job \<Rightarrow> 's \<Rightarrow> 's" where
  "run_job D j s =
     (case j of
        TouchLastUsed i \<Rightarrow> fst (kr_TouchLastUsed (dp_APIKeys D) i s)
      | RecordAudit e \<Rightarrow> (case dp_Audit D of None \<Rightarrow> s | Some aud \<Rightarrow> fst (au_Record aud e s)))"

text \<open>
  The jobs run in any order, after any number of further requests. A restart forgets them and
  the limiter's buckets. A request is one step: the statements of concurrent requests are not
  interleaved.
\<close>

inductive server_step ::
  "api_env \<Rightarrow> (bytes \<Rightarrow> bytes) \<Rightarrow> 's deps \<Rightarrow> 's server \<Rightarrow> 's server \<Rightarrow> bool"
  for A sha256 D where
  request: "serve A sha256 D ck m rq sv = Some (sv', r) \<Longrightarrow> server_step A sha256 D sv sv'"
| job: "sv_jobs sv = js @ j # ks \<Longrightarrow>
    server_step A sha256 D sv (sv\<lparr>sv_state := run_job D j (sv_state sv), sv_jobs := js @ ks\<rparr>)"
| cleanup: "server_step A sha256 D sv (sv\<lparr>sv_limiter := cleanup (sv_limiter sv) now\<rparr>)"
| restart: "server_step A sha256 D sv (new_server (sv_state sv))"

inductive reachable_server ::
  "api_env \<Rightarrow> (bytes \<Rightarrow> bytes) \<Rightarrow> 's deps \<Rightarrow> 's \<Rightarrow> 's server \<Rightarrow> bool"
  for A sha256 D s0 where
  start: "reachable_server A sha256 D s0 (new_server s0)"
| step: "reachable_server A sha256 D s0 sv \<Longrightarrow> server_step A sha256 D sv sv' \<Longrightarrow>
    reachable_server A sha256 D s0 sv'"

inductive_cases server_stepE: "server_step A sha256 D sv sv'"

subsection \<open>What holds of every repository operation holds of the server\<close>

text \<open>A test definition as the handlers check it.\<close>

definition valid_test :: "TestDef \<Rightarrow> bool" where
  "valid_test t \<longleftrightarrow> df_ID t \<noteq> [] \<and> df_Name t \<noteq> [] \<and> df_TestType t \<in> set validTestTypes
     \<and> df_Target t \<noteq> []"

lemma valid_new_test: "validateCreateRequest A req = None \<Longrightarrow> valid_test (new_test req)"
  by (auto simp: validateCreateRequest_def valid_test_def new_test_def split: if_splits)

lemma valid_merge_update:
  "valid_test t \<Longrightarrow> ut_TestType req = [] \<or> ut_TestType req \<in> set validTestTypes \<Longrightarrow>
   valid_test (merge_update req t)"
  by (auto simp: valid_test_def merge_update_def)

text \<open>
  An invariant of the state that every operation of the repositories keeps, where the test
  definitions that are written are valid; the definitions that are read must be valid too.
\<close>

locale api_invariant =
  fixes D :: "'s deps" and I :: "'s \<Rightarrow> bool"
  assumes agents_keep: "I s \<Longrightarrow> I (fst (ar_Create (dp_Agents D) a s))"
      "I s \<Longrightarrow> I (fst (ar_Get (dp_Agents D) i s))" "I s \<Longrightarrow> I (fst (ar_List (dp_Agents D) s))"
      "I s \<Longrightarrow> I (fst (ar_UpdateHeartbeat (dp_Agents D) i hb s))"
      "I s \<Longrightarrow> I (fst (ar_Delete (dp_Agents D) i s))"
    and pops_keep: "I s \<Longrightarrow> I (fst (pr_Create (dp_POPs D) p s))"
      "I s \<Longrightarrow> I (fst (pr_Get (dp_POPs D) n s))" "I s \<Longrightarrow> I (fst (pr_List (dp_POPs D) s))"
      "I s \<Longrightarrow> I (fst (pr_Delete (dp_POPs D) n s))"
    and tests_keep: "I s \<Longrightarrow> valid_test t \<Longrightarrow> I (fst (te_Create (dp_Tests D) t s))"
      "I s \<Longrightarrow> I (fst (te_Get (dp_Tests D) i s))" "I s \<Longrightarrow> I (fst (te_List (dp_Tests D) s))"
      "I s \<Longrightarrow> valid_test t \<Longrightarrow> I (fst (te_Update (dp_Tests D) t s))"
      "I s \<Longrightarrow> I (fst (te_Delete (dp_Tests D) i s))"
      "I s \<Longrightarrow> I (fst (te_ListByPOP (dp_Tests D) n s))"
    and tests_valid: "I s \<Longrightarrow> snd (te_Get (dp_Tests D) i s) = Inr t \<Longrightarrow> valid_test t"
    and assignments_keep: "I s \<Longrightarrow> I (fst (as_Assign (dp_Assignments D) i n s))"
    and keys_keep: "I s \<Longrightarrow> I (fst (kr_GetByHash (dp_APIKeys D) h s))"
      "I s \<Longrightarrow> I (fst (kr_TouchLastUsed (dp_APIKeys D) i s))"
    and audit_keep: "dp_Audit D = Some aud \<Longrightarrow> I s \<Longrightarrow> I (fst (au_Record aud e s))"
      "dp_Audit D = Some aud \<Longrightarrow> I s \<Longrightarrow> I (fst (au_List aud l off s))"
      "dp_Audit D = Some aud \<Longrightarrow> I s \<Longrightarrow> I (fst (au_ListByResource aud r i l s))"
begin

lemma assign_all_keeps: "I s \<Longrightarrow> I (assign_all (dp_Assignments D) i pops s)"
proof -
  have "I s \<Longrightarrow> I (fold (\<lambda>pop s. fst (as_Assign (dp_Assignments D) i pop s)) ns s)" for ns
    by (induction ns arbitrary: s) (auto intro: assignments_keep)
  then show "I s \<Longrightarrow> I (assign_all (dp_Assignments D) i pops s)"
    by (simp add: assign_all_def assignments_keep)
qed

lemmas ops_keep = agents_keep pops_keep tests_keep assignments_keep keys_keep audit_keep
  assign_all_keeps

lemma responses_keep:
  "I (fst r) \<Longrightarrow> I (fst (list_response enc r))" "I (fst r') \<Longrightarrow> I (fst (get_response enc' r'))"
  "I (fst r'') \<Longrightarrow> I (fst (delete_response r''))"
  by (cases r; cases r'; cases r''; auto simp: list_response_def get_response_def
      delete_response_def split: sum.split)+

lemma AgentHandler_Register_keeps:
  "I s \<Longrightarrow> I (fst (AgentHandler_Register A (dp_Agents D) (dp_POPs D) now rq s))"
  by (auto simp: AgentHandler_Register_def split_beta Let_def split: sum.split intro: ops_keep)

lemma AgentHandler_Heartbeat_keeps:
  "I s \<Longrightarrow> I (fst (AgentHandler_Heartbeat A (dp_Agents D) now rq s))"
  by (auto simp: AgentHandler_Heartbeat_def split_beta Let_def split: sum.split intro: ops_keep)

lemma POPHandler_Create_keeps: "I s \<Longrightarrow> I (fst (POPHandler_Create A (dp_POPs D) rq s))"
  by (auto simp: POPHandler_Create_def split_beta Let_def split: sum.split intro: ops_keep)

lemma TestHandler_Create_keeps:
  "I s \<Longrightarrow> I (fst (TestHandler_Create A (dp_Tests D) (dp_Assignments D) rq s))"
  by (auto simp: TestHandler_Create_def split_beta split: sum.split option.split
      intro!: ops_keep dest: valid_new_test)

lemma TestHandler_Update_keeps: "I s \<Longrightarrow> I (fst (TestHandler_Update A (dp_Tests D) rq s))"
  by (auto simp: TestHandler_Update_def split_beta Let_def split: sum.split
      intro!: ops_keep valid_merge_update dest: tests_valid)

lemma TestHandler_Assign_keeps:
  "I s \<Longrightarrow> I (fst (TestHandler_Assign A (dp_Tests D) (dp_Assignments D) rq s))"
  by (auto simp: TestHandler_Assign_def split_beta split: sum.split intro!: ops_keep)

lemma SyncHandler_ConfigSync_keeps:
  "I s \<Longrightarrow> I (fst (SyncHandler_ConfigSync A (dp_Tests D) rq s))"
  by (auto simp: SyncHandler_ConfigSync_def Let_def split_beta split: sum.split intro!: ops_keep)

lemma AuditHandler_List_keeps:
  "dp_Audit D = Some aud \<Longrightarrow> I s \<Longrightarrow> I (fst (AuditHandler_List A aud rq s))"
  by (auto simp: AuditHandler_List_def Let_def intro!: ops_keep responses_keep)

lemma endpoint_handler_keeps: "I s \<Longrightarrow> I (fst (endpoint_handler A D now ep rq s))"
  by (cases ep)
    (auto simp: endpoint_handler_def AgentHandler_List_def AgentHandler_Get_def
      AgentHandler_Delete_def POPHandler_List_def POPHandler_Get_def POPHandler_Delete_def
      TestHandler_List_def TestHandler_Get_def TestHandler_Delete_def split: option.split
      intro!: responses_keep ops_keep AgentHandler_Register_keeps AgentHandler_Heartbeat_keeps
      POPHandler_Create_keeps TestHandler_Create_keeps TestHandler_Update_keeps
      TestHandler_Assign_keeps SyncHandler_ConfigSync_keeps AuditHandler_List_keeps)

lemma with_audit_keeps:
  "(\<And>rq s. I s \<Longrightarrow> I (fst (h rq s))) \<Longrightarrow> I s \<Longrightarrow> I (fst (with_audit D now h rq s))"
  by (auto simp: with_audit_def AuditLogger_def split_beta split: option.split)

lemma api_handler_keeps:
  assumes "\<And>rq s. I s \<Longrightarrow> I (fst (h rq s))" "I s"
  shows "I (fst (api_handler A sha256 D ck h rq s))"
  using assms
  by (auto simp: api_handler_def APIKeyAuth_def Let_def split_beta split: sum.split
      intro!: with_audit_keeps keys_keep)

lemma dispatch_keeps: "I s \<Longrightarrow> I (fst (dispatch A sha256 D ck m rq s))"
  by (cases m)
    (auto simp: dispatch_def plain_status_def no_jobs_def split_beta
      intro!: api_handler_keeps endpoint_handler_keeps)

lemma serve_keeps:
  "serve A sha256 D ck m rq sv = Some (sv', r) \<Longrightarrow> I (sv_state sv) \<Longrightarrow> I (sv_state sv')"
  using dispatch_keeps [of "sv_state sv" A sha256 ck m rq]
  by (auto simp: serve_def split: option.splits prod.splits)

lemma run_job_keeps: "I s \<Longrightarrow> I (run_job D j s)"
  by (auto simp: run_job_def split: job.split option.split intro: ops_keep)

theorem server_keeps:
  "reachable_server A sha256 D s0 sv \<Longrightarrow> I s0 \<Longrightarrow> I (sv_state sv)"
proof (induction rule: reachable_server.induct)
  case (step sv sv')
  from step(2) show ?case
    by cases (use step.IH step.prems in \<open>auto simp: new_server_def intro: run_job_keeps serve_keeps\<close>)
qed (simp add: new_server_def)

end

end
