(* ===== verification/Database.thy ===== *)
theory Database
  imports Domain "HOL-Library.Multiset"
begin

text \<open>
  The tables of the control plane (migrations/*.sql) and the SQL statements the repositories
  send. A table is the list of its rows. What PostgreSQL and its driver decide is the record
  \<open>postgres\<close>: the texts of their errors, the parameters they refuse, the stored form of a JSONB
  value, the resolution of a timestamp, the collation, and for every statement, by its number,
  whether it is executed, its clock, the order in which it meets the rows of a table, and whether
  the driver reports an error of a query at once or (\<open>ce_deferred\<close>) only after some rows.
\<close>

subsection \<open>Tables\<close>

record agent_row =
  ag_id :: string
  ag_pop_name :: string
  ag_version :: string
  ag_status :: string
  ag_capabilities :: "string list"
  ag_labels :: json
  ag_last_heartbeat :: int
  ag_registered_at :: int
  ag_updated_at :: int

record pop_row =
  po_name :: string
  po_provider :: string
  po_city :: string
  po_country :: string
  po_latitude :: "float64 option"
  po_longitude :: "float64 option"
  po_labels :: json
  po_created_at :: int
  po_updated_at :: int

record test_row =
  te_id :: string
  te_name :: string
  te_test_type :: string
  te_target :: string
  te_interval_ms :: int
  te_timeout_ms :: int
  te_config :: json
  te_enabled :: bool
  te_created_at :: int
  te_updated_at :: int

text \<open>A NULL \<open>pop_name\<close> stands for all POPs.\<close>

record assignment_row =
  as_id :: nat
  as_test_id :: string
  as_pop_name :: "string option"
  as_created_at :: int

record api_key_row =
  ak_id :: string
  ak_name :: string
  ak_key_hash :: string
  ak_role :: string
  ak_scopes :: "string list"
  ak_created_at :: int
  ak_expires_at :: "int option"
  ak_last_used :: "int option"

record audit_row =
  au_id :: nat
  au_timestamp :: int
  au_actor_id :: string
  au_actor_role :: string
  au_action :: string
  au_resource :: string
  au_resource_id :: string
  au_source_ip :: string
  au_change_diff :: "json option"

text \<open>The two sequences behind BIGSERIAL columns, and the number of statements sent so far.\<close>

record database =
  agents :: "agent_row list"
  pops :: "pop_row list"
  test_definitions :: "test_row list"
  test_assignments :: "assignment_row list"
  api_keys :: "api_key_row list"
  audit_log :: "audit_row list"
  assignment_seq :: nat
  audit_seq :: nat
  statements :: nat

definition empty_database :: database where
  "empty_database = \<lparr>agents = [], pops = [], test_definitions = [], test_assignments = [],
     api_keys = [], audit_log = [], assignment_seq = 1, audit_seq = 1, statements = 0\<rparr>"

subsection \<open>Statements\<close>

datatype violation =
    unique_violation | foreign_key_violation | not_null_violation | invalid_parameter

text \<open>
  What may happen to a statement: it is executed, it is never executed, or it is executed and
  its answer is lost; the last two with the text of the driver's error.
\<close>

datatype execution = Executed | Not_executed string | Answer_lost string

record call_env =
  ce_execution :: execution
  ce_now :: int
  ce_rank :: "nat \<Rightarrow> nat"
  ce_deferred :: "nat option"

record postgres =
  pg_text :: "violation \<Rightarrow> string"
  pg_accepts :: "string \<Rightarrow> bool"
  pg_jsonb :: "json \<Rightarrow> json option"
  pg_parse :: "bytes \<Rightarrow> json option"
  pg_print :: "json \<Rightarrow> bytes"
  pg_timestamptz :: "int \<Rightarrow> int option"
  pg_collation :: "string \<Rightarrow> string"
  pg_call :: "nat \<Rightarrow> call_env"

text \<open>
  A statement answers with a value, or it violates a constraint and changes no row (a sequence
  may advance).
\<close>

type_synonym 'a statement = "call_env \<Rightarrow> database \<Rightarrow> database \<times> (violation + 'a)"

definition execute :: "postgres \<Rightarrow> 'a statement \<Rightarrow> database \<Rightarrow> database \<times> (string + 'a)" where
  "execute P st db =
     (let E = pg_call P (statements db); db0 = db\<lparr>statements := Suc (statements db)\<rparr>
      in case ce_execution E of
           Not_executed e \<Rightarrow> (db0, Inl e)
         | Answer_lost e \<Rightarrow> (fst (st E db0), Inl e)
         | Executed \<Rightarrow> (case st E db0 of (db1, r) \<Rightarrow> (db1, map_sum (pg_text P) id r)))"

text \<open>The rows of a table in the order in which the statement meets them.\<close>

definition scan :: "call_env \<Rightarrow> 'r list \<Rightarrow> 'r list" where
  "scan E rows = map snd (sort_key (ce_rank E \<circ> fst) (zip [0..<length rows] rows))"

definition desc :: "('r \<Rightarrow> int) \<Rightarrow> 'r list \<Rightarrow> 'r list" where
  "desc col rows = sort_key (\<lambda>r. - col r) rows"

lemma mset_scan [simp]: "mset (scan E rows) = mset rows"
proof -
  have "mset (scan E rows) = mset (map snd (zip [0..<length rows] rows))"
    unfolding scan_def mset_map by simp
  then show ?thesis by simp
qed

lemma set_scan [simp]: "set (scan E rows) = set rows"
  by (metis mset_scan set_mset_mset)

lemma set_desc [simp]: "set (desc col rows) = set rows"
  by (simp add: desc_def)

lemma mset_desc [simp]: "mset (desc col rows) = mset rows"
  by (simp add: desc_def)

text \<open>A JSONB parameter, an optional one, and a TIMESTAMPTZ parameter.\<close>

definition jsonb_opt :: "postgres \<Rightarrow> bytes option \<Rightarrow> json option option" where
  "jsonb_opt P raw =
     (case raw of None \<Rightarrow> Some None
      | Some b \<Rightarrow>
          (case pg_parse P b of None \<Rightarrow> None | Some j \<Rightarrow> map_option Some (pg_jsonb P j)))"

definition timestamptz_opt :: "postgres \<Rightarrow> int option \<Rightarrow> int option option" where
  "timestamptz_opt P t = (case t of None \<Rightarrow> Some None | Some x \<Rightarrow> map_option Some (pg_timestamptz P x))"

subsubsection \<open>Agents\<close>

text \<open>\<open>agents.pop_name\<close> references \<open>pops\<close>; \<open>capabilities\<close> is not null, and a nil slice is NULL.\<close>

definition insert_agent :: "postgres \<Rightarrow> AgentInfo \<Rightarrow> unit statement" where
  "insert_agent P a E db =
     (case (pg_jsonb P (enc_labels (ai_Labels a)), pg_timestamptz P (ai_LastHeartbeat a),
            pg_timestamptz P (ai_RegisteredAt a)) of
        (Some l, Some h, Some r) \<Rightarrow>
          if \<not> list_all (pg_accepts P) ([ai_ID a, ai_POPName a, ai_Version a, ai_Status a]
                @ (case ai_Capabilities a of None \<Rightarrow> [] | Some cs \<Rightarrow> cs))
          then (db, Inl invalid_parameter)
          else (case ai_Capabilities a of
             None \<Rightarrow> (db, Inl not_null_violation)
           | Some cs \<Rightarrow>
               if \<exists>x\<in>set (agents db). ag_id x = ai_ID a then (db, Inl unique_violation)
               else if \<not> (\<exists>p\<in>set (pops db). po_name p = ai_POPName a)
               then (db, Inl foreign_key_violation)
               else (db\<lparr>agents := agents db @
                   [\<lparr>ag_id = ai_ID a, ag_pop_name = ai_POPName a, ag_version = ai_Version a,
                     ag_status = ai_Status a, ag_capabilities = cs, ag_labels = l,
                     ag_last_heartbeat = h, ag_registered_at = r, ag_updated_at = ce_now E\<rparr>]\<rparr>,
                 Inr ()))
      | _ \<Rightarrow> (db, Inl invalid_parameter))"

definition select_agent :: "postgres \<Rightarrow> string \<Rightarrow> agent_row option statement" where
  "select_agent P i E db =
     (if pg_accepts P i then (db, Inr (find (\<lambda>x. ag_id x = i) (agents db)))
      else (db, Inl invalid_parameter))"

definition select_agents :: "agent_row list statement" where
  "select_agents E db = (db, Inr (desc ag_registered_at (scan E (agents db))))"

text \<open>The number of rows a statement affected; the triggers set \<open>updated_at\<close>.\<close>

definition update_heartbeat ::
  "postgres \<Rightarrow> string \<Rightarrow> int \<Rightarrow> string \<Rightarrow> string \<Rightarrow> nat statement" where
  "update_heartbeat P i t status version E db =
     (case pg_timestamptz P t of
        Some h \<Rightarrow>
          if list_all (pg_accepts P) [i, status, version]
          then (db\<lparr>agents := map (\<lambda>x. if ag_id x = i
                  then x\<lparr>ag_last_heartbeat := h, ag_status := status, ag_version := version,
                         ag_updated_at := ce_now E\<rparr> else x) (agents db)\<rparr>,
                Inr (length (filter (\<lambda>x. ag_id x = i) (agents db))))
          else (db, Inl invalid_parameter)
      | None \<Rightarrow> (db, Inl invalid_parameter))"

definition delete_agent :: "postgres \<Rightarrow> string \<Rightarrow> nat statement" where
  "delete_agent P i E db =
     (if pg_accepts P i
      then (db\<lparr>agents := filter (\<lambda>x. ag_id x \<noteq> i) (agents db)\<rparr>,
            Inr (length (filter (\<lambda>x. ag_id x = i) (agents db))))
      else (db, Inl invalid_parameter))"

subsubsection \<open>POPs\<close>

definition insert_pop :: "postgres \<Rightarrow> POP \<Rightarrow> unit statement" where
  "insert_pop P p E db =
     (case pg_jsonb P (enc_labels (pp_Labels p)) of
        Some l \<Rightarrow>
          if \<not> list_all (pg_accepts P) [pp_Name p, pp_Provider p, pp_City p, pp_Country p]
          then (db, Inl invalid_parameter)
          else if \<exists>x\<in>set (pops db). po_name x = pp_Name p then (db, Inl unique_violation)
          else (db\<lparr>pops := pops db @
              [\<lparr>po_name = pp_Name p, po_provider = pp_Provider p, po_city = pp_City p,
                po_country = pp_Country p, po_latitude = pp_Latitude p,
                po_longitude = pp_Longitude p, po_labels = l, po_created_at = ce_now E,
                po_updated_at = ce_now E\<rparr>]\<rparr>, Inr ())
      | None \<Rightarrow> (db, Inl invalid_parameter))"

definition select_pop :: "postgres \<Rightarrow> string \<Rightarrow> pop_row option statement" where
  "select_pop P n E db =
     (if pg_accepts P n then (db, Inr (find (\<lambda>x. po_name x = n) (pops db)))
      else (db, Inl invalid_parameter))"

definition select_pops :: "postgres \<Rightarrow> pop_row list statement" where
  "select_pops P E db = (db, Inr (sort_key (\<lambda>x. pg_collation P (po_name x)) (scan E (pops db))))"

text \<open>
  Agents keep their POP from being deleted; the assignments of a deleted POP are deleted with it.
\<close>

definition delete_pop :: "postgres \<Rightarrow> string \<Rightarrow> nat statement" where
  "delete_pop P n E db =
     (if \<not> pg_accepts P n then (db, Inl invalid_parameter)
      else if (\<exists>p\<in>set (pops db). po_name p = n) \<and> (\<exists>a\<in>set (agents db). ag_pop_name a = n)
      then (db, Inl foreign_key_violation)
      else (db\<lparr>pops := filter (\<lambda>x. po_name x \<noteq> n) (pops db),
               test_assignments :=
                 filter (\<lambda>x. as_pop_name x \<noteq> Some n) (test_assignments db)\<rparr>,
            Inr (length (filter (\<lambda>x. po_name x = n) (pops db)))))"

subsubsection \<open>Test definitions\<close>

definition insert_test :: "postgres \<Rightarrow> TestDef \<Rightarrow> unit statement" where
  "insert_test P t E db =
     (case pg_jsonb P (df_Config t) of
        Some c \<Rightarrow>
          if \<not> list_all (pg_accepts P) [df_ID t, df_Name t, df_TestType t, df_Target t]
          then (db, Inl invalid_parameter)
          else if \<exists>x\<in>set (test_definitions db). te_id x = df_ID t
          then (db, Inl unique_violation)
          else (db\<lparr>test_definitions := test_definitions db @
              [\<lparr>te_id = df_ID t, te_name = df_Name t, te_test_type = df_TestType t,
                te_target = df_Target t, te_interval_ms = df_IntervalMS t,
                te_timeout_ms = df_TimeoutMS t, te_config = c, te_enabled = df_Enabled t,
                te_created_at = ce_now E, te_updated_at = ce_now E\<rparr>]\<rparr>, Inr ())
      | None \<Rightarrow> (db, Inl invalid_parameter))"

definition select_test :: "postgres \<Rightarrow> string \<Rightarrow> test_row option statement" where
  "select_test P i E db =
     (if pg_accepts P i then (db, Inr (find (\<lambda>x. te_id x = i) (test_definitions db)))
      else (db, Inl invalid_parameter))"

definition select_tests :: "test_row list statement" where
  "select_tests E db = (db, Inr (desc te_created_at (scan E (test_definitions db))))"

definition update_test :: "postgres \<Rightarrow> TestDef \<Rightarrow> nat statement" where
  "update_test P t E db =
     (case pg_jsonb P (df_Config t) of
        Some c \<Rightarrow>
          if list_all (pg_accepts P) [df_ID t, df_Name t, df_TestType t, df_Target t]
          then (db\<lparr>test_definitions := map (\<lambda>x. if te_id x = df_ID t
                  then x\<lparr>te_name := df_Name t, te_test_type := df_TestType t,
                         te_target := df_Target t, te_interval_ms := df_IntervalMS t,
                         te_timeout_ms := df_TimeoutMS t, te_config := c,
                         te_enabled := df_Enabled t, te_updated_at := ce_now E\<rparr> else x)
                  (test_definitions db)\<rparr>,
                Inr (length (filter (\<lambda>x. te_id x = df_ID t) (test_definitions db))))
          else (db, Inl invalid_parameter)
      | None \<Rightarrow> (db, Inl invalid_parameter))"

text \<open>The assignments of a deleted test are deleted with it.\<close>

definition delete_test :: "postgres \<Rightarrow> string \<Rightarrow> nat statement" where
  "delete_test P i E db =
     (if pg_accepts P i
      then (db\<lparr>test_definitions := filter (\<lambda>x. te_id x \<noteq> i) (test_definitions db),
               test_assignments := filter (\<lambda>x. as_test_id x \<noteq> i) (test_assignments db)\<rparr>,
            Inr (length (filter (\<lambda>x. te_id x = i) (test_definitions db))))
      else (db, Inl invalid_parameter))"

text \<open>
  The join of the definitions with their assignments, with duplicate rows removed and the
  newest definition first. \<open>pop_name = $1\<close> is not true of a NULL, hence the second disjunct.
\<close>

definition select_tests_by_pop :: "postgres \<Rightarrow> string \<Rightarrow> test_row list statement" where
  "select_tests_by_pop P n E db =
     (if pg_accepts P n
      then (db, Inr (desc te_created_at (remdups
         [td. td \<leftarrow> scan E (test_definitions db), ta \<leftarrow> scan E (test_assignments db),
              te_id td = as_test_id ta \<and> te_enabled td
              \<and> (as_pop_name ta = Some n \<or> as_pop_name ta = None)])))
      else (db, Inl invalid_parameter))"

subsubsection \<open>Assignments\<close>

text \<open>
  \<open>UNIQUE(test_id, pop_name)\<close> takes NULLs to be distinct, so \<open>ON CONFLICT\<close> never meets a second
  global assignment. The sequence advances even when no row is inserted.
\<close>

definition insert_assignment :: "postgres \<Rightarrow> string \<Rightarrow> string option \<Rightarrow> unit statement" where
  "insert_assignment P i pn E db =
     (if \<not> list_all (pg_accepts P) (i # (case pn of None \<Rightarrow> [] | Some n \<Rightarrow> [n]))
      then (db, Inl invalid_parameter)
      else
        let db1 = db\<lparr>assignment_seq := Suc (assignment_seq db)\<rparr>
        in if pn \<noteq> None
              \<and> (\<exists>x\<in>set (test_assignments db). as_test_id x = i \<and> as_pop_name x = pn)
           then (db1, Inr ())
           else if \<not> (\<exists>t\<in>set (test_definitions db). te_id t = i)
                \<or> (\<exists>n. pn = Some n \<and> \<not> (\<exists>p\<in>set (pops db). po_name p = n))
           then (db1, Inl foreign_key_violation)
           else (db1\<lparr>test_assignments := test_assignments db @
               [\<lparr>as_id = assignment_seq db, as_test_id = i, as_pop_name = pn,
                 as_created_at = ce_now E\<rparr>]\<rparr>, Inr ()))"

definition delete_assignment :: "postgres \<Rightarrow> string \<Rightarrow> string option \<Rightarrow> nat statement" where
  "delete_assignment P i pn E db =
     (if \<not> list_all (pg_accepts P) (i # (case pn of None \<Rightarrow> [] | Some n \<Rightarrow> [n]))
      then (db, Inl invalid_parameter)
      else (db\<lparr>test_assignments := filter (\<lambda>x. \<not> (as_test_id x = i \<and> as_pop_name x = pn))
                (test_assignments db)\<rparr>,
            Inr (length (filter (\<lambda>x. as_test_id x = i \<and> as_pop_name x = pn)
                (test_assignments db)))))"

definition asc :: "('r \<Rightarrow> int) \<Rightarrow> 'r list \<Rightarrow> 'r list" where
  "asc col rows = sort_key col rows"

definition select_assignments_by_test :: "postgres \<Rightarrow> string \<Rightarrow> assignment_row list statement" where
  "select_assignments_by_test P i E db =
     (if pg_accepts P i
      then (db, Inr (asc as_created_at
              (filter (\<lambda>x. as_test_id x = i) (scan E (test_assignments db)))))
      else (db, Inl invalid_parameter))"

definition select_assignments_by_pop :: "postgres \<Rightarrow> string \<Rightarrow> assignment_row list statement" where
  "select_assignments_by_pop P n E db =
     (if pg_accepts P n
      then (db, Inr (asc as_created_at (filter
              (\<lambda>x. as_pop_name x = Some n \<or> as_pop_name x = None) (scan E (test_assignments db)))))
      else (db, Inl invalid_parameter))"

subsubsection \<open>API keys\<close>

definition insert_api_key :: "postgres \<Rightarrow> APIKey \<Rightarrow> unit statement" where
  "insert_api_key P k E db =
     (case timestamptz_opt P (ky_ExpiresAt k) of
        Some ex \<Rightarrow>
          if \<not> list_all (pg_accepts P) ([ky_ID k, ky_Name k, ky_KeyHash k, ky_Role k]
                @ (case ky_Scopes k of None \<Rightarrow> [] | Some ss \<Rightarrow> ss))
          then (db, Inl invalid_parameter)
          else (case ky_Scopes k of
             None \<Rightarrow> (db, Inl not_null_violation)
           | Some ss \<Rightarrow>
               if \<exists>x\<in>set (api_keys db). ak_id x = ky_ID k \<or> ak_key_hash x = ky_KeyHash k
               then (db, Inl unique_violation)
               else (db\<lparr>api_keys := api_keys db @
                   [\<lparr>ak_id = ky_ID k, ak_name = ky_Name k, ak_key_hash = ky_KeyHash k,
                     ak_role = ky_Role k, ak_scopes = ss, ak_created_at = ce_now E,
                     ak_expires_at = ex, ak_last_used = None\<rparr>]\<rparr>, Inr ()))
      | None \<Rightarrow> (db, Inl invalid_parameter))"

definition select_key_by_hash :: "postgres \<Rightarrow> string \<Rightarrow> api_key_row option statement" where
  "select_key_by_hash P h E db =
     (if pg_accepts P h then (db, Inr (find (\<lambda>x. ak_key_hash x = h) (api_keys db)))
      else (db, Inl invalid_parameter))"

definition update_last_used :: "postgres \<Rightarrow> string \<Rightarrow> nat statement" where
  "update_last_used P i E db =
     (if pg_accepts P i
      then (db\<lparr>api_keys := map (\<lambda>x. if ak_id x = i then x\<lparr>ak_last_used := Some (ce_now E)\<rparr> else x)
                (api_keys db)\<rparr>,
            Inr (length (filter (\<lambda>x. ak_id x = i) (api_keys db))))
      else (db, Inl invalid_parameter))"

subsubsection \<open>The audit log\<close>

definition insert_audit :: "postgres \<Rightarrow> AuditEntry \<Rightarrow> unit statement" where
  "insert_audit P e E db =
     (case (pg_timestamptz P (ae_Timestamp e), jsonb_opt P (ae_ChangeDiff e)) of
        (Some ts, Some diff) \<Rightarrow>
          if list_all (pg_accepts P) [ae_ActorID e, ae_ActorRole e, ae_Action e, ae_Resource e,
               ae_ResourceID e, ae_SourceIP e]
          then (db\<lparr>audit_seq := Suc (audit_seq db), audit_log := audit_log db @
              [\<lparr>au_id = audit_seq db, au_timestamp = ts, au_actor_id = ae_ActorID e,
                au_actor_role = ae_ActorRole e, au_action = ae_Action e,
                au_resource = ae_Resource e, au_resource_id = ae_ResourceID e,
                au_source_ip = ae_SourceIP e, au_change_diff = diff\<rparr>]\<rparr>, Inr ())
          else (db, Inl invalid_parameter)
      | _ \<Rightarrow> (db, Inl invalid_parameter))"

text \<open>A negative OFFSET is refused; the sources never send a negative LIMIT.\<close>

definition select_audit :: "int \<Rightarrow> int \<Rightarrow> audit_row list statement" where
  "select_audit limit offset E db =
     (if offset < 0 then (db, Inl invalid_parameter)
      else (db, Inr (take (nat limit) (drop (nat offset)
              (desc au_timestamp (scan E (audit_log db)))))))"

definition select_audit_of ::
  "postgres \<Rightarrow> string \<Rightarrow> string \<Rightarrow> int \<Rightarrow> audit_row list statement" where
  "select_audit_of P resource i limit E db =
     (if list_all (pg_accepts P) [resource, i]
      then (db, Inr (take (nat limit) (desc au_timestamp (filter
              (\<lambda>x. au_resource x = resource \<and> au_resource_id x = i) (scan E (audit_log db))))))
      else (db, Inl invalid_parameter))"

end
