(* ===== verification/Postgres.thy ===== *)
theory Postgres
  imports Database
begin

text \<open>
  The PostgreSQL implementations of the repositories (internal/server/repository/postgres), over
  the statements of theory \<open>Database\<close>: the scanning of rows into the models, the translation of
  the driver's errors, and the constraints of the schema as an invariant every operation keeps.
\<close>

subsection \<open>Errors and rows\<close>

definition isDuplicateKey :: "string \<Rightarrow> bool" where
  "isDuplicateKey err = str_contains err ''23505''"

text \<open>The ends of the methods that create, that change one item, and that read one.\<close>

definition insert_result :: "string + unit \<Rightarrow> go_error + unit" where
  "insert_result r =
     (case r of
        Inl err \<Rightarrow> Inl (if isDuplicateKey err then Sentinel ErrAlreadyExists else Other err)
      | Inr _ \<Rightarrow> Inr ())"

definition affected_result :: "string + nat \<Rightarrow> go_error + unit" where
  "affected_result r =
     (case r of
        Inl err \<Rightarrow> Inl (Other err)
      | Inr n \<Rightarrow> if n = 0 then Inl (Sentinel ErrNotFound) else Inr ())"

definition row_result :: "('r \<Rightarrow> 'a) \<Rightarrow> string + 'r option \<Rightarrow> go_error + 'a" where
  "row_result scan_row r =
     (case r of
        Inl err \<Rightarrow> Inl (Other err)
      | Inr None \<Rightarrow> Inl (Sentinel ErrNotFound)
      | Inr (Some x) \<Rightarrow> Inr (scan_row x))"

definition rows_result :: "('r \<Rightarrow> 'a) \<Rightarrow> string + 'r list \<Rightarrow> go_error + 'a list" where
  "rows_result scan_row r = map_sum Other (map scan_row) r"

text \<open>
  The labels of a JSONB column. The error of \<open>Unmarshal\<close> is dropped; a member that is no string
  leaves the empty string under its key.
\<close>

fun labels_of :: "json \<Rightarrow> labels" where
  "labels_of (JObj kvs) =
     Some (fold (\<lambda>(k, v). AList.update k (case v of JStr s \<Rightarrow> s | _ \<Rightarrow> [])) kvs [])"
| "labels_of _ = None"

definition scan_agent :: "agent_row \<Rightarrow> AgentInfo" where
  "scan_agent x = \<lparr>ai_ID = ag_id x, ai_POPName = ag_pop_name x, ai_Version = ag_version x,
     ai_Status = ag_status x, ai_Capabilities = Some (ag_capabilities x),
     ai_Labels = labels_of (ag_labels x), ai_LastHeartbeat = ag_last_heartbeat x,
     ai_RegisteredAt = ag_registered_at x, ai_UpdatedAt = ag_updated_at x\<rparr>"

definition scan_pop :: "pop_row \<Rightarrow> POP" where
  "scan_pop x = \<lparr>pp_Name = po_name x, pp_Provider = po_provider x, pp_City = po_city x,
     pp_Country = po_country x, pp_Latitude = po_latitude x, pp_Longitude = po_longitude x,
     pp_Labels = labels_of (po_labels x), pp_CreatedAt = po_created_at x,
     pp_UpdatedAt = po_updated_at x\<rparr>"

definition scan_test :: "test_row \<Rightarrow> TestDef" where
  "scan_test x = \<lparr>df_ID = te_id x, df_Name = te_name x, df_TestType = te_test_type x,
     df_Target = te_target x, df_IntervalMS = te_interval_ms x, df_TimeoutMS = te_timeout_ms x,
     df_Config = te_config x, df_Enabled = te_enabled x, df_CreatedAt = te_created_at x,
     df_UpdatedAt = te_updated_at x\<rparr>"

text \<open>\<open>COALESCE(pop_name, '')\<close>.\<close>

definition scan_assignment :: "assignment_row \<Rightarrow> TestAssignment" where
  "scan_assignment x = \<lparr>ta_ID = int (as_id x), ta_TestID = as_test_id x,
     ta_POPName = (case as_pop_name x of None \<Rightarrow> [] | Some n \<Rightarrow> n),
     ta_CreatedAt = as_created_at x\<rparr>"

definition scan_key :: "api_key_row \<Rightarrow> APIKey" where
  "scan_key x = \<lparr>ky_ID = ak_id x, ky_Name = ak_name x, ky_KeyHash = ak_key_hash x,
     ky_Role = ak_role x, ky_Scopes = Some (ak_scopes x), ky_CreatedAt = ak_created_at x,
     ky_ExpiresAt = ak_expires_at x, ky_LastUsed = ak_last_used x\<rparr>"

definition scan_audit :: "postgres \<Rightarrow> audit_row \<Rightarrow> AuditEntry" where
  "scan_audit P x = \<lparr>ae_ID = int (au_id x), ae_Timestamp = au_timestamp x,
     ae_ActorID = au_actor_id x, ae_ActorRole = au_actor_role x, ae_Action = au_action x,
     ae_Resource = au_resource x, ae_ResourceID = au_resource_id x, ae_SourceIP = au_source_ip x,
     ae_ChangeDiff = map_option (pg_print P) (au_change_diff x)\<rparr>"

subsection \<open>The repositories\<close>

definition AgentRepo :: "postgres \<Rightarrow> database AgentRepository" where
  "AgentRepo P =
     \<lparr>ar_Create = (\<lambda>agent db. map_prod id insert_result (execute P (insert_agent P agent) db)),
      ar_Get = (\<lambda>i db. map_prod id (row_result scan_agent) (execute P (select_agent P i) db)),
      ar_List = (\<lambda>db. map_prod id (rows_result scan_agent) (execute P select_agents db)),
      ar_UpdateHeartbeat = (\<lambda>i hb db. map_prod id affected_result
        (execute P (update_heartbeat P i (hb_Timestamp hb) (hb_Status hb) (hb_Version hb)) db)),
      ar_Delete = (\<lambda>i db. map_prod id affected_result (execute P (delete_agent P i) db))\<rparr>"

definition POPRepo :: "postgres \<Rightarrow> database POPRepository" where
  "POPRepo P =
     \<lparr>pr_Create = (\<lambda>pop db. map_prod id insert_result (execute P (insert_pop P pop) db)),
      pr_Get = (\<lambda>n db. map_prod id (row_result scan_pop) (execute P (select_pop P n) db)),
      pr_List = (\<lambda>db. map_prod id (rows_result scan_pop) (execute P (select_pops P) db)),
      pr_Delete = (\<lambda>n db. map_prod id affected_result (execute P (delete_pop P n) db))\<rparr>"

definition TestRepo :: "postgres \<Rightarrow> database TestRepository" where
  "TestRepo P =
     \<lparr>te_Create = (\<lambda>t db. map_prod id insert_result (execute P (insert_test P t) db)),
      te_Get = (\<lambda>i db. map_prod id (row_result scan_test) (execute P (select_test P i) db)),
      te_List = (\<lambda>db. map_prod id (rows_result scan_test) (execute P select_tests db)),
      te_Update = (\<lambda>t db. map_prod id affected_result (execute P (update_test P t) db)),
      te_Delete = (\<lambda>i db. map_prod id affected_result (execute P (delete_test P i) db)),
      te_ListByPOP = (\<lambda>n db. map_prod id (rows_result scan_test)
        (execute P (select_tests_by_pop P n) db))\<rparr>"

text \<open>The empty name is the nil pointer, that is NULL.\<close>

definition pop_param :: "string \<Rightarrow> string option" where
  "pop_param popName = (if popName = [] then None else Some popName)"

definition AssignmentRepo :: "postgres \<Rightarrow> database TestAssignmentRepository" where
  "AssignmentRepo P =
     \<lparr>as_Assign = (\<lambda>i n db. map_prod id (map_sum Other id)
        (execute P (insert_assignment P i (pop_param n)) db)),
      as_Unassign = (\<lambda>i n db. map_prod id affected_result
        (execute P (delete_assignment P i (pop_param n)) db)),
      as_ListByTest = (\<lambda>i db. map_prod id (rows_result scan_assignment)
        (execute P (select_assignments_by_test P i) db)),
      as_ListByPOP = (\<lambda>n db. map_prod id (rows_result scan_assignment)
        (execute P (select_assignments_by_pop P n) db))\<rparr>"

definition APIKeyRepo :: "postgres \<Rightarrow> database APIKeyRepository" where
  "APIKeyRepo P =
     \<lparr>kr_Create = (\<lambda>k db. map_prod id insert_result (execute P (insert_api_key P k) db)),
      kr_GetByHash = (\<lambda>h db. map_prod id (row_result scan_key)
        (execute P (select_key_by_hash P h) db)),
      kr_TouchLastUsed = (\<lambda>i db. map_prod id (map_sum Other (\<lambda>n. ()))
        (execute P (update_last_used P i) db))\<rparr>"

definition audit_limit :: "int \<Rightarrow> int" where
  "audit_limit limit = (if limit \<le> 0 then 50 else limit)"

text \<open>
  The lists of the audit log do not look at \<open>rows.Err()\<close>: of an error the driver reports only
  after some rows nothing is left but the end of the list.
\<close>

definition unchecked_rows ::
  "postgres \<Rightarrow> 'r list statement \<Rightarrow> database \<Rightarrow> database \<times> (string + 'r list)" where
  "unchecked_rows P st db =
     (let E = pg_call P (statements db); (db', r) = execute P st db
      in (db', case (r, ce_deferred E) of
           (Inl err, Some n) \<Rightarrow>
             Inr (case (ce_execution E, snd (st E (db\<lparr>statements := Suc (statements db)\<rparr>))) of
                    (Answer_lost _, Inr rows) \<Rightarrow> take n rows
                  | _ \<Rightarrow> [])
         | _ \<Rightarrow> r))"

definition AuditRepo :: "postgres \<Rightarrow> database AuditRepository" where
  "AuditRepo P =
     \<lparr>au_Record = (\<lambda>e db. map_prod id (map_sum (\<lambda>err. Other (''audit: record: '' @ err)) id)
        (execute P (insert_audit P e) db)),
      au_List = (\<lambda>limit offset db. map_prod id
        (map_sum (\<lambda>err. Other (''audit: list: '' @ err)) (map (scan_audit P)))
        (unchecked_rows P (select_audit (audit_limit limit) offset) db)),
      au_ListByResource = (\<lambda>resource i limit db. map_prod id
        (map_sum (\<lambda>err. Other (''audit: list_by_resource: '' @ err)) (map (scan_audit P)))
        (unchecked_rows P (select_audit_of P resource i (audit_limit limit)) db))\<rparr>"

end
