(* ===== verification/Schema.thy ===== *)
theory Schema
  imports Postgres
begin

text \<open>
  What the PostgreSQL repositories promise: the contract \<open>keyed_repository\<close> for agents, POPs and
  test definitions, and the constraints of the schema (primary and foreign keys, uniqueness) as
  an invariant of every statement.
\<close>

subsection \<open>How a statement ends\<close>

lemma execute_cases:
  obtains (executed) r where
      "execute P st db = (fst (st (pg_call P (statements db)) (db\<lparr>statements := Suc (statements db)\<rparr>)), r)"
      "r = map_sum (pg_text P) id (snd (st (pg_call P (statements db)) (db\<lparr>statements := Suc (statements db)\<rparr>)))"
  | (not_executed) e where "execute P st db = (db\<lparr>statements := Suc (statements db)\<rparr>, Inl e)"
  | (answer_lost) e where
      "execute P st db = (fst (st (pg_call P (statements db)) (db\<lparr>statements := Suc (statements db)\<rparr>)), Inl e)"
  by (cases "ce_execution (pg_call P (statements db))") (auto simp: execute_def Let_def split_beta)

lemma execute_keeps:
  assumes "\<And>E d. I d \<Longrightarrow> I (fst (st E d))" and "\<And>d n. I (d\<lparr>statements := n\<rparr>) = I d" and "I db"
  shows "I (fst (execute P st db))"
  by (rule execute_cases [of P st db]) (use assms in auto)

lemma map_of_find: "map_of (map (\<lambda>x. (f x, g x)) xs) k = map_option g (find (\<lambda>x. f x = k) xs)"
  by (induction xs) auto

lemma map_of_filter_other:
  "map_of (map (\<lambda>x. (f x, g x)) (filter (\<lambda>x. f x \<noteq> k) xs)) = (map_of (map (\<lambda>x. (f x, g x)) xs))(k := None)"
  by (induction xs) (auto simp: fun_eq_iff)

lemma map_of_snoc:
  assumes "\<forall>x\<in>set xs. f x \<noteq> k"
  shows "[k \<mapsto> y] ++ map_of (map (\<lambda>x. (f x, g x)) xs) = (map_of (map (\<lambda>x. (f x, g x)) xs))(k \<mapsto> y)"
proof -
  have "map_of (map (\<lambda>x. (f x, g x)) xs) k = None"
    using assms by (auto simp: map_of_eq_None_iff)
  then show ?thesis by (auto simp: map_add_def fun_eq_iff split: option.split)
qed

lemma map_of_key_None:
  "map_of (map (\<lambda>x. (f x, g x)) xs) k = None \<longleftrightarrow> (\<forall>x\<in>set xs. f x \<noteq> k)"
  by (induction xs) auto

lemmas keyed_lemmas = map_of_find map_of_filter_other map_of_snoc map_of_key_None

subsection \<open>The abstract tables\<close>

definition agents_view :: "database \<Rightarrow> string \<rightharpoonup> AgentInfo" where
  "agents_view db = map_of (map (\<lambda>x. (ag_id x, scan_agent x)) (agents db))"

definition pops_view :: "database \<Rightarrow> string \<rightharpoonup> POP" where
  "pops_view db = map_of (map (\<lambda>x. (po_name x, scan_pop x)) (pops db))"

definition tests_view :: "database \<Rightarrow> string \<rightharpoonup> TestDef" where
  "tests_view db = map_of (map (\<lambda>x. (te_id x, scan_test x)) (test_definitions db))"

text \<open>
  What the store keeps of a created item: its fields, with documents and instants in the form
  the store gives them.
\<close>

definition stored_agent :: "postgres \<Rightarrow> AgentInfo \<Rightarrow> AgentInfo \<Rightarrow> bool" where
  "stored_agent P a b \<longleftrightarrow>
     ai_ID b = ai_ID a \<and> ai_POPName b = ai_POPName a \<and> ai_Version b = ai_Version a
     \<and> ai_Status b = ai_Status a \<and> ai_Capabilities b = ai_Capabilities a
     \<and> ai_Capabilities a \<noteq> None
     \<and> (\<exists>l. pg_jsonb P (enc_labels (ai_Labels a)) = Some l \<and> ai_Labels b = labels_of l)
     \<and> pg_timestamptz P (ai_LastHeartbeat a) = Some (ai_LastHeartbeat b)
     \<and> pg_timestamptz P (ai_RegisteredAt a) = Some (ai_RegisteredAt b)"

definition stored_pop :: "postgres \<Rightarrow> POP \<Rightarrow> POP \<Rightarrow> bool" where
  "stored_pop P p q \<longleftrightarrow>
     pp_Name q = pp_Name p \<and> pp_Provider q = pp_Provider p \<and> pp_City q = pp_City p
     \<and> pp_Country q = pp_Country p \<and> pp_Latitude q = pp_Latitude p
     \<and> pp_Longitude q = pp_Longitude p
     \<and> (\<exists>l. pg_jsonb P (enc_labels (pp_Labels p)) = Some l \<and> pp_Labels q = labels_of l)
     \<and> pp_UpdatedAt q = pp_CreatedAt q"

definition stored_test :: "postgres \<Rightarrow> TestDef \<Rightarrow> TestDef \<Rightarrow> bool" where
  "stored_test P t u \<longleftrightarrow>
     df_ID u = df_ID t \<and> df_Name u = df_Name t \<and> df_TestType u = df_TestType t
     \<and> df_Target u = df_Target t \<and> df_IntervalMS u = df_IntervalMS t
     \<and> df_TimeoutMS u = df_TimeoutMS t \<and> pg_jsonb P (df_Config t) = Some (df_Config u)
     \<and> df_Enabled u = df_Enabled t \<and> df_UpdatedAt u = df_CreatedAt u"

text \<open>An insertion appends one row that keeps the item, or violates a constraint.\<close>

lemma insert_agent_cases:
  obtains (inserted) x where "insert_agent P a E db = (db\<lparr>agents := agents db @ [x]\<rparr>, Inr ())"
      "ag_id x = ai_ID a" "ag_pop_name x = ai_POPName a" "\<forall>y\<in>set (agents db). ag_id y \<noteq> ai_ID a"
      "\<exists>p\<in>set (pops db). po_name p = ai_POPName a" "stored_agent P a (scan_agent x)"
  | (refused) v where "insert_agent P a E db = (db, Inl v)"
proof (cases "snd (insert_agent P a E db)")
  case (Inl v)
  then have "insert_agent P a E db = (db, Inl v)"
    by (auto simp: insert_agent_def split: option.splits if_splits)
  then show ?thesis by (rule that(2))
next
  case (Inr u)
  then show ?thesis
    by (intro that(1) [of "last (agents (fst (insert_agent P a E db)))"])
      (auto simp: insert_agent_def scan_agent_def stored_agent_def split: option.splits if_splits)
qed

lemma insert_pop_cases:
  obtains (inserted) x where "insert_pop P p E db = (db\<lparr>pops := pops db @ [x]\<rparr>, Inr ())"
      "po_name x = pp_Name p" "\<forall>y\<in>set (pops db). po_name y \<noteq> pp_Name p"
      "stored_pop P p (scan_pop x)"
  | (refused) v where "insert_pop P p E db = (db, Inl v)"
proof (cases "snd (insert_pop P p E db)")
  case (Inl v)
  then have "insert_pop P p E db = (db, Inl v)"
    by (auto simp: insert_pop_def split: option.splits if_splits)
  then show ?thesis by (rule that(2))
next
  case (Inr u)
  then show ?thesis
    by (intro that(1) [of "last (pops (fst (insert_pop P p E db)))"])
      (auto simp: insert_pop_def scan_pop_def stored_pop_def split: option.splits if_splits)
qed

lemma insert_test_cases:
  obtains (inserted) x where
      "insert_test P t E db = (db\<lparr>test_definitions := test_definitions db @ [x]\<rparr>, Inr ())"
      "te_id x = df_ID t" "\<forall>y\<in>set (test_definitions db). te_id y \<noteq> df_ID t"
      "stored_test P t (scan_test x)"
  | (refused) v where "insert_test P t E db = (db, Inl v)"
proof (cases "snd (insert_test P t E db)")
  case (Inl v)
  then have "insert_test P t E db = (db, Inl v)"
    by (auto simp: insert_test_def split: option.splits if_splits)
  then show ?thesis by (rule that(2))
next
  case (Inr u)
  then show ?thesis
    by (intro that(1) [of "last (test_definitions (fst (insert_test P t E db)))"])
      (auto simp: insert_test_def scan_test_def stored_test_def split: option.splits if_splits)
qed

subsection \<open>The contract of the keyed repositories\<close>

text \<open>Reading one row, and changing the rows of one key.\<close>

lemma row_result_Inr: "row_result f r = Inr y \<Longrightarrow> \<exists>x. r = Inr (Some x) \<and> y = f x"
  by (auto simp: row_result_def split: sum.splits option.splits)

lemma row_result_Sentinel: "row_result f r = Inl (Sentinel e) \<Longrightarrow> e = ErrNotFound \<and> r = Inr None"
  by (auto simp: row_result_def split: sum.splits option.splits)

lemma insert_result_Sentinel: "insert_result r = Inl (Sentinel e) \<Longrightarrow> e = ErrAlreadyExists"
  by (auto simp: insert_result_def split: sum.splits if_splits)

lemma affected_result_Inr: "affected_result r = Inr u \<longleftrightarrow> (\<exists>n > 0. r = Inr n)"
  by (auto simp: affected_result_def split: sum.splits)

lemma affected_result_Sentinel:
  "affected_result r = Inl (Sentinel e) \<longleftrightarrow> e = ErrNotFound \<and> r = Inr 0"
  by (auto simp: affected_result_def split: sum.splits if_splits)

lemma insert_result_Inr: "insert_result r = Inr u \<longleftrightarrow> r = Inr ()"
  by (auto simp: insert_result_def split: sum.splits)

lemmas result_simps = insert_result_Inr affected_result_Inr affected_result_Sentinel

lemma execute_Inr:
  "snd (execute P st db) = Inr x \<Longrightarrow>
     ce_execution (pg_call P (statements db)) = Executed
     \<and> execute P st db = (fst (st (pg_call P (statements db)) (db\<lparr>statements := Suc (statements db)\<rparr>)), Inr x)
     \<and> snd (st (pg_call P (statements db)) (db\<lparr>statements := Suc (statements db)\<rparr>)) = Inr x"
  by (auto simp: execute_def Let_def split: execution.splits prod.splits sum.splits)
    (metis map_sum.simps id_apply obj_sumE snd_conv sum.inject(2) sum.distinct(1))+

lemma length_filter_0_iff: "length (filter (\<lambda>x. f x = k) xs) = 0 \<longleftrightarrow> (\<forall>x\<in>set xs. f x \<noteq> k)"
  by (induction xs) auto

text \<open>
  A table whose rows \<open>k\<close> names, with the statements that select one row, append a row under a
  fresh name and delete the rows of a name, makes a keyed repository.
\<close>

lemma table_repository:
  fixes P :: postgres and tab :: "database \<Rightarrow> 'r list" and k :: "'r \<Rightarrow> string" and f :: "'r \<Rightarrow> 'a"
  assumes view: "\<And>d. view d = map_of (map (\<lambda>x. (k x, f x)) (tab d))"
    and tab: "\<And>d n. tab (d\<lparr>statements := n\<rparr>) = tab d"
    and sel: "\<And>i E d. sel i E d = (d, Inr (find (\<lambda>x. k x = i) (tab d))) \<or> (\<exists>v. sel i E d = (d, Inl v))"
    and ins: "\<And>x E d. (\<exists>r. snd (ins x E d) = Inr () \<and> tab (fst (ins x E d)) = tab d @ [r]
        \<and> k r = key x \<and> (\<forall>y\<in>set (tab d). k y \<noteq> key x) \<and> stored x (f r))
      \<or> (\<exists>v. ins x E d = (d, Inl v))"
    and del: "\<And>i E d. (snd (del i E d) = Inr (length (filter (\<lambda>x. k x = i) (tab d)))
        \<and> tab (fst (del i E d)) = filter (\<lambda>x. k x \<noteq> i) (tab d))
      \<or> (\<exists>v. del i E d = (d, Inl v))"
  shows "keyed_repository key (\<lambda>x db. map_prod id insert_result (execute P (ins x) db))
    (\<lambda>i db. map_prod id (row_result f) (execute P (sel i) db))
    (\<lambda>i db. map_prod id affected_result (execute P (del i) db)) view stored"
proof -
  note view_tab = view tab keyed_lemmas
  have ins_view: "(\<exists>y. stored x y \<and> view d (key x) = None \<and> snd (ins x E d) = Inr ()
      \<and> view (fst (ins x E d)) = (view d)(key x \<mapsto> y)) \<or> (\<exists>v. ins x E d = (d, Inl v))" for x E d
  proof -
    consider r where "snd (ins x E d) = Inr ()" "tab (fst (ins x E d)) = tab d @ [r]"
        "k r = key x" "\<forall>y\<in>set (tab d). k y \<noteq> key x" "stored x (f r)"
      | v where "ins x E d = (d, Inl v)"
      using ins [of x E d] by blast
    then show ?thesis
      by cases (auto simp: view map_of_snoc map_of_key_None)
  qed
  have view_stm: "view (d\<lparr>statements := n\<rparr>) = view d" for d n by (simp add: view tab)
  have sel_fst: "fst (sel i E d) = d" for i E d using sel [of i E d] by auto
  show ?thesis
  proof (unfold_locales, goal_cases)
    case (1 i s)
    show ?case by (rule execute_cases [of P "sel i" s]) (simp_all add: view tab sel_fst)
  next
    case (2 i s x)
    then obtain r where "snd (execute P (sel i) s) = Inr (Some r)" "x = f r"
      using row_result_Inr by fastforce
    with execute_Inr [of P "sel i" s "Some r"] sel
      [of i "pg_call P (statements s)" "s\<lparr>statements := Suc (statements s)\<rparr>"]
    show ?case by (auto simp: view_tab)
  next
    case (3 i s e)
    then have "e = ErrNotFound" "snd (execute P (sel i) s) = Inr None"
      using row_result_Sentinel by fastforce+
    with execute_Inr [of P "sel i" s None] sel
      [of i "pg_call P (statements s)" "s\<lparr>statements := Suc (statements s)\<rparr>"]
    show ?case by (auto simp: view_tab)
  next
    case (4 x s)
    show ?case
      by (rule execute_cases [of P "ins x" s];
          insert ins_view [of x "s\<lparr>statements := Suc (statements s)\<rparr>" "pg_call P (statements s)"])
        (auto simp: view_stm insert_result_Inr)
  next
    case (5 x s e)
    then show ?case by (auto dest: insert_result_Sentinel)
  next
    case (6 i s)
    show ?case
      by (rule execute_cases [of P "del i" s];
          insert del [of i "pg_call P (statements s)" "s\<lparr>statements := Suc (statements s)\<rparr>"])
        (auto simp: view_tab affected_result_Inr)
  next
    case (7 i s)
    then obtain n where "n > 0" "snd (execute P (del i) s) = Inr n"
      by (auto simp: affected_result_Inr)
    with execute_Inr [of P "del i" s n] del
      [of i "pg_call P (statements s)" "s\<lparr>statements := Suc (statements s)\<rparr>"]
    show ?case by (auto simp: view tab map_of_eq_None_iff image_image filter_empty_conv)
  next
    case (8 i s e)
    then have "e = ErrNotFound" "snd (execute P (del i) s) = Inr 0"
      by (auto simp: affected_result_Sentinel)
    with execute_Inr [of P "del i" s 0] del
      [of i "pg_call P (statements s)" "s\<lparr>statements := Suc (statements s)\<rparr>"]
    show ?case by (auto simp: view tab map_of_eq_None_iff image_image filter_empty_conv)
  qed
qed

interpretation agent_store: keyed_repository ai_ID "ar_Create (AgentRepo P)" "ar_Get (AgentRepo P)"
  "ar_Delete (AgentRepo P)" agents_view "stored_agent P" for P
  unfolding AgentRepo_def AgentRepository.simps
proof (rule table_repository)
  show "agents_view d = map_of (map (\<lambda>x. (ag_id x, scan_agent x)) (agents d))" for d
    by (simp add: agents_view_def)
  show "agents (d\<lparr>statements := n\<rparr>) = agents d" for d n by simp
  show "(\<exists>r. snd (insert_agent P a E d) = Inr () \<and> agents (fst (insert_agent P a E d)) = agents d @ [r]
      \<and> ag_id r = ai_ID a \<and> (\<forall>y\<in>set (agents d). ag_id y \<noteq> ai_ID a) \<and> stored_agent P a (scan_agent r))
    \<or> (\<exists>v. insert_agent P a E d = (d, Inl v))" for a E d
    by (rule insert_agent_cases [of P a E d]) auto
qed (auto simp: select_agent_def delete_agent_def)

interpretation pop_store: keyed_repository pp_Name "pr_Create (POPRepo P)" "pr_Get (POPRepo P)"
  "pr_Delete (POPRepo P)" pops_view "stored_pop P" for P
  unfolding POPRepo_def POPRepository.simps
proof (rule table_repository)
  show "pops_view d = map_of (map (\<lambda>x. (po_name x, scan_pop x)) (pops d))" for d
    by (simp add: pops_view_def)
  show "pops (d\<lparr>statements := n\<rparr>) = pops d" for d n by simp
  show "(\<exists>r. snd (insert_pop P p E d) = Inr () \<and> pops (fst (insert_pop P p E d)) = pops d @ [r]
      \<and> po_name r = pp_Name p \<and> (\<forall>y\<in>set (pops d). po_name y \<noteq> pp_Name p) \<and> stored_pop P p (scan_pop r))
    \<or> (\<exists>v. insert_pop P p E d = (d, Inl v))" for p E d
    by (rule insert_pop_cases [of P p E d]) auto
qed (auto simp: select_pop_def delete_pop_def)

interpretation test_store: keyed_repository df_ID "te_Create (TestRepo P)" "te_Get (TestRepo P)"
  "te_Delete (TestRepo P)" tests_view "stored_test P" for P
  unfolding TestRepo_def TestRepository.simps
proof (rule table_repository)
  show "tests_view d = map_of (map (\<lambda>x. (te_id x, scan_test x)) (test_definitions d))" for d
    by (simp add: tests_view_def)
  show "test_definitions (d\<lparr>statements := n\<rparr>) = test_definitions d" for d n by simp
  show "(\<exists>r. snd (insert_test P t E d) = Inr ()
      \<and> test_definitions (fst (insert_test P t E d)) = test_definitions d @ [r] \<and> te_id r = df_ID t
      \<and> (\<forall>y\<in>set (test_definitions d). te_id y \<noteq> df_ID t) \<and> stored_test P t (scan_test r))
    \<or> (\<exists>v. insert_test P t E d = (d, Inl v))" for t E d
    by (rule insert_test_cases [of P t E d]) auto
qed (auto simp: select_test_def delete_test_def)

subsection \<open>The constraints of the schema\<close>

definition keys_ok :: "database \<Rightarrow> bool" where
  "keys_ok db \<longleftrightarrow>
     distinct (map ag_id (agents db)) \<and> distinct (map po_name (pops db))
     \<and> distinct (map te_id (test_definitions db)) \<and> distinct (map ak_id (api_keys db))
     \<and> distinct (map ak_key_hash (api_keys db))"

definition sequences_ok :: "database \<Rightarrow> bool" where
  "sequences_ok db \<longleftrightarrow>
     distinct (map as_id (test_assignments db))
     \<and> (\<forall>x\<in>set (test_assignments db). as_id x < assignment_seq db)
     \<and> distinct (map au_id (audit_log db)) \<and> (\<forall>x\<in>set (audit_log db). au_id x < audit_seq db)"

definition references_ok :: "database \<Rightarrow> bool" where
  "references_ok db \<longleftrightarrow>
     (\<forall>a\<in>set (agents db). \<exists>p\<in>set (pops db). po_name p = ag_pop_name a)
     \<and> (\<forall>x\<in>set (test_assignments db).
          (\<exists>t\<in>set (test_definitions db). te_id t = as_test_id x)
          \<and> (\<forall>n. as_pop_name x = Some n \<longrightarrow> (\<exists>p\<in>set (pops db). po_name p = n)))"

definition assignments_unique :: "database \<Rightarrow> bool" where
  "assignments_unique db \<longleftrightarrow>
     distinct (map (\<lambda>x. (as_test_id x, as_pop_name x))
       (filter (\<lambda>x. as_pop_name x \<noteq> None) (test_assignments db)))"

definition schema_ok :: "database \<Rightarrow> bool" where
  "schema_ok db \<longleftrightarrow> keys_ok db \<and> sequences_ok db \<and> references_ok db \<and> assignments_unique db"

lemmas schema_parts = keys_ok_def sequences_ok_def references_ok_def assignments_unique_def

lemma schema_ok_statements [simp]: "schema_ok (db\<lparr>statements := n\<rparr>) = schema_ok db"
  by (simp add: schema_ok_def schema_parts)

lemma schema_ok_empty: "schema_ok empty_database"
  by (simp add: schema_ok_def schema_parts empty_database_def)

lemma map_key_update:
  "(\<And>x. f (g x) = f x) \<Longrightarrow> map (f \<circ> (\<lambda>x. if c x then g x else x)) xs = map f xs"
  by (induction xs) auto

lemma distinct_map_filter': "distinct (map f xs) \<Longrightarrow> distinct (map f (filter c xs))"
  by (induction xs) auto

lemma distinct_map_filter2:
  "distinct (map f (filter c xs)) \<Longrightarrow> distinct (map f (filter c (filter d xs)))"
  by (induction xs) auto

lemma schema_insert_agent [inv_intros]:
  assumes "schema_ok db"
  shows "schema_ok (fst (insert_agent P a E db))"
  using insert_agent_cases [of P a E db]
proof cases
  case (inserted x)
  with assms show ?thesis by (auto simp: schema_ok_def schema_parts)
qed (use assms in simp)

lemma schema_insert_pop [inv_intros]:
  assumes "schema_ok db"
  shows "schema_ok (fst (insert_pop P p E db))"
  using insert_pop_cases [of P p E db]
proof cases
  case (inserted x)
  with assms show ?thesis by (auto simp: schema_ok_def schema_parts)
qed (use assms in simp)

lemma schema_insert_test [inv_intros]:
  assumes "schema_ok db"
  shows "schema_ok (fst (insert_test P t E db))"
  using insert_test_cases [of P t E db]
proof cases
  case (inserted x)
  with assms show ?thesis by (auto simp: schema_ok_def schema_parts)
qed (use assms in simp)

lemma schema_update_heartbeat [inv_intros]:
  "schema_ok db \<Longrightarrow> schema_ok (fst (update_heartbeat P i t s v E db))"
  by (auto simp: update_heartbeat_def schema_ok_def schema_parts map_key_update split: option.split)

lemma schema_delete_agent [inv_intros]:
  "schema_ok db \<Longrightarrow> schema_ok (fst (delete_agent P i E db))"
  by (auto simp: delete_agent_def schema_ok_def schema_parts distinct_map_filter')

lemma schema_delete_pop [inv_intros]:
  "schema_ok db \<Longrightarrow> schema_ok (fst (delete_pop P n E db))"
  by (auto simp: delete_pop_def schema_ok_def schema_parts distinct_map_filter' distinct_map_filter2
      simp del: filter_filter) metis+

lemma schema_update_test [inv_intros]:
  assumes "schema_ok db"
  shows "schema_ok (fst (update_test P t E db))"
proof -
  let ?db = "fst (update_test P t E db)"
  have ids: "map te_id (test_definitions ?db) = map te_id (test_definitions db)"
    by (auto simp: update_test_def map_key_update split: option.split)
  have "(\<exists>x\<in>set (test_definitions ?db). te_id x = i)
      = (\<exists>x\<in>set (test_definitions db). te_id x = i)" for i
    using arg_cong [OF ids, of "\<lambda>xs. i \<in> set xs"] by auto
  moreover have "agents ?db = agents db" "pops ?db = pops db" "api_keys ?db = api_keys db"
    "test_assignments ?db = test_assignments db" "audit_log ?db = audit_log db"
    "assignment_seq ?db = assignment_seq db" "audit_seq ?db = audit_seq db"
    by (auto simp: update_test_def split: option.split)
  ultimately show ?thesis
    using assms by (simp add: schema_ok_def schema_parts ids)
qed

lemma schema_delete_test [inv_intros]:
  "schema_ok db \<Longrightarrow> schema_ok (fst (delete_test P i E db))"
  by (auto simp: delete_test_def schema_ok_def schema_parts distinct_map_filter' distinct_map_filter2
      simp del: filter_filter) metis

lemma schema_insert_assignment [inv_intros]:
  "schema_ok db \<Longrightarrow> schema_ok (fst (insert_assignment P i pn E db))"
  by (auto simp: insert_assignment_def Let_def schema_ok_def schema_parts less_Suc_eq)

lemma schema_delete_assignment [inv_intros]:
  "schema_ok db \<Longrightarrow> schema_ok (fst (delete_assignment P i pn E db))"
  by (auto simp: delete_assignment_def schema_ok_def schema_parts distinct_map_filter'
      distinct_map_filter2 simp del: filter_filter)

lemma schema_insert_api_key [inv_intros]:
  "schema_ok db \<Longrightarrow> schema_ok (fst (insert_api_key P k E db))"
  by (auto simp: insert_api_key_def schema_ok_def schema_parts split: option.split)

lemma schema_update_last_used [inv_intros]:
  "schema_ok db \<Longrightarrow> schema_ok (fst (update_last_used P i E db))"
  by (auto simp: update_last_used_def schema_ok_def schema_parts map_key_update)

lemma schema_insert_audit [inv_intros]:
  "schema_ok db \<Longrightarrow> schema_ok (fst (insert_audit P e E db))"
  by (auto simp: insert_audit_def schema_ok_def schema_parts less_Suc_eq split: option.split)

text \<open>The selections change nothing.\<close>

lemma select_fst [simp]:
  "fst (select_agent P i E db) = db" "fst (select_agents E db) = db"
  "fst (select_pop P n E db) = db" "fst (select_pops P E db) = db"
  "fst (select_test P i E db) = db" "fst (select_tests E db) = db"
  "fst (select_tests_by_pop P n E db) = db" "fst (select_key_by_hash P h E db) = db"
  "fst (select_assignments_by_test P i E db) = db" "fst (select_assignments_by_pop P n E db) = db"
  "fst (select_audit l off E db) = db" "fst (select_audit_of P r i l E db) = db"
  by (simp_all add: select_agent_def select_agents_def select_pop_def select_pops_def
      select_test_def select_tests_def select_tests_by_pop_def select_key_by_hash_def
      select_assignments_by_test_def select_assignments_by_pop_def select_audit_def
      select_audit_of_def)

end
