(* ===== verification/Server.thy ===== *)
theory Server
  imports Router Schema
begin

text \<open>
  The control plane on PostgreSQL: the router over the repositories of theory \<open>Postgres\<close>
  (cmd/server/main.go), with the properties of its requests.
\<close>

subsection \<open>The invariant of the database\<close>

definition postgres_deps :: "postgres \<Rightarrow> database deps" where
  "postgres_deps P =
     \<lparr>dp_Agents = AgentRepo P, dp_POPs = POPRepo P, dp_Tests = TestRepo P,
      dp_Assignments = AssignmentRepo P, dp_APIKeys = APIKeyRepo P, dp_Audit = Some (AuditRepo P)\<rparr>"

lemma postgres_deps_simps [simp]:
  "dp_Agents (postgres_deps P) = AgentRepo P" "dp_POPs (postgres_deps P) = POPRepo P"
  "dp_Tests (postgres_deps P) = TestRepo P" "dp_Assignments (postgres_deps P) = AssignmentRepo P"
  "dp_APIKeys (postgres_deps P) = APIKeyRepo P" "dp_Audit (postgres_deps P) = Some (AuditRepo P)"
  by (simp_all add: postgres_deps_def)

text \<open>The tables obey the schema, every test is valid, and the audit log extends \<open>l0\<close>.\<close>

definition tests_ok :: "database \<Rightarrow> bool" where
  "tests_ok db \<longleftrightarrow> (\<forall>x\<in>set (test_definitions db). valid_test (scan_test x))"

definition db_inv :: "audit_row list \<Rightarrow> database \<Rightarrow> bool" where
  "db_inv l0 db \<longleftrightarrow> schema_ok db \<and> tests_ok db \<and> prefix l0 (audit_log db)"

lemma db_inv_statements [simp]: "db_inv l0 (db\<lparr>statements := n\<rparr>) = db_inv l0 db"
  by (simp add: db_inv_def tests_ok_def)

lemma db_inv_execute:
  "(\<And>E d. db_inv l0 d \<Longrightarrow> db_inv l0 (fst (st E d))) \<Longrightarrow> db_inv l0 db \<Longrightarrow>
   db_inv l0 (fst (execute P st db))"
  by (rule execute_keeps [where I = "db_inv l0"]) auto

lemma db_inv_same:
  "schema_ok d' \<Longrightarrow> test_definitions d' = test_definitions d \<Longrightarrow> audit_log d' = audit_log d \<Longrightarrow>
   db_inv l0 d \<Longrightarrow> db_inv l0 d'"
  by (simp add: db_inv_def tests_ok_def)

lemma db_inv_insert_test:
  assumes "valid_test t" "db_inv l0 d"
  shows "db_inv l0 (fst (insert_test P t E d))"
  using insert_test_cases [of P t E d]
proof cases
  case (inserted x)
  have "valid_test (scan_test x)"
    using assms(1) inserted(4) by (simp add: valid_test_def stored_test_def)
  with inserted(1) assms(2) schema_insert_test [of d P t E] show ?thesis
    by (auto simp: db_inv_def tests_ok_def)
qed (use assms(2) in simp)

lemma db_inv_update_test:
  assumes "valid_test t" "db_inv l0 d"
  shows "db_inv l0 (fst (update_test P t E d))"
proof -
  have "tests_ok (fst (update_test P t E d))"
    using assms
    by (auto simp: update_test_def tests_ok_def db_inv_def valid_test_def scan_test_def
        split: option.split)
  moreover have "audit_log (fst (update_test P t E d)) = audit_log d"
    by (auto simp: update_test_def split: option.split)
  ultimately show ?thesis
    using assms(2) schema_update_test [of d P t E] by (simp add: db_inv_def)
qed

lemma db_inv_insert_audit: "db_inv l0 d \<Longrightarrow> db_inv l0 (fst (insert_audit P e E d))"
  using schema_insert_audit [of d P e E]
  by (auto simp: db_inv_def tests_ok_def insert_audit_def prefix_order.trans split: option.splits)

lemma other_tables_kept:
  "test_definitions (fst (insert_agent P a E d)) = test_definitions d"
  "audit_log (fst (insert_agent P a E d)) = audit_log d"
  "test_definitions (fst (update_heartbeat P i t s v E d)) = test_definitions d"
  "audit_log (fst (update_heartbeat P i t s v E d)) = audit_log d"
  "test_definitions (fst (delete_agent P i E d)) = test_definitions d"
  "audit_log (fst (delete_agent P i E d)) = audit_log d"
  "test_definitions (fst (insert_pop P p E d)) = test_definitions d"
  "audit_log (fst (insert_pop P p E d)) = audit_log d"
  "test_definitions (fst (delete_pop P n E d)) = test_definitions d"
  "audit_log (fst (delete_pop P n E d)) = audit_log d"
  "test_definitions (fst (insert_assignment P i pn E d)) = test_definitions d"
  "audit_log (fst (insert_assignment P i pn E d)) = audit_log d"
  "test_definitions (fst (update_last_used P i E d)) = test_definitions d"
  "audit_log (fst (update_last_used P i E d)) = audit_log d"
  by (auto simp: insert_agent_def update_heartbeat_def delete_agent_def insert_pop_def
      delete_pop_def insert_assignment_def update_last_used_def Let_def split: option.split)

lemma db_inv_schema: "db_inv l0 d \<Longrightarrow> schema_ok d"
  by (simp add: db_inv_def)

lemma db_inv_delete_test: "db_inv l0 d \<Longrightarrow> db_inv l0 (fst (delete_test P i E d))"
  using schema_delete_test [of d P i E] by (auto simp: db_inv_def tests_ok_def delete_test_def)

lemmas db_inv_intros = db_inv_execute db_inv_insert_test db_inv_update_test db_inv_insert_audit
  db_inv_delete_test

lemma tests_ok_view: "tests_ok db \<Longrightarrow> tests_view db i = Some t \<Longrightarrow> valid_test t"
  unfolding tests_ok_def tests_view_def by (drule map_of_SomeD) auto

interpretation plane: api_invariant "postgres_deps P" "db_inv l0" for P l0
proof unfold_locales
  fix s i t
  assume "db_inv l0 s" "snd (te_Get (dp_Tests (postgres_deps P)) i s) = Inr t"
  then show "valid_test t"
    using test_store.get_found [of P i s t] tests_ok_view [of s i t] by (simp add: db_inv_def)
qed (auto simp: AgentRepo_def POPRepo_def TestRepo_def AssignmentRepo_def APIKeyRepo_def
    AuditRepo_def unchecked_rows_def Let_def split_beta
    intro!: db_inv_intros
    intro: db_inv_same [OF _ other_tables_kept(1,2)] db_inv_same [OF _ other_tables_kept(3,4)]
      db_inv_same [OF _ other_tables_kept(5,6)] db_inv_same [OF _ other_tables_kept(7,8)]
      db_inv_same [OF _ other_tables_kept(9,10)] db_inv_same [OF _ other_tables_kept(11,12)]
      db_inv_same [OF _ other_tables_kept(13,14)] inv_intros db_inv_schema)

subsection \<open>Statements that are executed\<close>

lemma map_sum_Inr: "map_sum f g x = Inr y \<longleftrightarrow> (\<exists>z. x = Inr z \<and> y = g z)"
  by (cases x) auto

text \<open>Every statement is executed and answered; no answer is lost.\<close>

definition all_executed :: "postgres \<Rightarrow> bool" where
  "all_executed P \<longleftrightarrow> (\<forall>n. ce_execution (pg_call P n) = Executed)"

definition no_answer_lost :: "postgres \<Rightarrow> bool" where
  "no_answer_lost P \<longleftrightarrow> (\<forall>n e. ce_execution (pg_call P n) \<noteq> Answer_lost e)"

abbreviation (input) next_call :: "postgres \<Rightarrow> database \<Rightarrow> call_env" where
  "next_call P db \<equiv> pg_call P (statements db)"

abbreviation (input) counted :: "database \<Rightarrow> database" where
  "counted db \<equiv> db\<lparr>statements := Suc (statements db)\<rparr>"

lemma execute_executed:
  "all_executed P \<Longrightarrow> execute P st db =
    (fst (st (next_call P db) (counted db)), map_sum (pg_text P) id (snd (st (next_call P db) (counted db))))"
  by (simp add: execute_def all_executed_def Let_def split_beta)

subsection \<open>Configuration sync\<close>

definition assigned :: "database \<Rightarrow> string \<Rightarrow> string \<Rightarrow> bool" where
  "assigned db i n \<longleftrightarrow>
     (\<exists>x\<in>set (test_assignments db). as_test_id x = i \<and> (as_pop_name x = Some n \<or> as_pop_name x = None))"

lemma sorted_desc: "sorted_wrt (\<lambda>x y. col x \<ge> col y) (desc col rows)"
  using sorted_sort_key [of "\<lambda>r. - col r" rows] by (simp add: desc_def sorted_map)

lemma select_tests_by_pop_exact:
  assumes "keys_ok db" "select_tests_by_pop P n E db = (db', Inr rows)"
  shows "db' = db" "distinct (map te_id rows)"
    "set rows = {x \<in> set (test_definitions db). te_enabled x \<and> assigned db (te_id x) n}"
    "sorted_wrt (\<lambda>x y. te_created_at x \<ge> te_created_at y) rows"
proof -
  let ?join = "[td. td \<leftarrow> scan E (test_definitions db), ta \<leftarrow> scan E (test_assignments db),
      te_id td = as_test_id ta \<and> te_enabled td \<and> (as_pop_name ta = Some n \<or> as_pop_name ta = None)]"
  from assms(2) have rows: "rows = desc te_created_at (remdups ?join)" "db' = db"
    by (auto simp: select_tests_by_pop_def split: if_splits)
  then show "db' = db" by simp
  show set_rows: "set rows = {x \<in> set (test_definitions db). te_enabled x \<and> assigned db (te_id x) n}"
    unfolding rows(1) assigned_def by (auto split: if_splits)
  have "distinct rows" unfolding rows(1) desc_def by simp
  moreover have "inj_on te_id (set rows)"
    using assms(1) set_rows by (auto simp: keys_ok_def distinct_map intro: inj_on_subset)
  ultimately show "distinct (map te_id rows)" by (simp add: distinct_map)
  show "sorted_wrt (\<lambda>x y. te_created_at x \<ge> te_created_at y) rows"
    unfolding rows(1) by (rule sorted_desc)
qed

lemma scan_test_simps [simp]:
  "df_ID (scan_test x) = te_id x" "df_Enabled (scan_test x) = te_enabled x"
  "df_CreatedAt (scan_test x) = te_created_at x" "df_IntervalMS (scan_test x) = te_interval_ms x"
  by (simp_all add: scan_test_def)

lemma tests_view_iff:
  "keys_ok db \<Longrightarrow> tests_view db i = Some t \<longleftrightarrow> (\<exists>x\<in>set (test_definitions db). te_id x = i \<and> t = scan_test x)"
  unfolding keys_ok_def tests_view_def
  by (subst map_of_eq_Some_iff) (auto simp: comp_def image_iff)

text \<open>
  C4: the configuration sync of a POP lists every enabled test that is assigned to the POP or to
  all POPs, each exactly once and the newest first, and nothing else; the tables stay as they are.
\<close>

theorem config_sync_exact:
  assumes "schema_ok db"
    and "SyncHandler_ConfigSync A (TestRepo P) rq db = (db', r)" "rp_Status r = 200"
  shows "\<exists>ts. rp_Body r = map_option (\<lambda>j. JObj [(''agent_id'', JStr (URLParam rq ''id'')),
        (''pop'', JStr (rq_Query rq ''pop'')), (''tests'', j)]) (enc_all (enc_TestDef (ap_codec A)) ts)
      \<and> distinct (map df_ID ts)
      \<and> set ts = {t. tests_view db (df_ID t) = Some t \<and> df_Enabled t
                   \<and> assigned db (df_ID t) (rq_Query rq ''pop'')}
      \<and> sorted_wrt (\<lambda>t u. df_CreatedAt t \<ge> df_CreatedAt u) ts
      \<and> db' = counted db"
proof -
  let ?n = "rq_Query rq ''pop''"
  have keys: "keys_ok db" "keys_ok (counted db)"
    using assms(1) by (simp_all add: schema_ok_def keys_ok_def)
  obtain ts where ts: "te_ListByPOP (TestRepo P) ?n db = (db', Inr ts)"
    and body: "rp_Body r = map_option (\<lambda>j. JObj [(''agent_id'', JStr (URLParam rq ''id'')),
        (''pop'', JStr ?n), (''tests'', j)]) (enc_all (enc_TestDef (ap_codec A)) ts)"
    using assms(2,3)
    by (auto simp: SyncHandler_ConfigSync_def Let_def writeJSON_def errorResponse_def error_status_def
        split: if_splits prod.splits sum.splits)
  then obtain rows where ex: "execute P (select_tests_by_pop P ?n) db = (db', Inr rows)"
    and scan: "ts = map scan_test rows"
    by (auto simp: TestRepo_def rows_result_def map_prod_def split: prod.splits sum.splits)
      (metis map_sum.simps obj_sumE sum.inject(2) sum.distinct(1))
  from execute_Inr [of P "select_tests_by_pop P ?n" db rows] ex
  have "select_tests_by_pop P ?n (next_call P db) (counted db) = (db', Inr rows)"
    by (metis fst_conv prod.collapse snd_conv)
  note rows = select_tests_by_pop_exact [OF keys(2) this]
  have "set ts = {t. tests_view db (df_ID t) = Some t \<and> df_Enabled t \<and> assigned db (df_ID t) ?n}"
    unfolding tests_view_iff [OF keys(1)] scan set_map rows(3)
    by (auto simp: assigned_def intro!: imageI)
  moreover have "distinct (map df_ID ts)" "sorted_wrt (\<lambda>t u. df_CreatedAt t \<ge> df_CreatedAt u) ts"
    using rows(2,4) by (simp_all add: scan comp_def sorted_wrt_map)
  ultimately show ?thesis using body rows(1) by blast
qed

subsection \<open>Assignments\<close>

text \<open>The pairs of a test and a POP (or all POPs) that are assigned.\<close>

definition assignment_pairs :: "database \<Rightarrow> (string \<times> string option) set" where
  "assignment_pairs db = (\<lambda>x. (as_test_id x, as_pop_name x)) ` set (test_assignments db)"

lemma assigned_pairs: "assigned db i n \<longleftrightarrow> (i, Some n) \<in> assignment_pairs db \<or> (i, None) \<in> assignment_pairs db"
  by (auto simp: assigned_def assignment_pairs_def image_iff)

definition has_test :: "database \<Rightarrow> string \<Rightarrow> bool" where
  "has_test db i \<longleftrightarrow> (\<exists>t\<in>set (test_definitions db). te_id t = i)"

definition has_pop :: "database \<Rightarrow> string \<Rightarrow> bool" where
  "has_pop db n \<longleftrightarrow> (\<exists>p\<in>set (pops db). po_name p = n)"

text \<open>Which POPs of a list an existing test can be assigned to.\<close>

definition assignable :: "postgres \<Rightarrow> database \<Rightarrow> string list \<Rightarrow> string option set" where
  "assignable P db ns = {pop_param n | n. n \<in> set ns \<and> (n = [] \<or> pg_accepts P n \<and> has_pop db n)}"

lemma insert_assignment_effect:
  assumes "pg_accepts P i" "has_test db i"
  shows "assignment_pairs (fst (insert_assignment P i (pop_param n) E db)) =
      assignment_pairs db \<union> {i} \<times> assignable P db [n]"
    and "test_definitions (fst (insert_assignment P i pn E db)) = test_definitions db"
    and "pops (fst (insert_assignment P i pn E db)) = pops db"
  using assms
  by (auto simp: insert_assignment_def has_test_def has_pop_def assignable_def
      assignment_pairs_def pop_param_def Let_def image_iff) metis+

lemma assign_effect:
  assumes "all_executed P" "pg_accepts P i" "has_test db i"
  shows "assignment_pairs (fst (as_Assign (AssignmentRepo P) i n db)) =
      assignment_pairs db \<union> {i} \<times> assignable P db [n]"
    and "test_definitions (fst (as_Assign (AssignmentRepo P) i n db)) = test_definitions db"
    and "pops (fst (as_Assign (AssignmentRepo P) i n db)) = pops db"
proof -
  have eq: "fst (as_Assign (AssignmentRepo P) i n db) =
      fst (insert_assignment P i (pop_param n) (next_call P db) (counted db))"
    using assms(1) by (simp add: AssignmentRepo_def execute_executed)
  have "has_test (counted db) i" using assms(3) by (simp add: has_test_def)
  from insert_assignment_effect(1) [OF assms(2) this, of n "next_call P db"]
    insert_assignment_effect(2,3) [OF assms(2) this, of "pop_param n" "next_call P db"]
  show "assignment_pairs (fst (as_Assign (AssignmentRepo P) i n db)) =
      assignment_pairs db \<union> {i} \<times> assignable P db [n]"
    "test_definitions (fst (as_Assign (AssignmentRepo P) i n db)) = test_definitions db"
    "pops (fst (as_Assign (AssignmentRepo P) i n db)) = pops db"
    unfolding eq by (simp_all add: assignment_pairs_def assignable_def has_pop_def)
qed

lemma assign_all_effect:
  assumes "all_executed P" "pg_accepts P i" "has_test db i"
  shows "assignment_pairs (assign_all (AssignmentRepo P) i ns db) = assignment_pairs db
      \<union> {i} \<times> (if ns = [] then {None} else assignable P db ns)
    \<and> test_definitions (assign_all (AssignmentRepo P) i ns db) = test_definitions db
    \<and> pops (assign_all (AssignmentRepo P) i ns db) = pops db"
proof -
  let ?f = "\<lambda>pop s. fst (as_Assign (AssignmentRepo P) i pop s)"
  have "assignment_pairs (fold ?f ms d) = assignment_pairs d \<union> {i} \<times> assignable P db ms
      \<and> test_definitions (fold ?f ms d) = test_definitions db \<and> pops (fold ?f ms d) = pops db"
    if "test_definitions d = test_definitions db" "pops d = pops db" for ms d
    using that
  proof (induction ms arbitrary: d)
    case (Cons m ms)
    have h: "has_test d i" using assms(3) Cons.prems by (simp add: has_test_def)
    have a: "assignable P d [m] \<union> assignable P db ms = assignable P db (m # ms)"
      using Cons.prems by (auto simp: assignable_def has_pop_def)
    have "test_definitions (?f m d) = test_definitions db" "pops (?f m d) = pops db"
      using assign_effect(2,3) [OF assms(1,2) h, of m] Cons.prems by simp_all
    from Cons.IH [OF this] show ?case
      using assign_effect(1) [OF assms(1,2) h, of m] by (auto simp flip: a)
  qed (simp add: assignable_def)
  from this [of db ns] show ?thesis
    using assign_effect [OF assms, of "[]"]
    by (auto simp: assign_all_def assignable_def pop_param_def)
qed

lemma te_Create_done:
  assumes "all_executed P" "snd (te_Create (TestRepo P) t db) = Inr ()"
  obtains x where "fst (te_Create (TestRepo P) t db) =
      (counted db)\<lparr>test_definitions := test_definitions db @ [x]\<rparr>" "te_id x = df_ID t"
    "\<not> has_test db (df_ID t)" "stored_test P t (scan_test x)" "pg_accepts P (df_ID t)"
proof -
  have ex: "snd (insert_test P t (next_call P db) (counted db)) = Inr ()"
    using assms by (simp add: TestRepo_def execute_executed insert_result_Inr map_sum_Inr)
  show ?thesis
    using insert_test_cases [of P t "next_call P db" "counted db"]
  proof cases
    case (inserted x)
    moreover have "pg_accepts P (df_ID t)"
      using ex by (auto simp: insert_test_def split: option.splits if_splits)
    ultimately show ?thesis
      using assms(1) that [of x] by (auto simp: TestRepo_def execute_executed has_test_def)
  qed (use ex in auto)
qed

text \<open>
  C7: when the database keeps its schema and executes every statement, a test that was created for a list of POPs is
  offered to the agents of a POP exactly when it is enabled and the list is empty, contains the
  empty name, or contains the POP, the POP exists and PostgreSQL accepts its name (it refuses
  a NUL byte); a POP of the list that does not exist or is refused is skipped without an error.
\<close>

theorem created_test_is_synced:
  assumes "all_executed P" "schema_ok db" "n \<noteq> []"
    and "readJSON A CreateTestRequest_fields zero_CreateTestRequest (rq_Body rq) = Inr req"
    and "TestHandler_Create A (TestRepo P) (AssignmentRepo P) rq db = (db', r)" "rp_Status r = 201"
  shows "\<exists>t. tests_view db' (ct_ID req) = Some t \<and> stored_test P (new_test req) t
    \<and> (df_Enabled t \<and> assigned db' (ct_ID req) n \<longleftrightarrow>
        ct_Enabled req \<noteq> Some False
        \<and> (pop_list (ct_POPs req) = [] \<or> [] \<in> set (pop_list (ct_POPs req))
           \<or> n \<in> set (pop_list (ct_POPs req)) \<and> pg_accepts P n \<and> has_pop db n))"
proof -
  let ?t = "new_test req" and ?i = "ct_ID req" and ?ns = "pop_list (ct_POPs req)"
  let ?s = "fst (te_Create (TestRepo P) ?t db)"
  have id: "df_ID ?t = ?i" by (simp add: new_test_def)
  have created: "snd (te_Create (TestRepo P) ?t db) = Inr ()"
    and db': "db' = assign_all (AssignmentRepo P) ?i ?ns ?s"
    using assms(4-6)
    by (auto simp: TestHandler_Create_def errorResponse_def writeJSON_def error_status_def
        split: option.splits prod.splits sum.splits if_splits)
  obtain x where s: "?s = (counted db)\<lparr>test_definitions := test_definitions db @ [x]\<rparr>"
    and x: "te_id x = ?i" "\<not> has_test db ?i" "stored_test P ?t (scan_test x)"
      "pg_accepts P ?i"
    by (rule te_Create_done [OF assms(1) created]) (use id in auto)
  have "has_test ?s ?i" using s x(1) by (simp add: has_test_def)
  from assign_all_effect [OF assms(1) x(4) this, of ?ns]
  have pairs: "assignment_pairs db' = assignment_pairs db
      \<union> {?i} \<times> (if ?ns = [] then {None} else assignable P db ?ns)"
    and tests: "test_definitions db' = test_definitions db @ [x]"
    by (auto simp: db' s assignment_pairs_def assignable_def has_pop_def)
  have fresh: "(?i, p) \<notin> assignment_pairs db" for p
    using assms(2) x(2)
    by (auto simp: schema_ok_def references_ok_def assignment_pairs_def has_test_def)
  have "tests_view db' ?i = Some (scan_test x)"
    using x(1,2) by (simp add: tests_view_def tests map_of_snoc has_test_def)
  moreover have "assigned db' ?i n \<longleftrightarrow> ?ns = [] \<or> [] \<in> set ?ns
      \<or> n \<in> set ?ns \<and> pg_accepts P n \<and> has_pop db n"
    using assms(3) fresh
    by (auto simp: assigned_pairs pairs assignable_def pop_param_def has_pop_def)
  moreover have "df_Enabled (scan_test x) \<longleftrightarrow> ct_Enabled req \<noteq> Some False"
    using x(3) by (auto simp: stored_test_def new_test_def split: option.splits)
  ultimately show ?thesis using x(3) by blast
qed

subsection \<open>Witnesses\<close>

text \<open>A database that answers every statement, and a decoder that reads one document.\<close>

definition demo_pg :: postgres where
  "demo_pg = \<lparr>pg_text = (\<lambda>v. if v = unique_violation then ''SQLSTATE 23505'' else ''error''),
     pg_accepts = (\<lambda>s. CHR 0x00 \<notin> set s), pg_jsonb = Some, pg_parse = (\<lambda>b. if b = ''x'' then None else Some (JObj [])),
     pg_print = (\<lambda>j. ''{}''), pg_timestamptz = Some, pg_collation = id,
     pg_call = (\<lambda>n. \<lparr>ce_execution = Executed, ce_now = int n, ce_rank = id, ce_deferred = None\<rparr>)\<rparr>"

lemma demo_pg_simps [simp]:
  "pg_accepts demo_pg s \<longleftrightarrow> CHR 0x00 \<notin> set s" "pg_jsonb demo_pg j = Some j" "pg_timestamptz demo_pg i = Some i"
  "pg_call demo_pg n = \<lparr>ce_execution = Executed, ce_now = int n, ce_rank = id, ce_deferred = None\<rparr>"
  "all_executed demo_pg"
  by (simp_all add: demo_pg_def all_executed_def)

definition demo_api :: "json \<Rightarrow> api_env" where
  "demo_api j = \<lparr>ap_codec = \<lparr>parse_json = (\<lambda>_. None), print_json = (\<lambda>_. []), parse_time = (\<lambda>_. None),
     print_time = (\<lambda>_. Some [])\<rparr>, ap_decode = (\<lambda>_. Some j), ap_decode_error = (\<lambda>_. []),
     ap_quote = id\<rparr>"

definition demo_request :: "string \<Rightarrow> http_request" where
  "demo_request i = \<lparr>rq_Method = ''POST'', rq_Header = (\<lambda>k. if k = ''Authorization'' then ''Bearer k'' else []),
     rq_RemoteAddr = ''192.0.2.1:99'', rq_Body = [], rq_Query = (\<lambda>k. if k = ''pop'' then ''nyc'' else []),
     rq_Params = [(''id'', i), (''name'', i)], rq_Pattern = None, rq_AuthID = None, rq_AuthRole = None\<rparr>"

lemma demo_request_simps [simp]:
  "URLParam (demo_request i) ''id'' = i" "URLParam (demo_request i) ''name'' = i"
  "rq_Query (demo_request i) ''pop'' = ''nyc''"
  by (simp_all add: demo_request_def URLParam_def)

definition demo_test_row :: test_row where
  "demo_test_row = \<lparr>te_id = ''t1'', te_name = ''web'', te_test_type = ''ping'', te_target = ''h'',
     te_interval_ms = 1000, te_timeout_ms = 500, te_config = JObj [], te_enabled = True,
     te_created_at = 0, te_updated_at = 0\<rparr>"

definition demo_db :: database where
  "demo_db = empty_database\<lparr>
     pops := [\<lparr>po_name = ''nyc'', po_provider = [], po_city = [], po_country = [], po_latitude = None,
       po_longitude = None, po_labels = JNull, po_created_at = 0, po_updated_at = 0\<rparr>],
     test_definitions := [demo_test_row],
     test_assignments := [\<lparr>as_id = 0, as_test_id = ''t1'', as_pop_name = Some ''nyc'', as_created_at = 0\<rparr>],
     api_keys := [\<lparr>ak_id = ''k1'', ak_name = [], ak_key_hash = ''6b'', ak_role = ''agent'', ak_scopes = [],
       ak_created_at = 0, ak_expires_at = None, ak_last_used = None\<rparr>]\<rparr>"

lemma demo_schema [simp]: "schema_ok demo_db"
  by (simp add: schema_ok_def schema_parts demo_db_def empty_database_def demo_test_row_def)

lemma demo_tests_ok [simp]: "tests_ok demo_db"
  by (simp add: tests_ok_def demo_db_def demo_test_row_def valid_test_def scan_test_def
      validTestTypes_def)

lemma config_sync_exact_witness:
  "\<exists>ts. distinct (map df_ID ts) \<and> set ts = {t. tests_view demo_db (df_ID t) = Some t \<and> df_Enabled t
     \<and> assigned demo_db (df_ID t) ''nyc''}"
proof -
  have "rp_Status (snd (SyncHandler_ConfigSync (demo_api JNull) (TestRepo demo_pg) (demo_request ''a'') demo_db)) = 200"
    by (simp add: SyncHandler_ConfigSync_def TestRepo_def rows_result_def execute_executed
        select_tests_by_pop_def writeJSON_def Let_def)
  from config_sync_exact [OF demo_schema prod.collapse [symmetric] this]
  show ?thesis by auto
qed

definition demo_create :: json where
  "demo_create = JObj [(''id'', JStr ''t2''), (''name'', JStr ''n''), (''test_type'', JStr ''dns''),
     (''target'', JStr ''h''), (''interval_ms'', JInt 5), (''timeout_ms'', JInt 5),
     (''pops'', JArr [JStr ''lax'', JStr ''nyc''])]"

definition demo_create_request :: CreateTestRequest where
  "demo_create_request = zero_CreateTestRequest\<lparr>ct_ID := ''t2'', ct_Name := ''n'', ct_TestType := ''dns'',
     ct_Target := ''h'', ct_IntervalMS := 5, ct_TimeoutMS := 5, ct_POPs := Some [''lax'', ''nyc'']\<rparr>"

lemma demo_create_read:
  "readJSON (demo_api demo_create) CreateTestRequest_fields zero_CreateTestRequest b = Inr demo_create_request"
  by (simp add: readJSON_def demo_api_def demo_create_def CreateTestRequest_fields_def find_field_def
      field_def zero_CreateTestRequest_def in_int64_def demo_create_request_def)

lemma demo_create_valid: "validateCreateRequest A demo_create_request = None"
  by (simp add: validateCreateRequest_def demo_create_request_def zero_CreateTestRequest_def
      validTestTypes_def)

lemma demo_created:
  "rp_Status (snd (TestHandler_Create (demo_api demo_create) (TestRepo demo_pg) (AssignmentRepo demo_pg)
     rq demo_db)) = 201"
proof -
  have "snd (te_Create (TestRepo demo_pg) (new_test demo_create_request) demo_db) = Inr ()"
    by (simp add: TestRepo_def execute_executed insert_result_Inr map_sum_Inr insert_test_def
        demo_db_def empty_database_def demo_test_row_def new_test_def demo_create_request_def
        zero_CreateTestRequest_def)
  then show ?thesis
    by (simp add: TestHandler_Create_def demo_create_read demo_create_valid split_beta writeJSON_def)
qed

lemma created_test_is_synced_witness:
  "assigned (fst (TestHandler_Create (demo_api demo_create) (TestRepo demo_pg) (AssignmentRepo demo_pg)
     (demo_request []) demo_db)) ''t2'' ''nyc''"
proof -
  have "ct_ID demo_create_request = ''t2''" "pop_list (ct_POPs demo_create_request) = [''lax'', ''nyc'']"
    "ct_Enabled demo_create_request = None" "has_pop demo_db ''nyc''"
    by (simp_all add: demo_create_request_def zero_CreateTestRequest_def pop_list_def has_pop_def
        demo_db_def)
  with created_test_is_synced [OF _ demo_schema _ demo_create_read prod.collapse [symmetric] demo_created,
      of "''nyc''" "demo_request []"]
  show ?thesis by auto
qed

subsection \<open>The reachable databases\<close>

text \<open>
  C3: whatever requests, background jobs, cleanups and restarts happen in whatever order, the
  tables keep to the constraints of the schema, every stored test has a name, a target and a
  known type, and no entry of the audit log is ever changed or removed.
\<close>

theorem reachable_database_ok:
  assumes "reachable_server A sha256 (postgres_deps P) db0 sv" "schema_ok db0" "tests_ok db0"
  shows "schema_ok (sv_state sv) \<and> tests_ok (sv_state sv)
    \<and> prefix (audit_log db0) (audit_log (sv_state sv))"
  using plane.server_keeps [OF assms(1), of "audit_log db0"] assms(2,3) by (simp add: db_inv_def)

lemma serve_new: "serve A sha256 D ck m rq (new_server s) \<noteq> None"
  by (auto simp: serve_def new_server_def router_limiter_def NewRateLimiter_def Middleware_def
      allow_def split: option.splits prod.splits)

definition demo_clocks :: clocks where
  "demo_clocks = \<lparr>ck_limit = 1, ck_auth = 1, ck_handler = 1, ck_audit = 1\<rparr>"

lemma reachable_database_ok_witness:
  "schema_ok (sv_state (fst (the (serve (demo_api demo_create) id (postgres_deps demo_pg) demo_clocks
     (Api_route TestCreate []) (demo_request []) (new_server demo_db)))))"
proof -
  obtain sv r where "serve (demo_api demo_create) id (postgres_deps demo_pg) demo_clocks
     (Api_route TestCreate []) (demo_request []) (new_server demo_db) = Some (sv, r)"
    using serve_new [of "demo_api demo_create" id "postgres_deps demo_pg"] by fast
  with reachable_database_ok [OF reachable_server.step [OF reachable_server.start server_step.request
        [OF this]] demo_schema demo_tests_ok]
  show ?thesis by simp
qed

end
