(* ===== verification/ControlPlane.thy ===== *)
theory ControlPlane
  imports Server
begin

text \<open>
  What a client of the control plane sees: who is let in, what the audit log records, what a
  failed request leaves behind, and the effect of the single requests.
\<close>

subsection \<open>Authentication\<close>

definition is_api :: "chi_match \<Rightarrow> bool" where
  "is_api m \<longleftrightarrow> (case m of Api_route ep ps \<Rightarrow> True | Api_no_route st \<Rightarrow> True | _ \<Rightarrow> False)"

definition key_of :: "(bytes \<Rightarrow> bytes) \<Rightarrow> http_request \<Rightarrow> api_key_row \<Rightarrow> bool" where
  "key_of sha256 rq x \<longleftrightarrow> extractBearerToken rq \<noteq> [] \<and> ak_key_hash x = hashKey sha256 (extractBearerToken rq)"

lemma token_of_route [simp]:
  "extractBearerToken (rq\<lparr>rq_Params := ps, rq_Pattern := pt\<rparr>) = extractBearerToken rq"
  by (simp add: extractBearerToken_def)

lemma GetByHash_fst: "fst (kr_GetByHash (APIKeyRepo P) h db) = counted db"
  by (rule execute_cases [of P "select_key_by_hash P h" db]) (auto simp: APIKeyRepo_def)

lemma GetByHash_Inr:
  assumes "kr_GetByHash (APIKeyRepo P) h db = (db', Inr k)"
  shows "\<exists>x\<in>set (api_keys db). ak_key_hash x = h \<and> k = scan_key x"
proof -
  have "row_result scan_key (snd (execute P (select_key_by_hash P h) db)) = Inr k"
    using assms by (auto simp: APIKeyRepo_def map_prod_def split: prod.splits)
  from row_result_Inr [OF this] obtain x where "snd (execute P (select_key_by_hash P h) db) = Inr (Some x)"
    and k: "k = scan_key x" by blast
  from execute_Inr [OF this(1)] have "find (\<lambda>x. ak_key_hash x = h) (api_keys db) = Some x"
    by (auto simp: select_key_by_hash_def split: if_splits)
  then show ?thesis using k by (auto simp: find_Some_iff)
qed

text \<open>
  What the authentication does: it answers 401 and nothing else happens, or it passes the
  request on with the name and role of the key that was presented and has not expired.
\<close>

lemma api_handler_cases:
  obtains (rejected) db' where
      "api_handler A sha256 (postgres_deps P) ck h rq db = (db', unauthorized, [])"
      "db' = db \<or> db' = counted db"
  | (passed) x db2 r jobs where "x \<in> set (api_keys db)" "key_of sha256 rq x"
      "\<not> expired (ck_auth ck) (scan_key x)"
      "with_audit (postgres_deps P) (ck_audit ck) h
         (rq\<lparr>rq_AuthRole := Some (ak_role x), rq_AuthID := Some (ak_id x)\<rparr>) (counted db) = (db2, r, jobs)"
      "api_handler A sha256 (postgres_deps P) ck h rq db = (db2, r, TouchLastUsed (ak_id x) # jobs)"
proof (cases "extractBearerToken rq = []")
  case True
  then show ?thesis by (intro that(1) [of db]) (simp_all add: api_handler_def APIKeyAuth_def)
next
  case False
  let ?h = "hashKey sha256 (extractBearerToken rq)"
  have db1: "fst (kr_GetByHash (APIKeyRepo P) ?h db) = counted db" by (rule GetByHash_fst)
  show ?thesis
  proof (cases "snd (kr_GetByHash (APIKeyRepo P) ?h db)")
    case (Inl e)
    with False db1 show ?thesis
      by (intro that(1) [of "counted db"])
        (simp_all add: api_handler_def APIKeyAuth_def Let_def split_beta)
  next
    case (Inr k)
    with GetByHash_Inr [of P ?h db] db1 obtain x where x: "x \<in> set (api_keys db)" "ak_key_hash x = ?h"
      "k = scan_key x" by (metis prod.collapse)
    show ?thesis
    proof (cases "expired (ck_auth ck) k")
      case True
      with False db1 Inr show ?thesis
        by (intro that(1) [of "counted db"])
          (simp_all add: api_handler_def APIKeyAuth_def Let_def split_beta)
    next
      case not_expired: False
      obtain db2 r jobs where w: "with_audit (postgres_deps P) (ck_audit ck) h
         (rq\<lparr>rq_AuthRole := Some (ak_role x), rq_AuthID := Some (ak_id x)\<rparr>) (counted db) = (db2, r, jobs)"
        by (cases "with_audit (postgres_deps P) (ck_audit ck) h
         (rq\<lparr>rq_AuthRole := Some (ak_role x), rq_AuthID := Some (ak_id x)\<rparr>) (counted db)") auto
      have "ky_Role k = ak_role x" "ky_ID k = ak_id x" by (simp_all add: x(3) scan_key_def)
      with False db1 Inr not_expired w show ?thesis
        by (intro that(2) [OF x(1)])
          (simp_all add: api_handler_def APIKeyAuth_def Let_def split_beta key_of_def x)
    qed
  qed
qed

text \<open>
  C6: a request to the API that presents no key of the store, or only an expired one, is answered
  with 401; it reaches no handler, changes no table and starts no job. This also holds for paths
  that do not exist.
\<close>

theorem only_keys_pass:
  assumes "is_api m"
    and "\<And>x. x \<in> set (api_keys db) \<Longrightarrow> key_of sha256 rq x \<Longrightarrow> expired (ck_auth ck) (scan_key x)"
  shows "\<exists>db'. dispatch A sha256 (postgres_deps P) ck m rq db = (db', unauthorized, [])
    \<and> (db' = db \<or> db' = counted db)"
proof -
  have "\<exists>h rq'. dispatch A sha256 (postgres_deps P) ck m rq db
      = api_handler A sha256 (postgres_deps P) ck h rq' db \<and> rq_Header rq' = rq_Header rq"
  proof (cases m)
    case (Api_route ep ps)
    show ?thesis
      by (rule exI [of _ "no_jobs (endpoint_handler A (postgres_deps P) (ck_handler ck) ep)"],
          rule exI [of _ "rq\<lparr>rq_Params := ps, rq_Pattern := Some (snd (route ep))\<rparr>"])
        (simp add: Api_route dispatch_def)
  next
    case (Api_no_route st)
    then show ?thesis by (auto simp: dispatch_def)
  qed (use assms(1) in \<open>auto simp: is_api_def\<close>)
  then obtain h rq' where d: "dispatch A sha256 (postgres_deps P) ck m rq db
      = api_handler A sha256 (postgres_deps P) ck h rq' db" and hd: "rq_Header rq' = rq_Header rq"
    by blast
  have key: "key_of sha256 rq' x = key_of sha256 rq x" for x
    by (simp add: key_of_def extractBearerToken_def hd)
  show ?thesis
    unfolding d
    by (rule api_handler_cases [of A sha256 P ck h rq' db]) (use assms(2) in \<open>auto simp: key\<close>)
qed

lemma only_keys_pass_witness:
  "\<exists>db'. dispatch (demo_api JNull) (\<lambda>_. ''z'') (postgres_deps demo_pg) demo_clocks
     (Api_route TestDelete [(''id'', ''t1'')]) (demo_request []) demo_db = (db', unauthorized, [])
   \<and> (db' = demo_db \<or> db' = counted demo_db)"
  by (rule only_keys_pass)
    (auto simp: is_api_def demo_db_def key_of_def hashKey_def hex_encode_def hex_byte_def)

text \<open>
  C29: no route asks for a role. When the database keeps its schema, executes every statement and
  accepts the stored hash as a parameter, a \<open>GET\<close> of the audit log without query parameters, with a key of any role
  that has not expired, also one meant for agents, is answered with the newest 50 entries; the
  router documents the audit log as restricted to administrators.
\<close>

theorem any_role_reads_audit:
  assumes "schema_ok db" "all_executed P" "pg_accepts P (ak_key_hash x)"
    and "x \<in> set (api_keys db)" "key_of sha256 rq x" "\<not> expired (ck_auth ck) (scan_key x)"
    and "rq_Query rq = (\<lambda>_. [])" "rq_Method rq = ''GET''"
  shows "fst (snd (dispatch A sha256 (postgres_deps P) ck (Api_route AuditList ps) rq db)) =
    writeJSON 200 (enc_all (enc_AuditEntry (ap_codec A)) (map (scan_audit P)
      (take 50 (desc au_timestamp (scan (pg_call P (Suc (statements db))) (audit_log db))))))"
proof -
  have "find (\<lambda>y. ak_key_hash y = ak_key_hash x) (api_keys db) = Some x"
    using assms(1,4)
    by (auto simp: schema_ok_def keys_ok_def find_Some_iff in_set_conv_nth distinct_conv_nth)
  with assms(2,3,5,6,7,8) show ?thesis
    by (simp add: dispatch_def api_handler_def APIKeyAuth_def key_of_def APIKeyRepo_def Let_def
        execute_executed select_key_by_hash_def row_result_def with_audit_def
        AuditLogger_def isMutation_def no_jobs_def split_beta endpoint_handler_def
        AuditHandler_List_def AuditRepo_def unchecked_rows_def select_audit_def query_limit_def
        query_offset_def audit_limit_def list_response_def)
qed

lemma any_role_reads_audit_witness:
  "fst (snd (dispatch (demo_api JNull) (\<lambda>_. ''k'') (postgres_deps demo_pg) demo_clocks (Api_route AuditList [])
     ((demo_request [])\<lparr>rq_Method := ''GET'', rq_Query := \<lambda>_. []\<rparr>) demo_db)) = writeJSON 200 (Some JNull)"
proof -
  let ?x = "hd (api_keys demo_db)"
  have x: "?x \<in> set (api_keys demo_db)"
    "key_of (\<lambda>_. ''k'') ((demo_request [])\<lparr>rq_Method := ''GET'', rq_Query := \<lambda>_. []\<rparr>) ?x"
    "\<not> expired (ck_auth demo_clocks) (scan_key ?x)"
    by (simp_all add: demo_db_def key_of_def extractBearerToken_def demo_request_def hashKey_def
        hex_encode_def hex_byte_def expired_def scan_key_def has_prefix_def trim_prefix_def)
  have "audit_log demo_db = []" "pg_accepts demo_pg (ak_key_hash ?x)"
    by (simp_all add: demo_db_def empty_database_def)
  then show ?thesis
    using any_role_reads_audit [OF demo_schema _ _ x, of demo_pg "demo_api JNull" "[]"]
    by (simp add: scan_def desc_def enc_all_def)
qed

subsection \<open>The audit log\<close>

text \<open>The name of the resource in the audit log, for each endpoint.\<close>

fun audit_resource :: "endpoint \<Rightarrow> string" where
  "audit_resource AgentHeartbeat = ''agents.heartbeat''"
| "audit_resource AgentConfig = ''agents.config''"
| "audit_resource TestAssign = ''tests.assign''"
| "audit_resource AuditList = ''audit''"
| "audit_resource ep =
     (if ep \<in> {AgentRegister, AgentList, AgentGet, AgentDelete} then ''agents''
      else if ep \<in> {POPCreate, POPList, POPGet, POPDelete} then ''pops'' else ''tests'')"

definition param_id :: "(string \<times> string) list \<Rightarrow> string" where
  "param_id ps =
     (case map_of ps ''id'' of Some (c # cs) \<Rightarrow> c # cs
      | _ \<Rightarrow> (case map_of ps ''name'' of Some n \<Rightarrow> n | None \<Rightarrow> []))"

lemma extractResource_route:
  "rq_Pattern rq = Some (snd (route ep)) \<Longrightarrow> extractResource rq = (audit_resource ep, param_id (rq_Params rq))"
  by (cases ep)
    (auto simp: extractResource_def Let_def trim_prefix_def has_prefix_def URLParam_def param_id_def
      split: option.split list.split)

definition recorded_entry ::
  "clocks \<Rightarrow> endpoint \<Rightarrow> (string \<times> string) list \<Rightarrow> http_request \<Rightarrow> api_key_row \<Rightarrow> AuditEntry" where
  "recorded_entry ck ep ps rq x =
     \<lparr>ae_ID = 0, ae_Timestamp = ck_audit ck, ae_ActorID = ak_id x, ae_ActorRole = ak_role x,
      ae_Action = methodToAction (rq_Method rq), ae_Resource = audit_resource ep,
      ae_ResourceID = param_id ps, ae_SourceIP = extractIP rq,
      ae_ChangeDiff = change_diff (rq_Body rq)\<rparr>"

lemma passed_mutation:
  assumes "dispatch A sha256 (postgres_deps P) ck (Api_route ep ps) rq db = (db', r, jobs)"
    and "isMutation (rq_Method rq)" "200 \<le> rp_Status r" "rp_Status r < 400"
  obtains x rq2 where "x \<in> set (api_keys db)" "key_of sha256 rq x" "\<not> expired (ck_auth ck) (scan_key x)"
    "endpoint_handler A (postgres_deps P) (ck_handler ck) ep rq2 (counted db) = (db', r)"
    "rq_Params rq2 = ps" "jobs = [TouchLastUsed (ak_id x), RecordAudit (recorded_entry ck ep ps rq x)]"
proof -
  let ?rq = "rq\<lparr>rq_Params := ps, rq_Pattern := Some (snd (route ep))\<rparr>"
  let ?h = "no_jobs (endpoint_handler A (postgres_deps P) (ck_handler ck) ep)"
  have d: "api_handler A sha256 (postgres_deps P) ck ?h ?rq db = (db', r, jobs)"
    using assms(1) by (simp add: dispatch_def)
  show ?thesis
  proof (rule api_handler_cases [of A sha256 P ck ?h ?rq db])
    fix db'' assume "api_handler A sha256 (postgres_deps P) ck ?h ?rq db = (db'', unauthorized, [])"
    then have "rp_Status r = 401" using d by (simp add: unauthorized_def)
    then show ?thesis using assms(4) by simp
  next
    fix x :: api_key_row and db2 r' js
    let ?rq2 = "?rq\<lparr>rq_AuthRole := Some (ak_role x), rq_AuthID := Some (ak_id x)\<rparr>"
    assume x: "x \<in> set (api_keys db)" "key_of sha256 ?rq x" "\<not> expired (ck_auth ck) (scan_key x)"
      and w: "with_audit (postgres_deps P) (ck_audit ck) ?h ?rq2 (counted db) = (db2, r', js)"
      and "api_handler A sha256 (postgres_deps P) ck ?h ?rq db = (db2, r', TouchLastUsed (ak_id x) # js)"
    then have r: "r' = r" "db2 = db'" and jobs: "jobs = TouchLastUsed (ak_id x) # js"
      using d by simp_all
    have js: "js = [RecordAudit (audit_entry (ck_audit ck) ?rq2)]"
      and run: "endpoint_handler A (postgres_deps P) (ck_handler ck) ep ?rq2 (counted db) = (db', r)"
      using w assms(2-4)
      by (auto simp: with_audit_def AuditLogger_def no_jobs_def split_beta r split: if_splits
          intro: prod_eqI)
    moreover have "extractResource ?rq2 = (audit_resource ep, param_id ps)"
      using extractResource_route [of ?rq2 ep] by simp
    moreover have "extractIP ?rq2 = extractIP rq" by (simp add: extractIP_def)
    ultimately have "jobs = [TouchLastUsed (ak_id x), RecordAudit (recorded_entry ck ep ps rq x)]"
      by (simp add: jobs audit_entry_def recorded_entry_def extractActorID_def extractActorRole_def)
    with x run show ?thesis by (intro that [of x ?rq2]) (simp_all add: key_of_def)
  qed
qed

text \<open>
  C12: a request of the API that changes something and succeeds leaves behind exactly two jobs:
  to note the use of the key that was presented, and to record an entry with the name and role
  of that key, the action, the resource and its identifier, the client's address and the body.
\<close>

theorem mutation_is_audited:
  assumes "dispatch A sha256 (postgres_deps P) ck (Api_route ep ps) rq db = (db', r, jobs)"
    and "isMutation (rq_Method rq)" "200 \<le> rp_Status r" "rp_Status r < 400"
  shows "\<exists>x\<in>set (api_keys db). key_of sha256 rq x \<and> \<not> expired (ck_auth ck) (scan_key x)
    \<and> jobs = [TouchLastUsed (ak_id x), RecordAudit
        \<lparr>ae_ID = 0, ae_Timestamp = ck_audit ck, ae_ActorID = ak_id x, ae_ActorRole = ak_role x,
         ae_Action = methodToAction (rq_Method rq), ae_Resource = audit_resource ep,
         ae_ResourceID = param_id ps, ae_SourceIP = extractIP rq,
         ae_ChangeDiff = change_diff (rq_Body rq)\<rparr>]"
  using passed_mutation [OF assms] unfolding recorded_entry_def by metis

text \<open>A request that presents the key of the demo database.\<close>

lemma demo_key:
  assumes "\<forall>x\<in>set (api_keys db). ak_key_hash x = ''6b'' \<and> ak_expires_at x = None"
    "api_keys db = [x]" "rq_Header rq = rq_Header (demo_request [])"
  shows "api_handler A (\<lambda>_. ''k'') (postgres_deps demo_pg) ck h rq db =
    (case with_audit (postgres_deps demo_pg) (ck_audit ck) h
        (rq\<lparr>rq_AuthRole := Some (ak_role x), rq_AuthID := Some (ak_id x)\<rparr>) (counted db) of
      (s2, r, jobs) \<Rightarrow> (s2, r, TouchLastUsed (ak_id x) # jobs))"
  using assms
  by (simp add: api_handler_def APIKeyAuth_def Let_def extractBearerToken_def demo_request_def
      has_prefix_def trim_prefix_def APIKeyRepo_def execute_executed select_key_by_hash_def
      hashKey_def hex_encode_def hex_byte_def row_result_def expired_def scan_key_def)

lemma demo_keys: "api_keys demo_db = [hd (api_keys demo_db)]"
  "ak_id (hd (api_keys demo_db)) = ''k1''" "ak_role (hd (api_keys demo_db)) = ''agent''"
  "\<forall>x\<in>set (api_keys demo_db). ak_key_hash x = ''6b'' \<and> ak_expires_at x = None"
  by (simp_all add: demo_db_def)

text \<open>The deletion of the demo test, with a body that is no JSON document.\<close>

definition demo_delete :: http_request where
  "demo_delete = (demo_request [])\<lparr>rq_Method := ''DELETE'', rq_Body := ''x''\<rparr>"

lemma demo_deleted:
  "fst (snd (dispatch A (\<lambda>_. ''k'') (postgres_deps demo_pg) ck (Api_route TestDelete [(''id'', ''t1'')])
     demo_delete demo_db)) = NoContent"
proof -
  have "snd (te_Delete (TestRepo demo_pg) ''t1'' (counted demo_db)) = Inr ()"
    by (simp add: TestRepo_def execute_executed delete_test_def affected_result_def demo_db_def
        demo_test_row_def)
  then show ?thesis
    by (simp add: dispatch_def demo_key [OF demo_keys(4,1)] demo_delete_def with_audit_def
        AuditLogger_def isMutation_def no_jobs_def split_beta endpoint_handler_def
        TestHandler_Delete_def URLParam_def demo_request_def delete_response_def NoContent_def)
qed

lemma mutation_is_audited_witness:
  "\<exists>x\<in>set (api_keys demo_db). snd (snd (dispatch (demo_api JNull) (\<lambda>_. ''k'') (postgres_deps demo_pg)
     demo_clocks (Api_route TestDelete [(''id'', ''t1'')]) demo_delete demo_db)) =
   [TouchLastUsed (ak_id x), RecordAudit
      \<lparr>ae_ID = 0, ae_Timestamp = 1, ae_ActorID = ak_id x, ae_ActorRole = ak_role x,
       ae_Action = ''delete'', ae_Resource = ''tests'', ae_ResourceID = ''t1'',
       ae_SourceIP = extractIP demo_delete, ae_ChangeDiff = Some ''x''\<rparr>]"
proof -
  have m: "rq_Method demo_delete = ''DELETE''" "rq_Body demo_delete = ''x''"
    by (simp_all add: demo_delete_def)
  obtain db' jobs where "dispatch (demo_api JNull) (\<lambda>_. ''k'') (postgres_deps demo_pg) demo_clocks
      (Api_route TestDelete [(''id'', ''t1'')]) demo_delete demo_db = (db', NoContent, jobs)"
    using demo_deleted [of "demo_api JNull" demo_clocks] by (metis prod.collapse)
  from mutation_is_audited [OF this] this show ?thesis
    by (simp add: m isMutation_def NoContent_def methodToAction_def param_id_def change_diff_def
        demo_clocks_def) blast
qed

lemma tests_view_counted: "tests_view (db\<lparr>statements := n\<rparr>) = tests_view db"
  by (simp add: tests_view_def)

lemma run_job_audit:
  "jsonb_opt P (ae_ChangeDiff e) = None \<Longrightarrow>
   audit_log (run_job (postgres_deps P) (RecordAudit e) db) = audit_log db"
  by (rule execute_cases [of P "insert_audit P e" db])
    (auto simp: run_job_def AuditRepo_def insert_audit_def split: option.splits)

text \<open>
  C28: a client can delete a test without a trace. The handler does not read the body of a
  deletion, but the audit log stores it as JSON: if the body is no JSON document the deletion
  succeeds and no execution of its audit job ever adds an entry.
\<close>

theorem deletion_evades_audit:
  assumes "dispatch A sha256 (postgres_deps P) ck (Api_route TestDelete ps) rq db = (db', r, jobs)"
    and "rq_Method rq = ''DELETE''" "rp_Status r = 204"
    and "rq_Body rq \<noteq> []" "length (rq_Body rq) < 10240" "pg_parse P (rq_Body rq) = None"
    and "map_of ps ''id'' = Some i"
  shows "has_test db i \<and> \<not> has_test db' i
    \<and> list_all (\<lambda>j. \<forall>d. audit_log (run_job (postgres_deps P) j d) = audit_log d) jobs"
proof -
  have "isMutation (rq_Method rq)" "200 \<le> rp_Status r" "rp_Status r < 400"
    using assms(2,3) by (simp_all add: isMutation_def)
  from passed_mutation [OF assms(1) this] obtain x rq2 where
    run: "endpoint_handler A (postgres_deps P) (ck_handler ck) TestDelete rq2 (counted db) = (db', r)"
    and ps: "rq_Params rq2 = ps"
    and jobs: "jobs = [TouchLastUsed (ak_id x), RecordAudit (recorded_entry ck TestDelete ps rq x)]"
    by metis
  have "\<forall>d. audit_log (run_job (postgres_deps P) (TouchLastUsed i) d) = audit_log d" for i
    by (auto simp: run_job_def APIKeyRepo_def
        intro: execute_keeps [where I = "\<lambda>d. audit_log d = audit_log d'" for d', OF _ _ refl]
          simp: update_last_used_def)
  moreover have "jsonb_opt P (change_diff (rq_Body rq)) = None"
    using assms(4-6) by (simp add: jsonb_opt_def change_diff_def)
  then have "\<forall>d. audit_log (run_job (postgres_deps P) (RecordAudit (recorded_entry ck TestDelete ps rq x)) d)
      = audit_log d"
    by (intro allI run_job_audit) (simp add: recorded_entry_def)
  moreover have "snd (te_Delete (TestRepo P) (URLParam rq2 ''id'') (counted db)) = Inr ()"
    and "db' = fst (te_Delete (TestRepo P) (URLParam rq2 ''id'') (counted db))"
    using run assms(3)
    by (auto simp: endpoint_handler_def TestHandler_Delete_def delete_response_def
        errorResponse_def error_status_def writeJSON_def split: prod.splits sum.splits if_splits)
  moreover have "URLParam rq2 ''id'' = i" using assms(7) by (simp add: URLParam_def ps)
  moreover have view: "has_test d i \<longleftrightarrow> tests_view d i \<noteq> None" for d
    by (auto simp: has_test_def tests_view_def map_of_eq_None_iff image_image)
  ultimately show ?thesis
    using test_store.delete_done [of P i "counted db"] test_store.delete_cases [of P i "counted db"]
    by (auto simp: jobs has_test_def tests_view_counted)
qed

lemma deletion_evades_audit_witness:
  "\<not> has_test (fst (dispatch (demo_api JNull) (\<lambda>_. ''k'') (postgres_deps demo_pg) demo_clocks
     (Api_route TestDelete [(''id'', ''t1'')]) demo_delete demo_db)) ''t1''"
proof -
  obtain db' jobs where d: "dispatch (demo_api JNull) (\<lambda>_. ''k'') (postgres_deps demo_pg) demo_clocks
      (Api_route TestDelete [(''id'', ''t1'')]) demo_delete demo_db = (db', NoContent, jobs)"
    using demo_deleted [of "demo_api JNull" demo_clocks] by (metis prod.collapse)
  have "rq_Method demo_delete = ''DELETE''" "rq_Body demo_delete = ''x''" "pg_parse demo_pg ''x'' = None"
    by (simp_all add: demo_delete_def demo_pg_def)
  with deletion_evades_audit [OF d, of "''t1''"] show ?thesis
    by (simp add: d NoContent_def)
qed

subsection \<open>Failed requests\<close>

text \<open>
  Repositories whose failed writes leave the state as it was, up to the relation \<open>same\<close>, as
  reads do. Only the errors of \<open>Assign\<close>, which the handlers drop, may leave something behind.
\<close>

locale api_atomic =
  fixes D :: "'s deps" and same :: "'s \<Rightarrow> 's \<Rightarrow> bool"
  assumes same_refl: "same s s" and same_trans: "same s s1 \<Longrightarrow> same s1 s2 \<Longrightarrow> same s s2"
    and reads_same: "same s (fst (ar_Get (dp_Agents D) i s))" "same s (fst (ar_List (dp_Agents D) s))"
      "same s (fst (pr_Get (dp_POPs D) n s))" "same s (fst (pr_List (dp_POPs D) s))"
      "same s (fst (te_Get (dp_Tests D) i s))" "same s (fst (te_List (dp_Tests D) s))"
      "same s (fst (te_ListByPOP (dp_Tests D) n s))"
      "dp_Audit D = Some aud \<Longrightarrow> same s (fst (au_List aud l off s))"
      "dp_Audit D = Some aud \<Longrightarrow> same s (fst (au_ListByResource aud r i l s))"
    and writes_same: "snd (ar_Create (dp_Agents D) a s) = Inl e \<Longrightarrow> same s (fst (ar_Create (dp_Agents D) a s))"
      "snd (ar_UpdateHeartbeat (dp_Agents D) i hb s) = Inl e \<Longrightarrow>
         same s (fst (ar_UpdateHeartbeat (dp_Agents D) i hb s))"
      "snd (ar_Delete (dp_Agents D) i s) = Inl e \<Longrightarrow> same s (fst (ar_Delete (dp_Agents D) i s))"
      "snd (pr_Create (dp_POPs D) p s) = Inl e \<Longrightarrow> same s (fst (pr_Create (dp_POPs D) p s))"
      "snd (pr_Delete (dp_POPs D) n s) = Inl e \<Longrightarrow> same s (fst (pr_Delete (dp_POPs D) n s))"
      "snd (te_Create (dp_Tests D) t s) = Inl e \<Longrightarrow> same s (fst (te_Create (dp_Tests D) t s))"
      "snd (te_Update (dp_Tests D) t s) = Inl e \<Longrightarrow> same s (fst (te_Update (dp_Tests D) t s))"
      "snd (te_Delete (dp_Tests D) i s) = Inl e \<Longrightarrow> same s (fst (te_Delete (dp_Tests D) i s))"
begin

lemma reads_then:
  "same (fst (pr_Get (dp_POPs D) n s)) u \<Longrightarrow> same s u"
  "same (fst (te_Get (dp_Tests D) i s)) u \<Longrightarrow> same s u"
  using reads_same(3,5) same_trans by blast+

lemma responses_same:
  "same s (fst q) \<Longrightarrow> same s (fst (list_response enc q))"
  "same s (fst q') \<Longrightarrow> same s (fst (get_response enc' q'))"
  "(\<And>e. snd q'' = Inl e \<Longrightarrow> same s (fst q'')) \<Longrightarrow> rp_Status (snd (delete_response q'')) \<ge> 400 \<Longrightarrow>
   same s (fst (delete_response q''))"
  by (auto simp: list_response_def get_response_def delete_response_def NoContent_def split_beta
      split: sum.splits)

lemmas handlers = AgentHandler_Register_def AgentHandler_List_def AgentHandler_Get_def
  AgentHandler_Delete_def AgentHandler_Heartbeat_def POPHandler_Create_def POPHandler_List_def
  POPHandler_Get_def POPHandler_Delete_def TestHandler_Create_def TestHandler_List_def
  TestHandler_Get_def TestHandler_Update_def TestHandler_Delete_def TestHandler_Assign_def
  SyncHandler_ConfigSync_def AuditHandler_List_def

lemma failed_endpoint_same:
  "rp_Status (snd (endpoint_handler A D now ep rq s)) \<ge> 400 \<Longrightarrow>
   same s (fst (endpoint_handler A D now ep rq s))"
  by (cases ep)
    (auto simp: endpoint_handler_def handlers Let_def split_beta writeJSON_def same_refl
      split: sum.splits option.splits if_splits
      intro: responses_same reads_same writes_same reads_then)

end

lemma violation_keeps:
  "snd (insert_agent P a E d) = Inl v \<Longrightarrow> fst (insert_agent P a E d) = d"
  "snd (update_heartbeat P i t s w E d) = Inl v \<Longrightarrow> fst (update_heartbeat P i t s w E d) = d"
  "snd (delete_agent P i E d) = Inl v \<Longrightarrow> fst (delete_agent P i E d) = d"
  "snd (insert_pop P p E d) = Inl v \<Longrightarrow> fst (insert_pop P p E d) = d"
  "snd (delete_pop P n E d) = Inl v \<Longrightarrow> fst (delete_pop P n E d) = d"
  "snd (insert_test P q E d) = Inl v \<Longrightarrow> fst (insert_test P q E d) = d"
  "snd (update_test P q E d) = Inl v \<Longrightarrow> fst (update_test P q E d) = d"
  "snd (delete_test P i E d) = Inl v \<Longrightarrow> fst (delete_test P i E d) = d"
  by (auto simp: insert_agent_def update_heartbeat_def delete_agent_def insert_pop_def delete_pop_def
      insert_test_def update_test_def delete_test_def split: option.splits if_splits)

lemma map_no_match: "filter c xs = [] \<Longrightarrow> map (\<lambda>x. if c x then g x else x) xs = xs"
  by (induction xs) (auto split: if_splits)

lemma nothing_affected_keeps:
  "snd (update_heartbeat P i t s w E d) = Inr 0 \<Longrightarrow> fst (update_heartbeat P i t s w E d) = d"
  "snd (delete_agent P i E d) = Inr 0 \<Longrightarrow> fst (delete_agent P i E d) = d"
  "schema_ok d \<Longrightarrow> snd (delete_pop P n E d) = Inr 0 \<Longrightarrow> fst (delete_pop P n E d) = d"
  "snd (update_test P q E d) = Inr 0 \<Longrightarrow> fst (update_test P q E d) = d"
  "schema_ok d \<Longrightarrow> snd (delete_test P i E d) = Inr 0 \<Longrightarrow> fst (delete_test P i E d) = d"
proof -
  show "snd (update_heartbeat P i t s w E d) = Inr 0 \<Longrightarrow> fst (update_heartbeat P i t s w E d) = d"
    by (auto simp: update_heartbeat_def map_no_match split: option.splits if_splits)
  show "snd (delete_agent P i E d) = Inr 0 \<Longrightarrow> fst (delete_agent P i E d) = d"
    by (auto simp: delete_agent_def filter_empty_conv filter_id_conv split: if_splits)
  show "snd (update_test P q E d) = Inr 0 \<Longrightarrow> fst (update_test P q E d) = d"
    by (auto simp: update_test_def map_no_match split: option.splits if_splits)
  assume s: "schema_ok d"
  show "snd (delete_pop P n E d) = Inr 0 \<Longrightarrow> fst (delete_pop P n E d) = d"
  proof -
    assume z: "snd (delete_pop P n E d) = Inr 0"
    then have "\<forall>x\<in>set (pops d). po_name x \<noteq> n"
      by (auto simp: delete_pop_def filter_empty_conv split: if_splits)
    moreover from this s have "\<forall>x\<in>set (test_assignments d). as_pop_name x \<noteq> Some n"
      by (auto simp: schema_ok_def references_ok_def)
    ultimately show ?thesis
      by (simp add: delete_pop_def filter_id_conv [THEN iffD2])
  qed
  show "snd (delete_test P i E d) = Inr 0 \<Longrightarrow> fst (delete_test P i E d) = d"
  proof -
    assume z: "snd (delete_test P i E d) = Inr 0"
    then have "\<forall>x\<in>set (test_definitions d). te_id x \<noteq> i"
      by (auto simp: delete_test_def filter_empty_conv split: if_splits)
    moreover from this s have "\<forall>x\<in>set (test_assignments d). as_test_id x \<noteq> i"
      by (auto simp: schema_ok_def references_ok_def)
    ultimately show ?thesis
      by (simp add: delete_test_def filter_id_conv [THEN iffD2])
  qed
qed

text \<open>The same tables, for a database in order that loses no answer.\<close>

definition same_tables :: "postgres \<Rightarrow> database \<Rightarrow> database \<Rightarrow> bool" where
  "same_tables P db db' \<longleftrightarrow>
     (no_answer_lost P \<and> schema_ok db \<longrightarrow> db' = db\<lparr>statements := statements db'\<rparr>)"

lemma same_tables_refl: "same_tables P s s"
  by (simp add: same_tables_def)

lemma same_tables_trans:
  assumes "same_tables P s t" "same_tables P t u"
  shows "same_tables P s u"
  unfolding same_tables_def
proof
  assume ok: "no_answer_lost P \<and> schema_ok s"
  then have t: "t = s\<lparr>statements := statements t\<rparr>" using assms(1) by (simp add: same_tables_def)
  have "schema_ok t" using ok by (subst t) simp
  then have "u = t\<lparr>statements := statements u\<rparr>" using ok assms(2) by (simp add: same_tables_def)
  also have "\<dots> = s\<lparr>statements := statements u\<rparr>" by (subst t) simp
  finally show "u = s\<lparr>statements := statements u\<rparr>" .
qed

lemma read_same: "(\<And>E d. fst (st E d) = d) \<Longrightarrow> same_tables P db (fst (execute P st db))"
  by (rule execute_cases [of P st db]) (auto simp: same_tables_def)

lemma failed_same:
  assumes "snd (execute P st db) = Inl e" and "\<And>E d v. snd (st E d) = Inl v \<Longrightarrow> fst (st E d) = d"
  shows "same_tables P db (fst (execute P st db))"
proof (cases "ce_execution (next_call P db)")
  case Executed
  with assms(1) obtain v where "snd (st (next_call P db) (counted db)) = Inl v"
    by (cases "snd (st (next_call P db) (counted db))") (auto simp: execute_def Let_def split_beta)
  with Executed assms(2) show ?thesis
    by (auto simp: same_tables_def execute_def Let_def split_beta)
qed (auto simp: same_tables_def execute_def Let_def no_answer_lost_def)

lemma insert_same:
  assumes "insert_result (snd (execute P st db)) = Inl e"
    and "\<And>E d v. snd (st E d) = Inl v \<Longrightarrow> fst (st E d) = d"
  shows "same_tables P db (fst (execute P st db))"
  using assms failed_same [of P st db] by (auto simp: insert_result_def split: sum.splits)

lemma affected_same:
  assumes "affected_result (snd (execute P st db)) = Inl e"
    and "\<And>E d v. snd (st E d) = Inl v \<Longrightarrow> fst (st E d) = d"
    and "\<And>E d. schema_ok d \<Longrightarrow> snd (st E d) = Inr 0 \<Longrightarrow> fst (st E d) = d"
  shows "same_tables P db (fst (execute P st db))"
proof (cases "snd (execute P st db)")
  case (Inl e)
  then show ?thesis using assms(2) by (rule failed_same)
next
  case (Inr n)
  then have "n = 0" using assms(1) by (auto simp: affected_result_def split: if_splits)
  with execute_Inr [of P st db n] Inr assms(3) [of "counted db" "next_call P db"] show ?thesis
    by (auto simp: same_tables_def)
qed

lemma writes_same_tables:
  "insert_result (snd (execute P (insert_agent P a) db)) = Inl e \<Longrightarrow>
     same_tables P db (fst (execute P (insert_agent P a) db))"
  "insert_result (snd (execute P (insert_pop P p) db)) = Inl e \<Longrightarrow>
     same_tables P db (fst (execute P (insert_pop P p) db))"
  "insert_result (snd (execute P (insert_test P q) db)) = Inl e \<Longrightarrow>
     same_tables P db (fst (execute P (insert_test P q) db))"
  "affected_result (snd (execute P (update_heartbeat P i t s w) db)) = Inl e \<Longrightarrow>
     same_tables P db (fst (execute P (update_heartbeat P i t s w) db))"
  "affected_result (snd (execute P (delete_agent P i) db)) = Inl e \<Longrightarrow>
     same_tables P db (fst (execute P (delete_agent P i) db))"
  "affected_result (snd (execute P (delete_pop P i) db)) = Inl e \<Longrightarrow>
     same_tables P db (fst (execute P (delete_pop P i) db))"
  "affected_result (snd (execute P (update_test P q) db)) = Inl e \<Longrightarrow>
     same_tables P db (fst (execute P (update_test P q) db))"
  "affected_result (snd (execute P (delete_test P i) db)) = Inl e \<Longrightarrow>
     same_tables P db (fst (execute P (delete_test P i) db))"
  by (erule insert_same affected_same;
      auto simp: violation_keeps nothing_affected_keeps)+

interpretation plane_errors: api_atomic "postgres_deps P" "same_tables P" for P
  by unfold_locales
    (auto simp: same_tables_refl AgentRepo_def POPRepo_def TestRepo_def AuditRepo_def
      unchecked_rows_def Let_def split_beta
      intro: same_tables_trans intro!: read_same dest!: writes_same_tables)

lemma same_counted: "same_tables P db (counted db)"
  by (simp add: same_tables_def)

lemma with_audit_parts:
  assumes "with_audit D now (no_jobs h) rq s = (s', r, jobs)"
  shows "h rq s = (s', r)" "rp_Status r \<ge> 400 \<Longrightarrow> jobs = []"
  using assms by (auto simp: with_audit_def AuditLogger_def no_jobs_def split: option.splits if_splits prod.splits)

lemma failed_api_handler:
  assumes "\<And>rq s. rp_Status (snd (h rq s)) \<ge> 400 \<Longrightarrow> same_tables P s (fst (h rq s))"
    and "api_handler A sha256 (postgres_deps P) ck (no_jobs h) rq db = (db', r, jobs)" "rp_Status r \<ge> 400"
  shows "same_tables P db db' \<and> (\<forall>e. RecordAudit e \<notin> set jobs)"
proof (rule api_handler_cases [of A sha256 P ck "no_jobs h" rq db])
  fix db'' assume "api_handler A sha256 (postgres_deps P) ck (no_jobs h) rq db = (db'', unauthorized, [])"
    and "db'' = db \<or> db'' = counted db"
  then show ?thesis using assms(2) same_tables_refl same_counted by auto
next
  fix x :: api_key_row and s2 r' js
  let ?rq = "rq\<lparr>rq_AuthRole := Some (ak_role x), rq_AuthID := Some (ak_id x)\<rparr>"
  assume w: "with_audit (postgres_deps P) (ck_audit ck) (no_jobs h) ?rq (counted db) = (s2, r', js)"
    and "api_handler A sha256 (postgres_deps P) ck (no_jobs h) rq db = (s2, r', TouchLastUsed (ak_id x) # js)"
  then have r: "r' = r" "s2 = db'" and jobs: "jobs = TouchLastUsed (ak_id x) # js" using assms(2) by simp_all
  from with_audit_parts [OF w] assms(3) have "h ?rq (counted db) = (db', r)" "js = []"
    by (simp_all add: r)
  then have "same_tables P (counted db) db'" using assms(1) [of ?rq "counted db"] assms(3) by simp
  then show ?thesis using same_tables_trans [OF same_counted] \<open>js = []\<close> by (auto simp: jobs)
qed

text \<open>
  C9: a request that is answered with an error status has changed no table and leaves no audit
  job behind, unless the answer of the database to one of its statements was lost.
\<close>

theorem failed_request_changes_nothing:
  assumes "dispatch A sha256 (postgres_deps P) ck m rq db = (db', r, jobs)" "rp_Status r \<ge> 400"
    and "schema_ok db" "no_answer_lost P"
  shows "db' = db\<lparr>statements := statements db'\<rparr> \<and> (\<forall>e. RecordAudit e \<notin> set jobs)"
proof -
  have plain: "plain_status st = no_jobs (\<lambda>rq s. (s, \<lparr>rp_Status = st, rp_Body = None\<rparr>))" for st
    by (intro ext) (simp add: plain_status_def no_jobs_def)
  have "same_tables P db db' \<and> (\<forall>e. RecordAudit e \<notin> set jobs)"
  proof (cases m)
    case (Api_route ep ps)
    from failed_api_handler [OF plane_errors.failed_endpoint_same [of A P "ck_handler ck" ep] _ assms(2)]
      assms(1) show ?thesis by (simp add: dispatch_def Api_route)
  next
    case (Api_no_route st)
    from failed_api_handler [of "\<lambda>rq s. (s, \<lparr>rp_Status = st, rp_Body = None\<rparr>)" P A sha256 ck rq db db' r jobs]
      assms(1,2) show ?thesis by (simp add: dispatch_def Api_no_route plain same_tables_refl)
  qed (use assms(1) in \<open>auto simp: dispatch_def plain_status_def same_tables_refl\<close>)
  then show ?thesis using assms(3,4) by (simp add: same_tables_def)
qed

lemma failed_request_changes_nothing_witness:
  "agents (fst (dispatch (demo_api JNull) (\<lambda>_. ''k'') (postgres_deps demo_pg) demo_clocks
     (Api_route AgentRegister []) (demo_request []) demo_db)) = []"
proof -
  let ?d = "dispatch (demo_api JNull) (\<lambda>_. ''k'') (postgres_deps demo_pg) demo_clocks
     (Api_route AgentRegister []) (demo_request []) demo_db"
  have "rp_Status (fst (snd ?d)) = 400"
    by (simp add: dispatch_def demo_key [OF demo_keys(4,1)] with_audit_def AuditLogger_def no_jobs_def
        split_beta endpoint_handler_def AgentHandler_Register_def readJSON_def demo_api_def
        zero_RegisterRequest_def errorResponse_def error_status_def writeJSON_def)
  then have st: "rp_Status (fst (snd ?d)) \<ge> 400" by simp
  have "?d = (fst ?d, fst (snd ?d), snd (snd ?d))" by simp
  from failed_request_changes_nothing [OF this st demo_schema]
  have "fst ?d = demo_db\<lparr>statements := statements (fst ?d)\<rparr>" by (simp add: no_answer_lost_def)
  then have "agents (fst ?d) = agents (demo_db\<lparr>statements := statements (fst ?d)\<rparr>)" by (rule arg_cong)
  then show ?thesis by (simp add: demo_db_def empty_database_def)
qed

end
