(* ===== verification/Lifecycle.thy ===== *)
theory Lifecycle
  imports ControlPlane
begin

text \<open>
  What the requests of the control plane do to agents, POPs and tests when the database executes
  every statement: the outcome of each request on every branch, with the rows it leaves.
\<close>

subsection \<open>Reading one row\<close>

definition has_agent :: "database \<Rightarrow> string \<Rightarrow> bool" where
  "has_agent db i \<longleftrightarrow> (\<exists>a\<in>set (agents db). ag_id a = i)"

text \<open>The error texts of the database carry the SQLSTATE that \<open>isDuplicateKey\<close> looks for.\<close>

definition texts_ok :: "postgres \<Rightarrow> bool" where
  "texts_ok P \<longleftrightarrow> (\<forall>v. isDuplicateKey (pg_text P v) \<longleftrightarrow> v = unique_violation)"

lemma find_not_None: "find Q xs \<noteq> None \<longleftrightarrow> (\<exists>x\<in>set xs. Q x)"
  by (auto simp: find_None_iff)

lemma pop_get:
  assumes "all_executed P"
  shows "fst (pr_Get (POPRepo P) n db) = counted db"
    "(\<exists>p. snd (pr_Get (POPRepo P) n db) = Inr p) \<longleftrightarrow> pg_accepts P n \<and> has_pop db n"
proof -
  have eq: "pr_Get (POPRepo P) n db = (counted db,
      if pg_accepts P n
      then (case find (\<lambda>x. po_name x = n) (pops db) of
        None \<Rightarrow> Inl (Sentinel ErrNotFound) | Some x \<Rightarrow> Inr (scan_pop x))
      else Inl (Other (pg_text P invalid_parameter)))"
    using assms
    by (simp add: POPRepo_def execute_executed select_pop_def row_result_def split: option.splits)
  show "fst (pr_Get (POPRepo P) n db) = counted db" by (simp add: eq)
  show "(\<exists>p. snd (pr_Get (POPRepo P) n db) = Inr p) \<longleftrightarrow> pg_accepts P n \<and> has_pop db n"
    unfolding has_pop_def find_not_None [symmetric] by (simp add: eq split: option.split)
qed


lemma find_has_test: "find (\<lambda>x. te_id x = i) (test_definitions db) \<noteq> None \<longleftrightarrow> has_test db i"
  by (simp add: has_test_def find_None_iff) blast

subsection \<open>Registering an agent\<close>

text \<open>
  What the agents table takes: no NULL for the capabilities, and parameters PostgreSQL accepts (it
  refuses a NUL byte in a text or in a document, and instants out of its range).
\<close>

definition agent_storable :: "postgres \<Rightarrow> AgentInfo \<Rightarrow> bool" where
  "agent_storable P a \<longleftrightarrow>
     pg_jsonb P (enc_labels (ai_Labels a)) \<noteq> None
     \<and> pg_timestamptz P (ai_LastHeartbeat a) \<noteq> None \<and> pg_timestamptz P (ai_RegisteredAt a) \<noteq> None
     \<and> (\<exists>cs. ai_Capabilities a = Some cs
         \<and> list_all (pg_accepts P) ([ai_ID a, ai_POPName a, ai_Version a, ai_Status a] @ cs))"

lemma agent_create_refused:
  assumes "all_executed P" "texts_ok P" "\<not> agent_storable P a"
  shows "\<exists>err. snd (ar_Create (AgentRepo P) a db) = Inl (Other err)"
    and "agents (fst (ar_Create (AgentRepo P) a db)) = agents db"
proof -
  have "\<exists>v. insert_agent P a E d = (d, Inl v) \<and> v \<noteq> unique_violation" for E d
    using assms(3) by (cases "ai_Capabilities a") (auto simp: insert_agent_def agent_storable_def split: option.split)
  then obtain v where v: "insert_agent P a (next_call P db) (counted db) = (counted db, Inl v)"
    and nv: "v \<noteq> unique_violation" by blast
  have dup: "isDuplicateKey (pg_text P u) \<longleftrightarrow> u = unique_violation" for u
    using assms(2) by (simp add: texts_ok_def)
  show "\<exists>err. snd (ar_Create (AgentRepo P) a db) = Inl (Other err)"
    using nv dup by (simp add: AgentRepo_def execute_executed [OF assms(1)] v insert_result_def)
  show "agents (fst (ar_Create (AgentRepo P) a db)) = agents db"
    by (simp add: AgentRepo_def execute_executed [OF assms(1)] v)
qed

lemma agent_create:
  assumes "all_executed P" "texts_ok P"
    and "pg_jsonb P (enc_labels (ai_Labels a)) = Some l"
    and "pg_timestamptz P (ai_LastHeartbeat a) = Some h" "pg_timestamptz P (ai_RegisteredAt a) = Some g"
    and "ai_Capabilities a = Some cs"
    and "list_all (pg_accepts P) ([ai_ID a, ai_POPName a, ai_Version a, ai_Status a] @ cs)"
    and "has_pop db (ai_POPName a)"
  shows "snd (ar_Create (AgentRepo P) a db) =
      (if has_agent db (ai_ID a) then Inl (Sentinel ErrAlreadyExists) else Inr ())"
    and "agents (fst (ar_Create (AgentRepo P) a db)) =
      (if has_agent db (ai_ID a) then agents db
       else agents db @ [\<lparr>ag_id = ai_ID a, ag_pop_name = ai_POPName a, ag_version = ai_Version a,
             ag_status = ai_Status a, ag_capabilities = cs, ag_labels = l, ag_last_heartbeat = h,
             ag_registered_at = g, ag_updated_at = ce_now (next_call P db)\<rparr>])"
proof -
  have dup: "isDuplicateKey (pg_text P v) \<longleftrightarrow> v = unique_violation" for v
    using assms(2) by (simp add: texts_ok_def)
  have pop: "\<exists>p\<in>set (pops db). po_name p = ai_POPName a" using assms(8) by (simp add: has_pop_def)
  note acc = assms(7) [simplified]
  show "snd (ar_Create (AgentRepo P) a db) =
      (if has_agent db (ai_ID a) then Inl (Sentinel ErrAlreadyExists) else Inr ())"
    using pop acc
    by (simp add: AgentRepo_def execute_executed [OF assms(1)] insert_agent_def assms(3-6)
        insert_result_def dup has_agent_def)
  show "agents (fst (ar_Create (AgentRepo P) a db)) =
      (if has_agent db (ai_ID a) then agents db
       else agents db @ [\<lparr>ag_id = ai_ID a, ag_pop_name = ai_POPName a, ag_version = ai_Version a,
             ag_status = ai_Status a, ag_capabilities = cs, ag_labels = l, ag_last_heartbeat = h,
             ag_registered_at = g, ag_updated_at = ce_now (next_call P db)\<rparr>])"
    using pop acc
    by (simp add: AgentRepo_def execute_executed [OF assms(1)] insert_agent_def assms(3-6) has_agent_def)
qed

text \<open>The agent a registration stores.\<close>

definition registered_agent :: "int \<Rightarrow> RegisterRequest \<Rightarrow> AgentInfo" where
  "registered_agent now req = \<lparr>ai_ID = rr_ID req, ai_POPName = rr_POPName req,
     ai_Version = rr_Version req, ai_Status = AgentStatusOnline, ai_Capabilities = rr_Capabilities req,
     ai_Labels = rr_Labels req, ai_LastHeartbeat = now, ai_RegisteredAt = now, ai_UpdatedAt = 0\<rparr>"

text \<open>
  C13: when the database executes every statement and the text of its errors carries the SQLSTATE of
  a duplicate key exactly for one, registering an agent has exactly these outcomes for a body
  that could be decoded: 400 without an identifier or a POP name, or when the POP
  does not exist or PostgreSQL refuses its name; 500 when the body has no list of capabilities or
  holds a value PostgreSQL refuses; 409 when the agent exists; and otherwise 201, in which case the
  agent is stored as online with the time of the request. In all other cases the agents are
  unchanged.
\<close>

theorem register_outcome:
  assumes "all_executed P" "texts_ok P"
    and "readJSON A RegisterRequest_fields zero_RegisterRequest (rq_Body rq) = Inr req"
    and "AgentHandler_Register A (AgentRepo P) (POPRepo P) now rq db = (db', r)"
  shows "rp_Status r =
      (if rr_ID req = [] \<or> rr_POPName req = [] \<or> \<not> pg_accepts P (rr_POPName req)
         \<or> \<not> has_pop db (rr_POPName req) then 400
       else if \<not> agent_storable P (registered_agent now req) then 500
       else if has_agent db (rr_ID req) then 409
       else 201)
    \<and> (if rp_Status r = 201
       then \<exists>x. agents db' = agents db @ [x] \<and> ag_id x = rr_ID req \<and> ag_pop_name x = rr_POPName req
         \<and> ag_version x = rr_Version req \<and> ag_status x = ''online''
         \<and> Some (ag_capabilities x) = rr_Capabilities req
         \<and> Some (ag_labels x) = pg_jsonb P (enc_labels (rr_Labels req))
         \<and> Some (ag_last_heartbeat x) = pg_timestamptz P now
         \<and> Some (ag_registered_at x) = pg_timestamptz P now
       else agents db' = agents db)"
proof (cases "rr_ID req = [] \<or> rr_POPName req = [] \<or> \<not> pg_accepts P (rr_POPName req)
    \<or> \<not> has_pop db (rr_POPName req)")
  case True
  have get: "pr_Get (POPRepo P) (rr_POPName req) db =
      (counted db, snd (pr_Get (POPRepo P) (rr_POPName req) db))"
    using pop_get(1) [OF assms(1)] by (metis prod.collapse)
  have "\<exists>e. snd (pr_Get (POPRepo P) (rr_POPName req) db) = Inl e"
    if "\<not> pg_accepts P (rr_POPName req) \<or> \<not> has_pop db (rr_POPName req)"
    using that pop_get(2) [OF assms(1), of "rr_POPName req" db]
    by (cases "snd (pr_Get (POPRepo P) (rr_POPName req) db)") auto
  with True assms(3,4) get show ?thesis
    by (auto simp: AgentHandler_Register_def errorResponse_def writeJSON_def error_status_def
        split: if_splits prod.splits sum.splits)
next
  case False
  then obtain p where get: "pr_Get (POPRepo P) (rr_POPName req) db = (counted db, Inr p)"
    using pop_get [OF assms(1), of "rr_POPName req" db] by (metis prod.collapse)
  let ?a = "registered_agent now req"
  have r: "db' = fst (ar_Create (AgentRepo P) ?a (counted db))"
    "rp_Status r = (case snd (ar_Create (AgentRepo P) ?a (counted db)) of
       Inl e \<Rightarrow> error_status e | Inr _ \<Rightarrow> 201)"
    using assms(3,4) get False
    by (auto simp: AgentHandler_Register_def Let_def errorResponse_def writeJSON_def registered_agent_def
        split: prod.splits sum.splits)
  have pop: "has_pop (counted db) (ai_POPName ?a)"
    using False by (simp add: has_pop_def registered_agent_def)
  show ?thesis
  proof (cases "agent_storable P ?a")
    case True
    then obtain l h cs where st: "pg_jsonb P (enc_labels (ai_Labels ?a)) = Some l"
        "pg_timestamptz P (ai_LastHeartbeat ?a) = Some h" "pg_timestamptz P (ai_RegisteredAt ?a) = Some h"
        "ai_Capabilities ?a = Some cs"
        "list_all (pg_accepts P) ([ai_ID ?a, ai_POPName ?a, ai_Version ?a, ai_Status ?a] @ cs)"
      by (auto simp: agent_storable_def registered_agent_def)
    have has: "has_agent (counted db) (ai_ID ?a) = has_agent db (rr_ID req)"
      by (simp add: has_agent_def registered_agent_def)
    have ok: "snd (ar_Create (AgentRepo P) ?a (counted db)) =
        (if has_agent db (rr_ID req) then Inl (Sentinel ErrAlreadyExists) else Inr ())"
      using agent_create(1) [OF assms(1,2) st pop] by (simp add: has)
    show ?thesis
      using False True r(2) st
      by (simp add: ok r(1) agent_create(2) [OF assms(1,2) st pop] has error_status_def)
        (simp add: registered_agent_def AgentStatusOnline_def)
  next
    case refused: False
    obtain err where "snd (ar_Create (AgentRepo P) ?a (counted db)) = Inl (Other err)"
      using agent_create_refused(1) [OF assms(1,2) refused] by blast
    with False refused r(2) agent_create_refused(2) [OF assms(1,2) refused, of "counted db"]
    show ?thesis by (simp add: r(1) error_status_def)
  qed
qed

text \<open>A registration at the POP of the example database, with a given list of capabilities.\<close>

definition demo_register :: "json \<Rightarrow> api_env" where
  "demo_register caps = demo_api (JObj [(''id'', JStr ''a''), (''pop_name'', JStr ''nyc''), (''capabilities'', caps)])"

lemma demo_register_read:
  "readJSON (demo_register JNull) RegisterRequest_fields zero_RegisterRequest b =
    Inr \<lparr>rr_ID = ''a'', rr_POPName = ''nyc'', rr_Version = [], rr_Capabilities = None, rr_Labels = None\<rparr>"
  "readJSON (demo_register (JArr [])) RegisterRequest_fields zero_RegisterRequest b =
    Inr \<lparr>rr_ID = ''a'', rr_POPName = ''nyc'', rr_Version = [], rr_Capabilities = Some [], rr_Labels = None\<rparr>"
  by (simp_all add: readJSON_def demo_register_def demo_api_def RegisterRequest_fields_def find_field_def
      field_def zero_RegisterRequest_def)

lemma demo_texts_ok [simp]: "texts_ok demo_pg"
  unfolding texts_ok_def
proof
  fix v
  have "isDuplicateKey ''SQLSTATE 23505''" "\<not> isDuplicateKey ''error''" by code_simp+
  then show "isDuplicateKey (pg_text demo_pg v) \<longleftrightarrow> v = unique_violation" by (simp add: demo_pg_def)
qed

lemma demo_db_has [simp]:
  "has_pop demo_db ''nyc''" "\<not> has_agent demo_db i" "agents demo_db = []"
  by (simp_all add: has_pop_def has_agent_def demo_db_def empty_database_def)

lemma register_outcome_witness:
  "rp_Status (snd (AgentHandler_Register (demo_register JNull) (AgentRepo demo_pg) (POPRepo demo_pg) 7
      (demo_request []) demo_db)) = 500
    \<and> rp_Status (snd (AgentHandler_Register (demo_register (JArr [])) (AgentRepo demo_pg)
        (POPRepo demo_pg) 7 (demo_request []) demo_db)) = 201"
  using register_outcome [OF _ demo_texts_ok demo_register_read(1) prod.collapse [symmetric],
      of 7 "demo_request []" demo_db]
    register_outcome [OF _ demo_texts_ok demo_register_read(2) prod.collapse [symmetric],
      of 7 "demo_request []" demo_db]
  by (simp add: agent_storable_def registered_agent_def AgentStatusOnline_def)

subsection \<open>Deleting a POP\<close>

lemma pop_delete:
  assumes "all_executed P"
  shows "pr_Delete (POPRepo P) n db =
    (if \<not> pg_accepts P n then (counted db, Inl (Other (pg_text P invalid_parameter)))
     else if has_pop db n \<and> (\<exists>a\<in>set (agents db). ag_pop_name a = n)
     then (counted db, Inl (Other (pg_text P foreign_key_violation)))
     else ((counted db)\<lparr>pops := filter (\<lambda>x. po_name x \<noteq> n) (pops db),
             test_assignments := filter (\<lambda>x. as_pop_name x \<noteq> Some n) (test_assignments db)\<rparr>,
           if has_pop db n then Inr () else Inl (Sentinel ErrNotFound)))"
proof -
  have "filter (\<lambda>x. po_name x = n) (pops db) = [] \<longleftrightarrow> \<not> has_pop db n"
    by (auto simp: has_pop_def filter_empty_conv)
  then show ?thesis
    using assms
    by (simp add: POPRepo_def execute_executed delete_pop_def affected_result_def has_pop_def)
qed

text \<open>
  C22: when the database executes every statement, deleting a POP has exactly these outcomes: 500 and
  no change when PostgreSQL refuses the name or an agent is registered at the POP, 404 when there
  is no such POP, and otherwise 204, after which the POP and its own assignments are gone and
  every other POP still gets exactly the tests it got before.
\<close>

theorem pop_delete_outcome:
  assumes "all_executed P"
    and "POPHandler_Delete (POPRepo P) rq db = (db', r)" and "n = URLParam rq ''name''"
  shows "rp_Status r =
      (if \<not> pg_accepts P n then 500
       else if \<not> has_pop db n then 404
       else if \<exists>a\<in>set (agents db). ag_pop_name a = n then 500
       else 204)
    \<and> (has_pop db' m \<longleftrightarrow> has_pop db m \<and> \<not> (rp_Status r = 204 \<and> m = n))
    \<and> (m \<noteq> n \<or> rp_Status r = 500 \<longrightarrow> (assigned db' i m \<longleftrightarrow> assigned db i m))
    \<and> (rp_Status r = 204 \<longrightarrow> (i, Some n) \<notin> assignment_pairs db')
    \<and> agents db' = agents db \<and> test_definitions db' = test_definitions db"
proof -
  have r: "db' = fst (pr_Delete (POPRepo P) n db)"
    "rp_Status r = (case snd (pr_Delete (POPRepo P) n db) of Inl e \<Rightarrow> error_status e | Inr _ \<Rightarrow> 204)"
    using assms(2,3)
    by (auto simp: POPHandler_Delete_def delete_response_def errorResponse_def writeJSON_def
        NoContent_def split: prod.splits sum.splits)
  note del = pop_delete [OF assms(1), of n db]
  consider (refused) "\<not> pg_accepts P n"
    | (missing) "pg_accepts P n" "\<not> has_pop db n"
    | (blocked) "pg_accepts P n" "has_pop db n" "\<exists>a\<in>set (agents db). ag_pop_name a = n"
    | (gone) "pg_accepts P n" "has_pop db n" "\<not> (\<exists>a\<in>set (agents db). ag_pop_name a = n)"
    by blast
  then show ?thesis
  proof cases
    case refused
    with r del show ?thesis by (simp add: error_status_def has_pop_def assigned_def)
  next
    case missing
    then have keep: "filter (\<lambda>x. po_name x \<noteq> n) (pops db) = pops db"
      by (auto simp: has_pop_def filter_id_conv)
    from missing r del show ?thesis
      by (auto simp: error_status_def has_pop_def assigned_def keep)
  next
    case blocked
    with r del show ?thesis by (simp add: error_status_def has_pop_def assigned_def)
  next
    case gone
    with r del show ?thesis
      by (auto simp: error_status_def has_pop_def assigned_def assignment_pairs_def)
  qed
qed

lemma pop_delete_outcome_witness:
  "rp_Status (snd (POPHandler_Delete (POPRepo demo_pg) (demo_request ''nyc'') demo_db)) = 204
    \<and> (''t1'', Some ''nyc'') \<notin>
        assignment_pairs (fst (POPHandler_Delete (POPRepo demo_pg) (demo_request ''nyc'') demo_db))
    \<and> rp_Status (snd (POPHandler_Delete (POPRepo demo_pg) (demo_request [CHR 0x00]) demo_db)) = 500"
  using pop_delete_outcome [OF _ prod.collapse [symmetric] refl, of demo_pg "demo_request ''nyc''" demo_db
      "''nyc''" "''t1''"]
    pop_delete_outcome [OF _ prod.collapse [symmetric] refl, of demo_pg "demo_request [CHR 0x00]" demo_db]
  by simp

subsection \<open>Updating and deleting a test\<close>




lemma tests_view_find: "tests_view db i = map_option scan_test (find (\<lambda>x. te_id x = i) (test_definitions db))"
proof -
  have "map_of (map (\<lambda>x. (te_id x, scan_test x)) rows) i =
      map_option scan_test (find (\<lambda>x. te_id x = i) rows)" for rows
    by (induction rows) auto
  then show ?thesis by (simp add: tests_view_def)
qed






lemma test_delete:
  assumes "all_executed P"
  shows "te_Delete (TestRepo P) i db =
    (if \<not> pg_accepts P i then (counted db, Inl (Other (pg_text P invalid_parameter)))
     else ((counted db)\<lparr>test_definitions := filter (\<lambda>x. te_id x \<noteq> i) (test_definitions db),
         test_assignments := filter (\<lambda>x. as_test_id x \<noteq> i) (test_assignments db)\<rparr>,
       if has_test db i then Inr () else Inl (Sentinel ErrNotFound)))"
proof -
  have "filter (\<lambda>x. te_id x = i) (test_definitions db) = [] \<longleftrightarrow> \<not> has_test db i"
    by (auto simp: has_test_def filter_empty_conv)
  then show ?thesis
    using assms by (simp add: TestRepo_def execute_executed delete_test_def affected_result_def)
qed

text \<open>
  C24: when the database executes every statement, deleting a test answers 500 when PostgreSQL
  refuses the identifier (a NUL byte), and then every test is defined and assigned as before;
  otherwise it answers 204 if the test exists and 404 if not, and in both cases the test and all
  its assignments are gone afterwards, and every other test is defined and assigned as before.
\<close>

theorem test_delete_outcome:
  assumes "all_executed P"
    and "TestHandler_Delete (TestRepo P) rq db = (db', r)" and "t = URLParam rq ''id''"
  shows "rp_Status r = (if \<not> pg_accepts P t then 500 else if has_test db t then 204 else 404)
    \<and> (rp_Status r \<noteq> 500 \<longrightarrow> tests_view db' t = None \<and> \<not> assigned db' t n)
    \<and> (i \<noteq> t \<or> rp_Status r = 500 \<longrightarrow>
        tests_view db' i = tests_view db i \<and> (assigned db' i n \<longleftrightarrow> assigned db i n))"
proof -
  have r: "db' = fst (te_Delete (TestRepo P) t db)"
    "rp_Status r = (case snd (te_Delete (TestRepo P) t db) of Inl e \<Rightarrow> error_status e | Inr _ \<Rightarrow> 204)"
    using assms(2,3)
    by (auto simp: TestHandler_Delete_def delete_response_def errorResponse_def writeJSON_def
        NoContent_def split: prod.splits sum.splits)
  have other: "find (\<lambda>x. te_id x = i) (filter (\<lambda>x. te_id x \<noteq> t) rows) =
      (if i = t then None else find (\<lambda>x. te_id x = i) rows)" for i rows
    by (induction rows) auto
  show ?thesis
    unfolding r test_delete [OF assms(1)] by (auto simp: tests_view_find other assigned_def error_status_def)
qed

lemma test_delete_outcome_witness:
  "rp_Status (snd (TestHandler_Delete (TestRepo demo_pg) (demo_request ''t1'') demo_db)) = 204
    \<and> \<not> assigned (fst (TestHandler_Delete (TestRepo demo_pg) (demo_request ''t1'') demo_db)) ''t1'' ''nyc''"
proof -
  have "has_test demo_db ''t1''" by (simp add: has_test_def demo_db_def demo_test_row_def)
  with test_delete_outcome [OF _ prod.collapse [symmetric] refl, of demo_pg "demo_request ''t1''" demo_db]
  show ?thesis by simp
qed

end
