(* ===== verification/Programs.thy ===== *)
theory Programs
  imports NatsTransport Lifecycle ServerConfig
begin

text \<open>
  The three programs (cmd/agent, cmd/processor, cmd/server): what each builds from its
  environment and when it ends. A program started by its \<open>main\<close> ends with an exit status or is
  still running; signals, the metrics endpoint and the HTTP server are parameters.
\<close>

subsection \<open>The processor\<close>

datatype run_end = Cancelled | Ping_subscription "string option"

text \<open>
  \<open>Run\<close> subscribes from five goroutines, which get to it in any order (\<open>order\<close>). It ends when
  the context is cancelled or the subscription of the ping results returns; if both have happened
  \<open>select\<close> takes either (\<open>takes_cancel\<close>). The other four errors are logged. The subscription of the
  ping results returns without an error only after the context was cancelled. Each subscription has
  its handler of the processor; \<open>hs\<close> are these handlers on the processor's state and \<open>events\<close> what
  happens on the connection while the subscription lasts. A failed one leaves no goroutine behind;
  established ones run side by side, which the model puts one after the other: it is exact where
  at most one of them is established.
\<close>

fun run_subscriptions ::
  "'c nats_client \<Rightarrow> (subscription \<Rightarrow> 's msg_handler) \<Rightarrow> (subscription \<Rightarrow> 'c nats_event list)
     \<Rightarrow> (topic \<times> subscription) list \<Rightarrow> 's \<times> 'c \<Rightarrow> ('s \<times> 'c) \<times> (subscription \<times> string option) list" where
  "run_subscriptions N hs events [] sc = (sc, [])"
| "run_subscriptions N hs events ((topic, sub) # subs) sc =
     (case nats_Subscribe N topic (hs sub) (events sub) sc of
        (sc1, r) \<Rightarrow> (case run_subscriptions N hs events subs sc1 of
          (sc2, rs) \<Rightarrow> (sc2, (sub, r) # rs)))"

definition processor_Run ::
  "'c nats_client \<Rightarrow> (subscription \<Rightarrow> 's msg_handler) \<Rightarrow> (subscription \<Rightarrow> 'c nats_event list)
     \<Rightarrow> (topic \<times> subscription) list \<Rightarrow> bool \<Rightarrow> 's \<times> 'c \<Rightarrow> ('s \<times> 'c) \<times> run_end" where
  "processor_Run N hs events order takes_cancel sc =
     (case run_subscriptions N hs events order sc of
        (sc1, rs) \<Rightarrow> (sc1,
          if takes_cancel then Cancelled
          else (case map_of rs PingSub of Some r \<Rightarrow> Ping_subscription r | None \<Rightarrow> Cancelled)))"

text \<open>
  \<open>shutdown\<close> is the result of shutting the metrics server down, which \<open>Run\<close> returns. The
  deferred \<open>Close\<close> does not run before \<open>os.Exit\<close>. The \<open>n\<close>-th delivery finds the clock and the map
  orders \<open>now n\<close>, \<open>targets n\<close> and \<open>keys n\<close>.
\<close>

definition processor_main ::
  "'c nats_client \<Rightarrow> codec \<Rightarrow> (nat \<Rightarrow> int) \<Rightarrow> (nat \<Rightarrow> string list) \<Rightarrow> (nat \<Rightarrow> string \<Rightarrow> string list)
     \<Rightarrow> environment \<Rightarrow> (subscription \<Rightarrow> 'c nats_event list) \<Rightarrow> (topic \<times> subscription) list
     \<Rightarrow> bool \<Rightarrow> string option \<Rightarrow> 'c \<Rightarrow> 'c \<times> run_end option \<times> int" where
  "processor_main N C now targets keys env events order takes_cancel shutdown c =
     (let natsURL = envOrDefault env ''NETVANTAGE_NATS_URL'' ''nats://localhost:4222''
      in case nats_New N \<lparr>nt_URL = natsURL, nt_TLSCert = [], nt_TLSKey = [], nt_TLSCACert = []\<rparr> c of
           (c1, Some _) \<Rightarrow> (c1, None, 1)
         | (c1, None) \<Rightarrow>
             (case processor_Run N (processor_handler C now targets keys) events order takes_cancel
                     ((0, new_processor, []), c1) of
                ((_, c2), how) \<Rightarrow>
                  if shutdown \<noteq> None then (c2, Some how, 1)
                  else (fst (nats_Close N c2), Some how, 0)))"

subsection \<open>The agent\<close>

datatype agent_program =
    Agent_exit int
  | Agent_panics
  | Agent_running Config "string set" "string list"

text \<open>
  A running agent has its configuration, the types of its canaries and the identifiers of the
  tests it has a loop for. No file and no environment is read.
\<close>

definition agent_main ::
  "'c nats_client \<Rightarrow> string \<Rightarrow> 'env canary list \<Rightarrow> 'c \<Rightarrow> 'c \<times> agent_program" where
  "agent_main N homeDir canaries c =
     (let cfg = DefaultConfig homeDir
      in if Validate cfg \<noteq> None then (c, Agent_exit 1)
         else (case nats_New N \<lparr>nt_URL = nc_URL (tc_NATS (Transport cfg)), nt_TLSCert = [],
                   nt_TLSKey = [], nt_TLSCACert = []\<rparr> c of
                 (c1, Some _) \<Rightarrow> (c1, Agent_exit 1)
               | (c1, None) \<Rightarrow>
                   let a = fold RegisterCanary canaries (new_agent cfg)
                   in (c1, case run_loops a of
                             None \<Rightarrow> Agent_panics
                           | Some loops \<Rightarrow> Agent_running cfg (dom (ag_canaries a))
                               (map (td_ID \<circ> fst) loops))))"

subsection \<open>The server\<close>

text \<open>The server listens on its address with the routes over the repositories of a database. The
  arguments are the errors of the connection pool, of its ping and of listening.\<close>

datatype server_program =
    Server_exit int
  | Server_running string string "database deps"

definition server_main ::
  "postgres \<Rightarrow> (string \<Rightarrow> string option) \<Rightarrow> (string \<Rightarrow> string option) \<Rightarrow> (string \<Rightarrow> string option)
     \<Rightarrow> environment \<Rightarrow> server_program" where
  "server_main P pool_error ping_error listen_error env =
     (let cfg = Load env
      in if server_Validate cfg \<noteq> None then Server_exit 1
         else if pool_error (sg_DatabaseURL cfg) \<noteq> None then Server_exit 1
         else if ping_error (sg_DatabaseURL cfg) \<noteq> None then Server_exit 1
         else if listen_error (sg_Addr cfg) \<noteq> None then Server_exit 1
         else Server_running (sg_Addr cfg) (sg_DatabaseURL cfg) (postgres_deps P))"

subsection \<open>Properties\<close>

lemma run_subscriptions_subs: "map fst (snd (run_subscriptions N hs events subs sc)) = map snd subs"
proof (induction subs arbitrary: sc)
  case (Cons x subs)
  then show ?case by (cases x) (simp add: split_beta)
qed simp

lemma run_subscriptions_fail:
  assumes refuses: "\<And>topic name c. CHR ''.'' \<in> set name \<Longrightarrow>
      \<exists>c' err. nj_Subscribe N topic name c = (c', Some err)"
    and "set subs \<subseteq> set subscriptions"
  shows "run_subscriptions N hs events subs sc = run_subscriptions N hs' events' subs sc
    \<and> fst (fst (run_subscriptions N hs events subs sc)) = fst sc
    \<and> (\<forall>x \<in> set (snd (run_subscriptions N hs events subs sc)). snd x \<noteq> None)"
  using assms(2)
proof (induction subs arbitrary: sc)
  case (Cons x subs)
  obtain topic sub where x: "x = (topic, sub)" by (cases x)
  have topic: "CHR ''.'' \<in> set (durable_name topic)"
    using Cons.prems by (auto simp: x subscriptions_def durable_name_def)
  have "\<exists>c' err. \<forall>h es. nats_Subscribe N topic h es sc = ((fst sc, c'), Some err)"
    using refuses [OF topic, of topic "snd sc"]
    by (cases sc; cases "nj_IsClosed N (snd sc)") (auto simp: nats_Subscribe_def)
  then obtain c' err where sub: "nats_Subscribe N topic h es sc = ((fst sc, c'), Some err)" for h es
    by blast
  have "run_subscriptions N hs events subs (fst sc, c') = run_subscriptions N hs' events' subs (fst sc, c')"
    "fst (fst (run_subscriptions N hs events subs (fst sc, c'))) = fst sc"
    "\<forall>x \<in> set (snd (run_subscriptions N hs events subs (fst sc, c'))). snd x \<noteq> None"
    using Cons.IH [of "(fst sc, c')"] Cons.prems by auto
  then show ?case by (simp add: x sub split_beta)
qed simp

text \<open>
  C21: the processor cannot run over NATS. Where the client refuses consumer names with a dot, a
  processor that connected ends by the error of its own subscription unless it is cancelled
  first, with the exit status of a normal end if its metrics server shuts down without an error;
  and nothing depends on what the subscriptions would have delivered.
\<close>

theorem processor_ends_at_once:
  assumes "\<And>topic name c. CHR ''.'' \<in> set name \<Longrightarrow> \<exists>c' err. nj_Subscribe N topic name c = (c', Some err)"
    and "mset order = mset subscriptions"
    and "processor_main N C now targets keys env events order False None c = (c', Some how, status)"
  shows "(\<exists>err. how = Ping_subscription (Some err)) \<and> status = 0
    \<and> processor_main N C now targets keys env events' order False None c = (c', Some how, status)"
proof -
  have same: "set order = set subscriptions" using assms(2) by (metis set_mset_mset)
  then have ping: "PingSub \<in> snd ` set order" by (simp add: subscriptions_def)
  let ?hs = "processor_handler C now targets keys"
  have fail: "run_subscriptions N ?hs d order sc = run_subscriptions N ?hs d' order sc
      \<and> fst (fst (run_subscriptions N ?hs d order sc)) = fst sc
      \<and> (\<forall>x \<in> set (snd (run_subscriptions N ?hs d order sc)). snd x \<noteq> None)" for d d' sc
    using assms(1) by (rule run_subscriptions_fail) (simp_all add: same)
  have run: "\<exists>err. snd (processor_Run N ?hs d order False sc) = Ping_subscription (Some err)" for d sc
  proof -
    let ?rs = "snd (run_subscriptions N ?hs d order sc)"
    have "fst ` set ?rs = snd ` set order"
      using arg_cong [OF run_subscriptions_subs [of N ?hs d order sc], of set] by simp
    with ping have "map_of ?rs PingSub \<noteq> None" by (simp add: map_of_eq_None_iff)
    then obtain r where r: "map_of ?rs PingSub = Some r" by auto
    then have "r \<noteq> None" using fail [of d sc] by (fastforce dest: map_of_SomeD)
    with r show ?thesis by (auto simp: processor_Run_def split_beta)
  qed
  have eq: "run_subscriptions N ?hs events' order sc = run_subscriptions N ?hs events order sc" for sc
    using fail by blast
  have "processor_main N C now targets keys env events' order False None c =
      processor_main N C now targets keys env events order False None c"
    by (simp add: processor_main_def processor_Run_def eq)
  moreover have "(\<exists>err. how = Ping_subscription (Some err)) \<and> status = 0"
    using assms(3) run [of events]
    by (auto simp: processor_main_def Let_def split_beta split: option.splits)
  ultimately show ?thesis using assms(3) by simp
qed

text \<open>The client of the example, with a stream that exists.\<close>

definition demo_streams :: "nat nats_client" where
  "demo_streams = demo_client\<lparr>nj_StreamInfo := (\<lambda>name c. (Suc c, None))\<rparr>"

abbreviation demo_processor_main :: "nat \<Rightarrow> nat \<times> run_end option \<times> int" where
  "demo_processor_main \<equiv> processor_main demo_streams demo_print int (\<lambda>n. []) (\<lambda>n t. []) (\<lambda>_. [])
     (\<lambda>sub. [Delivery ''x'']) (rev subscriptions) False None"

lemma processor_ends_at_once_witness:
  "\<exists>c' err. demo_processor_main 1 = (c', Some (Ping_subscription (Some err)), 0)"
proof -
  obtain c' how status where main: "demo_processor_main 1 = (c', Some how, status)"
    by (simp add: processor_main_def nats_New_def ensureStream_def demo_streams_def demo_client_def
        split_beta)
  have "(\<exists>err. how = Ping_subscription (Some err)) \<and> status = 0
    \<and> processor_main demo_streams demo_print int (\<lambda>n. []) (\<lambda>n t. []) (\<lambda>_. [])
        (\<lambda>sub. []) (rev subscriptions) False None 1 = (c', Some how, status)"
    by (rule processor_ends_at_once [OF _ _ main])
      (auto simp: demo_streams_def demo_client_def)
  with main show ?thesis by auto
qed

text \<open>
  C39: the agent program never runs a test. Whatever canaries it registers and whatever its
  environment holds, it ends because it cannot connect, or runs on the default configuration with
  all its canaries and with no test loop at all, as nothing ever loads a test definition.
\<close>

theorem agent_program_is_idle:
  "snd (agent_main N homeDir canaries c) = Agent_exit 1
    \<or> snd (agent_main N homeDir canaries c) =
        Agent_running (DefaultConfig homeDir) (cn_Type ` set canaries) []"
proof -
  have reg: "ag_cfg (fold RegisterCanary cs a) = ag_cfg a
    \<and> dom (ag_canaries (fold RegisterCanary cs a)) = dom (ag_canaries a) \<union> cn_Type ` set cs"
    for cs :: "'env canary list" and a
    by (induction cs arbitrary: a) (auto simp: RegisterCanary_def)
  have "run_loops (fold RegisterCanary canaries (new_agent (DefaultConfig homeDir))) = Some []"
    by (simp add: run_loops_def reg new_agent_def loadTests_def DefaultConfig_def newTicker_def
        seconds_def List.map_filter_def)
  then show ?thesis
    by (auto simp: agent_main_def Let_def reg new_agent_def split: prod.split option.split)
qed

end
