(* ===== verification/KafkaTransport.thy ===== *)
theory KafkaTransport
  imports MemoryTransport
begin

text \<open>
  The Kafka transport (internal/transport/kafka/kafka.go). The client library (sarama), the
  network and the brokers are the record \<open>sarama\<close> over a state \<open>'w\<close>, the files of the certificates
  the record \<open>file_env\<close>. A partition of a topic is the list of its messages and the offset
  the consumer group continues at.
\<close>

subsection \<open>Configuration\<close>

record KafkaTransportConfig =
  kf_Brokers :: "string list"
  kf_TopicPrefix :: string
  kf_ConsumerGroup :: string
  kf_SASLEnabled :: bool
  kf_SASLMechanism :: string
  kf_SASLUsername :: string
  kf_SASLPassword :: string
  kf_TLSEnabled :: bool
  kf_TLSCert :: string
  kf_TLSKey :: string
  kf_TLSCACert :: string
  kf_TLSSkipVerify :: bool
  kf_RequiredAcks :: int
  kf_MaxRetries :: int
  kf_FlushFrequency :: int
  kf_FlushMessages :: int
  kf_InitialOffset :: int

text \<open>\<open>waitForAll\<close> and \<open>offsetNewest\<close> are the library's constants of these names.\<close>

definition kafka_DefaultConfig :: "int \<Rightarrow> int \<Rightarrow> string list \<Rightarrow> KafkaTransportConfig" where
  "kafka_DefaultConfig waitForAll offsetNewest brokers =
     \<lparr>kf_Brokers = brokers, kf_TopicPrefix = ''netvantage'', kf_ConsumerGroup = ''netvantage-processor'',
      kf_SASLEnabled = False, kf_SASLMechanism = [], kf_SASLUsername = [], kf_SASLPassword = [],
      kf_TLSEnabled = False, kf_TLSCert = [], kf_TLSKey = [], kf_TLSCACert = [],
      kf_TLSSkipVerify = False, kf_RequiredAcks = waitForAll, kf_MaxRetries = 3,
      kf_FlushFrequency = 100 * 1000000, kf_FlushMessages = 100, kf_InitialOffset = offsetNewest\<rparr>"

text \<open>The client of the SCRAM exchange: its three methods.\<close>

record scramClient =
  sx_mechanism :: string

definition scram_Begin :: "scramClient \<Rightarrow> string \<Rightarrow> string \<Rightarrow> string \<Rightarrow> string option" where
  "scram_Begin sx userName password authzID = None"

definition scram_Step :: "scramClient \<Rightarrow> string \<Rightarrow> string \<times> string option" where
  "scram_Step sx challenge = ([], None)"

definition scram_Done :: "scramClient \<Rightarrow> bool" where
  "scram_Done sx = True"

text \<open>
  The settings of a \<open>sarama.Config\<close> the code makes; \<open>sc_Initial\<close> is set for consumers only. The
  names of the version and of the balance strategy stand for the library's constants.
\<close>

record tls_config =
  ts_InsecureSkipVerify :: bool
  ts_RootCAs :: "bytes option"
  ts_Certificates :: "bytes list"

record sasl_config =
  sl_User :: string
  sl_Password :: string
  sl_Mechanism :: string
  sl_Client :: scramClient

record sarama_config =
  sc_Version :: string
  sc_ClientID :: string
  sc_RequiredAcks :: int
  sc_RetryMax :: int
  sc_ReturnSuccesses :: bool
  sc_FlushFrequency :: int
  sc_FlushMessages :: int
  sc_GroupStrategies :: "string list"
  sc_SASL :: "sasl_config option"
  sc_TLS :: "tls_config option"
  sc_Initial :: "int option"

text \<open>
  \<open>fe_pems_ok\<close> is the result of \<open>AppendCertsFromPEM\<close>, \<open>fe_key_pair\<close> is \<open>LoadX509KeyPair\<close> of the two
  paths.
\<close>

record file_env =
  fe_read :: "string \<Rightarrow> string + bytes"
  fe_pems_ok :: "bytes \<Rightarrow> bool"
  fe_key_pair :: "string \<Rightarrow> string \<Rightarrow> string + bytes"

definition sasl_settings :: "KafkaTransportConfig \<Rightarrow> string + sasl_config option" where
  "sasl_settings cfg =
     (if \<not> kf_SASLEnabled cfg then Inr None
      else if kf_SASLMechanism cfg = ''SCRAM-SHA-256'' \<or> kf_SASLMechanism cfg = ''SCRAM-SHA-512''
      then Inr (Some \<lparr>sl_User = kf_SASLUsername cfg, sl_Password = kf_SASLPassword cfg,
         sl_Mechanism = kf_SASLMechanism cfg, sl_Client = \<lparr>sx_mechanism = kf_SASLMechanism cfg\<rparr>\<rparr>)
      else Inl (''unsupported SASL mechanism: '' @ kf_SASLMechanism cfg
        @ '' (use SCRAM-SHA-256 or SCRAM-SHA-512)''))"

definition root_cas :: "file_env \<Rightarrow> KafkaTransportConfig \<Rightarrow> string + bytes option" where
  "root_cas F cfg =
     (if kf_TLSCACert cfg = [] then Inr None
      else (case fe_read F (kf_TLSCACert cfg) of
              Inl err \<Rightarrow> Inl (''read CA cert '' @ kf_TLSCACert cfg @ '': '' @ err)
            | Inr caCert \<Rightarrow>
                if \<not> fe_pems_ok F caCert
                then Inl (''failed to parse CA cert '' @ kf_TLSCACert cfg)
                else Inr (Some caCert)))"

definition client_certs :: "file_env \<Rightarrow> KafkaTransportConfig \<Rightarrow> string + bytes list" where
  "client_certs F cfg =
     (if kf_TLSCert cfg = [] \<or> kf_TLSKey cfg = [] then Inr []
      else (case fe_key_pair F (kf_TLSCert cfg) (kf_TLSKey cfg) of
              Inl err \<Rightarrow> Inl (''load client cert: '' @ err)
            | Inr cert \<Rightarrow> Inr [cert]))"

definition tls_settings :: "file_env \<Rightarrow> KafkaTransportConfig \<Rightarrow> string + tls_config option" where
  "tls_settings F cfg =
     (if \<not> kf_TLSEnabled cfg then Inr None
      else (case root_cas F cfg of
              Inl err \<Rightarrow> Inl err
            | Inr cas \<Rightarrow>
                (case client_certs F cfg of
                   Inl err \<Rightarrow> Inl err
                 | Inr certs \<Rightarrow> Inr (Some \<lparr>ts_InsecureSkipVerify = kf_TLSSkipVerify cfg,
                     ts_RootCAs = cas, ts_Certificates = certs\<rparr>))))"

definition buildSaramaConfig ::
  "int \<Rightarrow> file_env \<Rightarrow> KafkaTransportConfig \<Rightarrow> string + sarama_config" where
  "buildSaramaConfig waitForAll F cfg =
     (case sasl_settings cfg of
        Inl err \<Rightarrow> Inl err
      | Inr sasl \<Rightarrow>
          (case tls_settings F cfg of
             Inl err \<Rightarrow> Inl err
           | Inr tls \<Rightarrow> Inr
               \<lparr>sc_Version = ''V3_6_0_0'', sc_ClientID = ''netvantage'',
                sc_RequiredAcks = (if kf_RequiredAcks cfg = 0 then waitForAll else kf_RequiredAcks cfg),
                sc_RetryMax = (if kf_MaxRetries cfg = 0 then 3 else kf_MaxRetries cfg),
                sc_ReturnSuccesses = True, sc_FlushFrequency = kf_FlushFrequency cfg,
                sc_FlushMessages = kf_FlushMessages cfg, sc_GroupStrategies = [''roundrobin''],
                sc_SASL = sasl, sc_TLS = tls, sc_Initial = None\<rparr>))"

subsection \<open>The transport\<close>

definition fullTopic :: "KafkaTransportConfig \<Rightarrow> topic \<Rightarrow> topic" where
  "fullTopic cfg topic = map (\<lambda>c. if c = CHR ''.'' then CHR ''-'' else c) topic"

record 'w sarama =
  sm_WaitForAll :: int
  sm_Client :: "string list \<Rightarrow> sarama_config \<Rightarrow> 'w \<Rightarrow> 'w \<times> string option"
  sm_SyncProducer :: "'w \<Rightarrow> 'w \<times> string option"
  sm_CloseClient :: "'w \<Rightarrow> 'w \<times> string option"
  sm_CloseProducer :: "'w \<Rightarrow> 'w \<times> string option"
  sm_SendMessage :: "topic \<Rightarrow> bytes \<Rightarrow> 'w \<Rightarrow> 'w \<times> string option"
  sm_ConsumerGroup :: "string list \<Rightarrow> string \<Rightarrow> sarama_config \<Rightarrow> 'w \<Rightarrow> 'w \<times> string option"
  sm_CloseGroup :: "'w \<Rightarrow> 'w"

text \<open>\<open>cancelFn\<close> is nil and assigned nowhere. \<open>%v\<close> of the brokers is a list in brackets.\<close>

record KafkaTransport =
  kt_cfg :: KafkaTransportConfig
  kt_closed :: bool

definition kafka_New ::
  "'w sarama \<Rightarrow> file_env \<Rightarrow> KafkaTransportConfig \<Rightarrow> 'w \<Rightarrow> 'w \<times> (string + KafkaTransport)" where
  "kafka_New S F cfg w =
     (if length (kf_Brokers cfg) = 0
      then (w, Inl ''kafka: at least one broker address is required'')
      else (case buildSaramaConfig (sm_WaitForAll S) F cfg of
         Inl err \<Rightarrow> (w, Inl (''kafka: config: '' @ err))
       | Inr saramaCfg \<Rightarrow>
          (case sm_Client S (kf_Brokers cfg) saramaCfg w of
             (w1, Some err) \<Rightarrow> (w1, Inl (''kafka: connect to ['' @ str_join '' '' (kf_Brokers cfg)
                @ '']: '' @ err))
           | (w1, None) \<Rightarrow>
              (case sm_SyncProducer S w1 of
                 (w2, Some err) \<Rightarrow>
                   (fst (sm_CloseClient S w2), Inl (''kafka: create producer: '' @ err))
               | (w2, None) \<Rightarrow> (w2, Inr \<lparr>kt_cfg = cfg, kt_closed = False\<rparr>)))))"

definition kafka_Publish :: "'w sarama \<Rightarrow> (KafkaTransport \<times> 'w) handler" where
  "kafka_Publish S topic msg tw =
     (let (t, w) = tw; kafkaTopic = fullTopic (kt_cfg t) topic
      in if kt_closed t then (tw, Some ErrClosed)
         else (case sm_SendMessage S kafkaTopic msg w of
                 (w1, Some err) \<Rightarrow> ((t, w1), Some (''kafka: publish to '' @ kafkaTopic @ '': '' @ err))
               | (w1, None) \<Rightarrow> ((t, w1), None)))"

text \<open>Both are closed even if the first reports an error; \<open>errors.Join\<close> puts one per line.\<close>

definition kafka_Close :: "'w sarama \<Rightarrow> KafkaTransport \<times> 'w \<Rightarrow> (KafkaTransport \<times> 'w) \<times> string option"
  where
  "kafka_Close S tw =
     (let (t, w) = tw
      in if kt_closed t then (tw, None)
         else (case sm_CloseProducer S w of
            (w1, e1) \<Rightarrow> (case sm_CloseClient S w1 of
              (w2, e2) \<Rightarrow>
                let errs =
                  (case e1 of None \<Rightarrow> [] | Some err \<Rightarrow> [''kafka: close producer: '' @ err])
                  @ (case e2 of None \<Rightarrow> [] | Some err \<Rightarrow> [''kafka: close client: '' @ err])
                in ((t\<lparr>kt_closed := True\<rparr>, w2),
                    if errs = [] then None else Some (str_join [CHR 0x0A] errs)))))"

subsection \<open>Subscribing\<close>

text \<open>
  What \<open>errors.Is\<close> tells apart in an error of \<open>Consume\<close>. The \<open>n\<close>-th iteration of the loop finds
  the context cancelled or not (\<open>ctx_done n\<close>) and calls \<open>Consume\<close> (\<open>consume n\<close>), which runs
  sessions of the group and returns when one ends.
\<close>

datatype consume_error = ErrClosedConsumerGroup | ContextCanceled | OtherConsumeError string

definition stops :: "consume_error option \<Rightarrow> bool" where
  "stops e \<longleftrightarrow> e = Some ErrClosedConsumerGroup \<or> e = Some ContextCanceled"

partial_function (option) consume_loop ::
  "(nat \<Rightarrow> bool) \<Rightarrow> (nat \<Rightarrow> 'w \<Rightarrow> 'w \<times> consume_error option) \<Rightarrow> nat \<Rightarrow> 'w \<Rightarrow> 'w option" where
  "consume_loop ctx_done consume n w =
     (if ctx_done n then Some w
      else if stops (snd (consume n w)) then Some (fst (consume n w))
      else consume_loop ctx_done consume (Suc n) (fst (consume n w)))"

text \<open>\<open>None\<close> when it never returns.\<close>

definition kafka_Subscribe ::
  "'w sarama \<Rightarrow> file_env \<Rightarrow> topic \<Rightarrow> (topic \<Rightarrow> 'w \<Rightarrow> 'w option) \<Rightarrow> KafkaTransport \<times> 'w
     \<Rightarrow> ((KafkaTransport \<times> 'w) \<times> string option) option" where
  "kafka_Subscribe S F topic loop tw =
     (let (t, w) = tw; cfg = kt_cfg t; kafkaTopic = fullTopic cfg topic
      in if kt_closed t then Some (tw, Some ErrClosed)
         else (case buildSaramaConfig (sm_WaitForAll S) F cfg of
            Inl err \<Rightarrow> Some (tw, Some (''kafka: consumer config: '' @ err))
          | Inr saramaCfg \<Rightarrow>
             (case sm_ConsumerGroup S (kf_Brokers cfg) (kf_ConsumerGroup cfg)
                     (saramaCfg\<lparr>sc_Initial := Some (kf_InitialOffset cfg)\<rparr>) w of
                (w1, Some err) \<Rightarrow> Some ((t, w1), Some (''kafka: create consumer group: '' @ err))
              | (w1, None) \<Rightarrow>
                  map_option (\<lambda>w2. ((t, sm_CloseGroup S w2), None)) (loop kafkaTopic w1))))"

interpretation kafka: closable_transport "kafka_Publish S" "kafka_Subscribe S F" "kafka_Close S"
    "\<lambda>tw. kt_closed (fst tw)" for S :: "'w sarama" and F
  by unfold_locales
    (auto simp: kafka_Publish_def kafka_Subscribe_def kafka_Close_def Let_def split: prod.splits)

interpretation kafka_pub: message_publisher "logged (kafka_Publish S)" snd for S :: "'w sarama"
  by unfold_locales (auto simp: logged_def split: prod.splits option.splits)

subsection \<open>A session of the consumer group\<close>

text \<open>The offsets marked in a claim, in order.\<close>

fun ConsumeClaim :: "'s msg_handler \<Rightarrow> (nat \<times> bytes) list \<Rightarrow> 's \<Rightarrow> 's \<times> nat list" where
  "ConsumeClaim h [] s = (s, [])"
| "ConsumeClaim h ((offset, m) # ms) s =
     (case h m s of
        (s', Some err) \<Rightarrow> ConsumeClaim h ms s'
      | (s', None) \<Rightarrow> (case ConsumeClaim h ms s' of (s'', marks) \<Rightarrow> (s'', offset # marks)))"

text \<open>
  Where the group continues after a session: \<open>commit marks offset\<close> is what the library makes of
  the offsets marked in a session that began at \<open>offset\<close>. It is documented to continue behind
  the highest marked message it committed and never to go back; \<open>keeps_highest\<close> describes
  sessions whose marks are all committed. A claim offers the messages from the group's
  offset on; the session ends before offset \<open>n\<close>.
\<close>

definition keeps_highest :: "(nat list \<Rightarrow> nat \<Rightarrow> nat) \<Rightarrow> bool" where
  "keeps_highest commit \<longleftrightarrow> (\<forall>marks offset. commit marks offset = Max (insert offset (Suc ` set marks)))"

definition claim :: "bytes list \<Rightarrow> nat \<Rightarrow> nat \<Rightarrow> (nat \<times> bytes) list" where
  "claim part offset n = map (\<lambda>i. (i, part ! i)) [offset..<min n (length part)]"

definition session ::
  "(nat list \<Rightarrow> nat \<Rightarrow> nat) \<Rightarrow> 's msg_handler \<Rightarrow> bytes list \<Rightarrow> nat \<Rightarrow> nat \<times> 's \<Rightarrow> nat \<times> 's" where
  "session commit h part n os =
     (case ConsumeClaim h (claim part (fst os) n) (snd os) of
        (s', marks) \<Rightarrow> (commit marks (fst os), s'))"

definition sessions ::
  "(nat list \<Rightarrow> nat \<Rightarrow> nat) \<Rightarrow> 's msg_handler \<Rightarrow> bytes list \<Rightarrow> nat list \<Rightarrow> nat \<times> 's \<Rightarrow> nat \<times> 's"
  where
  "sessions commit h part ns os = fold (session commit h part) ns os"

definition mark :: "nat list \<Rightarrow> nat \<Rightarrow> nat" where
  "mark marks offset = fold (\<lambda>m c. max c (Suc m)) marks offset"

lemma keeps_highest_mark: "keeps_highest mark"
  unfolding keeps_highest_def
proof (intro allI)
  show "mark marks offset = Max (insert offset (Suc ` set marks))" for marks offset
  proof (induction marks arbitrary: offset)
    case (Cons m marks)
    have "Max (insert offset (insert (Suc m) (Suc ` set marks))) =
        Max (insert (max offset (Suc m)) (Suc ` set marks))"
      by (cases "marks = []") (simp_all add: max.assoc)
    with Cons.IH [of "max offset (Suc m)"] show ?case by (simp add: mark_def)
  qed (simp add: mark_def)
qed

lemma keeps_highest_unique: "keeps_highest commit \<Longrightarrow> commit = mark"
  using keeps_highest_mark by (simp add: keeps_highest_def fun_eq_iff)

lemma mark_ge: "offset \<le> mark marks offset"
  unfolding mark_def
  by (induction marks arbitrary: offset) (auto intro: order_trans [OF max.cobounded1])

lemma mark_bound: "m \<in> set marks \<Longrightarrow> Suc m \<le> mark marks offset"
proof (induction marks arbitrary: offset)
  case (Cons x marks)
  have *: "mark (x # marks) offset = mark marks (max offset (Suc x))" by (simp add: mark_def)
  show ?case
  proof (cases "m = x")
    case True
    then show ?thesis
      using mark_ge [of "max offset (Suc x)" marks] unfolding * by simp
  next
    case False
    with Cons show ?thesis unfolding * by simp
  qed
qed simp

lemma session_offset_ge: "fst os \<le> fst (session mark h part n os)"
  by (auto simp: session_def mark_ge split: prod.splits)

lemma sessions_offset_ge: "fst os \<le> fst (sessions mark h part ns os)"
  unfolding sessions_def
proof (induction ns arbitrary: os)
  case (Cons n ns)
  show ?case using Cons.IH [of "session mark h part n os"] session_offset_ge [of os h part n] by simp
qed simp

text \<open>A message every call of the handler accepts is marked.\<close>

lemma ConsumeClaim_marks:
  assumes "(i, m) \<in> set ms" "\<And>s. snd (h m s) = None"
  shows "i \<in> set (snd (ConsumeClaim h ms s))"
  using assms(1)
proof (induction ms arbitrary: s)
  case (Cons x ms)
  obtain offset m' where x: "x = (offset, m')" by (cases x)
  obtain s' r where h: "h m' s = (s', r)" by (cases "h m' s")
  show ?case
  proof (cases r)
    case None
    with Cons x h show ?thesis by (auto split: prod.splits) (metis snd_conv)
  next
    case (Some err)
    with assms(2) [of s] h have "m' \<noteq> m" by auto
    with Some Cons x h show ?thesis by auto
  qed
qed simp

text \<open>The whole claim: every message handled, the accepted ones marked.\<close>

lemma ConsumeClaim_eq:
  "ConsumeClaim h ms s =
     (fold (\<lambda>m s. fst (h m s)) (map snd ms) s,
      map fst (filter snd (zip (map fst ms) (accepted_along h (map snd ms) s))))"
proof (induction ms arbitrary: s)
  case (Cons x ms)
  obtain offset m where x: "x = (offset, m)" by (cases x)
  obtain s' r where h: "h m s = (s', r)" by (cases "h m s")
  show ?case using Cons.IH [of s'] by (cases r) (simp_all add: x h)
qed simp

lemma filter_zip_replicate: "map fst (filter snd (zip xs (replicate (length xs) True))) = xs"
  by (induction xs) simp_all

subsection \<open>The loop of a subscription\<close>

text \<open>The state after \<open>k\<close> iterations.\<close>

fun consumed :: "(nat \<Rightarrow> 'w \<Rightarrow> 'w \<times> consume_error option) \<Rightarrow> nat \<Rightarrow> nat \<Rightarrow> 'w \<Rightarrow> 'w" where
  "consumed consume n 0 w = w"
| "consumed consume n (Suc k) w = consumed consume (Suc n) k (fst (consume n w))"

definition ends_at ::
  "(nat \<Rightarrow> bool) \<Rightarrow> (nat \<Rightarrow> 'w \<Rightarrow> 'w \<times> consume_error option) \<Rightarrow> nat \<Rightarrow> 'w \<Rightarrow> nat \<Rightarrow> bool" where
  "ends_at ctx_done consume n w k \<longleftrightarrow>
     ctx_done (n + k) \<or> stops (snd (consume (n + k) (consumed consume n k w)))"

lemma consume_loop_returns:
  "ends_at ctx_done consume n w k \<Longrightarrow> consume_loop ctx_done consume n w \<noteq> None"
proof (induction k arbitrary: n w)
  case 0
  then show ?case by (subst consume_loop.simps) (auto simp: ends_at_def)
next
  case (Suc k)
  then have "ends_at ctx_done consume (Suc n) (fst (consume n w)) k"
    by (simp add: ends_at_def)
  from Suc.IH [OF this] show ?case by (subst consume_loop.simps) auto
qed

lemma consume_loop_ends:
  fixes w w' :: 'w
  assumes "consume_loop ctx_done consume n w = Some w'"
  shows "\<exists>k. ends_at ctx_done consume n w k"
proof (rule consume_loop.raw_induct [OF _ assms])
  fix loop :: "(nat \<Rightarrow> bool) \<Rightarrow> (nat \<Rightarrow> 'w \<Rightarrow> 'w \<times> consume_error option) \<Rightarrow> nat \<Rightarrow> 'w \<Rightarrow> 'w option"
    and ctx_done consume n and w w' :: 'w
  assume IH: "\<And>ctx_done consume n w w'. loop ctx_done consume n w = Some w' \<Longrightarrow>
      \<exists>k. ends_at ctx_done consume n w k"
    and body: "(if ctx_done n then Some w
      else if stops (snd (consume n w)) then Some (fst (consume n w))
      else loop ctx_done consume (Suc n) (fst (consume n w))) = Some w'"
  show "\<exists>k. ends_at ctx_done consume n w k"
  proof (cases "ctx_done n \<or> stops (snd (consume n w))")
    case True
    then have "ends_at ctx_done consume n w 0" by (auto simp: ends_at_def)
    then show ?thesis ..
  next
    case False
    with body have "loop ctx_done consume (Suc n) (fst (consume n w)) = Some w'" by simp
    from IH [OF this] obtain k where "ends_at ctx_done consume (Suc n) (fst (consume n w)) k" ..
    then have "ends_at ctx_done consume n w (Suc k)" by (simp add: ends_at_def)
    then show ?thesis ..
  qed
qed

lemma consume_loop_None_iff:
  "consume_loop ctx_done consume n w = None \<longleftrightarrow> (\<forall>k. \<not> ends_at ctx_done consume n w k)"
  using consume_loop_returns [of ctx_done consume n w] consume_loop_ends [of ctx_done consume n w]
  by (cases "consume_loop ctx_done consume n w") auto

subsection \<open>Properties\<close>

text \<open>
  A claim is worked off completely and its marks are exact. Whatever the handler returns, also
  after errors, it is called once for every message of the claim, in order, each call on the
  state the previous one left, and exactly the offsets of the messages for which it returned
  no error are marked, in order.
\<close>

theorem kafka_claim_marks_accepted:
  "ConsumeClaim h ms s =
     (fold (\<lambda>m s. fst (h m s)) (map snd ms) s,
      map fst (filter snd (zip (map fst ms) (accepted_along h (map snd ms) s))))"
  by (rule ConsumeClaim_eq)

text \<open>
  The processor marks every message, also what it cannot decode. Its subscription of any of
  its topics, given a claim of that topic, handles each message exactly as a delivery of
  it, in order, and marks all of them: a malformed message is dropped and never offered again.
\<close>

theorem kafka_processor_marks_all:
  assumes "map_of subscriptions topic = Some sub"
  shows "ConsumeClaim (processor_handler C now targets keys sub) ms st =
    (deliver_all C now targets keys (map (\<lambda>(offset, m). (topic, m)) ms) st, map fst ms)"
proof -
  have eq: "map (\<lambda>(offset, m). (topic, m)) ms = map (Pair topic) (map snd ms)"
    by (simp add: split_beta)
  show ?thesis
    unfolding eq ConsumeClaim_eq processor_accepts_all processor_handler_deliver_all [OF assms]
    using filter_zip_replicate [of "map fst ms"] by simp
qed

lemma kafka_processor_marks_all_witness:
  "snd (ConsumeClaim (processor_handler demo_print int (\<lambda>n. []) (\<lambda>n t. []) PingSub)
     [(7, ''no json''), (8, ''{'')] (0, new_processor, [])) = [7, 8]"
  using kafka_processor_marks_all [of "''netvantage.ping.results''" PingSub demo_print int "\<lambda>n. []"
      "\<lambda>n t. []" "[(7, ''no json''), (8, ''{'')]" "(0, new_processor, [])"]
  by (simp add: subscriptions_def)

text \<open>
  C15: a failed message is not delivered again once a later one has been handled, although the
  code leaves it unmarked for that purpose. Take sessions whose marks are committed, in that the
  group continues behind the highest of them. If a session offers messages \<open>a < b\<close> and the
  handler accepts \<open>b\<close>, no later session, of however many, offers \<open>a\<close> again, whatever the
  handler returned for it.
\<close>

theorem kafka_failed_message_not_redelivered:
  assumes "keeps_highest commit" and "offset \<le> a" "a < b" "b < n" "b < length part"
    and "\<And>s. snd (h (part ! b) s) = None"
  shows "a \<notin> set (map fst
    (claim part (fst (sessions commit h part ns (session commit h part n (offset, s)))) n'))"
proof -
  have "(b, part ! b) \<in> set (claim part offset n)" using assms(2-5) by (auto simp: claim_def)
  then have "b \<in> set (snd (ConsumeClaim h (claim part offset n) s))"
    using assms(6) by (rule ConsumeClaim_marks)
  moreover note commit = keeps_highest_unique [OF assms(1)]
  ultimately have "Suc b \<le> fst (session commit h part n (offset, s))"
    by (auto simp: commit session_def intro: mark_bound split: prod.splits)
  also have "\<dots> \<le> fst (sessions commit h part ns (session commit h part n (offset, s)))"
    unfolding commit by (rule sessions_offset_ge)
  finally show ?thesis using assms(3) by (auto simp: claim_def)
qed

text \<open>A handler that refuses the message \<open>a\<close>.\<close>

definition refuse_a :: "bytes list msg_handler" where
  "refuse_a m s = (if m = ''a'' then (s, Some ''broken'') else (s @ [m], None))"

lemma kafka_failed_message_not_redelivered_witness:
  "snd (refuse_a ''a'' []) = Some ''broken''
    \<and> 0 \<notin> set (map fst (claim [''a'', ''b''] (fst (sessions mark refuse_a [''a'', ''b''] [2, 2]
        (session mark refuse_a [''a'', ''b''] 2 (0, [])))) 2))"
  using kafka_failed_message_not_redelivered [OF keeps_highest_mark, of 0 0 1 2 "[''a'', ''b'']" refuse_a "[2, 2]" "[]" 2]
  by (simp add: refuse_a_def)

text \<open>
  C25: an established subscription ends exactly when the context is found cancelled or the call of
  \<open>Consume\<close> reports a closed group or a cancellation, and then without an error; all other errors
  of the consumer, however many, only start the next iteration.
\<close>

theorem kafka_subscription_ends:
  assumes "\<not> kt_closed t" and "buildSaramaConfig (sm_WaitForAll S) F (kt_cfg t) = Inr sc"
    and "sm_ConsumerGroup S (kf_Brokers (kt_cfg t)) (kf_ConsumerGroup (kt_cfg t))
      (sc\<lparr>sc_Initial := Some (kf_InitialOffset (kt_cfg t))\<rparr>) w = (w1, None)"
  shows "case kafka_Subscribe S F topic (\<lambda>tp. consume_loop ctx_done (consume tp) 0) (t, w) of
      None \<Rightarrow> \<forall>k. \<not> ends_at ctx_done (consume (fullTopic (kt_cfg t) topic)) 0 w1 k
    | Some (tw, err) \<Rightarrow>
        err = None \<and> (\<exists>k. ends_at ctx_done (consume (fullTopic (kt_cfg t) topic)) 0 w1 k)"
proof (cases "consume_loop ctx_done (consume (fullTopic (kt_cfg t) topic)) 0 w1")
  case None
  with assms show ?thesis
    by (simp add: kafka_Subscribe_def Let_def) (simp add: consume_loop_None_iff)
next
  case (Some w2)
  with assms consume_loop_ends [OF Some] show ?thesis by (simp add: kafka_Subscribe_def Let_def)
qed

text \<open>A library whose calls succeed, on a state that counts them.\<close>

definition demo_sarama :: "nat sarama" where
  "demo_sarama = \<lparr>sm_WaitForAll = - 1, sm_Client = (\<lambda>bs sc w. (Suc w, None)),
     sm_SyncProducer = (\<lambda>w. (Suc w, None)), sm_CloseClient = (\<lambda>w. (Suc w, None)),
     sm_CloseProducer = (\<lambda>w. (Suc w, None)), sm_SendMessage = (\<lambda>tp m w. (Suc w, None)),
     sm_ConsumerGroup = (\<lambda>bs g sc w. (Suc w, None)), sm_CloseGroup = Suc\<rparr>"

definition demo_files :: file_env where
  "demo_files = \<lparr>fe_read = (\<lambda>p. Inr p), fe_pems_ok = (\<lambda>b. b \<noteq> []), fe_key_pair = (\<lambda>c k. Inr (c @ k))\<rparr>"

definition demo_transport :: KafkaTransport where
  "demo_transport = \<lparr>kt_cfg = kafka_DefaultConfig (- 1) (- 1) [''b:9092''], kt_closed = False\<rparr>"

lemma demo_builds:
  "\<exists>sc. buildSaramaConfig (sm_WaitForAll demo_sarama) demo_files (kt_cfg demo_transport) = Inr sc"
  by (simp add: buildSaramaConfig_def sasl_settings_def tls_settings_def demo_transport_def
      kafka_DefaultConfig_def)

text \<open>A cancellation reported by the third call of \<open>Consume\<close>, after two other errors.\<close>

lemma kafka_subscription_ends_witness:
  "\<exists>tw. kafka_Subscribe demo_sarama demo_files ''t''
     (\<lambda>tp. consume_loop (\<lambda>n. False)
        (\<lambda>n w. (w, if n < 2 then Some (OtherConsumeError ''x'') else Some ContextCanceled)) 0)
     (demo_transport, 0) = Some (tw, None)"
proof -
  let ?c = "\<lambda>n w. (w, if n < 2 then Some (OtherConsumeError ''x'') else Some ContextCanceled)"
  obtain sc where sc: "buildSaramaConfig (sm_WaitForAll demo_sarama) demo_files
      (kt_cfg demo_transport) = Inr sc" using demo_builds ..
  have "ends_at (\<lambda>n. False) ?c 0 (1::nat) 2" by (simp add: ends_at_def stops_def)
  then have "\<not> (\<forall>k. \<not> ends_at (\<lambda>n. False) ?c 0 (1::nat) k)" by blast
  with kafka_subscription_ends [of demo_transport demo_sarama demo_files sc 0 1 "\<lambda>n. False"
      "\<lambda>tp. ?c" "''t''"] sc
  show ?thesis
    by (auto simp: demo_transport_def demo_sarama_def split: option.splits)
qed

lemma sasl_settings_kept:
  assumes "sasl_settings cfg = Inr sl"
  shows "(sl \<noteq> None \<longleftrightarrow> kf_SASLEnabled cfg)
    \<and> (\<forall>x. sl = Some x \<longrightarrow> sl_User x = kf_SASLUsername cfg \<and> sl_Password x = kf_SASLPassword cfg
         \<and> sl_Mechanism x = kf_SASLMechanism cfg
         \<and> sl_Mechanism x \<in> {''SCRAM-SHA-256'', ''SCRAM-SHA-512''})"
  using assms unfolding sasl_settings_def by (auto split: if_splits)

lemma root_cas_kept:
  assumes "root_cas F cfg = Inr cas"
  shows "if kf_TLSCACert cfg = [] then cas = None
    else \<exists>pem. fe_read F (kf_TLSCACert cfg) = Inr pem \<and> fe_pems_ok F pem \<and> cas = Some pem"
  using assms unfolding root_cas_def by (auto split: if_splits sum.splits)

lemma client_certs_kept:
  assumes "client_certs F cfg = Inr certs"
  shows "if kf_TLSCert cfg \<noteq> [] \<and> kf_TLSKey cfg \<noteq> []
    then \<exists>cert. fe_key_pair F (kf_TLSCert cfg) (kf_TLSKey cfg) = Inr cert \<and> certs = [cert]
    else certs = []"
  using assms unfolding client_certs_def by (auto split: if_splits sum.splits)

lemma tls_settings_kept:
  assumes "tls_settings F cfg = Inr tls"
  shows "(tls \<noteq> None \<longleftrightarrow> kf_TLSEnabled cfg)
    \<and> (\<forall>x. tls = Some x \<longrightarrow> ts_InsecureSkipVerify x = kf_TLSSkipVerify cfg
         \<and> root_cas F cfg = Inr (ts_RootCAs x) \<and> client_certs F cfg = Inr (ts_Certificates x))"
  using assms unfolding tls_settings_def by (auto split: if_splits sum.splits)

lemma buildSaramaConfig_ok:
  assumes "buildSaramaConfig waitForAll F cfg = Inr sc"
  shows "sasl_settings cfg = Inr (sc_SASL sc)" "tls_settings F cfg = Inr (sc_TLS sc)"
    "sc_RequiredAcks sc = (if kf_RequiredAcks cfg = 0 then waitForAll else kf_RequiredAcks cfg)"
  using assms unfolding buildSaramaConfig_def by (auto split: sum.splits)

text \<open>
  C27: what an accepted Kafka configuration gives to the library. SASL is on exactly when it is
  enabled, with the configured user, password and mechanism, which is one of the two SCRAM
  mechanisms; TLS exactly when it is enabled, with the verification as configured. A CA file that is
  named was read and parsed and its certificates are the only roots; if a client certificate and a
  key are both named, the pair was loaded and is the one presented, but a certificate without a
  key, or a key without a certificate, is ignored and none is presented. Acknowledgements cannot
  be switched off.
\<close>

theorem kafka_security_settings:
  assumes "buildSaramaConfig waitForAll F cfg = Inr sc" and "waitForAll \<noteq> 0"
  shows "(sc_SASL sc \<noteq> None \<longleftrightarrow> kf_SASLEnabled cfg)
    \<and> (sc_TLS sc \<noteq> None \<longleftrightarrow> kf_TLSEnabled cfg)
    \<and> (\<forall>sl. sc_SASL sc = Some sl \<longrightarrow> sl_User sl = kf_SASLUsername cfg
         \<and> sl_Password sl = kf_SASLPassword cfg \<and> sl_Mechanism sl = kf_SASLMechanism cfg
         \<and> sl_Mechanism sl \<in> {''SCRAM-SHA-256'', ''SCRAM-SHA-512''})
    \<and> (\<forall>ts. sc_TLS sc = Some ts \<longrightarrow> ts_InsecureSkipVerify ts = kf_TLSSkipVerify cfg
         \<and> (if kf_TLSCACert cfg = [] then ts_RootCAs ts = None
            else \<exists>pem. fe_read F (kf_TLSCACert cfg) = Inr pem \<and> fe_pems_ok F pem
              \<and> ts_RootCAs ts = Some pem)
         \<and> (if kf_TLSCert cfg \<noteq> [] \<and> kf_TLSKey cfg \<noteq> []
            then \<exists>cert. fe_key_pair F (kf_TLSCert cfg) (kf_TLSKey cfg) = Inr cert
              \<and> ts_Certificates ts = [cert]
            else ts_Certificates ts = []))
    \<and> sc_RequiredAcks sc \<noteq> 0"
proof -
  note build = buildSaramaConfig_ok [OF assms(1)]
  note sasl = sasl_settings_kept [OF build(1)] and tls = tls_settings_kept [OF build(2)]
  have "(if kf_TLSCACert cfg = [] then ts_RootCAs ts = None
        else \<exists>pem. fe_read F (kf_TLSCACert cfg) = Inr pem \<and> fe_pems_ok F pem \<and> ts_RootCAs ts = Some pem)
      \<and> (if kf_TLSCert cfg \<noteq> [] \<and> kf_TLSKey cfg \<noteq> []
        then \<exists>cert. fe_key_pair F (kf_TLSCert cfg) (kf_TLSKey cfg) = Inr cert \<and> ts_Certificates ts = [cert]
        else ts_Certificates ts = [])"
    if "sc_TLS sc = Some ts" for ts
    using tls that root_cas_kept [of F cfg "ts_RootCAs ts"] client_certs_kept [of F cfg "ts_Certificates ts"]
    by blast
  moreover have "sc_RequiredAcks sc \<noteq> 0" using assms(2) by (simp add: build(3))
  ultimately show ?thesis using sasl tls by blast
qed

definition demo_secure :: KafkaTransportConfig where
  "demo_secure = (kafka_DefaultConfig (- 1) (- 1) [''b:9092''])
     \<lparr>kf_SASLEnabled := True, kf_SASLMechanism := ''SCRAM-SHA-512'', kf_SASLUsername := ''u'',
      kf_SASLPassword := ''p'', kf_TLSEnabled := True, kf_TLSCACert := ''ca.pem'',
      kf_TLSCert := ''c.pem'', kf_TLSKey := ''k.pem'', kf_RequiredAcks := 0\<rparr>"

lemma kafka_security_settings_witness:
  "\<exists>sc ts. buildSaramaConfig (- 1) demo_files demo_secure = Inr sc
    \<and> sc_SASL sc \<noteq> None \<and> sc_TLS sc = Some ts \<and> ts_RootCAs ts = Some ''ca.pem''
    \<and> ts_Certificates ts = [''c.pemk.pem''] \<and> sc_RequiredAcks sc \<noteq> 0"
proof -
  have "\<exists>sc. buildSaramaConfig (- 1) demo_files demo_secure = Inr sc"
    by (simp add: buildSaramaConfig_def sasl_settings_def tls_settings_def root_cas_def
        client_certs_def demo_secure_def demo_files_def kafka_DefaultConfig_def)
  then obtain sc where sc: "buildSaramaConfig (- 1) demo_files demo_secure = Inr sc" ..
  note kept = kafka_security_settings [OF this, simplified]
  have cfg: "kf_SASLEnabled demo_secure" "kf_TLSEnabled demo_secure" "kf_TLSCACert demo_secure = ''ca.pem''"
    "kf_TLSCert demo_secure = ''c.pem''" "kf_TLSKey demo_secure = ''k.pem''"
    by (simp_all add: demo_secure_def)
  then obtain ts where ts: "sc_TLS sc = Some ts" using kept by auto
  with kept sc cfg show ?thesis by (auto simp: demo_files_def)
qed

text \<open>
  The name of a Kafka topic does not depend on the configuration, so the configured prefix is
  without effect; and two topics share a Kafka topic only if they are equal or one of them has a
  hyphen.
\<close>

theorem kafka_topic_names:
  "fullTopic cfg topic = fullTopic cfg' topic
    \<and> (CHR ''-'' \<notin> set topic \<and> CHR ''-'' \<notin> set topic' \<longrightarrow>
         fullTopic cfg topic = fullTopic cfg topic' \<longrightarrow> topic = topic')"
proof -
  have "topic = topic'"
    if "CHR ''-'' \<notin> set topic" "CHR ''-'' \<notin> set topic'" "fullTopic cfg topic = fullTopic cfg topic'"
    using that
  proof (induction topic arbitrary: topic')
    case (Cons c cs)
    then show ?case by (cases topic') (auto simp: fullTopic_def split: if_splits)
  qed (simp add: fullTopic_def)
  then show ?thesis by (simp add: fullTopic_def)
qed

lemma kafka_topic_names_witness:
  "fullTopic demo_secure ''netvantage.dns.results'' = ''netvantage-dns-results''
    \<and> fullTopic demo_secure ''netvantage.dns.results'' \<noteq> fullTopic demo_secure ''netvantage.dns''"
  using kafka_topic_names [of demo_secure "''netvantage.dns.results''" demo_secure "''netvantage.dns''"]
  by (simp add: fullTopic_def)

end
