(* ===== verification/Spec2Isabelle.thy ===== *)
theory Spec2Isabelle
  imports Programs KafkaTransport
begin

text \<open>
  NetVantage is a distributed network monitor written in Go: agents in points of presence run
  synthetic tests (ping, DNS, HTTP, traceroute) and publish their results over a message
  transport, a processor turns the results and the BGP updates of a separate analyzer into
  Prometheus metrics and correlates the paths of both, and a control plane serves the
  configuration. This development models the Go code; every definition is named after the
  Go function or struct it translates.

  Parts and theories, from the bottom:
  \<^item> \<open>Prelude\<close>, \<open>GoStrings\<close>, \<open>GoFloat\<close>, \<open>GoJson\<close>: what the code uses of Go itself. 64-bit
    integers are unbounded ones with the wrap-around written out (\<open>int64\<close>); a \<open>float64\<close> is a
    rational and each operation rounds to 53 bits; strings are byte lists; JSON documents are
    trees with Go's rules for struct fields (case folding, missing and null fields, unknown
    fields), and a \<open>codec\<close> stands for the scanner and printer of the text.
  \<^item> \<open>Metrics\<close>: the registered metrics with their kinds and label counts, and what a sequence
    of calls leaves in the gauges and counters.
  \<^item> \<open>Correlation\<close>: internal/processor/correlation/correlation.go. The engine's three maps,
    the handlers of announcements, withdrawals and traceroutes, the classification of two AS
    paths and the metric calls. \<open>engine_step\<close> is the relation of its operations, and the
    invariants are proved over its reachable states.
  \<^item> \<open>Processor\<close>: internal/processor/processor.go. The decoding of results and one handler per
    topic; \<open>deliver\<close> is the delivery of one message through the subscriptions of \<open>Run\<close>.
  \<^item> \<open>Canary\<close>: internal/agent/canary/canary.go. The test contract is the locale
    \<open>canary_impl\<close>; \<open>Ping\<close>, \<open>Dns\<close>, \<open>HttpTest\<close> and \<open>Traceroute\<close> model the four tests and
    interpret it. What they observe of the network is an argument (\<open>ping_env\<close>, \<open>dns_env\<close>,
    \<open>http_env\<close>, \<open>tr_env\<close>).
  \<^item> \<open>Buffer\<close>, \<open>AgentConfig\<close>, \<open>Agent\<close>: internal/agent. The buffer interface is the locale
    \<open>result_buffer\<close>, interpreted on \<open>MemoryBuffer\<close>; the agent works over any transport with a
    state and any such buffer (locales \<open>message_publisher\<close> and \<open>agent_io\<close>).
  \<^item> \<open>Pipeline\<close>: the way of a result from a test through the agent and the transport to the
    gauges of the processor.
  \<^item> \<open>MemoryTransport\<close>, \<open>NatsTransport\<close>, \<open>KafkaTransport\<close>: internal/transport. The part of the
    interface all transports keep is the locale \<open>closable_transport\<close>, interpreted on the three of
    them; \<open>message_publisher\<close> is interpreted on each as well. The in-memory transport is complete;
    for the other two the client library is a record of its calls over an unknown state. A NATS
    subscription runs its callback over the deliveries and whatever else happens on the
    connection (\<open>nats_events\<close>); a Kafka claim is \<open>ConsumeClaim\<close>, and \<open>sessions\<close> describes runs of the
    library over a partition whose marks are all committed. The loop of a Kafka subscription is
    a partial function, \<open>None\<close> if it never returns.
  \<^item> \<open>Domain\<close>: internal/domain and the repository interfaces of internal/server/repository,
    which are records of operations over a state.
  \<^item> \<open>Database\<close>: the tables of migrations/*.sql and one definition per SQL statement of the
    repositories. A statement may be executed, not executed, or executed with its answer lost;
    which, and everything else PostgreSQL and its driver decide, is the record \<open>postgres\<close>.
    \<open>Postgres\<close> has the repositories over the statements (internal/server/repository/postgres),
    \<open>Schema\<close> the constraints of the schema as the invariant \<open>schema_ok\<close> that every statement
    keeps, and the contract of a keyed store (locale \<open>keyed_repository\<close>, interpreted on agents,
    POPs and tests).
  \<^item> \<open>Handlers\<close>: internal/server/api/handler, each handler over any repositories.
    \<open>ApiMiddleware\<close>: internal/server/api/middleware/auth.go and audit.go; the goroutines they
    start are jobs. \<open>RateLimit\<close>: internal/server/api/middleware/ratelimit.go.
  \<^item> \<open>Router\<close>: internal/server/api/router/router.go. \<open>serve\<close> is one request through the chain of
    middleware; \<open>server_step\<close> is the relation of requests, jobs, cleanups of the limiter and
    restarts, and the locale \<open>api_invariant\<close> proves that what every repository operation keeps
    every reachable server keeps. \<open>Server\<close> interprets it on the PostgreSQL repositories as wired
    by cmd/server/main.go.
  \<^item> \<open>Server\<close>, \<open>ControlPlane\<close>, \<open>Lifecycle\<close>: the properties of the control plane (configuration
    sync, authentication, audit, atomicity of failing requests, and the outcome of each request).
  \<^item> \<open>ServerConfig\<close>: internal/server/config/config.go. \<open>Programs\<close>: cmd; what each program builds from
    its environment and when it ends.

  The lemmas of each component are its invariant and the effect of each operation; the
  properties apply them, across components in \<open>Pipeline\<close>, \<open>MemoryTransport\<close>, \<open>Server\<close>,
  \<open>ControlPlane\<close>, \<open>Programs\<close> and here.

  Bounds: no fuel is used. Recursions are structural or have a measure; the redirects of the
  HTTP test decrease the distance to the configured maximum; the one loop without a bound is \<open>consume_loop\<close>.
  64-bit overflow is written out in the buffer, the rate limiter and the decoding of numbers.

  Parameters, each an argument of the definitions that use it: the text form of JSON and of
  instants (\<open>codec\<close>), network and programs a test observes, PostgreSQL with its driver, the route
  lookup of chi, SHA-256, the NATS and Kafka clients, certificate files, the environment.

  Not modelled: logging (also the request logging middleware), signals and the graceful shutdown
  of the HTTP servers, the metrics endpoint, the Python analyzer, dashboards and deployment files.
  Of concurrency the model has the order of whole operations, not what lies below: a request of
  the control plane is one step, so the statements of concurrent requests do not interleave; a
  method of the correlation engine is one step, although \<open>correlatePrefix\<close> releases its lock between
  two targets; the five subscriptions of a processor's \<open>Run\<close> come one after the other. A label
  value that is not UTF-8, on which the metrics library panics, is left out: all come from Go's
  JSON decoder, which produces none.
\<close>

subsection \<open>Properties across the transports\<close>

text \<open>
  C26: no result is lost to a closed transport. Draining the agent's buffer into a closed
  in-memory, NATS or Kafka transport leaves buffer and transport as they are.
\<close>

theorem closed_transports_keep_results:
  assumes "buffer_inv b"
    and "mt_closed (fst m)" "nj_IsClosed N c" "kt_closed (fst k)"
  shows "Drain memory_Publish b m = (b, m)
    \<and> Drain (nats_Publish N) b c = (b, c)
    \<and> Drain (kafka_Publish S) b k = (b, k)"
  using memory.Drain_closed [OF assms(2,1)] nats.Drain_closed [OF assms(3,1)]
    kafka.Drain_closed [OF assms(4,1)] by blast

lemma closed_transports_keep_results_witness:
  "Drain memory_Publish demo_buffer (fst (memory_Close (memory_New, ()))) =
     (demo_buffer, fst (memory_Close (memory_New, ())))
    \<and> Drain (nats_Publish demo_client) demo_buffer (fst (nats_Close demo_client 5)) =
        (demo_buffer, fst (nats_Close demo_client 5))
    \<and> Drain (kafka_Publish demo_sarama) demo_buffer (fst (kafka_Close demo_sarama (demo_transport, 0))) =
        (demo_buffer, fst (kafka_Close demo_sarama (demo_transport, 0)))"
proof (rule closed_transports_keep_results)
  show "buffer_inv demo_buffer" by (rule demo_buffer_inv)
  show "mt_closed (fst (fst (memory_Close (memory_New, ()))))" by (simp add: memory_Close_def)
  show "nj_IsClosed demo_client (fst (nats_Close demo_client 5))"
    by (simp add: nats_Close_def demo_client_def)
  show "kt_closed (fst (fst (kafka_Close demo_sarama (demo_transport, 0))))"
    by (simp add: kafka_Close_def demo_sarama_def demo_transport_def)
qed

end
